(* ===== verification/Prelude.thy ===== *)
theory Prelude
  imports Complex_Main "HOL-Library.Product_Lexorder" "HOL-Library.Monad_Syntax" "HOL-Library.State_Monad"
begin

text \<open>
  What the components share: the fact collections of the development, the operations SQL
  performs on a table (a list of rows, in insertion order), case-insensitive text
  (\<^verbatim>\<open>CITEXT\<close>, \<^verbatim>\<open>strings.ToLower\<close>), trimming, and the rounding of
  \<^verbatim>\<open>NUMERIC(p,s)\<close> columns.
\<close>

named_theorems wp_simps \<open>weakest preconditions of the actions of the server\<close>
named_theorems sql_defs \<open>definitions of the SQL statements\<close>
named_theorems table_simps \<open>facts on the rows of a table\<close>

type_synonym uuid = nat
type_synonym time = int
type_synonym nulltext = "string option"
type_synonym jsonraw = string

section \<open>Tables as lists of rows\<close>

definition find_where :: "('r \<Rightarrow> bool) \<Rightarrow> 'r list \<Rightarrow> 'r option" where
  "find_where P rows = (case filter P rows of [] \<Rightarrow> None | r # _ \<Rightarrow> Some r)"

definition upd_where :: "('r \<Rightarrow> bool) \<Rightarrow> ('r \<Rightarrow> 'r) \<Rightarrow> 'r list \<Rightarrow> 'r list" where
  "upd_where P f rows = map (\<lambda>r. if P r then f r else r) rows"

definition del_where :: "('r \<Rightarrow> bool) \<Rightarrow> 'r list \<Rightarrow> 'r list" where
  "del_where P rows = filter (\<lambda>r. \<not> P r) rows"

definition exists_where :: "('r \<Rightarrow> bool) \<Rightarrow> 'r list \<Rightarrow> bool" where
  "exists_where P rows = list_ex P rows"

definition count_where :: "('r \<Rightarrow> bool) \<Rightarrow> 'r list \<Rightarrow> nat" where
  "count_where P rows = length (filter P rows)"

text \<open>\<^verbatim>\<open>COALESCE(new, old)\<close> of the PATCH statements.\<close>

definition coalesce :: "'a option \<Rightarrow> 'a \<Rightarrow> 'a" where
  "coalesce p d = (case p of None \<Rightarrow> d | Some x \<Rightarrow> x)"

definition coalesce_opt :: "'a option \<Rightarrow> 'a option \<Rightarrow> 'a option" where
  "coalesce_opt p d = (case p of None \<Rightarrow> d | Some x \<Rightarrow> Some x)"

lemma coalesce_simps [simp]:
  "coalesce None d = d" "coalesce (Some x) d = x"
  "coalesce_opt None e = e" "coalesce_opt (Some x) e = Some x"
  by (simp_all add: coalesce_def coalesce_opt_def)

lemma find_where_Some:
  "find_where P rows = Some r \<Longrightarrow> r \<in> set rows \<and> P r"
  unfolding find_where_def
  by (metis (mono_tags, lifting) filter_eq_Cons_iff in_set_conv_decomp list.case_eq_if
      list.collapse option.discI option.inject)

lemma find_where_None [table_simps]:
  "find_where P rows = None \<longleftrightarrow> (\<forall>r\<in>set rows. \<not> P r)"
  by (induction rows) (auto simp: find_where_def)

lemma find_where_Nil [simp]: "find_where P [] = None"
  by (simp add: find_where_def)

lemma find_where_Cons [simp]:
  "find_where P (r # rows) = (if P r then Some r else find_where P rows)"
  by (simp add: find_where_def)

lemma find_where_append:
  "find_where P (xs @ ys) = (case find_where P xs of None \<Rightarrow> find_where P ys | Some r \<Rightarrow> Some r)"
  by (induction xs) auto

lemma set_upd_where [table_simps]:
  "set (upd_where P f rows) = (\<lambda>r. if P r then f r else r) ` set rows"
  by (simp add: upd_where_def)

lemma length_upd_where [simp]: "length (upd_where P f rows) = length rows"
  by (simp add: upd_where_def)

lemma upd_where_id [table_simps]:
  "(\<forall>r\<in>set rows. \<not> P r) \<Longrightarrow> upd_where P f rows = rows"
  by (induction rows) (auto simp: upd_where_def)

lemma map_upd_where [table_simps]:
  "(\<And>r. P r \<Longrightarrow> k (f r) = k r) \<Longrightarrow> map k (upd_where P f rows) = map k rows"
  by (simp add: upd_where_def)

lemma filter_upd_where_other:
  "(\<And>r. P r \<Longrightarrow> \<not> K r \<and> \<not> K (f r)) \<Longrightarrow> filter K (upd_where P f rows) = filter K rows"
  by (induction rows) (auto simp: upd_where_def)

lemma filter_del_where_other:
  "(\<And>r. P r \<Longrightarrow> \<not> K r) \<Longrightarrow> filter K (del_where P rows) = filter K rows"
  by (induction rows) (auto simp: del_where_def)

lemma set_del_where [table_simps]: "set (del_where P rows) = {r \<in> set rows. \<not> P r}"
  by (auto simp: del_where_def)

lemma distinct_del_where:
  "distinct (map k rows) \<Longrightarrow> distinct (map k (del_where P rows))"
  by (simp add: del_where_def distinct_map_filter)

lemma exists_where_iff [table_simps]: "exists_where P rows \<longleftrightarrow> (\<exists>r\<in>set rows. P r)"
  by (simp add: exists_where_def list_ex_iff)

lemma count_where_0 [table_simps]: "count_where P rows = 0 \<longleftrightarrow> (\<forall>r\<in>set rows. \<not> P r)"
  by (simp add: count_where_def filter_empty_conv)

lemma find_where_unique:
  assumes "distinct (map k rows)" and "r \<in> set rows" and "P r"
    and "\<And>r'. P r' \<Longrightarrow> k r' = k r"
  shows "find_where P rows = Some r"
proof (cases "find_where P rows")
  case None
  with assms show ?thesis by (auto simp: find_where_None)
next
  case (Some r')
  then have "r' \<in> set rows" "P r'" by (auto dest: find_where_Some)
  from \<open>P r'\<close> assms(4) have "k r' = k r" by blast
  with \<open>r' \<in> set rows\<close> assms(1,2) have "r' = r" by (metis distinct_map inj_onD)
  with Some show ?thesis by simp
qed

lemma find_where_upd_where:
  assumes "\<And>r. P r \<Longrightarrow> P (f r)"
  shows "find_where P (upd_where P f rows) = map_option f (find_where P rows)"
  using assms by (induction rows) (auto simp: upd_where_def)

lemma distinct_key_eq:
  "distinct (map k xs) \<Longrightarrow> x \<in> set xs \<Longrightarrow> y \<in> set xs \<Longrightarrow> k x = k y \<Longrightarrow> x = y"
  by (auto simp: distinct_map dest: inj_onD)

lemma list_all2_right: "list_all2 P xs ys \<Longrightarrow> y \<in> set ys \<Longrightarrow> \<exists>x\<in>set xs. P x y"
  by (induction rule: list_all2_induct) auto

lemma list_all2_left: "list_all2 P xs ys \<Longrightarrow> x \<in> set xs \<Longrightarrow> \<exists>y\<in>set ys. P x y"
  by (induction rule: list_all2_induct) auto

section \<open>Owner-scoped statements\<close>

text \<open>
  Most statements of the program select a row by its id and its owner:
  \<^verbatim>\<open>WHERE id = $1 AND brewer_id = $2\<close> (or \<^verbatim>\<open>user_id\<close>, \<^verbatim>\<open>author_id\<close>,
  \<^verbatim>\<open>batch_id\<close>, \<^verbatim>\<open>recipe_id\<close>). The locale states what such a family of
  statements promises, and draws what the handlers rely on: nothing that belongs to another
  owner is read, changed or removed.
\<close>

locale owner_scoped =
  fixes key :: "'r \<Rightarrow> uuid"
    and owner :: "'r \<Rightarrow> 'o"
    and lookup :: "uuid \<Rightarrow> 'o \<Rightarrow> 'r list \<Rightarrow> 'r option"
    and change :: "('r \<Rightarrow> 'r) \<Rightarrow> uuid \<Rightarrow> 'o \<Rightarrow> 'r list \<Rightarrow> 'r list"
    and remove :: "uuid \<Rightarrow> 'o \<Rightarrow> 'r list \<Rightarrow> 'r list"
  assumes lookup_sound: "lookup i u rows = Some r \<Longrightarrow> r \<in> set rows \<and> key r = i \<and> owner r = u"
    and lookup_complete: "r \<in> set rows \<Longrightarrow> key r = i \<Longrightarrow> owner r = u \<Longrightarrow> lookup i u rows \<noteq> None"
    and change_rows: "change f i u rows = map (\<lambda>r. if key r = i \<and> owner r = u then f r else r) rows"
    and remove_rows: "remove i u rows = filter (\<lambda>r. \<not> (key r = i \<and> owner r = u)) rows"
begin

lemma change_other_owner:
  assumes "\<And>r. owner (f r) = owner r" and "u \<noteq> v"
  shows "filter (\<lambda>r. owner r = v) (change f i u rows) = filter (\<lambda>r. owner r = v) rows"
  using assms unfolding change_rows by (induction rows) auto

lemma remove_other_owner:
  "u \<noteq> v \<Longrightarrow> filter (\<lambda>r. owner r = v) (remove i u rows) = filter (\<lambda>r. owner r = v) rows"
  unfolding remove_rows by (induction rows) auto

lemma change_keys:
  assumes "\<And>r. key (f r) = key r"
  shows "map key (change f i u rows) = map key rows"
  using assms unfolding change_rows by (induction rows) auto

lemma lookup_remove: "lookup i u (remove i u rows) = None"
proof (cases "lookup i u (remove i u rows)")
  case (Some r)
  from lookup_sound [OF Some] have False by (auto simp: remove_rows)
  then show ?thesis ..
qed

lemma absent_iff: "lookup i u rows = None \<longleftrightarrow> (\<forall>r\<in>set rows. \<not> (key r = i \<and> owner r = u))"
  using lookup_complete [of _ rows i u] lookup_sound [of i u rows]
  by (cases "lookup i u rows") blast+

lemma remove_absent: "lookup i u rows = None \<Longrightarrow> remove i u rows = rows"
  unfolding absent_iff remove_rows by (auto intro: filter_True)

lemma change_absent: "lookup i u rows = None \<Longrightarrow> change f i u rows = rows"
  unfolding absent_iff change_rows by (intro map_idI) auto

lemma lookup_foreign:
  assumes "distinct (map key rows)" and "r \<in> set rows" and "key r = i" and "owner r \<noteq> u"
  shows "lookup i u rows = None"
proof (cases "lookup i u rows")
  case (Some r')
  with lookup_sound have "r' \<in> set rows" "key r' = i" "owner r' = u" by blast+
  with assms show ?thesis by (metis distinct_map inj_onD)
qed simp

end

section \<open>Text\<close>

definition lower_char :: "char \<Rightarrow> char" where
  "lower_char c = (if of_char c \<in> {65..(90::nat)} then char_of ((of_char c :: nat) + 32) else c)"

definition to_lower :: "string \<Rightarrow> string" where
  "to_lower = map lower_char"

text \<open>
  Equality of the \<^verbatim>\<open>CITEXT\<close> columns, and \<^verbatim>\<open>strings.EqualFold\<close> on ASCII. Postgres folds by the locale
  of the database; only the letters of ASCII, which every locale of it folds, are folded here.
\<close>

definition ci_eq :: "string \<Rightarrow> string \<Rightarrow> bool" where
  "ci_eq a b \<longleftrightarrow> to_lower a = to_lower b"

definition is_space :: "char \<Rightarrow> bool" where
  "is_space c \<longleftrightarrow> (of_char c :: nat) \<in> {9, 10, 11, 12, 13, 32}"

definition trim_space :: "string \<Rightarrow> string" where
  "trim_space s = rev (dropWhile is_space (rev (dropWhile is_space s)))"

definition contains_char :: "char \<Rightarrow> string \<Rightarrow> bool" where
  "contains_char c s \<longleftrightarrow> c \<in> set s"

lemma ci_eq_refl [simp]: "ci_eq a a"
  by (simp add: ci_eq_def)

lemma ci_eq_sym: "ci_eq a b \<Longrightarrow> ci_eq b a"
  by (simp add: ci_eq_def)

lemma ci_eq_trans: "ci_eq a b \<Longrightarrow> ci_eq b c \<Longrightarrow> ci_eq a c"
  by (simp add: ci_eq_def)

lemma ci_eq_length: "ci_eq a b \<Longrightarrow> length a = length b"
  unfolding ci_eq_def to_lower_def by (metis length_map)

section \<open>NUMERIC columns\<close>

text \<open>
  Postgres stores a value of a \<^verbatim>\<open>NUMERIC(p,s)\<close> column rounded half away from zero to
  \<^verbatim>\<open>s\<close> digits, and refuses one whose rounded magnitude reaches \<open>10 ^ (p - s)\<close>.
\<close>

definition num_round :: "nat \<Rightarrow> rat \<Rightarrow> rat" where
  "num_round s x = sgn x * of_int \<lfloor>\<bar>x\<bar> * 10 ^ s + 1 / 2\<rfloor> / 10 ^ s"

definition num_fits :: "nat \<Rightarrow> nat \<Rightarrow> rat \<Rightarrow> bool" where
  "num_fits p s x \<longleftrightarrow> \<bar>num_round s x\<bar> < 10 ^ (p - s)"

lemma num_round_idem [simp]: "num_round s (num_round s x) = num_round s x"
proof (cases "x = 0")
  case False
  define k where "k = \<lfloor>\<bar>x\<bar> * 10 ^ s + 1 / 2\<rfloor>"
  have "0 \<le> k" by (simp add: k_def)
  have r: "num_round s x = sgn x * of_int k / 10 ^ s" by (simp add: num_round_def k_def)
  have a: "\<bar>num_round s x\<bar> * 10 ^ s = of_int k"
    using False \<open>0 \<le> k\<close> by (simp add: r abs_mult abs_sgn_eq)
  have b: "\<lfloor>of_int k + 1 / 2 :: rat\<rfloor> = k" by (rule floor_unique) simp_all
  have c: "sgn (num_round s x) * of_int k = sgn x * of_int k"
    using \<open>0 \<le> k\<close> by (cases "k = 0") (simp_all add: r sgn_mult)
  have "num_round s (num_round s x) = sgn (num_round s x) * of_int k / 10 ^ s"
    by (simp only: num_round_def [of s "num_round s x"] a b)
  with c r show ?thesis by simp
qed (simp add: num_round_def)

lemma num_fits_round [simp]: "num_fits p s (num_round s x) = num_fits p s x"
  by (simp add: num_fits_def)

end
