(* ===== verification/Netip.thy ===== *)
theory Netip
  imports Prelude "HOL-Library.Word"
begin

text \<open>
  The part of Go's \<^verbatim>\<open>net/netip\<close> the program uses: addresses (a 32-bit IPv4 address,
  or a 128-bit IPv6 address with its zone), prefixes, \<^verbatim>\<open>Prefix.Contains\<close> and
  \<^verbatim>\<open>Addr.Unmap\<close>.
\<close>

unbundle bit_operations_syntax

datatype addr = V4 "32 word" | V6 "128 word" string

datatype prefix = P4 "32 word" nat | P6 "128 word" nat

definition addr_zone :: "addr \<Rightarrow> string" where
  "addr_zone a = (case a of V4 _ \<Rightarrow> [] | V6 _ z \<Rightarrow> z)"

text \<open>
  \<^verbatim>\<open>Contains\<close>: no address with a zone is in a prefix, no address of the other family is,
  and otherwise the leading bits are compared (the exclusive or shifted right by the bits that
  are not compared).
\<close>

definition contains :: "prefix \<Rightarrow> addr \<Rightarrow> bool" where
  "contains p a = (case (p, a) of
     (P4 b n, V4 x) \<Rightarrow> drop_bit (32 - n) (x XOR b) = 0
   | (P6 b n, V6 x z) \<Rightarrow> z = [] \<and> drop_bit (128 - n) (x XOR b) = 0
   | _ \<Rightarrow> False)"

text \<open>\<^verbatim>\<open>Unmap\<close>: an IPv4-mapped IPv6 address (\<open>::ffff:0:0/96\<close>) becomes the IPv4 address.\<close>

definition unmap :: "addr \<Rightarrow> addr" where
  "unmap a = (case a of
     V4 x \<Rightarrow> V4 x
   | V6 x z \<Rightarrow> if drop_bit 32 x = 0xffff then V4 (ucast x) else V6 x z)"

definition v4 :: "nat \<Rightarrow> nat \<Rightarrow> nat \<Rightarrow> nat \<Rightarrow> 32 word" where
  "v4 a b c d = of_nat (a * 2 ^ 24 + b * 2 ^ 16 + c * 2 ^ 8 + d)"

lemma contains_zone [simp]: "z \<noteq> [] \<Longrightarrow> \<not> contains p (V6 x z)"
  by (simp add: contains_def split: prefix.splits)

lemma contains_self4 [simp]: "contains (P4 b n) (V4 b)"
  by (simp add: contains_def)

lemma contains_family [simp]: "\<not> contains (P4 b n) (V6 x z)" "\<not> contains (P6 b' n) (V4 y)"
  by (simp_all add: contains_def)

text \<open>Membership in a range of addresses, as numbers: the leading \<open>n\<close> bits agree exactly when
  the quotients by the size of the block do.\<close>

lemma xor_0_iff: "x XOR y = (0 :: 'a::len word) \<longleftrightarrow> x = y"
proof
  assume "x XOR y = 0"
  then have "(x XOR y) XOR y = y" by simp
  then show "x = y" by (simp add: xor.assoc)
qed simp

lemma drop_bit_xor_0_iff:
  "drop_bit k (x XOR y) = (0 :: 'a::len word) \<longleftrightarrow> drop_bit k x = drop_bit k y"
  by (simp add: drop_bit_xor xor_0_iff)

lemma drop_bit_eq_iff:
  "drop_bit k x = (drop_bit k y :: 'a::len word) \<longleftrightarrow> unat x div 2 ^ k = unat y div 2 ^ k"
proof -
  have "unat (drop_bit k u) = unat u div 2 ^ k" for u :: "'a word"
    by (simp only: unat_drop_bit_eq) (simp add: drop_bit_eq_div)
  then show ?thesis by (simp add: word_unat_eq_iff)
qed

lemma contains4_iff:
  "contains (P4 b n) (V4 x) \<longleftrightarrow> unat x div 2 ^ (32 - n) = unat b div 2 ^ (32 - n)"
  unfolding contains_def by (simp only: prod.case prefix.case addr.case drop_bit_xor_0_iff drop_bit_eq_iff)

lemma contains6_iff:
  "contains (P6 b n) (V6 x z) \<longleftrightarrow> z = [] \<and> unat x div 2 ^ (128 - n) = unat b div 2 ^ (128 - n)"
  unfolding contains_def by (simp only: prod.case prefix.case addr.case drop_bit_xor_0_iff drop_bit_eq_iff)

end
