(* ===== verification/Schema.thy ===== *)
theory Schema
  imports Netip
begin

text \<open>
  The data of the program: the enumerations and row types of \<^verbatim>\<open>internal/queries/models.go\<close>
  (generated from \<^verbatim>\<open>migrations/\<close>), with the spellings the enumerations have on the wire
  and in Postgres. A nullable column is an option, a \<^verbatim>\<open>NUMERIC\<close> column a rational, a
  timestamp an integer (microseconds since the epoch, the resolution of \<^verbatim>\<open>TIMESTAMPTZ\<close>),
  a UUID the number its bytes spell, and a \<^verbatim>\<open>JSONB\<close> object its text.
\<close>

section \<open>Enumerations\<close>

datatype brew_type = Mead | Beer | Cider | Wine | Kombucha
datatype visibility = Public | Unlisted | Private
datatype batch_stage = Planning | Primary | Secondary | Aging | Bottled | Archived
datatype ingredient_kind = Honey | Water | Yeast | Nutrient | Fruit | Spice | Oak | Acid | Tannin
  | OtherIngredient | Juice | Sugar
datatype event_kind = Pitch | NutrientAddition | Degas | Rack | Addition | Stabilize | Backsweeten
  | Bottle | Photo | NoteEvent | OtherEvent
datatype reminder_status = Scheduled | Fired | Completed | Snoozed | Dismissed | Cancelled
datatype reminder_anchor = AnchorAbsolute | AnchorBatchStart | AnchorPitch | AnchorRack
  | AnchorBottle | AnchorCustomEvent
datatype job_status = JobPending | JobRunning | JobComplete | JobFailed | JobExpired

primrec brew_type_str :: "brew_type \<Rightarrow> string" where
  "brew_type_str Mead = ''mead''"
| "brew_type_str Beer = ''beer''"
| "brew_type_str Cider = ''cider''"
| "brew_type_str Wine = ''wine''"
| "brew_type_str Kombucha = ''kombucha''"

primrec visibility_str :: "visibility \<Rightarrow> string" where
  "visibility_str Public = ''public''"
| "visibility_str Unlisted = ''unlisted''"
| "visibility_str Private = ''private''"

primrec batch_stage_str :: "batch_stage \<Rightarrow> string" where
  "batch_stage_str Planning = ''planning''"
| "batch_stage_str Primary = ''primary''"
| "batch_stage_str Secondary = ''secondary''"
| "batch_stage_str Aging = ''aging''"
| "batch_stage_str Bottled = ''bottled''"
| "batch_stage_str Archived = ''archived''"

primrec ingredient_kind_str :: "ingredient_kind \<Rightarrow> string" where
  "ingredient_kind_str Honey = ''honey''"
| "ingredient_kind_str Water = ''water''"
| "ingredient_kind_str Yeast = ''yeast''"
| "ingredient_kind_str Nutrient = ''nutrient''"
| "ingredient_kind_str Fruit = ''fruit''"
| "ingredient_kind_str Spice = ''spice''"
| "ingredient_kind_str Oak = ''oak''"
| "ingredient_kind_str Acid = ''acid''"
| "ingredient_kind_str Tannin = ''tannin''"
| "ingredient_kind_str OtherIngredient = ''other''"
| "ingredient_kind_str Juice = ''juice''"
| "ingredient_kind_str Sugar = ''sugar''"

primrec event_kind_str :: "event_kind \<Rightarrow> string" where
  "event_kind_str Pitch = ''pitch''"
| "event_kind_str NutrientAddition = ''nutrient_addition''"
| "event_kind_str Degas = ''degas''"
| "event_kind_str Rack = ''rack''"
| "event_kind_str Addition = ''addition''"
| "event_kind_str Stabilize = ''stabilize''"
| "event_kind_str Backsweeten = ''backsweeten''"
| "event_kind_str Bottle = ''bottle''"
| "event_kind_str Photo = ''photo''"
| "event_kind_str NoteEvent = ''note''"
| "event_kind_str OtherEvent = ''other''"

primrec reminder_status_str :: "reminder_status \<Rightarrow> string" where
  "reminder_status_str Scheduled = ''scheduled''"
| "reminder_status_str Fired = ''fired''"
| "reminder_status_str Completed = ''completed''"
| "reminder_status_str Snoozed = ''snoozed''"
| "reminder_status_str Dismissed = ''dismissed''"
| "reminder_status_str Cancelled = ''cancelled''"

primrec reminder_anchor_str :: "reminder_anchor \<Rightarrow> string" where
  "reminder_anchor_str AnchorAbsolute = ''absolute''"
| "reminder_anchor_str AnchorBatchStart = ''batch_start''"
| "reminder_anchor_str AnchorPitch = ''pitch''"
| "reminder_anchor_str AnchorRack = ''rack''"
| "reminder_anchor_str AnchorBottle = ''bottle''"
| "reminder_anchor_str AnchorCustomEvent = ''custom_event''"

primrec job_status_str :: "job_status \<Rightarrow> string" where
  "job_status_str JobPending = ''pending''"
| "job_status_str JobRunning = ''running''"
| "job_status_str JobComplete = ''complete''"
| "job_status_str JobFailed = ''failed''"
| "job_status_str JobExpired = ''expired''"

text \<open>
  The cast of a text parameter to an enumeration: \<open>None\<close> is SQLSTATE 22P02
  (\<^verbatim>\<open>invalid_text_representation\<close>).
\<close>

definition enum_of :: "('e \<Rightarrow> string) \<Rightarrow> 'e list \<Rightarrow> string \<Rightarrow> 'e option" where
  "enum_of str all s = find (\<lambda>e. str e = s) all"

definition brew_type_of :: "string \<Rightarrow> brew_type option" where
  "brew_type_of = enum_of brew_type_str [Mead, Beer, Cider, Wine, Kombucha]"

definition visibility_of :: "string \<Rightarrow> visibility option" where
  "visibility_of = enum_of visibility_str [Public, Unlisted, Private]"

definition batch_stage_of :: "string \<Rightarrow> batch_stage option" where
  "batch_stage_of = enum_of batch_stage_str [Planning, Primary, Secondary, Aging, Bottled, Archived]"

definition ingredient_kind_of :: "string \<Rightarrow> ingredient_kind option" where
  "ingredient_kind_of = enum_of ingredient_kind_str
     [Honey, Water, Yeast, Nutrient, Fruit, Spice, Oak, Acid, Tannin, OtherIngredient, Juice, Sugar]"

definition event_kind_of :: "string \<Rightarrow> event_kind option" where
  "event_kind_of = enum_of event_kind_str
     [Pitch, NutrientAddition, Degas, Rack, Addition, Stabilize, Backsweeten, Bottle, Photo,
      NoteEvent, OtherEvent]"

definition reminder_status_of :: "string \<Rightarrow> reminder_status option" where
  "reminder_status_of = enum_of reminder_status_str
     [Scheduled, Fired, Completed, Snoozed, Dismissed, Cancelled]"

definition reminder_anchor_of :: "string \<Rightarrow> reminder_anchor option" where
  "reminder_anchor_of = enum_of reminder_anchor_str
     [AnchorAbsolute, AnchorBatchStart, AnchorPitch, AnchorRack, AnchorBottle, AnchorCustomEvent]"

lemma enum_of_Some: "enum_of str all s = Some e \<Longrightarrow> str e = s"
  by (auto simp: enum_of_def find_Some_iff)

lemma ingredient_kind_roundtrip [simp]: "ingredient_kind_of (ingredient_kind_str k) = Some k"
  by (cases k) (simp_all add: ingredient_kind_of_def enum_of_def)

lemma event_kind_roundtrip [simp]: "event_kind_of (event_kind_str k) = Some k"
  by (cases k) (simp_all add: event_kind_of_def enum_of_def)

lemma batch_stage_roundtrip [simp]: "batch_stage_of (batch_stage_str k) = Some k"
  by (cases k) (simp_all add: batch_stage_of_def enum_of_def)

lemma reminder_anchor_roundtrip [simp]: "reminder_anchor_of (reminder_anchor_str k) = Some k"
  by (cases k) (simp_all add: reminder_anchor_of_def enum_of_def)

section \<open>Rows: accounts\<close>

record user =
  u_id :: uuid
  u_username :: string
  u_email :: string
  u_display_name :: nulltext
  u_bio :: nulltext
  u_avatar_url :: nulltext
  u_deleted_at :: "time option"
  u_deletion_scheduled_for :: "time option"
  u_deletion_choices :: "jsonraw option"
  u_deletion_reason :: nulltext
  u_created_at :: time
  u_password_hash :: nulltext
  u_is_admin :: bool

record session =
  s_id :: uuid
  s_user :: uuid
  s_token_hash :: string
  s_user_agent :: nulltext
  s_ip :: "addr option"
  s_created_at :: time
  s_last_seen_at :: time
  s_expires_at :: time

record email_change_request =
  ec_id :: uuid
  ec_user :: uuid
  ec_new_email :: string
  ec_old_email :: string
  ec_confirm_hash :: string
  ec_cancel_hash :: string
  ec_created_at :: time
  ec_expires_at :: time

record user_pref =
  up_user :: uuid
  up_degree_units :: string
  up_timezone :: string

record notification_pref =
  np_user :: uuid
  np_push_enabled :: bool
  np_apprise_enabled :: bool
  np_quiet_start :: "int option"
  np_quiet_end :: "int option"
  np_apprise_url :: nulltext
  np_email_enabled :: bool

record push_device =
  pd_id :: uuid
  pd_user :: uuid
  pd_platform :: string
  pd_token :: string
  pd_last_seen_at :: time
  pd_p256dh :: nulltext
  pd_auth :: nulltext

record deletion_request =
  adr_id :: uuid
  adr_user :: uuid
  adr_requested_at :: time

section \<open>Rows: recipes\<close>

record recipe =
  rc_id :: uuid
  rc_author :: uuid
  rc_parent :: "uuid option"
  rc_parent_revision :: "uuid option"
  rc_current_revision :: "uuid option"
  rc_revision_count :: int
  rc_fork_count :: int
  rc_brew_type :: brew_type
  rc_style :: nulltext
  rc_name :: string
  rc_description :: nulltext
  rc_target_og :: "rat option"
  rc_target_fg :: "rat option"
  rc_target_abv :: "rat option"
  rc_batch_size_l :: "rat option"
  rc_visibility :: visibility
  rc_created_at :: time
  rc_updated_at :: time

record ingredient =
  ri_id :: uuid
  ri_recipe :: uuid
  ri_kind :: ingredient_kind
  ri_name :: string
  ri_amount :: "rat option"
  ri_unit :: nulltext
  ri_sort_order :: int
  ri_details :: jsonraw

text \<open>\<^verbatim>\<open>ingredientSnap\<close>: what a revision keeps of an ingredient.\<close>

record ingredient_snap =
  sn_kind :: string
  sn_name :: string
  sn_amount :: "rat option"
  sn_unit :: string
  sn_sort_order :: int
  sn_details :: "jsonraw option"

record revision =
  rv_id :: uuid
  rv_recipe :: uuid
  rv_number :: int
  rv_author :: uuid
  rv_message :: nulltext
  rv_name :: string
  rv_description :: nulltext
  rv_style :: nulltext
  rv_target_og :: "rat option"
  rv_target_fg :: "rat option"
  rv_target_abv :: "rat option"
  rv_batch_size_l :: "rat option"
  rv_ingredients :: "ingredient_snap list"
  rv_created_at :: time

record comment =
  cm_id :: uuid
  cm_recipe :: uuid
  cm_author :: uuid
  cm_body :: string
  cm_created_at :: time

record like =
  lk_user :: uuid
  lk_recipe :: uuid
  lk_created_at :: time

record template =
  tp_id :: uuid
  tp_recipe :: uuid
  tp_title :: string
  tp_description :: nulltext
  tp_anchor :: reminder_anchor
  tp_offset_minutes :: int
  tp_suggested :: "event_kind option"
  tp_sort_order :: int

section \<open>Rows: batches, reminders, inventory\<close>

record batch =
  b_id :: uuid
  b_brewer :: uuid
  b_recipe :: "uuid option"
  b_recipe_revision :: "uuid option"
  b_name :: string
  b_brew_type :: brew_type
  b_stage :: batch_stage
  b_started_at :: "time option"
  b_bottled_at :: "time option"
  b_visibility :: visibility
  b_notes :: nulltext
  b_created_at :: time
  b_updated_at :: time

record reading =
  rd_id :: uuid
  rd_batch :: uuid
  rd_device :: "uuid option"
  rd_taken_at :: time
  rd_gravity :: "rat option"
  rd_temperature_c :: "rat option"
  rd_ph :: "rat option"
  rd_notes :: nulltext
  rd_source :: string

record batch_event =
  ev_id :: uuid
  ev_batch :: uuid
  ev_occurred_at :: time
  ev_kind :: event_kind
  ev_title :: nulltext
  ev_description :: nulltext
  ev_details :: jsonraw

record tasting_note =
  tn_id :: uuid
  tn_batch :: uuid
  tn_author :: uuid
  tn_tasted_at :: time
  tn_rating :: "int option"
  tn_aroma :: nulltext
  tn_flavor :: nulltext
  tn_mouthfeel :: nulltext
  tn_finish :: nulltext
  tn_notes :: nulltext

record reminder =
  rm_id :: uuid
  rm_batch :: "uuid option"
  rm_user :: uuid
  rm_template :: "uuid option"
  rm_title :: string
  rm_description :: nulltext
  rm_fire_at :: time
  rm_rrule :: nulltext
  rm_status :: reminder_status
  rm_fired_at :: "time option"
  rm_completed_at :: "time option"
  rm_suggested :: "event_kind option"
  rm_created_at :: time

record notification =
  nt_id :: uuid
  nt_user :: uuid
  nt_reminder :: "uuid option"
  nt_kind :: string
  nt_title :: string
  nt_body :: nulltext
  nt_url_path :: nulltext
  nt_read_at :: "time option"
  nt_created_at :: time

record inventory_item =
  iv_id :: uuid
  iv_user :: uuid
  iv_kind :: ingredient_kind
  iv_name :: string
  iv_amount :: "rat option"
  iv_unit :: nulltext
  iv_notes :: nulltext
  iv_created_at :: time
  iv_updated_at :: time

section \<open>Rows: jobs\<close>

record user_export =
  ex_id :: uuid
  ex_user :: uuid
  ex_status :: job_status
  ex_file_path :: nulltext
  ex_size_bytes :: "int option"
  ex_error :: nulltext
  ex_created_at :: time
  ex_completed_at :: "time option"
  ex_expires_at :: "time option"
  ex_sha256 :: nulltext
  ex_format :: string

record admin_backup =
  ab_id :: uuid
  ab_status :: job_status
  ab_file_path :: nulltext
  ab_size_bytes :: "int option"
  ab_storage_backend :: string
  ab_error :: nulltext
  ab_created_at :: time
  ab_completed_at :: "time option"
  ab_sha256 :: nulltext

record follow =
  fo_follower :: uuid
  fo_followed :: uuid
  fo_created_at :: time

text \<open>
  The documents of an export archive. A list that could not be read is \<^verbatim>\<open>null\<close>.
\<close>

datatype archive_entry =
    Manifest_Json time string string
  | Profile_Json uuid string string string string time
  | Recipes_Json "(recipe \<times> ingredient list option \<times> revision list option) list"
  | Batches_Json "(batch \<times> reading list option \<times> batch_event list option \<times> tasting_note list option) list"
  | Social_Json "follow list option" "like list option" "comment list option"

section \<open>The database\<close>

record db =
  users :: "user list"
  sessions :: "session list"
  email_changes :: "email_change_request list"
  user_prefs :: "user_pref list"
  notification_prefs :: "notification_pref list"
  push_devices :: "push_device list"
  deletion_requests :: "deletion_request list"
  recipes :: "recipe list"
  ingredients :: "ingredient list"
  revisions :: "revision list"
  comments :: "comment list"
  likes :: "like list"
  templates :: "template list"
  batches :: "batch list"
  readings :: "reading list"
  events :: "batch_event list"
  tasting_notes :: "tasting_note list"
  reminders :: "reminder list"
  notifications :: "notification list"
  inventory :: "inventory_item list"
  exports :: "user_export list"
  backups :: "admin_backup list"
  follows :: "follow list"

definition empty_db :: db where
  "empty_db = \<lparr>users = [], sessions = [], email_changes = [], user_prefs = [],
     notification_prefs = [], push_devices = [], deletion_requests = [], recipes = [],
     ingredients = [], revisions = [], comments = [], likes = [], templates = [], batches = [],
     readings = [], events = [], tasting_notes = [], reminders = [], notifications = [],
     inventory = [], exports = [], backups = [], follows = []\<rparr>"

end
