(* ===== verification/World.thy ===== *)
theory World
  imports Schema
begin

text \<open>
  The state a request runs in and the actions of a handler. A handler is a state monad over
  \<open>world\<close>: the tables, the clock, the calls to code that is not the program's (random UUIDs
  and tokens, password hashing, mail delivery, the availability of the database), the snapshot
  of an open transaction, and the blobs of the two stores. The \<open>n\<close>-th external call of a run
  reads the \<open>n\<close>-th entry of its oracle, so a theorem about all worlds covers every pattern of
  failures. Nothing here takes time: a request runs at one instant of \<open>clock\<close>.

  \<open>wp m Q w\<close> is the weakest precondition of an action: \<open>Q\<close> holds of its result and of
  the world it leaves.
\<close>

section \<open>Errors and responses\<close>

text \<open>
  What a statement returns instead of a result: the errors the program tells apart
  (\<^verbatim>\<open>pgx.ErrNoRows\<close>, SQLSTATE 23505, 22P02, 40001) and those it does not.
\<close>

datatype dberr = NoRows | UniqueViolation | InvalidText | ForeignKeyViolation | CheckViolation
  | OutOfRange | SerializationFailure | Infra

text \<open>\<^verbatim>\<open>writeJSON(w, code, {"error": msg})\<close>, or a status with the view it carries.\<close>

datatype 'v resp = Fail nat string | Okay nat 'v

primrec status_of :: "'v resp \<Rightarrow> nat" where
  "status_of (Fail n m) = n"
| "status_of (Okay n v) = n"

section \<open>The world\<close>

datatype outcome = Up | Down | Conflict

text \<open>
  What the program calls and does not define: \<^verbatim>\<open>gen_random_uuid\<close>, the database
  connection, \<^verbatim>\<open>crypto/rand\<close> (a token or an error), SHA-256 of a token, argon2id, SMTP,
  the token bucket of a rate limiter, \<^verbatim>\<open>uuid.String\<close>, \<^verbatim>\<open>time.Parse(RFC3339)\<close>,
  \<^verbatim>\<open>time.LoadLocation\<close> (no location, or the hour and minute of an instant in it), the
  push service (an error or an HTTP status for the push to a subscription),
  \<^verbatim>\<open>url.Parse\<close> (its error, or scheme and host name), \<^verbatim>\<open>netip.ParseAddr\<close> and
  \<^verbatim>\<open>ParsePrefix\<close>, the
  resolver, the \<^verbatim>\<open>%q\<close> verb, \<^verbatim>\<open>netip.Addr.String\<close>,
  \<^verbatim>\<open>mail.ParseAddress\<close> (the bare address), whether a call to the blob store or the
  file system succeeds, the hex SHA-256 of a blob, the encoders of an archive (JSON, zip, tar, gzip,
  zstd: the bytes, or an error), \<^verbatim>\<open>pg_dump\<close>, the presigned URL of an object, whether a
  client read a whole body, and the text of an error the program passes on.
\<close>

record externals =
  x_ids :: "nat \<Rightarrow> uuid"
  x_avail :: "nat \<Rightarrow> outcome"
  x_token :: "nat \<Rightarrow> string option"
  x_token_hash :: "string \<Rightarrow> string"
  x_hash_password :: "nat \<Rightarrow> string \<Rightarrow> string option"
  x_verify_password :: "string \<Rightarrow> string \<Rightarrow> bool"
  x_deliver :: "nat \<Rightarrow> string option"
  x_allow :: "nat \<Rightarrow> string \<Rightarrow> bool"
  x_uuid_text :: "uuid \<Rightarrow> string"
  x_rfc3339 :: "string \<Rightarrow> time option"
  x_location :: "string \<Rightarrow> (time \<Rightarrow> int \<times> int) option"
  x_push :: "nat \<Rightarrow> string \<Rightarrow> nat option"
  x_parse_url :: "string \<Rightarrow> string + (string \<times> string)"
  x_parse_addr :: "string \<Rightarrow> addr option"
  x_parse_prefix :: "string \<Rightarrow> prefix option"
  x_lookup :: "nat \<Rightarrow> string \<Rightarrow> addr list option"
  x_quote :: "string \<Rightarrow> string"
  x_addr_text :: "addr \<Rightarrow> string"
  x_parse_mail :: "string \<Rightarrow> string option"
  x_storage :: "nat \<Rightarrow> bool"
  x_sha256 :: "string \<Rightarrow> string"
  x_archive :: "nat \<Rightarrow> string \<Rightarrow> archive_entry list \<Rightarrow> string option"
  x_dump :: "nat \<Rightarrow> string option"
  x_presign :: "nat \<Rightarrow> string \<Rightarrow> string option"
  x_stream :: "nat \<Rightarrow> bool"
  x_error_text :: "nat \<Rightarrow> string"

text \<open>
  A message to the outside, and the channel it takes. \<open>outbox\<close> lists those the program handed
  to the Apprise sidecar, the SMTP relay or a push service, delivered or not, in their order.
\<close>

datatype channel = Apprise_Sidecar | Smtp_Relay | Web_Push

record mail =
  ml_channel :: channel
  ml_to :: string
  ml_subject :: string
  ml_body :: string
  ml_path :: string

record world =
  tabs :: db
  clock :: time
  tick :: nat
  txn :: "db option"
  outbox :: "mail list"
  export_blobs :: "string \<Rightarrow> string option"
  backup_blobs :: "string \<Rightarrow> string option"
  ext :: externals

type_synonym 'a act = "(world, 'a) state"
type_synonym 'a stmt = "(world, dberr + 'a) state"

abbreviation ret :: "'a \<Rightarrow> 'a act" where
  "ret \<equiv> State_Monad.return"

definition ask :: "(world \<Rightarrow> 'a) \<Rightarrow> 'a act" where
  "ask f = State (\<lambda>w. (f w, w))"

definition tock :: "world \<Rightarrow> world" where
  "tock w = w\<lparr>tick := Suc (tick w)\<rparr>"

section \<open>Statements\<close>

text \<open>
  One round trip to Postgres: it fails (the connection, a time-out: \<open>Down\<close>; a serialization
  failure: \<open>Conflict\<close>) or it runs. A failed statement changes nothing.
\<close>

definition sql_write :: "(world \<Rightarrow> dberr + ('a \<times> world)) \<Rightarrow> 'a stmt" where
  "sql_write f = State (\<lambda>w. case x_avail (ext w) (tick w) of
       Down \<Rightarrow> (Inl Infra, tock w)
     | Conflict \<Rightarrow> (Inl SerializationFailure, tock w)
     | Up \<Rightarrow> (case f (tock w) of Inl e \<Rightarrow> (Inl e, tock w) | Inr (a, w') \<Rightarrow> (Inr a, w')))"

definition sql_read :: "(world \<Rightarrow> dberr + 'a) \<Rightarrow> 'a stmt" where
  "sql_read f = sql_write (\<lambda>w. case f w of Inl e \<Rightarrow> Inl e | Inr a \<Rightarrow> Inr (a, w))"

text \<open>\<^verbatim>\<open>DEFAULT gen_random_uuid()\<close>.\<close>

definition gen_uuid :: "world \<Rightarrow> uuid \<times> world" where
  "gen_uuid w = (x_ids (ext w) (tick w), tock w)"

definition set_tabs :: "db \<Rightarrow> world \<Rightarrow> world" where
  "set_tabs d w = w\<lparr>tabs := d\<rparr>"

text \<open>\<^verbatim>\<open>:one\<close>: the row, or \<^verbatim>\<open>ErrNoRows\<close>.\<close>

definition one :: "'r option \<Rightarrow> dberr + 'r" where
  "one r = (case r of None \<Rightarrow> Inl NoRows | Some x \<Rightarrow> Inr x)"

text \<open>
  \<^verbatim>\<open>INSERT\<close> under a primary or unique key, and the test of a foreign key (a null
  reference refers to nothing and passes).
\<close>

definition insert_rows :: "('r \<Rightarrow> 'k) \<Rightarrow> 'r list \<Rightarrow> 'r list \<Rightarrow> dberr + 'r list" where
  "insert_rows k new rows =
     (if distinct (map k new) \<and> list_all (\<lambda>n. \<not> list_ex (\<lambda>r. k r = k n) rows) new
      then Inr (rows @ new) else Inl UniqueViolation)"

definition refers :: "('r \<Rightarrow> 'k) \<Rightarrow> 'r list \<Rightarrow> 'k \<Rightarrow> bool" where
  "refers k rows i = list_ex (\<lambda>r. k r = i) rows"

definition refers_opt :: "('r \<Rightarrow> 'k) \<Rightarrow> 'r list \<Rightarrow> 'k option \<Rightarrow> bool" where
  "refers_opt k rows i = (case i of None \<Rightarrow> True | Some j \<Rightarrow> refers k rows j)"

lemma insert_rows_Inr [table_simps]:
  "insert_rows k new rows = Inr rows' \<longleftrightarrow>
     rows' = rows @ new \<and> distinct (map k new) \<and> (\<forall>n\<in>set new. \<forall>r\<in>set rows. k r \<noteq> k n)"
  by (auto simp: insert_rows_def list_all_iff list_ex_iff)

lemma insert_rows_distinct:
  "insert_rows k new rows = Inr rows' \<Longrightarrow> distinct (map k rows) \<Longrightarrow> distinct (map k rows')"
  by (auto simp: insert_rows_Inr)

lemma refers_iff [table_simps]: "refers k rows i \<longleftrightarrow> i \<in> k ` set rows"
  by (auto simp: refers_def list_ex_iff)

section \<open>Transactions\<close>

text \<open>
  \<^verbatim>\<open>pool.Begin\<close>, \<^verbatim>\<open>tx.Commit\<close> and the deferred \<^verbatim>\<open>tx.Rollback\<close>, which
  does nothing after a commit. A commit that fails leaves the transaction to the rollback.
\<close>

definition tx_begin :: "unit stmt" where
  "tx_begin = sql_write (\<lambda>w. Inr ((), w\<lparr>txn := Some (tabs w)\<rparr>))"

definition tx_commit :: "unit stmt" where
  "tx_commit = sql_write (\<lambda>w. Inr ((), w\<lparr>txn := None\<rparr>))"

definition rollback :: "world \<Rightarrow> world" where
  "rollback w = (case txn w of None \<Rightarrow> w | Some d \<Rightarrow> w\<lparr>tabs := d, txn := None\<rparr>)"

definition defer_rollback :: "'a act \<Rightarrow> 'a act" where
  "defer_rollback m = do {
     r \<leftarrow> m;
     State_Monad.update rollback;
     ret r }"

section \<open>Weakest preconditions\<close>

definition wp :: "'a act \<Rightarrow> ('a \<Rightarrow> world \<Rightarrow> bool) \<Rightarrow> world \<Rightarrow> bool" where
  "wp m Q w = (case run_state m w of (a, w') \<Rightarrow> Q a w')"

lemma wpD: "wp m Q w \<Longrightarrow> run_state m w = (a, w') \<Longrightarrow> Q a w'"
  by (simp add: wp_def)

lemma wpI: "(\<And>a w'. run_state m w = (a, w') \<Longrightarrow> Q a w') \<Longrightarrow> wp m Q w"
  by (auto simp: wp_def split: prod.split)

lemma wp_mono: "wp m Q w \<Longrightarrow> (\<And>a w'. Q a w' \<Longrightarrow> R a w') \<Longrightarrow> wp m R w"
  by (auto simp: wp_def)

lemma wp_conj: "wp m (\<lambda>a w'. Q a w' \<and> R a w') w \<longleftrightarrow> wp m Q w \<and> wp m R w"
  by (auto simp: wp_def split: prod.split)

lemma wp_return [wp_simps]: "wp (ret x) Q = Q x"
  by (simp add: wp_def fun_eq_iff)

lemma wp_bind [wp_simps]: "wp (State_Monad.bind m f) Q = wp m (\<lambda>x. wp (f x) Q)"
  by (simp add: wp_def fun_eq_iff split: prod.split)

lemma wp_update [wp_simps]: "wp (State_Monad.update g) Q = (\<lambda>w. Q () (g w))"
  by (simp add: wp_def fun_eq_iff State_Monad.update_def)

lemma wp_ask [wp_simps]: "wp (ask f) Q = (\<lambda>w. Q (f w) w)"
  by (simp add: wp_def fun_eq_iff ask_def)

lemma wp_sql_write:
  "wp (sql_write f) Q w \<longleftrightarrow>
     (x_avail (ext w) (tick w) = Down \<longrightarrow> Q (Inl Infra) (tock w)) \<and>
     (x_avail (ext w) (tick w) = Conflict \<longrightarrow> Q (Inl SerializationFailure) (tock w)) \<and>
     (x_avail (ext w) (tick w) = Up \<longrightarrow>
        (\<forall>e. f (tock w) = Inl e \<longrightarrow> Q (Inl e) (tock w)) \<and>
        (\<forall>a w'. f (tock w) = Inr (a, w') \<longrightarrow> Q (Inr a) w'))"
  by (auto simp: wp_def sql_write_def split: outcome.split sum.split)

lemma wp_sql_writeI:
  assumes "\<And>e. Q (Inl e) (tock w)"
    and "\<And>a w'. f (tock w) = Inr (a, w') \<Longrightarrow> Q (Inr a) w'"
  shows "wp (sql_write f) Q w"
  using assms by (auto simp: wp_sql_write)

lemma wp_sql_readI:
  assumes "\<And>e. Q (Inl e) (tock w)"
    and "\<And>a. f (tock w) = Inr a \<Longrightarrow> Q (Inr a) (tock w)"
  shows "wp (sql_read f) Q w"
  unfolding sql_read_def using assms by (intro wp_sql_writeI) (auto split: sum.splits)

lemma wp_defer_rollback [wp_simps]:
  "wp (defer_rollback m) Q = wp m (\<lambda>r w'. Q r (rollback w'))"
  by (simp add: defer_rollback_def wp_simps)

text \<open>A statement that runs, on a world where the database is up.\<close>

lemma run_sql_write:
  "run_state (sql_write f) w = (case x_avail (ext w) (tick w) of
       Down \<Rightarrow> (Inl Infra, tock w)
     | Conflict \<Rightarrow> (Inl SerializationFailure, tock w)
     | Up \<Rightarrow> (case f (tock w) of Inl e \<Rightarrow> (Inl e, tock w) | Inr (a, w') \<Rightarrow> (Inr a, w')))"
  by (simp add: sql_write_def)

lemma run_sql_read:
  "run_state (sql_read f) w = (case x_avail (ext w) (tick w) of
       Down \<Rightarrow> (Inl Infra, tock w)
     | Conflict \<Rightarrow> (Inl SerializationFailure, tock w)
     | Up \<Rightarrow> (f (tock w), tock w))"
  by (simp add: sql_read_def run_sql_write split: outcome.split sum.split)

lemma run_ask: "run_state (ask f) w = (f w, w)"
  by (simp add: ask_def)

lemma run_update: "run_state (State_Monad.update g) w = ((), g w)"
  by (simp add: State_Monad.update_def)

lemmas run_simps = run_sql_write run_sql_read run_ask run_update defer_rollback_def tx_begin_def
  tx_commit_def rollback_def

lemma tock_simps [simp]:
  "tabs (tock w) = tabs w" "clock (tock w) = clock w" "tick (tock w) = Suc (tick w)"
  "txn (tock w) = txn w" "outbox (tock w) = outbox w" "export_blobs (tock w) = export_blobs w"
  "backup_blobs (tock w) = backup_blobs w" "ext (tock w) = ext w"
  by (simp_all add: tock_def)

lemma set_tabs_simps [simp]:
  "tabs (set_tabs d w) = d" "clock (set_tabs d w) = clock w" "tick (set_tabs d w) = tick w"
  "txn (set_tabs d w) = txn w" "outbox (set_tabs d w) = outbox w"
  "export_blobs (set_tabs d w) = export_blobs w"
  "backup_blobs (set_tabs d w) = backup_blobs w" "ext (set_tabs d w) = ext w"
  by (simp_all add: set_tabs_def)

lemma one_simps [simp]: "one r = Inr x \<longleftrightarrow> r = Some x" "one r = Inl e \<longleftrightarrow> r = None \<and> e = NoRows"
  by (auto simp: one_def split: option.split)

lemma gen_uuid_simps [simp]: "fst (gen_uuid w) = x_ids (ext w) (tick w)" "snd (gen_uuid w) = tock w"
  by (simp_all add: gen_uuid_def)

section \<open>Actions that keep a relation between the worlds before and after\<close>

text \<open>
  \<open>keeps R m\<close>: whatever the action answers, the world it leaves is related to the world it
  started in. For a reflexive and transitive \<open>R\<close> this is closed under sequencing, so a
  property of every statement of a handler is a property of the handler.
\<close>

definition keeps :: "(world \<Rightarrow> world \<Rightarrow> bool) \<Rightarrow> 'a act \<Rightarrow> bool" where
  "keeps R m \<longleftrightarrow> (\<forall>w. R w (snd (run_state m w)))"

locale kept_relation =
  fixes R :: "world \<Rightarrow> world \<Rightarrow> bool"
  assumes kept_refl: "R w w"
    and kept_trans: "R w w' \<Longrightarrow> R w' w'' \<Longrightarrow> R w w''"
    and kept_tock: "R w (tock w)"
begin

lemma keeps_return: "keeps R (ret x)"
  by (simp add: keeps_def kept_refl)

lemma keeps_ask: "keeps R (ask f)"
  by (simp add: keeps_def ask_def kept_refl)

lemma keeps_bind:
  assumes "keeps R m" and "\<And>x. keeps R (f x)"
  shows "keeps R (State_Monad.bind m f)"
proof -
  have "R w (snd (run_state (State_Monad.bind m f) w))" for w
  proof -
    obtain a w' where m: "run_state m w = (a, w')" by fastforce
    from assms(1) m have "R w w'" by (metis keeps_def snd_conv)
    moreover from assms(2) [of a] have "R w' (snd (run_state (f a) w'))" by (simp add: keeps_def)
    ultimately show ?thesis using m by (auto intro: kept_trans)
  qed
  then show ?thesis by (simp add: keeps_def)
qed

lemma keeps_sql_write:
  assumes "\<And>w a w'. f w = Inr (a, w') \<Longrightarrow> R w w'"
  shows "keeps R (sql_write f)"
  unfolding keeps_def
proof
  fix w
  show "R w (snd (run_state (sql_write f) w))"
    using assms [of "tock w"] kept_tock [of w]
    by (auto simp: run_sql_write split: outcome.split sum.split intro: kept_trans)
qed

lemma keeps_sql_read: "keeps R (sql_read f)"
  unfolding sql_read_def by (rule keeps_sql_write) (auto split: sum.splits intro: kept_refl)

lemmas keeps_intros = keeps_return keeps_ask keeps_bind keeps_sql_read

end

end
