(* ===== verification/Demo.thy ===== *)
theory Demo
  imports World
begin

text \<open>
  Concrete worlds and rows, on which the theorems with hypotheses are applied: a database that
  always answers, ids that count up, an identity-like token hash and a transparent password hash.
\<close>

definition demo_ext :: externals where
  "demo_ext = \<lparr>x_ids = (\<lambda>n. n + 100), x_avail = (\<lambda>n. Up),
     x_token = (\<lambda>n. Some (replicate n CHR ''t'')), x_token_hash = (\<lambda>s. CHR ''h'' # s),
     x_hash_password = (\<lambda>n s. Some (CHR ''p'' # s)),
     x_verify_password = (\<lambda>h s. h = CHR ''p'' # s), x_deliver = (\<lambda>n. None),
     x_allow = (\<lambda>n s. True), x_uuid_text = (\<lambda>i. replicate i CHR ''x''),
     x_rfc3339 = (\<lambda>s. Some (int (length s))), x_location = (\<lambda>z. Some (\<lambda>t. (t div 3600000000 mod 24, t div 60000000 mod 60))),
     x_push = (\<lambda>n t. Some 201),
     x_parse_url = (\<lambda>s. Inr (''ntfy'', s)), x_parse_addr = (\<lambda>s. None), x_parse_prefix = (\<lambda>s. None),
     x_lookup = (\<lambda>n s. None),
     x_quote = (\<lambda>s. s), x_addr_text = (\<lambda>a. []),
     x_parse_mail = (\<lambda>s. if CHR ''@'' \<in> set s then Some s else None), x_storage = (\<lambda>n. True),
     x_sha256 = (\<lambda>s. CHR ''s'' # s), x_archive = (\<lambda>n f es. Some (f @ replicate (length es) CHR ''e'')),
     x_dump = (\<lambda>n. Some ''dump''), x_presign = (\<lambda>n k. Some k), x_stream = (\<lambda>n. True),
     x_error_text = (\<lambda>n. ''error'')\<rparr>"

definition demo_world :: "db \<Rightarrow> time \<Rightarrow> world" where
  "demo_world d t = \<lparr>tabs = d, clock = t, tick = 0, txn = None, outbox = [],
     export_blobs = (\<lambda>k. None), backup_blobs = (\<lambda>k. None), ext = demo_ext\<rparr>"

text \<open>The same with an availability of the database per call.\<close>

definition faulty_world :: "(nat \<Rightarrow> outcome) \<Rightarrow> db \<Rightarrow> time \<Rightarrow> world" where
  "faulty_world av d t = (demo_world d t)\<lparr>ext := demo_ext\<lparr>x_avail := av\<rparr>\<rparr>"

definition demo_user :: "uuid \<Rightarrow> string \<Rightarrow> user" where
  "demo_user i n = \<lparr>u_id = i, u_username = n, u_email = n @ ''@example.org'', u_display_name = None,
     u_bio = None, u_avatar_url = None, u_deleted_at = None, u_deletion_scheduled_for = None,
     u_deletion_choices = None, u_deletion_reason = None, u_created_at = 0,
     u_password_hash = Some ''psecret'', u_is_admin = False\<rparr>"

definition demo_recipe :: "uuid \<Rightarrow> uuid \<Rightarrow> visibility \<Rightarrow> uuid option \<Rightarrow> recipe" where
  "demo_recipe i u v cur = \<lparr>rc_id = i, rc_author = u, rc_parent = None, rc_parent_revision = None,
     rc_current_revision = cur, rc_revision_count = 1, rc_fork_count = 0, rc_brew_type = Mead,
     rc_style = None, rc_name = ''Traditional'', rc_description = None, rc_target_og = None,
     rc_target_fg = None, rc_target_abv = None, rc_batch_size_l = None, rc_visibility = v,
     rc_created_at = 0, rc_updated_at = 0\<rparr>"

definition demo_template :: "uuid \<Rightarrow> uuid \<Rightarrow> reminder_anchor \<Rightarrow> int \<Rightarrow> template" where
  "demo_template i rc an off = \<lparr>tp_id = i, tp_recipe = rc, tp_title = ''Feed'', tp_description = None,
     tp_anchor = an, tp_offset_minutes = off, tp_suggested = None, tp_sort_order = 0\<rparr>"

definition demo_batch ::
    "uuid \<Rightarrow> uuid \<Rightarrow> uuid option \<Rightarrow> uuid option \<Rightarrow> batch_stage \<Rightarrow> batch" where
  "demo_batch i u rc cur s = \<lparr>b_id = i, b_brewer = u, b_recipe = rc, b_recipe_revision = cur,
     b_name = ''One'', b_brew_type = Mead, b_stage = s, b_started_at = None, b_bottled_at = None,
     b_visibility = Public, b_notes = None, b_created_at = 0, b_updated_at = 0\<rparr>"

definition demo_reminder ::
    "uuid \<Rightarrow> uuid option \<Rightarrow> uuid \<Rightarrow> uuid option \<Rightarrow> time \<Rightarrow> reminder" where
  "demo_reminder i b u tp t = \<lparr>rm_id = i, rm_batch = b, rm_user = u, rm_template = tp,
     rm_title = ''Feed'', rm_description = None, rm_fire_at = t, rm_rrule = None,
     rm_status = Scheduled, rm_fired_at = None, rm_completed_at = None, rm_suggested = None,
     rm_created_at = 0\<rparr>"

lemmas demo_simps = demo_ext_def demo_world_def faulty_world_def demo_user_def demo_recipe_def demo_template_def
  demo_batch_def demo_reminder_def empty_db_def

end
