(* ===== verification/Materialize.thy ===== *)
theory Materialize
  imports Demo
begin

text \<open>
  Reminder templates become reminders: the two statements of
  \<^verbatim>\<open>internal/queries/sql/reminder_templates.sql\<close> and the helper
  \<^verbatim>\<open>materializeTemplates\<close> of \<^verbatim>\<open>internal/server/batches.go\<close>, which the
  batch and event handlers call. Re-anchoring moves the scheduled reminders of a batch to a new
  anchor time; materializing adds a reminder for every matching template that has no live one.
\<close>

section \<open>Statements\<close>

definition template_fire :: "time \<Rightarrow> template \<Rightarrow> time" where
  "template_fire t0 t = t0 + tp_offset_minutes t * 60000000"

definition template_matches :: "uuid \<Rightarrow> reminder_anchor \<Rightarrow> template \<Rightarrow> bool" where
  "template_matches recipe anchor t \<longleftrightarrow> tp_recipe t = recipe \<and> tp_anchor t = anchor"

definition live_reminder :: "uuid \<Rightarrow> uuid \<Rightarrow> reminder \<Rightarrow> bool" where
  "live_reminder batch tid r \<longleftrightarrow>
     rm_template r = Some tid \<and> rm_batch r = Some batch \<and> rm_status r \<notin> {Cancelled, Dismissed}"

definition reanchor_row ::
    "template list \<Rightarrow> uuid \<Rightarrow> uuid \<Rightarrow> reminder_anchor \<Rightarrow> time \<Rightarrow> reminder \<Rightarrow> reminder" where
  "reanchor_row ts batch recipe anchor t0 r =
     (case find_where (\<lambda>t. rm_template r = Some (tp_id t) \<and> template_matches recipe anchor t) ts of
        None \<Rightarrow> r
      | Some t \<Rightarrow> if rm_batch r = Some batch \<and> rm_status r = Scheduled
                   then r\<lparr>rm_fire_at := template_fire t0 t\<rparr> else r)"

definition ReanchorReminders :: "uuid \<Rightarrow> uuid \<Rightarrow> reminder_anchor \<Rightarrow> time \<Rightarrow> unit stmt" where
  "ReanchorReminders batch recipe anchor t0 = sql_write (\<lambda>w. let d = tabs w in
     Inr ((), set_tabs (d\<lparr>reminders :=
       map (reanchor_row (templates d) batch recipe anchor t0) (reminders d)\<rparr>) w))"

definition materialized_row :: "uuid \<Rightarrow> uuid \<Rightarrow> uuid \<Rightarrow> time \<Rightarrow> time \<Rightarrow> template \<Rightarrow> reminder" where
  "materialized_row i batch user t0 now t =
     \<lparr>rm_id = i, rm_batch = Some batch, rm_user = user, rm_template = Some (tp_id t),
      rm_title = tp_title t, rm_description = tp_description t, rm_fire_at = template_fire t0 t,
      rm_rrule = None, rm_status = Scheduled, rm_fired_at = None, rm_completed_at = None,
      rm_suggested = tp_suggested t, rm_created_at = now\<rparr>"

fun materialized_rows ::
    "uuid \<Rightarrow> uuid \<Rightarrow> time \<Rightarrow> template list \<Rightarrow> world \<Rightarrow> reminder list \<times> world" where
  "materialized_rows batch user t0 [] w = ([], w)"
| "materialized_rows batch user t0 (t # ts) w =
     (let (i, w1) = gen_uuid w; (rs, w2) = materialized_rows batch user t0 ts w1
      in (materialized_row i batch user t0 (clock w) t # rs, w2))"

definition due_templates :: "db \<Rightarrow> uuid \<Rightarrow> uuid \<Rightarrow> reminder_anchor \<Rightarrow> template list" where
  "due_templates d batch recipe anchor =
     filter (\<lambda>t. template_matches recipe anchor t \<and>
                 \<not> exists_where (live_reminder batch (tp_id t)) (reminders d)) (templates d)"

definition MaterializeReminderTemplates ::
    "uuid \<Rightarrow> uuid \<Rightarrow> uuid \<Rightarrow> reminder_anchor \<Rightarrow> time \<Rightarrow> unit stmt" where
  "MaterializeReminderTemplates batch user recipe anchor t0 = sql_write (\<lambda>w.
     let d = tabs w; (rs, w1) = materialized_rows batch user t0 (due_templates d batch recipe anchor) w
     in if rs \<noteq> [] \<and> (\<not> refers b_id (batches d) batch \<or> \<not> refers u_id (users d) user)
        then Inl ForeignKeyViolation
        else case insert_rows rm_id rs (reminders d) of
          Inl e \<Rightarrow> Inl e
        | Inr rms \<Rightarrow> Inr ((), set_tabs (d\<lparr>reminders := rms\<rparr>) w1))"

section \<open>The helper\<close>

text \<open>Both writes are best effort: their errors are dropped.\<close>

definition materializeTemplates :: "batch \<Rightarrow> reminder_anchor \<Rightarrow> time \<Rightarrow> unit act" where
  "materializeTemplates b anchor t0 = (case b_recipe b of
     None \<Rightarrow> ret ()
   | Some recipe \<Rightarrow> do {
       _ \<leftarrow> ReanchorReminders (b_id b) recipe anchor t0;
       _ \<leftarrow> MaterializeReminderTemplates (b_id b) (b_brewer b) recipe anchor t0;
       ret () })"

section \<open>Rows\<close>

lemma reanchor_row_keeps [simp]:
  "rm_id (reanchor_row ts bi rc an t0 r) = rm_id r"
  "rm_batch (reanchor_row ts bi rc an t0 r) = rm_batch r"
  "rm_user (reanchor_row ts bi rc an t0 r) = rm_user r"
  "rm_template (reanchor_row ts bi rc an t0 r) = rm_template r"
  "rm_status (reanchor_row ts bi rc an t0 r) = rm_status r"
  "rm_title (reanchor_row ts bi rc an t0 r) = rm_title r"
  by (simp_all add: reanchor_row_def split: option.split)

lemma live_reanchor [simp]:
  "live_reminder bi t (reanchor_row ts bi' rc an t0 r) = live_reminder bi t r"
  by (simp add: live_reminder_def)

text \<open>Only a scheduled reminder of this batch moves.\<close>

lemma reanchor_row_other:
  "rm_batch r \<noteq> Some bi \<or> rm_status r \<noteq> Scheduled \<Longrightarrow> reanchor_row ts bi rc an t0 r = r"
  by (auto simp: reanchor_row_def split: option.split)

lemma reanchor_row_fire:
  assumes "distinct (map tp_id ts)" and "t \<in> set ts" and "template_matches rc an t"
    and "rm_template r = Some (tp_id t)" and "rm_batch r = Some bi" and "rm_status r = Scheduled"
  shows "rm_fire_at (reanchor_row ts bi rc an t0 r) = template_fire t0 t"
proof -
  have "find_where (\<lambda>t'. rm_template r = Some (tp_id t') \<and> template_matches rc an t') ts = Some t"
    using assms by (intro find_where_unique [where k = tp_id]) auto
  with assms show ?thesis by (simp add: reanchor_row_def)
qed

lemma reanchor_row_twice [simp]:
  "reanchor_row ts bi rc an t0 (reanchor_row ts bi rc an t0' r) = reanchor_row ts bi rc an t0 r"
  by (simp add: reanchor_row_def split: option.split)

lemma materialized_row_simps [simp]:
  "rm_id (materialized_row i bi u t0 now t) = i"
  "rm_batch (materialized_row i bi u t0 now t) = Some bi"
  "rm_user (materialized_row i bi u t0 now t) = u"
  "rm_template (materialized_row i bi u t0 now t) = Some (tp_id t)"
  "rm_status (materialized_row i bi u t0 now t) = Scheduled"
  "rm_fire_at (materialized_row i bi u t0 now t) = template_fire t0 t"
  by (simp_all add: materialized_row_def)

lemma materialized_rows_ids:
  "materialized_rows bi u t0 ts w = (rs, w') \<Longrightarrow>
     map rm_id rs = map (x_ids (ext w)) [tick w ..< tick w + length ts]"
proof (induction ts arbitrary: w rs)
  case (Cons t ts)
  obtain rs2 w2 where r: "materialized_rows bi u t0 ts (tock w) = (rs2, w2)" by fastforce
  with Cons.prems
  have "rs = materialized_row (x_ids (ext w) (tick w)) bi u t0 (clock w) t # rs2" and "w2 = w'"
    by (auto simp: gen_uuid_def)
  with Cons.IH [of "tock w" rs2] r show ?case by (simp add: upt_conv_Cons del: upt_Suc)
qed simp

lemma materialized_rows_props:
  "materialized_rows bi u t0 ts w = (rs, w') \<Longrightarrow>
     map rm_template rs = map (Some \<circ> tp_id) ts \<and> tabs w' = tabs w \<and> clock w' = clock w \<and>
     ext w' = ext w \<and> txn w' = txn w \<and> outbox w' = outbox w \<and>
     export_blobs w' = export_blobs w \<and> backup_blobs w' = backup_blobs w \<and>
     list_all2 (\<lambda>r t. \<exists>i. r = materialized_row i bi u t0 (clock w) t) rs ts"
proof (induction ts arbitrary: w rs)
  case (Cons t ts)
  obtain rs2 w2 where r: "materialized_rows bi u t0 ts (tock w) = (rs2, w2)" by fastforce
  with Cons.prems
  have "rs = materialized_row (x_ids (ext w) (tick w)) bi u t0 (clock w) t # rs2" and "w' = w2"
    by (auto simp: gen_uuid_def)
  with Cons.IH [of "tock w" rs2] r show ?case by (auto simp: materialized_row_def)
qed simp

lemma materialized_rows_in:
  assumes "materialized_rows bi u t0 ts w = (rs, w')" and "r \<in> set rs"
  shows "\<exists>t\<in>set ts. \<exists>i. r = materialized_row i bi u t0 (clock w) t"
proof -
  from materialized_rows_props [OF assms(1)]
  have l: "list_all2 (\<lambda>r t. \<exists>i. r = materialized_row i bi u t0 (clock w) t) rs ts" by blast
  from list_all2_left [OF l assms(2)] show ?thesis .
qed

lemma materialized_rows_covers:
  assumes "materialized_rows bi u t0 ts w = (rs, w')" and "t \<in> set ts"
  shows "\<exists>r\<in>set rs. \<exists>i. r = materialized_row i bi u t0 (clock w) t"
proof -
  from materialized_rows_props [OF assms(1)]
  have l: "list_all2 (\<lambda>r t. \<exists>i. r = materialized_row i bi u t0 (clock w) t) rs ts" by blast
  from list_all2_right [OF l assms(2)] show ?thesis .
qed

lemma materialized_row_live [simp]:
  "live_reminder bi (tp_id t) (materialized_row i bi u t0 now t)"
  by (simp add: live_reminder_def)

section \<open>What the statements and the helper do\<close>

text \<open>The frame: no table but the reminders changes, and of those only reminders of the batch.\<close>

definition batch_reminders_only :: "uuid \<Rightarrow> world \<Rightarrow> world \<Rightarrow> bool" where
  "batch_reminders_only bi w w' \<longleftrightarrow>
     (\<exists>rms. tabs w' = tabs w\<lparr>reminders := rms\<rparr> \<and>
            filter (\<lambda>r. rm_batch r \<noteq> Some bi) rms =
            filter (\<lambda>r. rm_batch r \<noteq> Some bi) (reminders (tabs w))) \<and>
     txn w' = txn w \<and> outbox w' = outbox w \<and> export_blobs w' = export_blobs w \<and>
     backup_blobs w' = backup_blobs w \<and> clock w' = clock w \<and> ext w' = ext w"

lemma batch_reminders_only_refl: "batch_reminders_only bi w w"
  unfolding batch_reminders_only_def by (auto intro: exI [of _ "reminders (tabs w)"])

lemma batch_reminders_only_tock: "batch_reminders_only bi w (tock w)"
  unfolding batch_reminders_only_def by (auto intro: exI [of _ "reminders (tabs w)"])

lemma batch_reminders_only_trans:
  assumes "batch_reminders_only bi w w'" and "batch_reminders_only bi w' w''"
  shows "batch_reminders_only bi w w''"
proof -
  from assms(1) obtain r1 where r1: "tabs w' = tabs w\<lparr>reminders := r1\<rparr>"
    "filter (\<lambda>r. rm_batch r \<noteq> Some bi) r1 = filter (\<lambda>r. rm_batch r \<noteq> Some bi) (reminders (tabs w))"
    unfolding batch_reminders_only_def by blast
  from assms(2) obtain r2 where r2: "tabs w'' = tabs w'\<lparr>reminders := r2\<rparr>"
    "filter (\<lambda>r. rm_batch r \<noteq> Some bi) r2 = filter (\<lambda>r. rm_batch r \<noteq> Some bi) (reminders (tabs w'))"
    unfolding batch_reminders_only_def by blast
  have "tabs w'' = tabs w\<lparr>reminders := r2\<rparr>" using r1(1) r2(1) by simp
  moreover have "filter (\<lambda>r. rm_batch r \<noteq> Some bi) r2 =
      filter (\<lambda>r. rm_batch r \<noteq> Some bi) (reminders (tabs w))"
    using r1 r2(2) by simp
  ultimately show ?thesis using assms unfolding batch_reminders_only_def by auto
qed

interpretation br: kept_relation "batch_reminders_only bi"
  by unfold_locales
    (blast intro: batch_reminders_only_refl batch_reminders_only_tock batch_reminders_only_trans)+

lemma keeps_ReanchorReminders: "keeps (batch_reminders_only bi) (ReanchorReminders bi rc an t0)"
  unfolding ReanchorReminders_def Let_def
proof (rule br.keeps_sql_write, clarsimp)
  fix w
  have "filter (\<lambda>r. rm_batch r \<noteq> Some bi) (map (reanchor_row ts bi rc an t0) rs) =
      filter (\<lambda>r. rm_batch r \<noteq> Some bi) rs" for ts rs
    by (induction rs) (auto simp: reanchor_row_other)
  then show "batch_reminders_only bi w (set_tabs (tabs w\<lparr>reminders :=
      map (reanchor_row (templates (tabs w)) bi rc an t0) (reminders (tabs w))\<rparr>) w)"
    unfolding batch_reminders_only_def by auto
qed

lemma keeps_Materialize:
  "keeps (batch_reminders_only bi) (MaterializeReminderTemplates bi u rc an t0)"
  unfolding MaterializeReminderTemplates_def Let_def
proof (rule br.keeps_sql_write)
  fix w a w'
  obtain rs w1 where m: "materialized_rows bi u t0 (due_templates (tabs w) bi rc an) w = (rs, w1)"
    by fastforce
  assume "(case materialized_rows bi u t0 (due_templates (tabs w) bi rc an) w of (rs, w1) \<Rightarrow>
       if rs \<noteq> [] \<and> (\<not> refers b_id (batches (tabs w)) bi \<or> \<not> refers u_id (users (tabs w)) u)
          then Inl ForeignKeyViolation
          else case insert_rows rm_id rs (reminders (tabs w)) of Inl e \<Rightarrow> Inl e
               | Inr rms \<Rightarrow> Inr ((), set_tabs (tabs w\<lparr>reminders := rms\<rparr>) w1)) = Inr (a, w')"
  with m have w': "w' = set_tabs (tabs w\<lparr>reminders := reminders (tabs w) @ rs\<rparr>) w1"
    by (auto split: if_splits sum.splits simp: insert_rows_Inr)
  have "\<forall>r\<in>set rs. rm_batch r = Some bi"
    by (auto dest!: materialized_rows_in [OF m])
  then have "filter (\<lambda>r. rm_batch r \<noteq> Some bi) rs = []" by (simp add: filter_empty_conv)
  with materialized_rows_props [OF m] w' show "batch_reminders_only bi w w'"
    unfolding batch_reminders_only_def by auto
qed

lemma keeps_materializeTemplates:
  "keeps (batch_reminders_only (b_id b)) (materializeTemplates b an t0)"
  unfolding materializeTemplates_def
  by (auto split: option.split intro!: br.keeps_intros keeps_ReanchorReminders keeps_Materialize)

text \<open>
  The two statements on a database that is up, with fresh row ids: the reminders before,
  re-anchored, then one new row for each due template.
\<close>

definition fresh_ids :: "world \<Rightarrow> bool" where
  "fresh_ids w \<longleftrightarrow> inj (x_ids (ext w)) \<and>
     (\<forall>n. \<forall>r\<in>set (reminders (tabs w)). tick w \<le> n \<longrightarrow> rm_id r \<noteq> x_ids (ext w) n)"

lemma run_materializeTemplates:
  assumes "b_recipe b = Some rc"
    and "x_avail (ext w) (tick w) = Up" and "x_avail (ext w) (Suc (tick w)) = Up"
    and "refers b_id (batches (tabs w)) (b_id b)" and "refers u_id (users (tabs w)) (b_brewer b)"
    and "fresh_ids w" and run: "run_state (materializeTemplates b an t0) w = ((), w')"
  shows "\<exists>rs. reminders (tabs w') =
           map (reanchor_row (templates (tabs w)) (b_id b) rc an t0) (reminders (tabs w)) @ rs \<and>
           list_all2 (\<lambda>r t. \<exists>i. r = materialized_row i (b_id b) (b_brewer b) t0 (clock w) t) rs
             (due_templates (tabs w) (b_id b) rc an)"
proof -
  let ?d = "tabs w\<lparr>reminders :=
    map (reanchor_row (templates (tabs w)) (b_id b) rc an t0) (reminders (tabs w))\<rparr>"
  let ?w1 = "set_tabs ?d (tock w)"
  have due: "due_templates ?d (b_id b) rc an = due_templates (tabs w) (b_id b) rc an"
    by (simp add: due_templates_def exists_where_def list_ex_iff)
  obtain rs w2 where m: "materialized_rows (b_id b) (b_brewer b) t0
      (due_templates (tabs w) (b_id b) rc an) (tock ?w1) = (rs, w2)" by fastforce
  have "insert_rows rm_id rs (reminders ?d) = Inr (reminders ?d @ rs)"
  proof -
    from assms(6) have "inj (x_ids (ext w))" by (simp add: fresh_ids_def)
    moreover have ids: "map rm_id rs = map (x_ids (ext w)) [tick w + 2 ..<
        tick w + 2 + length (due_templates (tabs w) (b_id b) rc an)]"
      using materialized_rows_ids [OF m] by simp
    ultimately have "distinct (map rm_id rs)" by (simp add: distinct_map inj_on_def)
    moreover have "\<exists>n\<ge>tick w. rm_id r = x_ids (ext w) n" if "r \<in> set rs" for r
    proof -
      from that have "rm_id r \<in> set (map rm_id rs)" by simp
      then obtain n where "tick w + 2 \<le> n" "rm_id r = x_ids (ext w) n" unfolding ids
        unfolding set_map set_upt by fastforce
      then show ?thesis by (intro exI [of _ n]) simp
    qed
    moreover from assms(6) have "\<forall>n\<ge>tick w. \<forall>r\<in>set (reminders ?d). rm_id r \<noteq> x_ids (ext w) n"
      by (auto simp: fresh_ids_def)
    ultimately show ?thesis by (fastforce simp: insert_rows_Inr)
  qed
  with m assms(1-5) run due
  have "tabs w' = ?d\<lparr>reminders := reminders ?d @ rs\<rparr>"
    by (auto simp: materializeTemplates_def ReanchorReminders_def MaterializeReminderTemplates_def
        run_simps Let_def)
  with materialized_rows_props [OF m] show ?thesis by auto
qed

section \<open>The promise of the helper\<close>

lemma materialized_rows_live_count:
  assumes "materialized_rows bi u t0 ts w = (rs, w')"
  shows "length (filter (live_reminder bi i) rs) = length (filter (\<lambda>t. tp_id t = i) ts)"
proof -
  have "list_all2 (\<lambda>r t. \<exists>j. r = materialized_row j bi u t0 (clock w) t) rs ts"
    using materialized_rows_props [OF assms] by blast
  then show ?thesis
    by (induction rule: list_all2_induct) (auto simp: live_reminder_def)
qed

lemma due_templates_none:
  "exists_where (live_reminder bi (tp_id t)) (reminders d) \<Longrightarrow> t \<notin> set (due_templates d bi rc an)"
  by (auto simp: due_templates_def)

definition live_count :: "uuid \<Rightarrow> uuid \<Rightarrow> db \<Rightarrow> nat" where
  "live_count bi i d = length (filter (live_reminder bi i) (reminders d))"

definition no_new_duplicates :: "uuid \<Rightarrow> uuid \<Rightarrow> world \<Rightarrow> world \<Rightarrow> bool" where
  "no_new_duplicates bi i w w' \<longleftrightarrow>
     (distinct (map tp_id (templates (tabs w))) \<longrightarrow>
        templates (tabs w') = templates (tabs w) \<and>
        live_count bi i (tabs w') \<le> max 1 (live_count bi i (tabs w)))"

interpretation nd: kept_relation "no_new_duplicates bi i"
  by unfold_locales (auto simp: no_new_duplicates_def)

lemma distinct_filter_le_1: "distinct (map k xs) \<Longrightarrow> length (filter (\<lambda>x. k x = i) xs) \<le> 1"
  by (induction xs) (auto simp: filter_empty_conv image_iff)

lemma nd_Reanchor: "keeps (no_new_duplicates bi i) (ReanchorReminders bj rc an t0)"
proof -
  have "length (filter (live_reminder bi i) (map (reanchor_row ts bj rc an t0) rs)) =
      length (filter (live_reminder bi i) rs)" for ts rs
    by (induction rs) simp_all
  then show ?thesis
    unfolding ReanchorReminders_def Let_def
    by (intro nd.keeps_sql_write) (auto simp: no_new_duplicates_def live_count_def)
qed

lemma nd_Materialize: "keeps (no_new_duplicates bi i) (MaterializeReminderTemplates bi u rc an t0)"
  unfolding MaterializeReminderTemplates_def Let_def
proof (rule nd.keeps_sql_write)
  fix w :: world and a w'
  let ?due = "due_templates (tabs w) bi rc an"
  obtain rs w1 where m: "materialized_rows bi u t0 ?due w = (rs, w1)" by fastforce
  assume "(case materialized_rows bi u t0 ?due w of (rs, w1) \<Rightarrow>
       if rs \<noteq> [] \<and> (\<not> refers b_id (batches (tabs w)) bi \<or> \<not> refers u_id (users (tabs w)) u)
          then Inl ForeignKeyViolation
          else case insert_rows rm_id rs (reminders (tabs w)) of Inl e \<Rightarrow> Inl e
               | Inr rms \<Rightarrow> Inr ((), set_tabs (tabs w\<lparr>reminders := rms\<rparr>) w1)) = Inr (a, w')"
  with m have w': "w' = set_tabs (tabs w\<lparr>reminders := reminders (tabs w) @ rs\<rparr>) w1"
    by (auto split: if_splits sum.splits simp: insert_rows_Inr)
  show "no_new_duplicates bi i w w'"
  proof (cases "\<exists>t\<in>set ?due. tp_id t = i")
    case True
    then have "live_count bi i (tabs w) = 0"
      by (auto simp: live_count_def due_templates_def exists_where_iff filter_empty_conv)
    moreover have "distinct (map tp_id (templates (tabs w))) \<Longrightarrow>
        length (filter (\<lambda>t. tp_id t = i) ?due) \<le> 1"
      by (intro distinct_filter_le_1) (simp add: due_templates_def distinct_map_filter)
    ultimately show ?thesis
      using w' materialized_rows_live_count [OF m]
      by (auto simp: no_new_duplicates_def live_count_def)
  next
    case False
    then have "filter (\<lambda>t. tp_id t = i) ?due = []" by (auto simp: filter_empty_conv)
    with w' materialized_rows_live_count [OF m] show ?thesis
      by (simp add: no_new_duplicates_def live_count_def)
  qed
qed

text \<open>
  C6: Whatever happens to its two writes (each can fail on its own), \<^verbatim>\<open>materializeTemplates\<close>
  never leaves a batch with a second live reminder of a template: after it a template has at most
  one live reminder, or as many as it had before.
\<close>

theorem materialize_no_duplicates:
  assumes "distinct (map tp_id (templates (tabs w)))"
    and "run_state (materializeTemplates b an t0) w = ((), w')"
  shows "live_count (b_id b) i (tabs w') \<le> max 1 (live_count (b_id b) i (tabs w))"
proof -
  have "keeps (no_new_duplicates (b_id b) i) (materializeTemplates b an t0)"
    unfolding materializeTemplates_def
    by (auto split: option.split intro!: nd.keeps_intros nd_Reanchor nd_Materialize)
  with assms show ?thesis unfolding keeps_def no_new_duplicates_def by (metis snd_conv)
qed

text \<open>
  C5: When the database answers, the reminders of a batch reflect the anchor time after
  \<^verbatim>\<open>materializeTemplates\<close>: every template of the recipe with this anchor has a live
  reminder, and each of its scheduled reminders fires at the anchor time plus the offset of the
  template, whether it was there before or is new.
\<close>

theorem materialize_reflects_anchor:
  assumes "b_recipe b = Some rc" and "fresh_ids w"
    and "x_avail (ext w) (tick w) = Up" and "x_avail (ext w) (Suc (tick w)) = Up"
    and "refers b_id (batches (tabs w)) (b_id b)" and "refers u_id (users (tabs w)) (b_brewer b)"
    and "distinct (map tp_id (templates (tabs w)))"
    and "t \<in> set (templates (tabs w))" and "tp_recipe t = rc" and "tp_anchor t = an"
    and "run_state (materializeTemplates b an t0) w = ((), w')"
  shows "(\<exists>r\<in>set (reminders (tabs w')). live_reminder (b_id b) (tp_id t) r) \<and>
         (\<forall>r\<in>set (reminders (tabs w')). rm_batch r = Some (b_id b) \<and>
            rm_template r = Some (tp_id t) \<and> rm_status r = Scheduled \<longrightarrow>
            rm_fire_at r = t0 + tp_offset_minutes t * 60000000)"
proof -
  let ?bi = "b_id b" and ?ts = "templates (tabs w)" and ?rs = "reminders (tabs w)"
  let ?re = "reanchor_row ?ts ?bi rc an t0"
  from run_materializeTemplates [OF assms(1,3-6,2,11)] obtain new where
    rs: "reminders (tabs w') = map ?re ?rs @ new" and
    new: "list_all2 (\<lambda>r t. \<exists>i. r = materialized_row i ?bi (b_brewer b) t0 (clock w) t) new
            (due_templates (tabs w) ?bi rc an)" by blast
  have match: "template_matches rc an t" using assms(9,10) by (simp add: template_matches_def)
  have "\<exists>r\<in>set (reminders (tabs w')). live_reminder ?bi (tp_id t) r"
  proof (cases "exists_where (live_reminder ?bi (tp_id t)) ?rs")
    case True
    then obtain r where "r \<in> set ?rs" "live_reminder ?bi (tp_id t) (?re r)"
      by (auto simp: exists_where_iff)
    then show ?thesis unfolding rs by (intro bexI [of _ "?re r"]) auto
  next
    case False
    with match assms(8) have "t \<in> set (due_templates (tabs w) ?bi rc an)"
      by (simp add: due_templates_def)
    from list_all2_right [OF new this]
    have "\<exists>r\<in>set new. \<exists>i. r = materialized_row i ?bi (b_brewer b) t0 (clock w) t" .
    then show ?thesis unfolding rs using materialized_row_live by (metis UnI2 set_append)
  qed
  moreover have "rm_fire_at r = template_fire t0 t"
    if "r \<in> set (map ?re ?rs)" "rm_batch r = Some ?bi" "rm_template r = Some (tp_id t)"
      "rm_status r = Scheduled" for r
    using that reanchor_row_fire [OF assms(7,8) match] by auto
  moreover have "rm_fire_at r = template_fire t0 t"
    if "r \<in> set new" "rm_template r = Some (tp_id t)" for r
  proof -
    from list_all2_left [OF new that(1)] obtain t' i where t': "t' \<in> set ?ts"
      "r = materialized_row i ?bi (b_brewer b) t0 (clock w) t'" by (auto simp: due_templates_def)
    with that(2) assms(7,8) have "t' = t" by (auto simp: distinct_map dest: inj_onD)
    with t' show ?thesis by simp
  qed
  ultimately show ?thesis unfolding rs template_fire_def by auto
qed

definition mat_db :: db where
  "mat_db = empty_db\<lparr>users := [demo_user 1 ''ann''], recipes := [demo_recipe 30 1 Public (Some 40)],
     templates := [demo_template 50 30 AnchorPitch 1440, demo_template 51 30 AnchorPitch 60],
     batches := [demo_batch 20 1 (Some 30) (Some 40) Planning],
     reminders := [demo_reminder 60 (Some 20) 1 (Some 50) 5]\<rparr>"

definition mat_reminders :: "reminder list" where
  "mat_reminders = reminders (tabs (snd (run_state
     (materializeTemplates (demo_batch 20 1 (Some 30) (Some 40) Planning) AnchorPitch 7)
     (demo_world mat_db 1))))"

lemma materialize_reflects_anchor_witness: "rm_fire_at (List.last mat_reminders) = 3600000007"
proof -
  let ?m = "materializeTemplates (demo_batch 20 1 (Some 30) (Some 40) Planning) AnchorPitch 7"
  let ?w = "demo_world mat_db 1"
  have "run_state ?m ?w = ((), snd (run_state ?m ?w))" by (simp add: prod_eq_iff)
  from materialize_reflects_anchor [OF _ _ _ _ _ _ _ _ _ _ this,
      of 30 "demo_template 51 30 AnchorPitch 60"]
  have "\<forall>r\<in>set mat_reminders. rm_batch r = Some 20 \<and> rm_template r = Some 51 \<and>
      rm_status r = Scheduled \<longrightarrow> rm_fire_at r = 3600000007"
    by (simp add: demo_simps mat_db_def mat_reminders_def fresh_ids_def refers_def inj_def)
  moreover have "mat_reminders \<noteq> [] \<and> rm_batch (List.last mat_reminders) = Some 20 \<and>
      rm_template (List.last mat_reminders) = Some 51 \<and> rm_status (List.last mat_reminders) = Scheduled"
    by code_simp
  ultimately show ?thesis by simp
qed

lemma materialize_no_duplicates_witness:
  "live_count 20 50 (tabs (snd (run_state
     (materializeTemplates (demo_batch 20 1 (Some 30) (Some 40) Planning) AnchorPitch 7)
     (demo_world mat_db 1)))) \<le> 1"
  using materialize_no_duplicates [of "demo_world mat_db 1"
      "demo_batch 20 1 (Some 30) (Some 40) Planning" AnchorPitch 7 _ 50]
  by (simp add: demo_simps mat_db_def prod_eq_iff live_count_def live_reminder_def)

end
