(* ===== verification/Sql.thy ===== *)
theory Sql
  imports World
begin

text \<open>
  The shapes of the generated statements of \<^verbatim>\<open>internal/queries\<close>: an
  \<^verbatim>\<open>INSERT ... RETURNING *\<close>, an \<^verbatim>\<open>UPDATE ... WHERE ... RETURNING *\<close> that
  answers \<^verbatim>\<open>ErrNoRows\<close> when no row matches, a \<^verbatim>\<open>DELETE\<close> that counts its rows, and
  the conversions of the handlers between nullable columns and request fields.
\<close>

section \<open>Statements on one table\<close>

text \<open>A table is given by the field of the database it is and the update of that field.\<close>

definition sql_insert ::
    "(db \<Rightarrow> 'r list) \<Rightarrow> ('r list \<Rightarrow> db \<Rightarrow> db) \<Rightarrow> ('r \<Rightarrow> 'k) \<Rightarrow> bool \<Rightarrow> 'r \<Rightarrow> world \<Rightarrow> dberr + ('r \<times> world)" where
  "sql_insert get put key fk r w =
     (if \<not> fk then Inl ForeignKeyViolation
      else case insert_rows key [r] (get (tabs w)) of
        Inl e \<Rightarrow> Inl e
      | Inr rows \<Rightarrow> Inr (r, set_tabs (put rows (tabs w)) w))"

definition sql_update ::
    "(db \<Rightarrow> 'r list) \<Rightarrow> ('r list \<Rightarrow> db \<Rightarrow> db) \<Rightarrow> ('r \<Rightarrow> bool) \<Rightarrow> ('r \<Rightarrow> 'r) \<Rightarrow> world \<Rightarrow> dberr + ('r \<times> world)" where
  "sql_update get put P f w =
     (case find_where P (get (tabs w)) of
        None \<Rightarrow> Inl NoRows
      | Some r \<Rightarrow> Inr (f r, set_tabs (put (upd_where P f (get (tabs w))) (tabs w)) w))"

definition sql_delete ::
    "(db \<Rightarrow> 'r list) \<Rightarrow> ('r list \<Rightarrow> db \<Rightarrow> db) \<Rightarrow> ('r \<Rightarrow> bool) \<Rightarrow> world \<Rightarrow> dberr + (nat \<times> world)" where
  "sql_delete get put P w =
     Inr (count_where P (get (tabs w)), set_tabs (put (del_where P (get (tabs w))) (tabs w)) w)"

abbreviation "put_users \<equiv> \<lambda>rows d. d\<lparr>users := rows\<rparr>"
abbreviation "put_sessions \<equiv> \<lambda>rows d. d\<lparr>sessions := rows\<rparr>"
abbreviation "put_email_changes \<equiv> \<lambda>rows d. d\<lparr>email_changes := rows\<rparr>"
abbreviation "put_user_prefs \<equiv> \<lambda>rows d. d\<lparr>user_prefs := rows\<rparr>"
abbreviation "put_notification_prefs \<equiv> \<lambda>rows d. d\<lparr>notification_prefs := rows\<rparr>"
abbreviation "put_push_devices \<equiv> \<lambda>rows d. d\<lparr>push_devices := rows\<rparr>"
abbreviation "put_deletion_requests \<equiv> \<lambda>rows d. d\<lparr>deletion_requests := rows\<rparr>"
abbreviation "put_recipes \<equiv> \<lambda>rows d. d\<lparr>recipes := rows\<rparr>"
abbreviation "put_ingredients \<equiv> \<lambda>rows d. d\<lparr>ingredients := rows\<rparr>"
abbreviation "put_revisions \<equiv> \<lambda>rows d. d\<lparr>revisions := rows\<rparr>"
abbreviation "put_comments \<equiv> \<lambda>rows d. d\<lparr>comments := rows\<rparr>"
abbreviation "put_likes \<equiv> \<lambda>rows d. d\<lparr>likes := rows\<rparr>"
abbreviation "put_templates \<equiv> \<lambda>rows d. d\<lparr>templates := rows\<rparr>"
abbreviation "put_batches \<equiv> \<lambda>rows d. d\<lparr>batches := rows\<rparr>"
abbreviation "put_readings \<equiv> \<lambda>rows d. d\<lparr>readings := rows\<rparr>"
abbreviation "put_events \<equiv> \<lambda>rows d. d\<lparr>events := rows\<rparr>"
abbreviation "put_tasting_notes \<equiv> \<lambda>rows d. d\<lparr>tasting_notes := rows\<rparr>"
abbreviation "put_reminders \<equiv> \<lambda>rows d. d\<lparr>reminders := rows\<rparr>"
abbreviation "put_notifications \<equiv> \<lambda>rows d. d\<lparr>notifications := rows\<rparr>"
abbreviation "put_inventory \<equiv> \<lambda>rows d. d\<lparr>inventory := rows\<rparr>"
abbreviation "put_exports \<equiv> \<lambda>rows d. d\<lparr>exports := rows\<rparr>"
abbreviation "put_backups \<equiv> \<lambda>rows d. d\<lparr>backups := rows\<rparr>"

lemma sql_insert_Inr:
  "sql_insert get put key fk r w = Inr (a, w') \<longleftrightarrow>
     fk \<and> a = r \<and> (\<forall>x\<in>set (get (tabs w)). key x \<noteq> key r) \<and>
     w' = set_tabs (put (get (tabs w) @ [r]) (tabs w)) w"
  by (auto simp: sql_insert_def insert_rows_def list_ex_iff)

lemma sql_insert_Inl:
  "sql_insert get put key fk r w = Inl e \<longleftrightarrow>
     (\<not> fk \<and> e = ForeignKeyViolation) \<or>
     (fk \<and> (\<exists>x\<in>set (get (tabs w)). key x = key r) \<and> e = UniqueViolation)"
  by (auto simp: sql_insert_def insert_rows_def list_ex_iff)

lemma sql_update_Inr:
  "sql_update get put P f w = Inr (a, w') \<longleftrightarrow>
     (\<exists>r. find_where P (get (tabs w)) = Some r \<and> a = f r) \<and>
     w' = set_tabs (put (upd_where P f (get (tabs w))) (tabs w)) w"
  by (auto simp: sql_update_def split: option.split)

lemma sql_update_Inl:
  "sql_update get put P f w = Inl e \<longleftrightarrow> find_where P (get (tabs w)) = None \<and> e = NoRows"
  by (auto simp: sql_update_def split: option.split)

lemma sql_delete_Inr:
  "sql_delete get put P w = Inr (n, w') \<longleftrightarrow>
     n = count_where P (get (tabs w)) \<and>
     w' = set_tabs (put (del_where P (get (tabs w))) (tabs w)) w"
  by (auto simp: sql_delete_def)

lemmas sql_table_simps = sql_insert_Inr sql_update_Inr sql_delete_Inr

text \<open>An assignment cast: a \<^verbatim>\<open>NUMERIC(p,s)\<close> parameter, rounded or out of range.\<close>

definition num_cast :: "nat \<Rightarrow> nat \<Rightarrow> rat option \<Rightarrow> dberr + rat option" where
  "num_cast p s x = (case x of
     None \<Rightarrow> Inr None
   | Some q \<Rightarrow> if num_fits p s q then Inr (Some (num_round s q)) else Inl OutOfRange)"

lemma num_cast_fits:
  "num_cast p s (Some q) = Inr y \<Longrightarrow> y = Some (num_round s q) \<and> \<bar>num_round s q\<bar> < 10 ^ (p - s)"
  by (auto simp: num_cast_def num_fits_def split: if_splits)

text \<open>A nullable parameter of an enumeration: absent, a label, or no label.\<close>

definition opt_enum :: "(string \<Rightarrow> 'e option) \<Rightarrow> string option \<Rightarrow> dberr + 'e option" where
  "opt_enum parse s = (case s of
     None \<Rightarrow> Inr None
   | Some t \<Rightarrow> (case parse t of None \<Rightarrow> Inl InvalidText | Some e \<Rightarrow> Inr (Some e)))"

lemma opt_enum_simps [simp]:
  "opt_enum parse None = Inr None"
  "opt_enum parse (Some t) = (case parse t of None \<Rightarrow> Inl InvalidText | Some e \<Rightarrow> Inr (Some e))"
  by (simp_all add: opt_enum_def)

section \<open>Conversions of the handlers\<close>

definition textOrEmpty :: "nulltext \<Rightarrow> string" where
  "textOrEmpty t = (case t of None \<Rightarrow> [] | Some s \<Rightarrow> s)"

definition optText :: "string \<Rightarrow> nulltext" where
  "optText s = (if s = [] then None else Some s)"

lemma textOrEmpty_optText [simp]: "textOrEmpty (optText s) = s"
  by (simp add: textOrEmpty_def optText_def)

lemma optText_textOrEmpty: "t \<noteq> Some [] \<Longrightarrow> optText (textOrEmpty t) = t"
  by (auto simp: textOrEmpty_def optText_def split: option.split)

text \<open>
  The sequel of a statement in a handler: \<open>on_error\<close> maps its error to the response the
  handler writes, and the rest of the handler runs on its result.
\<close>

definition handle :: "'a stmt \<Rightarrow> (dberr \<Rightarrow> 'v resp) \<Rightarrow> ('a \<Rightarrow> 'v resp act) \<Rightarrow> 'v resp act" where
  "handle m on_error k = do {
     r \<leftarrow> m;
     case r of Inl e \<Rightarrow> ret (on_error e) | Inr a \<Rightarrow> k a }"

lemma run_handle:
  "run_state (handle m on_error k) w = (case run_state m w of
     (Inl e, w') \<Rightarrow> (on_error e, w') | (Inr a, w') \<Rightarrow> run_state (k a) w')"
  by (auto simp: handle_def split: prod.split sum.split)

lemma wp_handle [wp_simps]:
  "wp (handle m on_error k) Q =
     wp m (\<lambda>r. case r of Inl e \<Rightarrow> Q (on_error e) | Inr a \<Rightarrow> wp (k a) Q)"
  by (auto simp: wp_def run_handle fun_eq_iff split: prod.split sum.split)

lemma wp_handle_write:
  assumes "\<And>e. Q (on_error e) (tock w)"
    and "\<And>a w'. f (tock w) = Inr (a, w') \<Longrightarrow> wp (k a) Q w'"
  shows "wp (handle (sql_write f) on_error k) Q w"
  unfolding wp_handle by (rule wp_sql_writeI) (use assms in auto)

lemma wp_handle_read:
  assumes "\<And>e. Q (on_error e) (tock w)"
    and "\<And>a. f (tock w) = Inr a \<Longrightarrow> wp (k a) Q (tock w)"
  shows "wp (handle (sql_read f) on_error k) Q w"
  unfolding wp_handle by (rule wp_sql_readI) (use assms in auto)

text \<open>A response that is a success satisfies \<open>P\<close>.\<close>

definition on_okay :: "('v \<Rightarrow> world \<Rightarrow> bool) \<Rightarrow> 'v resp \<Rightarrow> world \<Rightarrow> bool" where
  "on_okay P r w = (case r of Fail n m \<Rightarrow> True | Okay n v \<Rightarrow> P v w)"

lemma on_okay_simps [simp]: "on_okay P (Fail n m) w" "on_okay P (Okay n v) w \<longleftrightarrow> P v w"
  by (simp_all add: on_okay_def)

primrec failed :: "'v resp \<Rightarrow> bool" where
  "failed (Fail n m) = True"
| "failed (Okay n v) = False"

lemma on_okay_failed: "failed r \<Longrightarrow> on_okay P r w"
  by (cases r) simp_all

context kept_relation
begin

lemma keeps_handle:
  "keeps R m \<Longrightarrow> (\<And>a. keeps R (k a)) \<Longrightarrow> keeps R (handle m on_error k)"
  unfolding handle_def
  by (rule keeps_bind) (auto split: sum.split intro: keeps_return)

end

section \<open>Handlers that write in a transaction\<close>

text \<open>
  \<open>tx_body m\<close>: started inside a transaction, the handler body leaves it open when it answers
  an error and closes it when it answers success. Such a body, behind \<^verbatim>\<open>Begin\<close> and the
  deferred \<^verbatim>\<open>Rollback\<close>, is atomic: an error response leaves the tables as they were.
\<close>

definition same_txn :: "world \<Rightarrow> world \<Rightarrow> bool" where
  "same_txn w w' \<longleftrightarrow> txn w' = txn w"

interpretation st: kept_relation same_txn
  by unfold_locales (auto simp: same_txn_def)

definition tx_body :: "'v resp act \<Rightarrow> bool" where
  "tx_body m \<longleftrightarrow> (\<forall>w d. txn w = Some d \<longrightarrow>
     wp m (\<lambda>r w'. txn w' = (if failed r then Some d else None)) w)"

lemma tx_body_handle:
  assumes "keeps same_txn m" and "\<And>e. failed (on_error e)" and "\<And>a. tx_body (k a)"
  shows "tx_body (handle m on_error k)"
  unfolding tx_body_def
proof (intro allI impI)
  fix w :: world and d
  assume d: "txn w = Some d"
  obtain r w' where m: "run_state m w = (r, w')" by fastforce
  with assms(1) d have d': "txn w' = Some d" unfolding keeps_def same_txn_def by (metis snd_conv)
  show "wp (handle m on_error k) (\<lambda>r w'. txn w' = (if failed r then Some d else None)) w"
  proof (cases r)
    case (Inl e)
    with m d' assms(2) show ?thesis by (simp add: wp_def run_handle)
  next
    case (Inr a)
    from assms(3) [of a] d'
    have "wp (k a) (\<lambda>r w'. txn w' = (if failed r then Some d else None)) w'"
      by (simp add: tx_body_def)
    with m Inr show ?thesis by (simp add: wp_def run_handle)
  qed
qed

lemma tx_body_fail: "failed r \<Longrightarrow> tx_body (ret r)"
  by (simp add: tx_body_def wp_simps)

lemma tx_body_commit: "tx_body (handle tx_commit (\<lambda>e. Fail n m) (\<lambda>u. ret (Okay c v)))"
  unfolding tx_body_def tx_commit_def
  by (intro allI impI wp_handle_write) (auto simp: wp_simps)

definition run_tx :: "(dberr \<Rightarrow> 'v resp) \<Rightarrow> 'v resp act \<Rightarrow> 'v resp act" where
  "run_tx on_error m = handle tx_begin on_error (\<lambda>u. defer_rollback m)"

lemma run_tx_atomic:
  assumes "tx_body m" and "\<And>e. failed (on_error e)" and "txn w = None"
  shows "wp (run_tx on_error m) (\<lambda>r w'. txn w' = None \<and> (failed r \<longrightarrow> tabs w' = tabs w)) w"
  unfolding run_tx_def tx_begin_def
proof (rule wp_handle_write, goal_cases)
  case (1 e)
  with assms(2,3) show ?case by simp
next
  case (2 a w1)
  then have w1: "txn w1 = Some (tabs w)" by auto
  with assms(1) have "wp m (\<lambda>r w'. txn w' = (if failed r then Some (tabs w) else None)) w1"
    by (simp add: tx_body_def)
  then show ?case
    unfolding wp_defer_rollback by (rule wp_mono) (auto simp: rollback_def split: if_splits)
qed

text \<open>What a successful run of the body establishes, the whole establishes.\<close>

lemma run_tx_okay:
  assumes "tx_body m" and "\<And>e. failed (on_error e)"
    and "\<And>w1. tabs w1 = tabs w \<Longrightarrow> clock w1 = clock w \<Longrightarrow> ext w1 = ext w \<Longrightarrow>
           txn w1 = Some (tabs w) \<Longrightarrow> wp m (on_okay P) w1"
    and P: "\<And>v w'. txn w' = None \<Longrightarrow> P v w' \<Longrightarrow> P v (rollback w')"
  shows "wp (run_tx on_error m) (on_okay P) w"
  unfolding run_tx_def tx_begin_def
proof (rule wp_handle_write, goal_cases)
  case (1 e)
  with assms(2) show ?case by (simp add: on_okay_failed)
next
  case (2 a w1)
  then have w1: "txn w1 = Some (tabs w)" "tabs w1 = tabs w" "clock w1 = clock w" "ext w1 = ext w"
    by auto
  from w1 assms(1) have "wp m (\<lambda>r w'. txn w' = (if failed r then Some (tabs w) else None)) w1"
    by (simp add: tx_body_def)
  moreover from w1 assms(3) have "wp m (on_okay P) w1" by blast
  ultimately have "wp m (\<lambda>r w'. txn w' = (if failed r then Some (tabs w) else None) \<and> on_okay P r w') w1"
    by (simp add: wp_conj)
  then show ?case
    unfolding wp_defer_rollback by (rule wp_mono) (auto simp: on_okay_def P split: resp.splits)
qed

section \<open>Error responses that change nothing\<close>

definition atomic_act :: "'v resp act \<Rightarrow> bool" where
  "atomic_act m \<longleftrightarrow> (\<forall>w. txn w = None \<longrightarrow>
     wp m (\<lambda>r w'. txn w' = None \<and> (failed r \<longrightarrow> tabs w' = tabs w)) w)"

lemma atomic_actD:
  "atomic_act m \<Longrightarrow> txn w = None \<Longrightarrow> run_state m w = (Fail n msg, w') \<Longrightarrow>
     tabs w' = tabs w \<and> txn w' = None"
  unfolding atomic_act_def by (auto dest!: spec [of _ w] wpD)

lemma atomic_ret: "atomic_act (ret r)"
  by (simp add: atomic_act_def wp_simps)

lemma atomic_read:
  assumes "\<And>a. atomic_act (k a)"
  shows "atomic_act (handle (sql_read f) on_error k)"
  unfolding atomic_act_def
proof (intro allI impI wp_handle_read)
  fix w :: world and a
  assume "txn w = None"
  then have "txn (tock w) = None" by simp
  with assms [of a]
  have "wp (k a) (\<lambda>r w'. txn w' = None \<and> (failed r \<longrightarrow> tabs w' = tabs (tock w))) (tock w)"
    unfolding atomic_act_def by blast
  then show "wp (k a) (\<lambda>r w'. txn w' = None \<and> (failed r \<longrightarrow> tabs w' = tabs w)) (tock w)"
    by simp
qed auto

lemma atomic_write:
  assumes "keeps same_txn (sql_write f)" and "\<And>a. \<not> failed (k a)"
  shows "atomic_act (handle (sql_write f) on_error (\<lambda>a. ret (k a)))"
  unfolding atomic_act_def
proof (intro allI impI wp_sql_writeI)
  fix w :: world
  assume t: "txn w = None"
  obtain r w' where r: "run_state (sql_write f) w = (r, w')" by fastforce
  with assms(1) t have t': "txn w' = None" unfolding keeps_def same_txn_def by (metis snd_conv)
  have "tabs w' = tabs w" if "r = Inl e" for e
    using r that by (auto simp: run_sql_write split: outcome.splits sum.splits)
  with r t' assms(2)
  show "wp (handle (sql_write f) on_error (\<lambda>a. ret (k a)))
      (\<lambda>r w'. txn w' = None \<and> (failed r \<longrightarrow> tabs w' = tabs w)) w"
    by (auto simp: wp_def run_handle split: sum.split)
qed

lemma atomic_run_tx: "tx_body m \<Longrightarrow> (\<And>e. failed (on_error e)) \<Longrightarrow> atomic_act (run_tx on_error m)"
  unfolding atomic_act_def by (simp add: run_tx_atomic)

end
