(* ===== verification/Pagination.thy ===== *)
theory Pagination
  imports World "HOL-Library.Multiset"
begin

text \<open>
  Keyset pagination: the \<^verbatim>\<open>limit\<close> and \<^verbatim>\<open>cursor\<close> parameters
  (\<^verbatim>\<open>internal/server/pagination.go\<close>), the \<^verbatim>\<open>ORDER BY (ts, id) ... LIMIT n\<close> of
  the list statements in both directions, and the cursor of the next page. The locale
  \<open>keyset\<close> states what a list statement promises and proves that following the cursors
  visits every row exactly once, in order, whatever the page size.
\<close>

section \<open>The parameters\<close>

definition defaultPageLimit :: int where "defaultPageLimit = 50"
definition maxPageLimit :: int where "maxPageLimit = 100"

text \<open>
  \<^verbatim>\<open>strconv.Atoi\<close>: an optional sign and at least one digit, in the range of a 64-bit
  integer.
\<close>

definition digit_val :: "char \<Rightarrow> int option" where
  "digit_val c = (let n = (of_char c :: nat) in if 48 \<le> n \<and> n \<le> 57 then Some (int n - 48) else None)"

fun digits_val :: "int \<Rightarrow> string \<Rightarrow> int option" where
  "digits_val acc [] = Some acc"
| "digits_val acc (c # cs) = (case digit_val c of None \<Rightarrow> None | Some d \<Rightarrow> digits_val (10 * acc + d) cs)"

definition atoi :: "string \<Rightarrow> int option" where
  "atoi s =
     (let neg = (s \<noteq> [] \<and> hd s = CHR ''-'');
          body = (if s \<noteq> [] \<and> (hd s = CHR ''-'' \<or> hd s = CHR ''+'') then tl s else s)
      in if body = [] then None
         else case digits_val 0 body of
           None \<Rightarrow> None
         | Some n \<Rightarrow> (let v = (if neg then - n else n)
             in if - (2 ^ 63) \<le> v \<and> v < 2 ^ 63 then Some v else None))"

text \<open>The \<^verbatim>\<open>cursor\<close> parameter after \<^verbatim>\<open>cursor.Decode\<close>: absent, refused, or the
  sort key and id of the last row of the page before.\<close>

datatype cursor_param = NoCursor | BadCursor | CursorAt time uuid

record list_pagination =
  lp_cursor :: "(time \<times> uuid) option"
  lp_limit :: int

text \<open>\<^verbatim>\<open>r.URL.Query().Get("limit")\<close> is the empty string when the parameter is absent.\<close>

definition parseListPagination :: "string \<Rightarrow> cursor_param \<Rightarrow> string + list_pagination" where
  "parseListPagination limit cur =
     (case (if limit = [] then Some defaultPageLimit
            else case atoi limit of
              None \<Rightarrow> None
            | Some n \<Rightarrow> if n < 1 \<or> n > maxPageLimit then None else Some n) of
        None \<Rightarrow> Inl ''invalid limit''
      | Some n \<Rightarrow>
          (case cur of
             BadCursor \<Rightarrow> Inl ''invalid cursor''
           | NoCursor \<Rightarrow> Inr \<lparr>lp_cursor = None, lp_limit = n\<rparr>
           | CursorAt t i \<Rightarrow> Inr \<lparr>lp_cursor = Some (t, i), lp_limit = n\<rparr>))"

definition nextCursor :: "nat \<Rightarrow> int \<Rightarrow> (time \<times> uuid) \<Rightarrow> (time \<times> uuid) option" where
  "nextCursor pageSize requestedLimit k =
     (if pageSize = 0 \<or> int pageSize < requestedLimit then None else Some k)"

text \<open>The limit that reaches the database is always one the server allows.\<close>

lemma parseListPagination_limit:
  "parseListPagination limit cur = Inr p \<Longrightarrow> 1 \<le> lp_limit p \<and> lp_limit p \<le> maxPageLimit"
  by (auto simp: parseListPagination_def defaultPageLimit_def maxPageLimit_def
      split: if_splits option.splits cursor_param.splits)

section \<open>The list statements\<close>

definition keyset_desc :: "('r \<Rightarrow> time \<times> uuid) \<Rightarrow> (time \<times> uuid) option \<Rightarrow> nat \<Rightarrow> 'r list \<Rightarrow> 'r list" where
  "keyset_desc key cur n rows =
     take n (rev (sort_key key (filter (\<lambda>r. case cur of None \<Rightarrow> True | Some c \<Rightarrow> key r < c) rows)))"

definition keyset_asc :: "('r \<Rightarrow> time \<times> uuid) \<Rightarrow> (time \<times> uuid) option \<Rightarrow> nat \<Rightarrow> 'r list \<Rightarrow> 'r list" where
  "keyset_asc key cur n rows =
     take n (sort_key key (filter (\<lambda>r. case cur of None \<Rightarrow> True | Some c \<Rightarrow> c < key r) rows))"

section \<open>Walking the pages\<close>

locale keyset =
  fixes key :: "'r \<Rightarrow> 'k"
    and before :: "'k \<Rightarrow> 'k \<Rightarrow> bool"
    and listing :: "'r list \<Rightarrow> 'r list"
    and page :: "'k option \<Rightarrow> nat \<Rightarrow> 'r list \<Rightarrow> 'r list"
  assumes before_irrefl: "\<not> before k k"
    and before_trans: "before k l \<Longrightarrow> before l m \<Longrightarrow> before k m"
    and listing_sorted:
      "distinct (map key rows) \<Longrightarrow> sorted_wrt (\<lambda>r s. before (key r) (key s)) (listing rows)"
    and listing_mset: "mset (listing rows) = mset rows"
    and page_first: "page None n rows = take n (listing rows)"
    and page_next: "page (Some c) n rows = take n (filter (\<lambda>r. before c (key r)) (listing rows))"
begin

text \<open>The client: ask for a page, stop when it is short, else go on behind its last row.\<close>

fun walk :: "nat \<Rightarrow> 'k option \<Rightarrow> nat \<Rightarrow> 'r list \<Rightarrow> 'r list option" where
  "walk 0 cur n rows = None"
| "walk (Suc fuel) cur n rows =
     (let p = page cur n rows in
      if p = [] \<or> length p < n then Some p
      else map_option ((@) p) (walk fuel (Some (key (last p))) n rows))"

lemma length_listing: "length (listing rows) = length rows"
  using listing_mset mset_eq_length by blast

lemma behind_last:
  assumes "sorted_wrt (\<lambda>r s. before (key r) (key s)) xs" and "xs = ys @ r # zs"
  shows "filter (\<lambda>s. before (key r) (key s)) xs = zs"
proof -
  have "\<not> before (key r) (key y)" if "y \<in> set ys" for y
  proof
    assume "before (key r) (key y)"
    moreover have "before (key y) (key r)" using assms that by (simp add: sorted_wrt_append)
    ultimately show False using before_trans before_irrefl by blast
  qed
  then have "filter (\<lambda>s. before (key r) (key s)) ys = []" by (simp add: filter_empty_conv)
  moreover have "filter (\<lambda>s. before (key r) (key s)) zs = zs"
    using assms by (auto simp: sorted_wrt_append intro: filter_True)
  ultimately show ?thesis using assms(2) before_irrefl by simp
qed

text \<open>From a position of the listing, the walk returns exactly what is left.\<close>

lemma walk_rest:
  assumes "distinct (map key rows)" and "0 < n"
  shows "(case cur of None \<Rightarrow> listing rows = zs
     | Some c \<Rightarrow> \<exists>ys r. listing rows = ys @ r # zs \<and> key r = c) \<Longrightarrow>
     length zs div n < fuel \<Longrightarrow> walk fuel cur n rows = Some zs"
proof (induction fuel arbitrary: cur zs)
  case 0
  then show ?case by simp
next
  case (Suc fuel)
  have sorted: "sorted_wrt (\<lambda>r s. before (key r) (key s)) (listing rows)"
    by (rule listing_sorted) (rule assms(1))
  have p: "page cur n rows = take n zs"
    using Suc.prems(1) behind_last [OF sorted] by (auto simp: page_first page_next split: option.splits)
  show ?case
  proof (cases "length zs < n")
    case True
    then show ?thesis by (simp add: p Let_def)
  next
    case False
    with \<open>0 < n\<close> have ne: "take n zs \<noteq> []" by auto
    from False \<open>0 < n\<close> have split: "zs = butlast (take n zs) @ last (take n zs) # drop n zs"
      by (metis append_take_drop_id append_butlast_last_id append_assoc append_Cons append_Nil ne)
    obtain pre where pre: "listing rows = pre @ zs"
    proof (cases cur)
      case None
      with Suc.prems(1) that [of "[]"] show ?thesis by simp
    next
      case (Some c)
      with Suc.prems(1) obtain ys r where "listing rows = ys @ r # zs" by auto
      with that [of "ys @ [r]"] show ?thesis by simp
    qed
    have "\<exists>ys r. listing rows = ys @ r # drop n zs \<and> key r = key (last (take n zs))"
      using pre split by (metis append_assoc)
    moreover have "length (drop n zs) div n < fuel"
      using Suc.prems(2) False \<open>0 < n\<close> by (simp add: le_div_geq)
    ultimately have "walk fuel (Some (key (last (take n zs)))) n rows = Some (drop n zs)"
      by (intro Suc.IH) auto
    with False ne show ?thesis by (simp add: p Let_def)
  qed
qed

theorem walk_complete:
  assumes "distinct (map key rows)" and "0 < n" and "length rows div n < fuel"
  shows "walk fuel None n rows = Some (listing rows)"
  by (rule walk_rest) (use assms in \<open>simp_all add: length_listing\<close>)

lemma page_subset: "set (page cur n rows) \<subseteq> set rows"
proof -
  have "set (listing rows) = set rows" using listing_mset by (metis set_mset_mset)
  moreover have "set (take n (filter P (listing rows))) \<subseteq> set (listing rows)" for P
    by (meson filter_is_subset set_take_subset subset_trans)
  moreover have "set (take n (listing rows)) \<subseteq> set (listing rows)" by (rule set_take_subset)
  ultimately show ?thesis
    by (cases cur) (auto simp: page_first page_next)
qed

lemma page_length: "length (page cur n rows) \<le> n"
  by (cases cur) (auto simp: page_first page_next)

end

section \<open>Both directions are keyset listings\<close>

lemma sorted_wrt_less_sort_key:
  assumes "distinct (map key rows)"
  shows "sorted_wrt (\<lambda>r s. (key r :: 'k::linorder) < key s) (sort_key key rows)"
proof -
  have "distinct (map key (sort_key key rows))"
    using assms by (metis distinct_map distinct_sort set_sort)
  moreover have "sorted (map key (sort_key key rows))" by (rule sorted_sort_key)
  ultimately have "sorted_wrt (<) (map key (sort_key key rows))" by (simp add: strict_sorted_iff)
  then show ?thesis by (simp add: sorted_wrt_map)
qed

lemma filter_rev_sort_key: "filter P (rev (sort_key key rows)) = rev (sort_key key (filter P rows))"
  by (simp add: filter_sort rev_filter flip: rev_filter)

interpretation asc: keyset key "(<)" "sort_key key" "keyset_asc key"
  for key :: "'r \<Rightarrow> time \<times> uuid"
  by unfold_locales
    (auto simp: keyset_asc_def filter_sort sorted_wrt_less_sort_key)

interpretation desc: keyset key "(>)" "\<lambda>rows. rev (sort_key key rows)" "keyset_desc key"
  for key :: "'r \<Rightarrow> time \<times> uuid"
  by unfold_locales
    (auto simp: keyset_desc_def filter_rev_sort_key sorted_wrt_rev sorted_wrt_less_sort_key)

end
