(* ===== verification/RecipeSql.thy ===== *)
theory RecipeSql
  imports Sql Pagination
begin

text \<open>
  The statements of \<^verbatim>\<open>internal/queries/recipes.sql.go\<close> (text in
  \<^verbatim>\<open>internal/queries/sql/recipes.sql\<close>) on the tables of recipes, ingredients,
  revisions, comments and likes, with the casts, keys and foreign keys of
  \<^verbatim>\<open>migrations/0001_init.sql\<close>.
\<close>

section \<open>Recipes\<close>

record targets =
  tg_og :: "rat option"
  tg_fg :: "rat option"
  tg_abv :: "rat option"
  tg_batch_size :: "rat option"

text \<open>\<^verbatim>\<open>target_og, target_fg NUMERIC(5,3), target_abv NUMERIC(4,2), batch_size_l NUMERIC(6,2)\<close>.\<close>

definition cast_targets :: "targets \<Rightarrow> dberr + targets" where
  "cast_targets t =
     (case num_cast 5 3 (tg_og t) of Inl e \<Rightarrow> Inl e | Inr og \<Rightarrow>
      case num_cast 5 3 (tg_fg t) of Inl e \<Rightarrow> Inl e | Inr fg \<Rightarrow>
      case num_cast 4 2 (tg_abv t) of Inl e \<Rightarrow> Inl e | Inr abv \<Rightarrow>
      case num_cast 6 2 (tg_batch_size t) of Inl e \<Rightarrow> Inl e | Inr bs \<Rightarrow>
        Inr \<lparr>tg_og = og, tg_fg = fg, tg_abv = abv, tg_batch_size = bs\<rparr>)"

definition recipe_targets :: "recipe \<Rightarrow> targets" where
  "recipe_targets r = \<lparr>tg_og = rc_target_og r, tg_fg = rc_target_fg r, tg_abv = rc_target_abv r,
     tg_batch_size = rc_batch_size_l r\<rparr>"

record create_recipe_params =
  cr_author :: uuid
  cr_brew_type :: string
  cr_name :: string
  cr_style :: nulltext
  cr_description :: nulltext
  cr_targets :: targets
  cr_visibility :: string

definition CreateRecipeDraft :: "create_recipe_params \<Rightarrow> recipe stmt" where
  "CreateRecipeDraft p = sql_write (\<lambda>w.
     case (brew_type_of (cr_brew_type p), visibility_of (cr_visibility p)) of
       (Some bt, Some vi) \<Rightarrow>
         (case cast_targets (cr_targets p) of
            Inl e \<Rightarrow> Inl e
          | Inr t \<Rightarrow>
              (let (i, w1) = gen_uuid w in
               sql_insert recipes put_recipes rc_id (refers u_id (users (tabs w)) (cr_author p))
                 \<lparr>rc_id = i, rc_author = cr_author p, rc_parent = None, rc_parent_revision = None,
                  rc_current_revision = None, rc_revision_count = 0, rc_fork_count = 0,
                  rc_brew_type = bt, rc_style = cr_style p, rc_name = cr_name p,
                  rc_description = cr_description p, rc_target_og = tg_og t, rc_target_fg = tg_fg t,
                  rc_target_abv = tg_abv t, rc_batch_size_l = tg_batch_size t, rc_visibility = vi,
                  rc_created_at = clock w, rc_updated_at = clock w\<rparr> w1))
     | _ \<Rightarrow> Inl InvalidText)"

record fork_params =
  fk_author :: uuid
  fk_parent :: "uuid option"
  fk_parent_revision :: "uuid option"
  fk_brew_type :: brew_type
  fk_name :: string
  fk_style :: nulltext
  fk_description :: nulltext
  fk_targets :: targets
  fk_visibility :: visibility

definition CreateForkedRecipe :: "fork_params \<Rightarrow> recipe stmt" where
  "CreateForkedRecipe p = sql_write (\<lambda>w.
     case cast_targets (fk_targets p) of
       Inl e \<Rightarrow> Inl e
     | Inr t \<Rightarrow>
         (let (i, w1) = gen_uuid w; d = tabs w in
          sql_insert recipes put_recipes rc_id
            (refers u_id (users d) (fk_author p) \<and> refers_opt rc_id (recipes d) (fk_parent p) \<and>
             refers_opt rv_id (revisions d) (fk_parent_revision p))
            \<lparr>rc_id = i, rc_author = fk_author p, rc_parent = fk_parent p,
             rc_parent_revision = fk_parent_revision p, rc_current_revision = None,
             rc_revision_count = 0, rc_fork_count = 0, rc_brew_type = fk_brew_type p,
             rc_style = fk_style p, rc_name = fk_name p, rc_description = fk_description p,
             rc_target_og = tg_og t, rc_target_fg = tg_fg t, rc_target_abv = tg_abv t,
             rc_batch_size_l = tg_batch_size t, rc_visibility = fk_visibility p,
             rc_created_at = clock w, rc_updated_at = clock w\<rparr> w1))"

definition set_revision :: "uuid option \<Rightarrow> time \<Rightarrow> recipe \<Rightarrow> recipe" where
  "set_revision rv now r = r\<lparr>rc_current_revision := rv,
     rc_revision_count := rc_revision_count r + 1, rc_updated_at := now\<rparr>"

definition SetRecipeRevision :: "uuid \<Rightarrow> uuid option \<Rightarrow> recipe stmt" where
  "SetRecipeRevision i rv = sql_write (\<lambda>w.
     if \<not> refers_opt rv_id (revisions (tabs w)) rv \<and> refers rc_id (recipes (tabs w)) i
     then Inl ForeignKeyViolation
     else sql_update recipes put_recipes (\<lambda>r. rc_id r = i) (set_revision rv (clock w)) w)"

record update_recipe_params =
  um_id :: uuid
  um_author :: uuid
  um_name :: nulltext
  um_style :: nulltext
  um_description :: nulltext
  um_targets :: targets
  um_visibility :: "string option"

definition own_recipe :: "uuid \<Rightarrow> uuid \<Rightarrow> recipe \<Rightarrow> bool" where
  "own_recipe i u r \<longleftrightarrow> rc_id r = i \<and> rc_author r = u"

definition update_meta :: "update_recipe_params \<Rightarrow> targets \<Rightarrow> visibility option \<Rightarrow> time \<Rightarrow> recipe \<Rightarrow> recipe" where
  "update_meta p t vi now r = r\<lparr>rc_name := coalesce (um_name p) (rc_name r),
     rc_style := coalesce_opt (um_style p) (rc_style r),
     rc_description := coalesce_opt (um_description p) (rc_description r),
     rc_target_og := coalesce_opt (tg_og t) (rc_target_og r),
     rc_target_fg := coalesce_opt (tg_fg t) (rc_target_fg r),
     rc_target_abv := coalesce_opt (tg_abv t) (rc_target_abv r),
     rc_batch_size_l := coalesce_opt (tg_batch_size t) (rc_batch_size_l r),
     rc_visibility := coalesce vi (rc_visibility r), rc_updated_at := now\<rparr>"

text \<open>
  The label is cast before the row is looked for; the numbers when the row is written, so an
  update of no row never overflows.
\<close>

definition UpdateRecipeMeta :: "update_recipe_params \<Rightarrow> recipe stmt" where
  "UpdateRecipeMeta p = sql_write (\<lambda>w.
     case opt_enum visibility_of (um_visibility p) of
       Inl e \<Rightarrow> Inl e
     | Inr vi \<Rightarrow>
         if \<not> exists_where (own_recipe (um_id p) (um_author p)) (recipes (tabs w)) then Inl NoRows
         else (case cast_targets (um_targets p) of
                 Inl e \<Rightarrow> Inl e
               | Inr t \<Rightarrow> sql_update recipes put_recipes (own_recipe (um_id p) (um_author p))
                            (update_meta p t vi (clock w)) w))"

definition IncrementForkCount :: "uuid \<Rightarrow> unit stmt" where
  "IncrementForkCount i = sql_write (\<lambda>w. let d = tabs w in
     Inr ((), set_tabs (d\<lparr>recipes := upd_where (\<lambda>r. rc_id r = i)
       (\<lambda>r. r\<lparr>rc_fork_count := rc_fork_count r + 1, rc_updated_at := clock w\<rparr>) (recipes d)\<rparr>) w))"

definition GetRecipeByID :: "uuid \<Rightarrow> recipe stmt" where
  "GetRecipeByID i = sql_read (\<lambda>w. one (find_where (\<lambda>r. rc_id r = i) (recipes (tabs w))))"

definition recipe_key :: "recipe \<Rightarrow> time \<times> uuid" where
  "recipe_key r = (rc_updated_at r, rc_id r)"

definition ListPublicRecipes :: "(time \<times> uuid) option \<Rightarrow> nat \<Rightarrow> recipe list stmt" where
  "ListPublicRecipes cur n = sql_read (\<lambda>w. Inr (keyset_desc recipe_key cur n
     (filter (\<lambda>r. rc_visibility r = Public) (recipes (tabs w)))))"

definition ListRecipesForAuthor :: "uuid \<Rightarrow> (time \<times> uuid) option \<Rightarrow> nat \<Rightarrow> recipe list stmt" where
  "ListRecipesForAuthor u cur n = sql_read (\<lambda>w. Inr (keyset_desc recipe_key cur n
     (filter (\<lambda>r. rc_author r = u) (recipes (tabs w)))))"

definition ListAllRecipesForAuthor :: "uuid \<Rightarrow> recipe list stmt" where
  "ListAllRecipesForAuthor u = sql_read (\<lambda>w.
     Inr (sort_key rc_created_at (filter (\<lambda>r. rc_author r = u) (recipes (tabs w)))))"

text \<open>
  \<^verbatim>\<open>DELETE FROM recipes\<close>: the rows that hang on the recipe go with it, the references that
  allow it become null, and one that does neither (a batch pinned to one of its revisions, a fork
  of one, a reminder made from one of its templates) refuses the deletion.
\<close>

definition recipe_pinned :: "uuid \<Rightarrow> db \<Rightarrow> bool" where
  "recipe_pinned i d \<longleftrightarrow>
     (let revs = map rv_id (filter (\<lambda>r. rv_recipe r = i) (revisions d));
          tps = map tp_id (filter (\<lambda>t. tp_recipe t = i) (templates d))
      in exists_where (\<lambda>b. case b_recipe_revision b of None \<Rightarrow> False | Some r \<Rightarrow> r \<in> set revs) (batches d) \<or>
         exists_where (\<lambda>c. rc_id c \<noteq> i \<and>
           (case rc_parent_revision c of None \<Rightarrow> False | Some r \<Rightarrow> r \<in> set revs)) (recipes d) \<or>
         exists_where (\<lambda>m. case rm_template m of None \<Rightarrow> False | Some t \<Rightarrow> t \<in> set tps) (reminders d))"

definition drop_recipe :: "uuid \<Rightarrow> db \<Rightarrow> db" where
  "drop_recipe i d = d\<lparr>
     recipes := upd_where (\<lambda>r. rc_parent r = Some i) (\<lambda>r. r\<lparr>rc_parent := None\<rparr>)
                  (del_where (\<lambda>r. rc_id r = i) (recipes d)),
     ingredients := del_where (\<lambda>g. ri_recipe g = i) (ingredients d),
     revisions := del_where (\<lambda>r. rv_recipe r = i) (revisions d),
     comments := del_where (\<lambda>c. cm_recipe c = i) (comments d),
     likes := del_where (\<lambda>l. lk_recipe l = i) (likes d),
     templates := del_where (\<lambda>t. tp_recipe t = i) (templates d),
     batches := upd_where (\<lambda>b. b_recipe b = Some i) (\<lambda>b. b\<lparr>b_recipe := None\<rparr>) (batches d)\<rparr>"

definition DeleteRecipe :: "uuid \<Rightarrow> uuid \<Rightarrow> nat stmt" where
  "DeleteRecipe i u = sql_write (\<lambda>w.
     if \<not> exists_where (own_recipe i u) (recipes (tabs w)) then Inr (0, w)
     else if recipe_pinned i (tabs w) then Inl ForeignKeyViolation
     else Inr (count_where (own_recipe i u) (recipes (tabs w)), set_tabs (drop_recipe i (tabs w)) w))"

section \<open>Ingredients\<close>

record ingredient_params =
  ip_recipe :: uuid
  ip_kind :: string
  ip_name :: string
  ip_amount :: "rat option"
  ip_unit :: nulltext
  ip_sort_order :: int
  ip_details :: jsonraw

definition CreateRecipeIngredient :: "ingredient_params \<Rightarrow> ingredient stmt" where
  "CreateRecipeIngredient p = sql_write (\<lambda>w.
     case ingredient_kind_of (ip_kind p) of
       None \<Rightarrow> Inl InvalidText
     | Some k \<Rightarrow>
         (case num_cast 10 3 (ip_amount p) of
            Inl e \<Rightarrow> Inl e
          | Inr a \<Rightarrow>
              (let (i, w1) = gen_uuid w in
               sql_insert ingredients put_ingredients ri_id
                 (refers rc_id (recipes (tabs w)) (ip_recipe p))
                 \<lparr>ri_id = i, ri_recipe = ip_recipe p, ri_kind = k, ri_name = ip_name p,
                  ri_amount = a, ri_unit = ip_unit p, ri_sort_order = ip_sort_order p,
                  ri_details = ip_details p\<rparr> w1)))"

definition DeleteRecipeIngredients :: "uuid \<Rightarrow> unit stmt" where
  "DeleteRecipeIngredients i = sql_write (\<lambda>w. let d = tabs w in
     Inr ((), set_tabs (d\<lparr>ingredients := del_where (\<lambda>g. ri_recipe g = i) (ingredients d)\<rparr>) w))"

definition ListRecipeIngredients :: "uuid \<Rightarrow> ingredient list stmt" where
  "ListRecipeIngredients i = sql_read (\<lambda>w.
     Inr (sort_key (\<lambda>g. (ri_sort_order g, ri_id g))
            (filter (\<lambda>g. ri_recipe g = i) (ingredients (tabs w)))))"

section \<open>Revisions\<close>

record revision_params =
  rp_recipe :: uuid
  rp_number :: int
  rp_author :: uuid
  rp_message :: nulltext
  rp_name :: string
  rp_style :: nulltext
  rp_description :: nulltext
  rp_targets :: targets
  rp_ingredients :: "ingredient_snap list"

definition insert_revision :: "revision_params \<Rightarrow> world \<Rightarrow> dberr + (revision \<times> world)" where
  "insert_revision p w =
     (case cast_targets (rp_targets p) of
       Inl e \<Rightarrow> Inl e
     | Inr t \<Rightarrow>
         (let (i, w1) = gen_uuid w; d = tabs w in
          if refers (\<lambda>r. (rv_recipe r, rv_number r)) (revisions d) (rp_recipe p, rp_number p)
          then Inl UniqueViolation
          else sql_insert revisions put_revisions rv_id
            (refers rc_id (recipes d) (rp_recipe p) \<and> refers u_id (users d) (rp_author p))
            \<lparr>rv_id = i, rv_recipe = rp_recipe p, rv_number = rp_number p, rv_author = rp_author p,
             rv_message = rp_message p, rv_name = rp_name p, rv_description = rp_description p,
             rv_style = rp_style p, rv_target_og = tg_og t, rv_target_fg = tg_fg t,
             rv_target_abv = tg_abv t, rv_batch_size_l = tg_batch_size t,
             rv_ingredients = rp_ingredients p, rv_created_at = clock w\<rparr> w1))"

definition CreateRecipeRevision :: "revision_params \<Rightarrow> revision stmt" where
  "CreateRecipeRevision p = sql_write (insert_revision p)"

definition GetRevisionByID :: "uuid \<Rightarrow> revision stmt" where
  "GetRevisionByID i = sql_read (\<lambda>w. one (find_where (\<lambda>r. rv_id r = i) (revisions (tabs w))))"

definition GetRecipeRevisionByNumber :: "uuid \<Rightarrow> int \<Rightarrow> revision stmt" where
  "GetRecipeRevisionByNumber i n = sql_read (\<lambda>w.
     one (find_where (\<lambda>r. rv_recipe r = i \<and> rv_number r = n) (revisions (tabs w))))"

definition ListRecipeRevisions :: "uuid \<Rightarrow> revision list stmt" where
  "ListRecipeRevisions i = sql_read (\<lambda>w.
     Inr (rev (sort_key rv_number (filter (\<lambda>r. rv_recipe r = i) (revisions (tabs w))))))"

section \<open>Comments and likes\<close>

definition CreateRecipeComment :: "uuid \<Rightarrow> uuid \<Rightarrow> string \<Rightarrow> comment stmt" where
  "CreateRecipeComment rc u body = sql_write (\<lambda>w.
     let (i, w1) = gen_uuid w; d = tabs w in
     sql_insert comments put_comments cm_id
       (refers rc_id (recipes d) rc \<and> refers u_id (users d) u)
       \<lparr>cm_id = i, cm_recipe = rc, cm_author = u, cm_body = body, cm_created_at = clock w\<rparr> w1)"

text \<open>The join drops a comment whose author is gone; a row is the comment and the username.\<close>

definition ListRecipeComments ::
    "uuid \<Rightarrow> (time \<times> uuid) option \<Rightarrow> nat \<Rightarrow> (comment \<times> string) list stmt" where
  "ListRecipeComments i cur n = sql_read (\<lambda>w. let d = tabs w in
     Inr (keyset_asc (\<lambda>(c, n). (cm_created_at c, cm_id c)) cur n
       (List.map_filter (\<lambda>c. if cm_recipe c = i
          then map_option (\<lambda>u. (c, u_username u)) (find_where (\<lambda>u. u_id u = cm_author c) (users d))
          else None) (comments d))))"

definition own_comment :: "uuid \<Rightarrow> uuid \<Rightarrow> comment \<Rightarrow> bool" where
  "own_comment i u c \<longleftrightarrow> cm_id c = i \<and> cm_author c = u"

definition DeleteRecipeComment :: "uuid \<Rightarrow> uuid \<Rightarrow> nat stmt" where
  "DeleteRecipeComment i u = sql_write (sql_delete comments put_comments (own_comment i u))"

text \<open>\<^verbatim>\<open>ON CONFLICT DO NOTHING\<close> on the key (user, recipe).\<close>

definition LikeRecipe :: "uuid \<Rightarrow> uuid \<Rightarrow> unit stmt" where
  "LikeRecipe u i = sql_write (\<lambda>w. let d = tabs w in
     if exists_where (\<lambda>l. lk_user l = u \<and> lk_recipe l = i) (likes d) then Inr ((), w)
     else if \<not> (refers u_id (users d) u \<and> refers rc_id (recipes d) i) then Inl ForeignKeyViolation
     else Inr ((), set_tabs (d\<lparr>likes := likes d @
       [\<lparr>lk_user = u, lk_recipe = i, lk_created_at = clock w\<rparr>]\<rparr>) w))"

definition UnlikeRecipe :: "uuid \<Rightarrow> uuid \<Rightarrow> unit stmt" where
  "UnlikeRecipe u i = sql_write (\<lambda>w. let d = tabs w in
     Inr ((), set_tabs (d\<lparr>likes := del_where (\<lambda>l. lk_user l = u \<and> lk_recipe l = i) (likes d)\<rparr>) w))"

text \<open>Recipes and comments are selected by id and author.\<close>

interpretation own_recipes: owner_scoped rc_id rc_author
  "\<lambda>i u. find_where (own_recipe i u)" "\<lambda>f i u. upd_where (own_recipe i u) f"
  "\<lambda>i u. del_where (own_recipe i u)"
  by unfold_locales (auto simp: own_recipe_def upd_where_def del_where_def find_where_None
      dest: find_where_Some)

interpretation own_comments: owner_scoped cm_id cm_author
  "\<lambda>i u. find_where (own_comment i u)" "\<lambda>f i u. upd_where (own_comment i u) f"
  "\<lambda>i u. del_where (own_comment i u)"
  by unfold_locales (auto simp: own_comment_def upd_where_def del_where_def find_where_None
      dest: find_where_Some)

end
