(* ===== verification/Recipes.thy ===== *)
theory Recipes
  imports RecipeSql Demo
begin

text \<open>
  The recipe endpoints of \<^verbatim>\<open>internal/server/recipes.go\<close>: create, read, update, delete and
  fork in the order of the file, with validation, transactions, revisions, comments and likes. A
  handler takes the user of the request (an option where the endpoint is public), the path
  parameters (\<open>None\<close> when they do not parse) and the decoded body (\<open>None\<close> when the JSON
  does not decode). A number of a request is the decimal it prints as.
\<close>

section \<open>Limits\<close>

definition maxRecipeName :: nat where "maxRecipeName = 200"
definition maxRecipeDesc :: nat where "maxRecipeDesc = 10 * 1024"
definition maxRecipeStyle :: nat where "maxRecipeStyle = 100"
definition maxIngredients :: nat where "maxIngredients = 50"
definition maxIngredName :: nat where "maxIngredName = 200"
definition maxCommentBody :: nat where "maxCommentBody = 10 * 1024"
definition defaultBrewType :: string where "defaultBrewType = ''mead''"
definition allowedBrewTypes :: "string list" where
  "allowedBrewTypes = [''mead'', ''cider'', ''wine'']"
definition unsupportedBrewTypeMsg :: string where
  "unsupportedBrewTypeMsg = ''brew_type must be one of: mead, cider, wine''"

section \<open>Views\<close>

text \<open>The time format of the recipe views keeps whole seconds.\<close>

definition fmt_seconds :: "time \<Rightarrow> int" where
  "fmt_seconds t = t div 1000000"

record ingredient_view =
  gv_id :: uuid
  gv_kind :: string
  gv_name :: string
  gv_amount :: "rat option"
  gv_unit :: string
  gv_sort_order :: int
  gv_details :: jsonraw

definition details_or_empty :: "jsonraw \<Rightarrow> jsonraw" where
  "details_or_empty d = (if d = [] then ''{}'' else d)"

definition toIngredientView :: "ingredient \<Rightarrow> ingredient_view" where
  "toIngredientView g = \<lparr>gv_id = ri_id g, gv_kind = ingredient_kind_str (ri_kind g),
     gv_name = ri_name g, gv_amount = ri_amount g, gv_unit = textOrEmpty (ri_unit g),
     gv_sort_order = ri_sort_order g, gv_details = details_or_empty (ri_details g)\<rparr>"

record recipe_item_view =
  rl_id :: uuid
  rl_author :: uuid
  rl_parent :: "uuid option"
  rl_revision_count :: int
  rl_fork_count :: int
  rl_brew_type :: string
  rl_style :: string
  rl_name :: string
  rl_description :: string
  rl_targets :: targets
  rl_visibility :: string
  rl_updated_at :: int

definition toRecipeListItem :: "recipe \<Rightarrow> recipe_item_view" where
  "toRecipeListItem r = \<lparr>rl_id = rc_id r, rl_author = rc_author r, rl_parent = rc_parent r,
     rl_revision_count = rc_revision_count r, rl_fork_count = rc_fork_count r,
     rl_brew_type = brew_type_str (rc_brew_type r), rl_style = textOrEmpty (rc_style r),
     rl_name = rc_name r, rl_description = textOrEmpty (rc_description r),
     rl_targets = recipe_targets r, rl_visibility = visibility_str (rc_visibility r),
     rl_updated_at = fmt_seconds (rc_updated_at r)\<rparr>"

text \<open>\<^verbatim>\<open>recipeView\<close>: the fields of the list item and those of its revision.\<close>

record recipe_view = recipe_item_view +
  rw_revision_number :: int
  rw_message :: string
  rw_ingredients :: "ingredient_view list"
  rw_created_at :: int

definition toRecipeView :: "recipe \<Rightarrow> revision \<Rightarrow> ingredient list \<Rightarrow> recipe_view" where
  "toRecipeView r v ings = \<lparr>rl_id = rc_id r, rl_author = rc_author r, rl_parent = rc_parent r,
     rl_revision_count = rc_revision_count r, rl_fork_count = rc_fork_count r,
     rl_brew_type = brew_type_str (rc_brew_type r), rl_style = textOrEmpty (rc_style r),
     rl_name = rc_name r, rl_description = textOrEmpty (rc_description r),
     rl_targets = recipe_targets r, rl_visibility = visibility_str (rc_visibility r),
     rl_updated_at = fmt_seconds (rc_updated_at r), rw_revision_number = rv_number v,
     rw_message = textOrEmpty (rv_message v), rw_ingredients = map toIngredientView ings,
     rw_created_at = fmt_seconds (rc_created_at r)\<rparr>"

record revision_summary_view =
  rs_id :: uuid
  rs_number :: int
  rs_author :: uuid
  rs_message :: string
  rs_created_at :: int

definition toRevisionSummary :: "revision \<Rightarrow> revision_summary_view" where
  "toRevisionSummary v = \<lparr>rs_id = rv_id v, rs_number = rv_number v, rs_author = rv_author v,
     rs_message = textOrEmpty (rv_message v), rs_created_at = fmt_seconds (rv_created_at v)\<rparr>"

record revision_detail_view = revision_summary_view +
  rdv_name :: string
  rdv_style :: string
  rdv_description :: string
  rdv_targets :: targets
  rdv_ingredients :: "ingredient_snap list"

definition revision_targets :: "revision \<Rightarrow> targets" where
  "revision_targets v = \<lparr>tg_og = rv_target_og v, tg_fg = rv_target_fg v, tg_abv = rv_target_abv v,
     tg_batch_size = rv_batch_size_l v\<rparr>"

definition toRevisionDetail :: "revision \<Rightarrow> revision_detail_view" where
  "toRevisionDetail v = \<lparr>rs_id = rv_id v, rs_number = rv_number v, rs_author = rv_author v,
     rs_message = textOrEmpty (rv_message v), rs_created_at = fmt_seconds (rv_created_at v),
     rdv_name = rv_name v, rdv_style = textOrEmpty (rv_style v),
     rdv_description = textOrEmpty (rv_description v), rdv_targets = revision_targets v,
     rdv_ingredients = rv_ingredients v\<rparr>"

record comment_view =
  cv_id :: uuid
  cv_recipe :: uuid
  cv_author :: uuid
  cv_username :: string
  cv_body :: string
  cv_created_at :: int

definition toCommentView :: "comment \<Rightarrow> string \<Rightarrow> comment_view" where
  "toCommentView c n = \<lparr>cv_id = cm_id c, cv_recipe = cm_recipe c, cv_author = cm_author c,
     cv_username = n, cv_body = cm_body c, cv_created_at = fmt_seconds (cm_created_at c)\<rparr>"

text \<open>\<^verbatim>\<open>buildSnapshot\<close>: empty details and an absent unit are left out of the JSON.\<close>

definition snapshot_of :: "ingredient \<Rightarrow> ingredient_snap" where
  "snapshot_of g = \<lparr>sn_kind = ingredient_kind_str (ri_kind g), sn_name = ri_name g,
     sn_amount = ri_amount g, sn_unit = textOrEmpty (ri_unit g), sn_sort_order = ri_sort_order g,
     sn_details = (if ri_details g = [] then None else Some (ri_details g))\<rparr>"

definition buildSnapshot :: "ingredient list \<Rightarrow> ingredient_snap list" where
  "buildSnapshot ings = map snapshot_of ings"

section \<open>Requests and validation\<close>

record ingredient_input =
  in_kind :: string
  in_name :: string
  in_amount :: "rat option"
  in_unit :: string
  in_sort_order :: int
  in_details :: jsonraw

record create_recipe_request =
  qr_name :: string
  qr_brew_type :: string
  qr_style :: string
  qr_description :: string
  qr_targets :: targets
  qr_visibility :: string
  qr_message :: string
  qr_ingredients :: "ingredient_input list"

record fork_recipe_request =
  qf_name :: "string option"
  qf_message :: "string option"

record update_recipe_request =
  qu_name :: "string option"
  qu_style :: "string option"
  qu_description :: "string option"
  qu_targets :: targets
  qu_visibility :: "string option"
  qu_message :: "string option"
  qu_ingredients :: "ingredient_input list option"

text \<open>
  A raw value that the decoder let through is valid JSON, so \<^verbatim>\<open>json.Valid\<close> holds of it and
  what is left of the test is its first character.
\<close>

definition details_ok :: "jsonraw \<Rightarrow> bool" where
  "details_ok d \<longleftrightarrow> d = [] \<or> hd d = CHR ''{''"

fun digits_of :: "nat \<Rightarrow> string" where
  "digits_of n = (if n < 10 then [char_of (48 + n)] else digits_of (n div 10) @ [char_of (48 + n mod 10)])"

fun ingredient_errors :: "nat \<Rightarrow> ingredient_input list \<Rightarrow> string" where
  "ingredient_errors i [] = []"
| "ingredient_errors i (g # gs) =
     (if in_kind g = [] then ''ingredient['' @ digits_of i @ ''].kind required''
      else if in_name g = [] \<or> length (in_name g) > maxIngredName
      then ''ingredient['' @ digits_of i @ ''].name required (max 200 chars)''
      else if \<not> details_ok (in_details g)
      then ''ingredient['' @ digits_of i @ ''].details must be a JSON object''
      else ingredient_errors (Suc i) gs)"

definition validateIngredients :: "ingredient_input list \<Rightarrow> string" where
  "validateIngredients gs =
     (if length gs > maxIngredients then ''too many ingredients (max 50)'' else ingredient_errors 0 gs)"

definition recipeVisibleTo :: "recipe \<Rightarrow> user option \<Rightarrow> bool" where
  "recipeVisibleTo r viewer \<longleftrightarrow>
     rc_visibility r \<noteq> Private \<or> (case viewer of None \<Rightarrow> False | Some u \<Rightarrow> rc_author r = u_id u)"

definition fetch_error :: "dberr \<Rightarrow> 'v resp" where
  "fetch_error e = (if e = NoRows then Fail 404 ''not found'' else Fail 500 ''fetch failed'')"

section \<open>Ingredients of a recipe\<close>

definition ingredient_param :: "uuid \<Rightarrow> ingredient_input \<Rightarrow> ingredient_params" where
  "ingredient_param rid g = \<lparr>ip_recipe = rid, ip_kind = in_kind g, ip_name = in_name g,
     ip_amount = in_amount g, ip_unit = optText (in_unit g), ip_sort_order = in_sort_order g,
     ip_details = (if in_details g = [] then ''{}'' else in_details g)\<rparr>"

fun insertIngredients :: "uuid \<Rightarrow> ingredient_input list \<Rightarrow> ingredient list stmt" where
  "insertIngredients rid [] = ret (Inr [])"
| "insertIngredients rid (g # gs) = do {
     r \<leftarrow> CreateRecipeIngredient (ingredient_param rid g);
     case r of
       Inl e \<Rightarrow> ret (Inl e)
     | Inr row \<Rightarrow> do {
         rs \<leftarrow> insertIngredients rid gs;
         ret (case rs of Inl e \<Rightarrow> Inl e | Inr rows \<Rightarrow> Inr (row # rows)) } }"

text \<open>The parameters of a revision of the recipe as it stands.\<close>

definition revision_param ::
    "recipe \<Rightarrow> int \<Rightarrow> uuid \<Rightarrow> nulltext \<Rightarrow> ingredient list \<Rightarrow> revision_params" where
  "revision_param r n u msg ings = \<lparr>rp_recipe = rc_id r, rp_number = n, rp_author = u,
     rp_message = msg, rp_name = rc_name r, rp_style = rc_style r,
     rp_description = rc_description r, rp_targets = recipe_targets r,
     rp_ingredients = buildSnapshot ings\<rparr>"

text \<open>
  The tail the three writing handlers share: the revision row, the pointer to it, the commit.
\<close>

definition finish_revision ::
    "nat \<Rightarrow> string \<Rightarrow> recipe \<Rightarrow> int \<Rightarrow> uuid \<Rightarrow> nulltext \<Rightarrow> ingredient list \<Rightarrow> recipe_view resp act" where
  "finish_revision code msg r n u m ings =
     handle (CreateRecipeRevision (revision_param r n u m ings)) (\<lambda>e. Fail 500 msg) (\<lambda>rv.
     handle (SetRecipeRevision (rc_id r) (Some (rv_id rv))) (\<lambda>e. Fail 500 msg) (\<lambda>r'.
     handle tx_commit (\<lambda>e. Fail 500 msg) (\<lambda>_.
       ret (Okay code (toRecipeView r' rv ings)))))"

section \<open>Create\<close>

text \<open>The checks and defaults of the request, before the transaction.\<close>

definition check_create_recipe :: "create_recipe_request \<Rightarrow> 'v resp + create_recipe_request" where
  "check_create_recipe q =
     (let bt = (if qr_brew_type q = [] then defaultBrewType else qr_brew_type q);
          vi = (if qr_visibility q = [] then ''public'' else qr_visibility q) in
      if qr_name q = [] \<or> length (qr_name q) > maxRecipeName
      then Inl (Fail 400 ''name required (max 200 chars)'')
      else if length (qr_description q) > maxRecipeDesc then Inl (Fail 400 ''description too long'')
      else if length (qr_style q) > maxRecipeStyle
      then Inl (Fail 400 ''style too long (max 100 chars)'')
      else if bt \<notin> set allowedBrewTypes then Inl (Fail 400 unsupportedBrewTypeMsg)
      else if validateIngredients (qr_ingredients q) \<noteq> []
      then Inl (Fail 400 (validateIngredients (qr_ingredients q)))
      else Inr (q\<lparr>qr_brew_type := bt, qr_visibility := vi\<rparr>))"

definition create_recipe_tx :: "user \<Rightarrow> create_recipe_request \<Rightarrow> recipe_view resp act" where
  "create_recipe_tx user q =
     handle (CreateRecipeDraft \<lparr>cr_author = u_id user, cr_brew_type = qr_brew_type q,
         cr_name = qr_name q, cr_style = optText (qr_style q),
         cr_description = optText (qr_description q), cr_targets = qr_targets q,
         cr_visibility = qr_visibility q\<rparr>)
       (\<lambda>e. if e = InvalidText then Fail 400 ''invalid visibility value'' else Fail 500 ''create failed'')
       (\<lambda>r.
     handle (insertIngredients (rc_id r) (qr_ingredients q))
       (\<lambda>e. if e = InvalidText then Fail 400 ''invalid ingredient kind'' else Fail 500 ''create failed'')
       (\<lambda>ings. finish_revision 201 ''create failed'' r 1 (u_id user) (optText (qr_message q)) ings))"

definition handleCreateRecipe :: "user \<Rightarrow> create_recipe_request option \<Rightarrow> recipe_view resp act" where
  "handleCreateRecipe user body = (case body of
     None \<Rightarrow> ret (Fail 400 ''invalid json'')
   | Some q \<Rightarrow> (case check_create_recipe q of
       Inl r \<Rightarrow> ret r
     | Inr q' \<Rightarrow> run_tx (\<lambda>e. Fail 500 ''create failed'') (create_recipe_tx user q')))"

section \<open>Read\<close>

definition handleGetRecipe :: "user option \<Rightarrow> uuid option \<Rightarrow> recipe_view resp act" where
  "handleGetRecipe viewer pid = (case pid of
     None \<Rightarrow> ret (Fail 400 ''invalid id'')
   | Some i \<Rightarrow> handle (GetRecipeByID i) fetch_error (\<lambda>r.
       if \<not> recipeVisibleTo r viewer then ret (Fail 404 ''not found'')
       else case rc_current_revision r of
         None \<Rightarrow> ret (Fail 500 ''recipe has no revision'')
       | Some rv \<Rightarrow>
           handle (GetRevisionByID rv) (\<lambda>e. Fail 500 ''fetch failed'') (\<lambda>v.
           handle (ListRecipeIngredients (rc_id r)) (\<lambda>e. Fail 500 ''fetch failed'') (\<lambda>ings.
             ret (Okay 200 (toRecipeView r v ings))))))"

text \<open>A page: the views and the cursor, whose key is read off the last row.\<close>

definition page_of ::
    "('r \<Rightarrow> 'v) \<Rightarrow> ('r \<Rightarrow> time \<times> uuid) \<Rightarrow> int \<Rightarrow> 'r list \<Rightarrow> 'v list \<times> (time \<times> uuid) option" where
  "page_of view key n rows =
     (map view rows, if rows = [] then None else nextCursor (length rows) n (key (List.last rows)))"

definition handleListRecipes ::
    "string \<Rightarrow> cursor_param \<Rightarrow> (recipe_item_view list \<times> (time \<times> uuid) option) resp act" where
  "handleListRecipes limit cur = (case parseListPagination limit cur of
     Inl m \<Rightarrow> ret (Fail 400 m)
   | Inr p \<Rightarrow> handle (ListPublicRecipes (lp_cursor p) (nat (lp_limit p)))
       (\<lambda>e. Fail 500 ''list failed'')
       (\<lambda>rows. ret (Okay 200 (page_of toRecipeListItem recipe_key (lp_limit p) rows))))"

definition handleListMyRecipes ::
    "user \<Rightarrow> string \<Rightarrow> cursor_param \<Rightarrow> (recipe_item_view list \<times> (time \<times> uuid) option) resp act" where
  "handleListMyRecipes user limit cur = (case parseListPagination limit cur of
     Inl m \<Rightarrow> ret (Fail 400 m)
   | Inr p \<Rightarrow> handle (ListRecipesForAuthor (u_id user) (lp_cursor p) (nat (lp_limit p)))
       (\<lambda>e. Fail 500 ''list failed'')
       (\<lambda>rows. ret (Okay 200 (page_of toRecipeListItem recipe_key (lp_limit p) rows))))"

section \<open>Update\<close>

definition check_update_recipe :: "update_recipe_request \<Rightarrow> 'v resp option" where
  "check_update_recipe q =
     (if (case qu_name q of None \<Rightarrow> False | Some n \<Rightarrow> n = [] \<or> length n > maxRecipeName)
      then Some (Fail 400 ''invalid name'')
      else if (case qu_description q of None \<Rightarrow> False | Some t \<Rightarrow> length t > maxRecipeDesc)
      then Some (Fail 400 ''description too long'')
      else if (case qu_style q of None \<Rightarrow> False | Some t \<Rightarrow> length t > maxRecipeStyle)
      then Some (Fail 400 ''style too long (max 100 chars)'')
      else case qu_ingredients q of
        None \<Rightarrow> None
      | Some gs \<Rightarrow> if validateIngredients gs = [] then None else Some (Fail 400 (validateIngredients gs)))"

definition update_ingredients ::
    "uuid \<Rightarrow> ingredient_input list option \<Rightarrow> (ingredient list \<Rightarrow> 'v resp act) \<Rightarrow> 'v resp act" where
  "update_ingredients i gs k = (case gs of
     Some gs' \<Rightarrow>
       handle (DeleteRecipeIngredients i) (\<lambda>e. Fail 500 ''update failed'') (\<lambda>_.
       handle (insertIngredients i gs')
         (\<lambda>e. if e = InvalidText then Fail 400 ''invalid ingredient kind'' else Fail 500 ''update failed'') k)
   | None \<Rightarrow> handle (ListRecipeIngredients i) (\<lambda>e. Fail 500 ''update failed'') k)"

definition update_recipe_tx :: "user \<Rightarrow> uuid \<Rightarrow> update_recipe_request \<Rightarrow> recipe_view resp act" where
  "update_recipe_tx user i q =
     handle (UpdateRecipeMeta \<lparr>um_id = i, um_author = u_id user, um_name = qu_name q,
         um_style = qu_style q, um_description = qu_description q, um_targets = qu_targets q,
         um_visibility = qu_visibility q\<rparr>)
       (\<lambda>e. if e = NoRows then Fail 404 ''not found''
            else if e = InvalidText then Fail 400 ''invalid visibility value''
            else Fail 500 ''update failed'')
       (\<lambda>r. update_ingredients i (qu_ingredients q) (\<lambda>ings.
          finish_revision 200 ''update failed'' r (rc_revision_count r + 1) (u_id user)
            (qu_message q) ings))"

definition handleUpdateRecipe ::
    "user \<Rightarrow> uuid option \<Rightarrow> update_recipe_request option \<Rightarrow> recipe_view resp act" where
  "handleUpdateRecipe user pid body = (case pid of
     None \<Rightarrow> ret (Fail 400 ''invalid id'')
   | Some i \<Rightarrow> handle (GetRecipeByID i) fetch_error (\<lambda>cur.
       if rc_author cur \<noteq> u_id user then ret (Fail 404 ''not found'')
       else case body of
         None \<Rightarrow> ret (Fail 400 ''invalid json'')
       | Some q \<Rightarrow> (case check_update_recipe q of
           Some r \<Rightarrow> ret r
         | None \<Rightarrow> run_tx (\<lambda>e. Fail 500 ''update failed'') (update_recipe_tx user i q))))"

section \<open>Delete\<close>

text \<open>\<^verbatim>\<open>204\<close> when a row went, \<^verbatim>\<open>404\<close> when none did.\<close>

definition delete_resp :: "nat \<Rightarrow> unit resp act" where
  "delete_resp n = ret (if n = 0 then Fail 404 ''not found'' else Okay 204 ())"

definition handleDeleteRecipe :: "user \<Rightarrow> uuid option \<Rightarrow> unit resp act" where
  "handleDeleteRecipe user pid = (case pid of
     None \<Rightarrow> ret (Fail 400 ''invalid id'')
   | Some i \<Rightarrow> handle (DeleteRecipe i (u_id user)) (\<lambda>e. Fail 500 ''delete failed'') delete_resp)"

section \<open>Revisions\<close>

definition handleListRevisions ::
    "user option \<Rightarrow> uuid option \<Rightarrow> revision_summary_view list resp act" where
  "handleListRevisions viewer pid = (case pid of
     None \<Rightarrow> ret (Fail 400 ''invalid id'')
   | Some i \<Rightarrow> handle (GetRecipeByID i) fetch_error (\<lambda>r.
       if \<not> recipeVisibleTo r viewer then ret (Fail 404 ''not found'')
       else handle (ListRecipeRevisions i) (\<lambda>e. Fail 500 ''fetch failed'')
         (\<lambda>rvs. ret (Okay 200 (map toRevisionSummary rvs)))))"

text \<open>\<^verbatim>\<open>strconv.ParseInt(s, 10, 32)\<close>, in the range of a revision number.\<close>

definition parse_revision :: "string \<Rightarrow> int option" where
  "parse_revision s = (case atoi s of
     None \<Rightarrow> None
   | Some n \<Rightarrow> if n < 1 \<or> n \<ge> 2 ^ 31 then None else Some n)"

definition handleGetRevision ::
    "user option \<Rightarrow> uuid option \<Rightarrow> string \<Rightarrow> revision_detail_view resp act" where
  "handleGetRevision viewer pid prs = (case pid of
     None \<Rightarrow> ret (Fail 400 ''invalid id'')
   | Some i \<Rightarrow> (case parse_revision prs of
       None \<Rightarrow> ret (Fail 400 ''invalid revision number'')
     | Some n \<Rightarrow> handle (GetRecipeByID i) fetch_error (\<lambda>r.
         if \<not> recipeVisibleTo r viewer then ret (Fail 404 ''not found'')
         else handle (GetRecipeRevisionByNumber i n) fetch_error
           (\<lambda>v. ret (Okay 200 (toRevisionDetail v))))))"

section \<open>Fork\<close>

definition input_of :: "ingredient \<Rightarrow> ingredient_input" where
  "input_of g = \<lparr>in_kind = ingredient_kind_str (ri_kind g), in_name = ri_name g,
     in_amount = ri_amount g, in_unit = textOrEmpty (ri_unit g), in_sort_order = ri_sort_order g,
     in_details = ri_details g\<rparr>"

text \<open>
  The name of the fork: the requested one unless empty. The handler drops the error of the
  decoder, so its request is what the decoder left of the body.
\<close>

definition fork_name :: "recipe \<Rightarrow> fork_recipe_request \<Rightarrow> 'v resp + string" where
  "fork_name src q = (case qf_name q of
     None \<Rightarrow> Inr (rc_name src)
   | Some n \<Rightarrow> if n = [] then Inr (rc_name src)
       else if length n > maxRecipeName then Inl (Fail 400 ''name too long (max 200 chars)'')
       else Inr n)"

definition fork_recipe_tx ::
    "user \<Rightarrow> recipe \<Rightarrow> string \<Rightarrow> nulltext \<Rightarrow> ingredient list \<Rightarrow> recipe_view resp act" where
  "fork_recipe_tx user src name msg srcings =
     handle (IncrementForkCount (rc_id src)) (\<lambda>e. Fail 500 ''fork failed'') (\<lambda>_.
     handle (CreateForkedRecipe \<lparr>fk_author = u_id user, fk_parent = Some (rc_id src),
         fk_parent_revision = rc_current_revision src, fk_brew_type = rc_brew_type src,
         fk_name = name, fk_style = rc_style src, fk_description = rc_description src,
         fk_targets = recipe_targets src, fk_visibility = Private\<rparr>)
       (\<lambda>e. Fail 500 ''fork failed'') (\<lambda>f.
     handle (insertIngredients (rc_id f) (map input_of srcings)) (\<lambda>e. Fail 500 ''fork failed'') (\<lambda>ings.
       finish_revision 201 ''fork failed'' f 1 (u_id user) msg ings)))"

definition handleForkRecipe ::
    "user \<Rightarrow> uuid option \<Rightarrow> fork_recipe_request \<Rightarrow> recipe_view resp act" where
  "handleForkRecipe user pid q = (case pid of
     None \<Rightarrow> ret (Fail 400 ''invalid id'')
   | Some i \<Rightarrow> handle (GetRecipeByID i) fetch_error (\<lambda>src.
       if rc_visibility src = Private \<and> rc_author src \<noteq> u_id user
       then ret (Fail 404 ''not found'')
       else case fork_name src q of
           Inl r \<Rightarrow> ret r
         | Inr name \<Rightarrow>
             handle (ListRecipeIngredients (rc_id src)) (\<lambda>e. Fail 500 ''fork failed'') (\<lambda>srcings.
             run_tx (\<lambda>e. Fail 500 ''fork failed'') (fork_recipe_tx user src name (qf_message q) srcings))))"

section \<open>Comments and likes\<close>

definition handleListComments ::
    "user option \<Rightarrow> uuid option \<Rightarrow> string \<Rightarrow> cursor_param \<Rightarrow>
     (comment_view list \<times> (time \<times> uuid) option) resp act" where
  "handleListComments viewer pid limit cur = (case pid of
     None \<Rightarrow> ret (Fail 400 ''invalid id'')
   | Some i \<Rightarrow> handle (GetRecipeByID i) fetch_error (\<lambda>r.
       if \<not> recipeVisibleTo r viewer then ret (Fail 404 ''not found'')
       else case parseListPagination limit cur of
         Inl m \<Rightarrow> ret (Fail 400 m)
       | Inr p \<Rightarrow> handle (ListRecipeComments i (lp_cursor p) (nat (lp_limit p)))
           (\<lambda>e. Fail 500 ''fetch failed'')
           (\<lambda>rows. ret (Okay 200 (page_of (\<lambda>(c, n). toCommentView c n)
              (\<lambda>(c, n). (cm_created_at c, cm_id c)) (lp_limit p) rows)))))"

definition handleCreateComment :: "user \<Rightarrow> uuid option \<Rightarrow> string option \<Rightarrow> comment_view resp act" where
  "handleCreateComment user pid body = (case pid of
     None \<Rightarrow> ret (Fail 400 ''invalid id'')
   | Some i \<Rightarrow> handle (GetRecipeByID i) fetch_error (\<lambda>r.
       if \<not> recipeVisibleTo r (Some user) then ret (Fail 404 ''not found'')
       else case body of
         None \<Rightarrow> ret (Fail 400 ''invalid json'')
       | Some t \<Rightarrow>
           if t = [] \<or> length t > maxCommentBody
           then ret (Fail 400 ''body required (max 10 KiB)'')
           else handle (CreateRecipeComment i (u_id user) t) (\<lambda>e. Fail 500 ''create failed'')
             (\<lambda>c. ret (Okay 201 (toCommentView c (u_username user))))))"

definition handleDeleteComment :: "user \<Rightarrow> uuid option \<Rightarrow> unit resp act" where
  "handleDeleteComment user pid = (case pid of
     None \<Rightarrow> ret (Fail 400 ''invalid comment id'')
   | Some i \<Rightarrow> handle (DeleteRecipeComment i (u_id user)) (\<lambda>e. Fail 500 ''delete failed'') delete_resp)"

definition handleLikeRecipe :: "user \<Rightarrow> uuid option \<Rightarrow> unit resp act" where
  "handleLikeRecipe user pid = (case pid of
     None \<Rightarrow> ret (Fail 400 ''invalid id'')
   | Some i \<Rightarrow> handle (GetRecipeByID i) fetch_error (\<lambda>r.
       if \<not> recipeVisibleTo r (Some user) then ret (Fail 404 ''not found'')
       else handle (LikeRecipe (u_id user) i) (\<lambda>e. Fail 500 ''like failed'') (\<lambda>_. ret (Okay 204 ()))))"

definition handleUnlikeRecipe :: "user \<Rightarrow> uuid option \<Rightarrow> unit resp act" where
  "handleUnlikeRecipe user pid = (case pid of
     None \<Rightarrow> ret (Fail 400 ''invalid id'')
   | Some i \<Rightarrow> handle (UnlikeRecipe (u_id user) i) (\<lambda>e. Fail 500 ''unlike failed'') (\<lambda>_. ret (Okay 204 ())))"

end
