(* ===== verification/Recipe_Safety.thy ===== *)
theory Recipe_Safety
  imports Recipes
begin

text \<open>
  Safety of the recipe endpoints: the writing ones are atomic whatever fails, and the public listing
  shows public recipes only. That a private recipe is hidden is in \<open>Privacy\<close>.
\<close>

section \<open>Atomicity\<close>

text \<open>No statement of the recipes opens or closes a transaction.\<close>

lemma st_sql_table:
  "sql_insert get put key fk r w = Inr (a, w') \<Longrightarrow> same_txn w w'"
  "sql_update get put P f w = Inr (a, w') \<Longrightarrow> same_txn w w'"
  "sql_delete get put P w = Inr (n, w') \<Longrightarrow> same_txn w w'"
  by (auto simp: sql_table_simps same_txn_def)

lemma st_gen: "same_txn (tock w) w' \<Longrightarrow> same_txn w w'"
  by (simp add: same_txn_def)

lemma st_recipe_stmts:
  "keeps same_txn (CreateRecipeDraft p)"
  "keeps same_txn (CreateForkedRecipe q)"
  "keeps same_txn (SetRecipeRevision i v)"
  "keeps same_txn (UpdateRecipeMeta m)"
  "keeps same_txn (IncrementForkCount i)"
  "keeps same_txn (CreateRecipeIngredient g)"
  "keeps same_txn (DeleteRecipeIngredients i)"
  "keeps same_txn (ListRecipeIngredients i)"
  "keeps same_txn (CreateRecipeRevision rv)"
  unfolding CreateRecipeDraft_def CreateForkedRecipe_def SetRecipeRevision_def UpdateRecipeMeta_def
    IncrementForkCount_def CreateRecipeIngredient_def DeleteRecipeIngredients_def
    ListRecipeIngredients_def CreateRecipeRevision_def insert_revision_def gen_uuid_def Let_def
  by (auto intro!: st.keeps_sql_write st.keeps_sql_read
      split: option.splits sum.splits if_splits prod.splits
      intro: st_sql_table st_gen dest!: st_sql_table simp: same_txn_def)

lemma st_insertIngredients: "keeps same_txn (insertIngredients rid gs)"
  by (induction gs)
    (auto intro!: st.keeps_return st.keeps_bind st_recipe_stmts split: sum.split)

lemma tx_finish_revision: "tx_body (finish_revision code msg r n u m ings)"
  unfolding finish_revision_def
  by (intro tx_body_handle tx_body_commit st_recipe_stmts) simp_all

lemma tx_create_recipe: "tx_body (create_recipe_tx user q)"
  unfolding create_recipe_tx_def
  by (intro tx_body_handle tx_finish_revision st_recipe_stmts st_insertIngredients) simp_all

lemma tx_update_ingredients:
  "(\<And>ings. tx_body (k ings)) \<Longrightarrow> tx_body (update_ingredients i gs k)"
  unfolding update_ingredients_def
  by (cases gs) (auto intro!: tx_body_handle st_recipe_stmts st_insertIngredients)

lemma tx_update_recipe: "tx_body (update_recipe_tx user i q)"
  unfolding update_recipe_tx_def
  by (intro tx_body_handle tx_update_ingredients tx_finish_revision st_recipe_stmts) simp_all

lemma tx_fork_recipe: "tx_body (fork_recipe_tx user src name msg ings)"
  unfolding fork_recipe_tx_def
  by (intro tx_body_handle tx_finish_revision st_recipe_stmts st_insertIngredients) simp_all

lemmas recipe_read_defs = GetRecipeByID_def GetRevisionByID_def ListRecipeIngredients_def
  ListPublicRecipes_def ListRecipesForAuthor_def ListRecipeRevisions_def
  GetRecipeRevisionByNumber_def ListRecipeComments_def

lemma atomic_handleCreateRecipe: "atomic_act (handleCreateRecipe user b)"
  unfolding handleCreateRecipe_def
  by (auto split: option.split sum.split intro!: atomic_ret atomic_run_tx tx_create_recipe)

lemma atomic_handleUpdateRecipe: "atomic_act (handleUpdateRecipe user pid b)"
  unfolding handleUpdateRecipe_def recipe_read_defs
  by (auto split: option.split sum.split
      intro!: atomic_ret atomic_read atomic_run_tx tx_update_recipe)

lemma atomic_handleForkRecipe: "atomic_act (handleForkRecipe user pid q)"
  unfolding handleForkRecipe_def recipe_read_defs
  by (auto split: option.split sum.split
      intro!: atomic_ret atomic_read atomic_run_tx tx_fork_recipe)

text \<open>
  C1: Creating, updating and forking a recipe is atomic. Whichever of the statements of the
  transaction fails, and for whatever reason (a lost connection, a serialization failure, a
  constraint, the commit itself), a handler that answers an error leaves every table exactly as it
  found it: no recipe without a revision, no fork count without a fork, no half-replaced
  ingredient list.
\<close>

theorem recipe_writes_atomic:
  assumes "m = handleCreateRecipe user b \<or> m = handleUpdateRecipe user pid b' \<or>
           m = handleForkRecipe user pid q"
    and "txn w = None" and "run_state m w = (Fail n msg, w')"
  shows "tabs w' = tabs w \<and> txn w' = None"
  using assms atomic_handleCreateRecipe atomic_handleUpdateRecipe atomic_handleForkRecipe
    atomic_actD by metis

definition demo_request :: create_recipe_request where
  "demo_request = \<lparr>qr_name = ''Traditional'', qr_brew_type = [], qr_style = [], qr_description = [],
     qr_targets = \<lparr>tg_og = None, tg_fg = None, tg_abv = None, tg_batch_size = None\<rparr>,
     qr_visibility = [], qr_message = [],
     qr_ingredients = [\<lparr>in_kind = ''honey'', in_name = ''Clover'', in_amount = None, in_unit = ''kg'',
       in_sort_order = 0, in_details = []\<rparr>]\<rparr>"

text \<open>The fourth round trip, the revision row, is lost: recipe and ingredient are gone again.\<close>

lemma recipe_writes_atomic_witness:
  "tabs (snd (run_state (handleCreateRecipe (demo_user 1 ''ann'') (Some demo_request))
     (faulty_world (\<lambda>n. if n = 5 then Down else Up) (empty_db\<lparr>users := [demo_user 1 ''ann'']\<rparr>) 9)))
   = empty_db\<lparr>users := [demo_user 1 ''ann'']\<rparr>"
proof -
  let ?d = "empty_db\<lparr>users := [demo_user 1 ''ann'']\<rparr>"
  let ?m = "handleCreateRecipe (demo_user 1 ''ann'') (Some demo_request)"
  let ?w = "faulty_world (\<lambda>n. if n = 5 then Down else Up) ?d 9"
  have "fst (run_state ?m ?w) = Fail 500 ''create failed''"
    by code_simp
  then have "run_state ?m ?w = (Fail 500 ''create failed'', snd (run_state ?m ?w))"
    by (metis prod.collapse)
  from recipe_writes_atomic [OF _ _ this, of "demo_user 1 ''ann''" "Some demo_request"]
  show ?thesis by (simp add: demo_simps)
qed

section \<open>The public listing\<close>

text \<open>
  The public listing shows public recipes only, whatever the page and the cursor: neither a
  private nor an unlisted recipe ever appears in it.
\<close>

theorem public_listing_public:
  assumes "run_state (handleListRecipes limit cur) w = (Okay n (views, next), w')" and "v \<in> set views"
  shows "\<exists>r\<in>set (recipes (tabs w)). v = toRecipeListItem r \<and> rc_visibility r = Public"
proof -
  let ?rows = "filter (\<lambda>r. rc_visibility r = Public) (recipes (tabs w))"
  from assms(1) obtain p where p: "parseListPagination limit cur = Inr p"
    by (cases "parseListPagination limit cur") (auto simp: handleListRecipes_def)
  with assms(1) have "views = map toRecipeListItem
      (keyset_desc recipe_key (lp_cursor p) (nat (lp_limit p)) ?rows)"
    by (auto simp: handleListRecipes_def ListPublicRecipes_def run_handle run_sql_read page_of_def
        split: sum.splits outcome.splits)
  with assms(2) obtain r where "v = toRecipeListItem r"
    "r \<in> set (keyset_desc recipe_key (lp_cursor p) (nat (lp_limit p)) ?rows)" by auto
  with desc.page_subset [of recipe_key "lp_cursor p" "nat (lp_limit p)" ?rows] show ?thesis by auto
qed

lemma public_listing_public_witness:
  "\<exists>r\<in>set [demo_recipe 30 1 Private (Some 40), demo_recipe 31 1 Public (Some 41)].
     toRecipeListItem (demo_recipe 31 1 Public (Some 41)) = toRecipeListItem r \<and>
     rc_visibility r = Public"
proof -
  let ?rs = "[demo_recipe 30 1 Private (Some 40), demo_recipe 31 1 Public (Some 41)]"
  let ?w = "demo_world (empty_db\<lparr>recipes := ?rs\<rparr>) 0"
  have "run_state (handleListRecipes [] NoCursor) ?w =
      (Okay 200 ([toRecipeListItem (demo_recipe 31 1 Public (Some 41))], None), tock ?w)"
    by (simp add: handleListRecipes_def ListPublicRecipes_def run_handle run_sql_read page_of_def
        parseListPagination_def defaultPageLimit_def keyset_desc_def nextCursor_def demo_simps)
  from public_listing_public [OF this] show ?thesis by (simp add: demo_simps)
qed

end
