(* ===== verification/Recipe_Invariant.thy ===== *)
theory Recipe_Invariant
  imports Recipe_Safety
begin

text \<open>
  The history of a recipe: its revisions are numbered from one without gaps, the recipe points at
  the latest, and the latest is a snapshot of the recipe and of its ingredients as they stand.
  Every recipe endpoint that succeeds keeps this. A recipe under construction, inside a
  transaction, is exempt until its revision is written.
\<close>

section \<open>The invariant\<close>

definition revs_of :: "uuid \<Rightarrow> db \<Rightarrow> revision list" where
  "revs_of i d = filter (\<lambda>v. rv_recipe v = i) (revisions d)"

definition ings_of :: "uuid \<Rightarrow> db \<Rightarrow> ingredient list" where
  "ings_of i d = filter (\<lambda>g. ri_recipe g = i) (ingredients d)"

definition snapshot_matches :: "recipe \<Rightarrow> ingredient list \<Rightarrow> revision \<Rightarrow> bool" where
  "snapshot_matches r gs v \<longleftrightarrow> rv_name v = rc_name r \<and> rv_style v = rc_style r \<and>
     rv_description v = rc_description r \<and> revision_targets v = recipe_targets r \<and>
     mset (rv_ingredients v) = mset (buildSnapshot gs)"

definition stable_targets :: "recipe \<Rightarrow> bool" where
  "stable_targets r \<longleftrightarrow> cast_targets (recipe_targets r) = Inr (recipe_targets r)"

definition recipe_ok :: "db \<Rightarrow> recipe \<Rightarrow> bool" where
  "recipe_ok d r \<longleftrightarrow> stable_targets r \<and> 1 \<le> rc_revision_count r \<and>
     rv_number ` set (revs_of (rc_id r) d) = {1..rc_revision_count r} \<and>
     (\<exists>v\<in>set (revs_of (rc_id r) d). rc_current_revision r = Some (rv_id v) \<and>
        rv_number v = rc_revision_count r \<and> snapshot_matches r (ings_of (rc_id r) d) v)"

definition recipe_keys :: "db \<Rightarrow> bool" where
  "recipe_keys d \<longleftrightarrow> distinct (map rc_id (recipes d)) \<and> distinct (map rv_id (revisions d)) \<and>
     distinct (map (\<lambda>v. (rv_recipe v, rv_number v)) (revisions d)) \<and>
     rv_recipe ` set (revisions d) \<subseteq> rc_id ` set (recipes d) \<and>
     ri_recipe ` set (ingredients d) \<subseteq> rc_id ` set (recipes d)"

definition recipes_ok_but :: "uuid set \<Rightarrow> db \<Rightarrow> bool" where
  "recipes_ok_but X d \<longleftrightarrow> recipe_keys d \<and> (\<forall>r\<in>set (recipes d). rc_id r \<notin> X \<longrightarrow> recipe_ok d r)"

definition recipe_inv :: "db \<Rightarrow> bool" where
  "recipe_inv d \<longleftrightarrow> recipes_ok_but {} d"

text \<open>A recipe under construction: \<open>n\<close> revisions so far, the newest not of this state.\<close>

definition building :: "recipe \<Rightarrow> ingredient list \<Rightarrow> db \<Rightarrow> bool" where
  "building r gs d \<longleftrightarrow> recipes_ok_but {rc_id r} d \<and> r \<in> set (recipes d) \<and> stable_targets r \<and>
     0 \<le> rc_revision_count r \<and> mset (ings_of (rc_id r) d) = mset gs \<and>
     rv_number ` set (revs_of (rc_id r) d) = {1..rc_revision_count r}"

lemma recipe_ok_cong:
  "revs_of (rc_id r) d' = revs_of (rc_id r) d \<Longrightarrow> ings_of (rc_id r) d' = ings_of (rc_id r) d \<Longrightarrow>
     recipe_ok d' r = recipe_ok d r"
  by (simp add: recipe_ok_def)

lemma cast_targets_stable:
  "cast_targets t = Inr t' \<Longrightarrow> cast_targets t' = Inr t'"
proof -
  have c: "num_cast p s x = Inr y \<Longrightarrow> num_cast p s y = Inr y" for p s x y
    by (auto simp: num_cast_def split: option.splits if_splits)
  show "cast_targets t = Inr t' \<Longrightarrow> cast_targets t' = Inr t'"
    by (auto simp: cast_targets_def c split: sum.splits dest: c)
qed

section \<open>Steps of a transaction\<close>

lemma building_CreateDraft:
  assumes "recipe_inv (tabs w)"
    and "r = \<lparr>rc_id = i, rc_author = u, rc_parent = pa, rc_parent_revision = pr,
      rc_current_revision = None, rc_revision_count = 0, rc_fork_count = 0,
      rc_brew_type = bt, rc_style = st, rc_name = nm, rc_description = ds,
      rc_target_og = tg_og t', rc_target_fg = tg_fg t', rc_target_abv = tg_abv t',
      rc_batch_size_l = tg_batch_size t', rc_visibility = vi, rc_created_at = c, rc_updated_at = c\<rparr>"
    and "cast_targets t = Inr t'"
    and "sql_insert recipes put_recipes rc_id fk r w = Inr (a, w')"
  shows "building a [] (tabs w')"
proof -
  let ?d = "tabs w"
  from assms(4) have a: "a = r" and fresh: "\<forall>x\<in>set (recipes ?d). rc_id x \<noteq> rc_id r"
    and w': "tabs w' = ?d\<lparr>recipes := recipes ?d @ [r]\<rparr>" by (auto simp: sql_insert_Inr)
  from assms(1) have k: "recipe_keys ?d" and ok: "\<forall>x\<in>set (recipes ?d). recipe_ok ?d x"
    by (auto simp: recipe_inv_def recipes_ok_but_def)
  have "revs_of (rc_id r) ?d = []" "ings_of (rc_id r) ?d = []"
    using k fresh by (auto simp: revs_of_def ings_of_def filter_empty_conv recipe_keys_def)
  moreover have "recipe_targets r = t'" by (simp add: assms(2) recipe_targets_def)
  with assms(3) have "stable_targets r" by (simp add: stable_targets_def cast_targets_stable)
  moreover have "recipe_keys (tabs w')" using k fresh by (auto simp: recipe_keys_def w')
  moreover have "recipe_ok (tabs w') x = recipe_ok ?d x" for x
    by (rule recipe_ok_cong) (simp_all add: revs_of_def ings_of_def w')
  ultimately show ?thesis
    using ok by (auto simp: building_def recipes_ok_but_def a w' revs_of_def ings_of_def assms(2))
qed

lemma building_insert:
  assumes "building r gs (tabs w)" and "ri_recipe g = rc_id r"
    and "sql_insert ingredients put_ingredients ri_id fk g w = Inr (a, w')"
  shows "a = g \<and> building r (gs @ [g]) (tabs w')"
proof -
  let ?d = "tabs w"
  from assms(3) have a: "a = g" and w': "tabs w' = ?d\<lparr>ingredients := ingredients ?d @ [g]\<rparr>"
    by (auto simp: sql_insert_Inr)
  have "recipe_ok (tabs w') x = recipe_ok ?d x" if "rc_id x \<noteq> rc_id r" for x
    by (rule recipe_ok_cong) (use that assms(2) in \<open>simp_all add: revs_of_def ings_of_def w'\<close>)
  with assms(1,2) show ?thesis
    by (auto simp: building_def recipes_ok_but_def recipe_keys_def a w' revs_of_def ings_of_def)
qed

lemma building_insert':
  "sql_insert ingredients put_ingredients ri_id fk g w = Inr (a, w') \<Longrightarrow> ri_recipe g = rc_id r \<Longrightarrow>
     building r gs (tabs w) \<Longrightarrow> building r (gs @ [a]) (tabs w')"
  using building_insert by blast

lemma wp_CreateRecipeIngredient:
  assumes "building r gs (tabs w)" and "ip_recipe p = rc_id r"
  shows "wp (CreateRecipeIngredient p)
    (\<lambda>res w'. \<forall>row. res = Inr row \<longrightarrow> building r (gs @ [row]) (tabs w')) w"
  unfolding CreateRecipeIngredient_def gen_uuid_def Let_def
proof (rule wp_sql_writeI, simp, goal_cases)
  case (1 a w')
  then show ?case
    using assms by (auto split: option.splits sum.splits intro: building_insert')
qed

lemma wp_insertIngredients:
  "building r gs (tabs w) \<Longrightarrow>
     wp (insertIngredients (rc_id r) qs)
       (\<lambda>res w'. \<forall>rows. res = Inr rows \<longrightarrow> building r (gs @ rows) (tabs w')) w"
proof (induction qs arbitrary: gs w)
  case Nil
  then show ?case by (simp add: wp_simps)
next
  case (Cons q qs)
  have "wp (CreateRecipeIngredient (ingredient_param (rc_id r) q))
      (\<lambda>res w'. \<forall>row. res = Inr row \<longrightarrow> building r (gs @ [row]) (tabs w')) w"
    by (rule wp_CreateRecipeIngredient [OF Cons.prems]) (simp add: ingredient_param_def)
  then show ?case
    unfolding insertIngredients.simps wp_bind
  proof (rule wp_mono, goal_cases)
    case (1 res w1)
    show ?case
    proof (cases res)
      case (Inr row)
      with 1 have "building r (gs @ [row]) (tabs w1)" by simp
      from Cons.IH [OF this] Inr show ?thesis
        by (auto simp: wp_simps elim!: wp_mono split: sum.splits)
    qed (simp add: wp_simps)
  qed
qed

lemma revision_written:
  assumes "building r gs (tabs w)"
    and "insert_revision (revision_param r n u m gs') w = Inr (v, w')"
    and "mset gs' = mset gs"
  shows "tabs w' = tabs w\<lparr>revisions := revisions (tabs w) @ [v]\<rparr> \<and> rv_recipe v = rc_id r \<and>
     rv_number v = n \<and> snapshot_matches r gs v \<and>
     (\<forall>x\<in>set (revisions (tabs w)). rv_id x \<noteq> rv_id v \<and>
        (rv_recipe x, rv_number x) \<noteq> (rc_id r, n))"
proof -
  from assms(1) have t: "cast_targets (recipe_targets r) = Inr (recipe_targets r)"
    by (simp add: building_def stable_targets_def)
  have "mset (buildSnapshot gs') = mset (buildSnapshot gs)"
    using assms(3) by (simp add: buildSnapshot_def)
  with assms(2) t show ?thesis
    by (auto simp: revision_param_def sql_insert_Inr snapshot_matches_def revision_targets_def
        insert_revision_def gen_uuid_def Let_def refers_def list_ex_iff split: if_splits)
qed

lemma snapshot_matches_cong:
  "snapshot_matches r gs v \<Longrightarrow> rc_name r' = rc_name r \<Longrightarrow> rc_style r' = rc_style r \<Longrightarrow>
     rc_description r' = rc_description r \<Longrightarrow> recipe_targets r' = recipe_targets r \<Longrightarrow>
     mset gs' = mset gs \<Longrightarrow> snapshot_matches r' gs' v"
  by (simp add: snapshot_matches_def buildSnapshot_def)

lemma built:
  assumes b: "building r gs d"
    and v: "rv_recipe v = rc_id r" "rv_number v = rc_revision_count r + 1" "snapshot_matches r gs v"
      "\<forall>x\<in>set (revisions d). rv_id x \<noteq> rv_id v \<and>
         (rv_recipe x, rv_number x) \<noteq> (rc_id r, rc_revision_count r + 1)"
  shows "recipe_inv (d\<lparr>revisions := revisions d @ [v],
    recipes := upd_where (\<lambda>x. rc_id x = rc_id r) (set_revision (Some (rv_id v)) t) (recipes d)\<rparr>)"
    (is "recipe_inv ?d")
proof -
  from b have k: "recipe_keys d" and ok: "\<forall>x\<in>set (recipes d). rc_id x \<noteq> rc_id r \<longrightarrow> recipe_ok d x"
    and r: "r \<in> set (recipes d)"
    by (auto simp: building_def recipes_ok_but_def)
  have ids: "map rc_id (recipes ?d) = map rc_id (recipes d)"
    by (simp add: map_upd_where set_revision_def)
  then have "rc_id ` set (recipes ?d) = rc_id ` set (recipes d)" by (metis image_set)
  moreover have "distinct (map rv_id (revisions d @ [v]))"
  proof -
    have "rv_id v \<notin> rv_id ` set (revisions d)" using v(4) by (metis imageE)
    with k show ?thesis by (simp add: recipe_keys_def)
  qed
  moreover have "distinct (map (\<lambda>v. (rv_recipe v, rv_number v)) (revisions d @ [v]))"
  proof -
    have "(rv_recipe v, rv_number v) \<notin> (\<lambda>v. (rv_recipe v, rv_number v)) ` set (revisions d)"
      unfolding v(1,2)
    proof
      assume "(rc_id r, rc_revision_count r + 1) \<in> (\<lambda>v. (rv_recipe v, rv_number v)) ` set (revisions d)"
      then obtain x where "x \<in> set (revisions d)"
        "(rv_recipe x, rv_number x) = (rc_id r, rc_revision_count r + 1)" by auto
      with v(4) show False by blast
    qed
    with k show ?thesis by (simp add: recipe_keys_def)
  qed
  moreover have "rv_recipe ` set (revisions d @ [v]) \<subseteq> rc_id ` set (recipes d)"
    using k v(1) r by (auto simp: recipe_keys_def)
  ultimately have keys: "recipe_keys ?d" using k ids by (simp add: recipe_keys_def)
  have same: "recipe_ok ?d x = recipe_ok d x" if "rc_id x \<noteq> rc_id r" for x
    by (rule recipe_ok_cong) (use that v(1) in \<open>simp_all add: revs_of_def ings_of_def\<close>)
  have "recipe_ok ?d (set_revision (Some (rv_id v)) t x)"
    if "x \<in> set (recipes d)" "rc_id x = rc_id r" for x
  proof -
    from that k r have x: "x = r" by (auto simp: recipe_keys_def intro: distinct_key_eq)
    have revs: "revs_of (rc_id r) ?d = revs_of (rc_id r) d @ [v]"
      and ings: "ings_of (rc_id r) ?d = ings_of (rc_id r) d"
      using v(1) by (simp_all add: revs_of_def ings_of_def)
    have "snapshot_matches (set_revision (Some (rv_id v)) t r) (ings_of (rc_id r) d) v"
      by (rule snapshot_matches_cong [OF v(3)])
        (use b in \<open>simp_all add: set_revision_def recipe_targets_def building_def\<close>)
    moreover have "{1..rc_revision_count r + 1} = insert (rc_revision_count r + 1) {1..rc_revision_count r}"
      using b by (auto simp: building_def)
    ultimately show ?thesis
      using b v(2) revs ings
      by (auto simp: recipe_ok_def x set_revision_def building_def stable_targets_def
          recipe_targets_def)
  qed
  with ok same keys show ?thesis
    by (auto simp: recipe_inv_def recipes_ok_but_def set_upd_where)
qed

lemma wp_finish_revision:
  assumes b: "building r gs (tabs w)" and n: "n = rc_revision_count r + 1" and m: "mset gs' = mset gs"
  shows "wp (finish_revision code msg r n u mg gs') (on_okay (\<lambda>x w'. recipe_inv (tabs w'))) w"
  unfolding finish_revision_def CreateRecipeRevision_def
proof (rule wp_handle_write, simp, goal_cases)
  case (1 v w1)
  have "building r gs (tabs (tock w))" using b by simp
  from revision_written [OF this 1 m]
  have v: "tabs w1 = tabs w\<lparr>revisions := revisions (tabs w) @ [v]\<rparr>" "rv_recipe v = rc_id r"
    "rv_number v = n" "snapshot_matches r gs v"
    "\<forall>x\<in>set (revisions (tabs w)). rv_id x \<noteq> rv_id v \<and> (rv_recipe x, rv_number x) \<noteq> (rc_id r, n)"
    by simp_all
  have inv: "recipe_inv (tabs w\<lparr>revisions := revisions (tabs w) @ [v], recipes :=
      upd_where (\<lambda>x. rc_id x = rc_id r) (set_revision (Some (rv_id v)) t) (recipes (tabs w))\<rparr>)" for t
    using built [OF b v(2) _ v(4)] v(3,5) n by simp
  show ?case
    unfolding SetRecipeRevision_def tx_commit_def
    by (intro wp_handle_write) (use inv v(1) in \<open>auto simp: sql_update_Inr wp_simps split: if_splits\<close>)
qed

lemma wp_insert_and_finish:
  assumes "building r gs (tabs w)" and "n = rc_revision_count r + 1" and "gs = []"
    and e: "\<And>e. failed (on_error e)"
  shows "wp (handle (insertIngredients (rc_id r) qs) on_error
           (\<lambda>ings. finish_revision code msg r n u mg ings)) (on_okay (\<lambda>x w'. recipe_inv (tabs w'))) w"
  unfolding wp_handle
proof (rule wp_mono [OF wp_insertIngredients [OF assms(1)]], goal_cases)
  case (1 res w1)
  with assms(2,3) e show ?case
    by (cases res) (auto simp: on_okay_failed intro: wp_finish_revision)
qed

lemma wp_create_recipe_tx:
  assumes "recipe_inv (tabs w)"
  shows "wp (create_recipe_tx user q) (on_okay (\<lambda>x w'. recipe_inv (tabs w'))) w"
  unfolding create_recipe_tx_def CreateRecipeDraft_def
proof (rule wp_handle_write, simp, goal_cases)
  case (1 r w1)
  have inv: "recipe_inv (tabs (tock (tock w)))" using assms by simp
  from 1 have b: "building r [] (tabs w1) \<and> rc_revision_count r = 0"
    by (auto simp: gen_uuid_def Let_def split: option.splits sum.splits
        intro: building_CreateDraft [OF inv refl] dest: sql_insert_Inr [THEN iffD1])
  then show ?case by (intro wp_insert_and_finish [where gs = "[]"]) auto
qed

lemma fork_count_inv:
  assumes "recipe_inv d"
  shows "recipe_inv (d\<lparr>recipes := upd_where (\<lambda>r. rc_id r = i)
    (\<lambda>r. r\<lparr>rc_fork_count := rc_fork_count r + 1, rc_updated_at := t\<rparr>) (recipes d)\<rparr>)" (is "recipe_inv ?d")
proof -
  let ?f = "\<lambda>r. r\<lparr>rc_fork_count := rc_fork_count r + 1, rc_updated_at := t\<rparr>"
  have ids: "map rc_id (recipes ?d) = map rc_id (recipes d)" by (simp add: map_upd_where)
  then have "rc_id ` set (recipes ?d) = rc_id ` set (recipes d)" by (metis image_set)
  with assms ids have "recipe_keys ?d"
    by (simp add: recipe_inv_def recipes_ok_but_def recipe_keys_def)
  moreover have "recipe_ok ?d (?f x)" if "recipe_ok d x" for x
    using that by (auto simp: recipe_ok_def revs_of_def ings_of_def stable_targets_def
        recipe_targets_def snapshot_matches_def)
  moreover have "recipe_ok ?d x" if "recipe_ok d x" for x
    using that by (auto simp: recipe_ok_def revs_of_def ings_of_def)
  ultimately show ?thesis
    using assms by (auto simp: recipe_inv_def recipes_ok_but_def set_upd_where)
qed

lemma wp_fork_recipe_tx:
  assumes "recipe_inv (tabs w)"
  shows "wp (fork_recipe_tx user src name msg ings) (on_okay (\<lambda>x w'. recipe_inv (tabs w'))) w"
  unfolding fork_recipe_tx_def IncrementForkCount_def CreateForkedRecipe_def
proof (intro wp_handle_write, goal_cases)
  case (2 a w1 e)
  then show ?case by simp
next
  case (3 a w1 r w2)
  have inv: "recipe_inv (tabs (tock (tock w1)))"
    using 3(1) fork_count_inv [OF assms] by (auto simp: Let_def)
  from 3(2) have b: "building r [] (tabs w2) \<and> rc_revision_count r = 0"
    by (auto simp: gen_uuid_def Let_def split: sum.splits
        intro: building_CreateDraft [OF inv refl] dest: sql_insert_Inr [THEN iffD1])
  then show ?case by (intro wp_insert_and_finish [where gs = "[]"]) auto
qed simp

lemma building_update:
  assumes "recipe_inv d" and "r0 \<in> set (recipes d)" and "cast_targets t0 = Inr t"
    and "rc_id r0 = um_id p" and "rc_author r0 = um_author p"
  shows "building (update_meta p t vi c r0) (ings_of (rc_id r0) d)
    (d\<lparr>recipes := upd_where (own_recipe (um_id p) (um_author p)) (update_meta p t vi c) (recipes d)\<rparr>)"
    (is "building ?r _ ?d")
proof -
  from assms(1,2) have k: "recipe_keys d" and ok: "\<forall>x\<in>set (recipes d). recipe_ok d x"
    and r0: "recipe_ok d r0" by (auto simp: recipe_inv_def recipes_ok_but_def)
  have ids: "map rc_id (recipes ?d) = map rc_id (recipes d)"
    by (simp add: map_upd_where update_meta_def)
  then have "rc_id ` set (recipes ?d) = rc_id ` set (recipes d)" by (metis image_set)
  with k ids have "recipe_keys ?d" by (simp add: recipe_keys_def)
  moreover have "recipe_ok ?d x" if "x \<in> set (recipes d)" for x
    using that ok recipe_ok_cong [of x ?d d] by (simp add: revs_of_def ings_of_def)
  moreover have "stable_targets ?r"
  proof -
    have c: "num_cast p s x = Inr y \<Longrightarrow> num_cast p s y = Inr y" for p s x y
      by (auto simp: num_cast_def split: option.splits if_splits)
    have m: "num_cast p s x = Inr y \<Longrightarrow> num_cast p s z = Inr z \<Longrightarrow>
        num_cast p s (coalesce_opt y z) = Inr (coalesce_opt y z)" for p s x y z
      by (cases y) (auto dest: c)
    have ct: "cast_targets t1 = Inr t2 \<longleftrightarrow>
        num_cast 5 3 (tg_og t1) = Inr (tg_og t2) \<and> num_cast 5 3 (tg_fg t1) = Inr (tg_fg t2) \<and>
        num_cast 4 2 (tg_abv t1) = Inr (tg_abv t2) \<and>
        num_cast 6 2 (tg_batch_size t1) = Inr (tg_batch_size t2)" for t1 t2 :: targets
      by (cases t2) (auto simp: cast_targets_def split: sum.split)
    from r0 have "cast_targets (recipe_targets r0) = Inr (recipe_targets r0)"
      by (simp add: recipe_ok_def stable_targets_def)
    with assms(3) show ?thesis
      unfolding ct stable_targets_def by (auto simp: recipe_targets_def update_meta_def intro: m)
  qed
  moreover have "?r \<in> set (recipes ?d)"
    using assms(2,4,5) by (auto simp: set_upd_where own_recipe_def intro!: image_eqI [of _ _ r0])
  moreover have f: "rc_id ?r = rc_id r0" "rc_revision_count ?r = rc_revision_count r0"
    by (simp_all add: update_meta_def)
  moreover have "recipe_ok ?d x" if x: "x \<in> set (recipes ?d)" "rc_id x \<noteq> rc_id r0" for x
  proof -
    from x(1) obtain y where y: "y \<in> set (recipes d)"
      "x = (if own_recipe (um_id p) (um_author p) y then update_meta p t vi c y else y)"
      by (auto simp: set_upd_where)
    with x(2) assms(4) have "x = y" by (auto simp: own_recipe_def update_meta_def)
    with y(1) \<open>\<And>x. x \<in> set (recipes d) \<Longrightarrow> recipe_ok ?d x\<close> show ?thesis by blast
  qed
  moreover have "revs_of (rc_id r0) ?d = revs_of (rc_id r0) d"
    and "ings_of (rc_id r0) ?d = ings_of (rc_id r0) d"
    by (simp_all add: revs_of_def ings_of_def)
  ultimately show ?thesis
    using r0 unfolding building_def recipes_ok_but_def f by (simp add: recipe_ok_def)
qed

lemma building_clear:
  assumes "building r gs d"
  shows "building r [] (d\<lparr>ingredients := del_where (\<lambda>g. ri_recipe g = rc_id r) (ingredients d)\<rparr>)"
    (is "building r [] ?d")
proof -
  have "recipe_ok ?d x = recipe_ok d x" if "rc_id x \<noteq> rc_id r" for x
    by (rule recipe_ok_cong)
      (use that in \<open>auto simp: revs_of_def ings_of_def intro: filter_del_where_other\<close>)
  with assms show ?thesis
    by (auto simp: building_def recipes_ok_but_def recipe_keys_def ings_of_def revs_of_def
        del_where_def filter_empty_conv)
qed

lemma wp_update_ingredients:
  assumes b: "building r gs (tabs w)" and n: "n = rc_revision_count r + 1"
  shows "wp (update_ingredients (rc_id r) qs (\<lambda>ings. finish_revision code msg r n u mg ings))
    (on_okay (\<lambda>x w'. recipe_inv (tabs w'))) w"
proof (cases qs)
  case None
  have "mset (sort_key (\<lambda>g. (ri_sort_order g, ri_id g))
      (filter (\<lambda>g. ri_recipe g = rc_id r) (ingredients (tabs w)))) = mset gs"
    using b by (simp add: building_def ings_of_def)
  with b n None show ?thesis
    unfolding update_ingredients_def ListRecipeIngredients_def
    by (auto intro!: wp_handle_read wp_finish_revision)
next
  case (Some gs')
  with building_clear [OF b] n show ?thesis
    unfolding update_ingredients_def DeleteRecipeIngredients_def Let_def
    by (auto intro!: wp_handle_write wp_insert_and_finish [where gs = "[]"])
qed

lemma wp_update_recipe_tx:
  assumes "recipe_inv (tabs w)"
  shows "wp (update_recipe_tx user i q) (on_okay (\<lambda>x w'. recipe_inv (tabs w'))) w"
  unfolding update_recipe_tx_def UpdateRecipeMeta_def
proof (rule wp_handle_write, simp, goal_cases)
  case (1 r w1)
  then obtain r0 vi t where "r0 \<in> set (recipes (tabs w))" "rc_id r0 = i" "rc_author r0 = u_id user"
    and t: "cast_targets (qu_targets q) = Inr t" and
    r: "r = update_meta \<lparr>um_id = i, um_author = u_id user, um_name = qu_name q,
         um_style = qu_style q, um_description = qu_description q, um_targets = qu_targets q,
         um_visibility = qu_visibility q\<rparr> t vi (clock w) r0"
    and w1: "tabs w1 = tabs w\<lparr>recipes := upd_where (own_recipe i (u_id user)) (update_meta
         \<lparr>um_id = i, um_author = u_id user, um_name = qu_name q,
         um_style = qu_style q, um_description = qu_description q, um_targets = qu_targets q,
         um_visibility = qu_visibility q\<rparr> t vi (clock w)) (recipes (tabs w))\<rparr>"
    by (auto simp: sql_update_Inr own_recipe_def split: sum.splits if_splits dest!: find_where_Some)
  with building_update [OF assms this(1) t, of "\<lparr>um_id = i, um_author = u_id user,
         um_name = qu_name q, um_style = qu_style q, um_description = qu_description q,
         um_targets = qu_targets q, um_visibility = qu_visibility q\<rparr>" vi "clock w"]
  have "building r (ings_of (rc_id r0) (tabs w)) (tabs w1)" by simp
  moreover from r \<open>rc_id r0 = i\<close> have "rc_id r = i" by (simp add: update_meta_def)
  ultimately show ?case using wp_update_ingredients by blast
qed

lemma drop_recipe_inv:
  assumes "recipe_inv d"
  shows "recipe_inv (drop_recipe i d)"
proof -
  let ?d = "drop_recipe i d" and ?f = "\<lambda>r. r\<lparr>rc_parent := None\<rparr>"
  have rows: "r \<in> set (recipes ?d) \<Longrightarrow>
      \<exists>r0\<in>set (recipes d). rc_id r0 \<noteq> i \<and> (r = r0 \<or> r = ?f r0)" for r
    by (auto simp: drop_recipe_def set_upd_where set_del_where split: if_splits)
  have ids: "map rc_id (recipes ?d) = map rc_id (del_where (\<lambda>r. rc_id r = i) (recipes d))"
    by (simp add: drop_recipe_def map_upd_where)
  have "distinct (map rc_id (recipes ?d))"
    unfolding ids using assms
    by (auto simp: recipe_inv_def recipes_ok_but_def recipe_keys_def intro: distinct_del_where)
  moreover have "rc_id ` set (recipes ?d) = rc_id ` set (recipes d) - {i}"
  proof -
    have "rc_id ` set (recipes ?d) = rc_id ` set (del_where (\<lambda>r. rc_id r = i) (recipes d))"
      using ids by (metis image_set)
    then show ?thesis by (auto simp: set_del_where)
  qed
  ultimately have "recipe_keys ?d"
    using assms by (auto simp: recipe_inv_def recipes_ok_but_def recipe_keys_def drop_recipe_def
        set_del_where intro: distinct_del_where)
  moreover have "recipe_ok ?d r" if "recipe_ok d r" "rc_id r \<noteq> i" for r
  proof -
    have "revs_of (rc_id r) ?d = revs_of (rc_id r) d" "ings_of (rc_id r) ?d = ings_of (rc_id r) d"
      using that(2) by (auto simp: revs_of_def ings_of_def drop_recipe_def intro: filter_del_where_other)
    with that(1) recipe_ok_cong show ?thesis by blast
  qed
  moreover have "recipe_ok d r \<Longrightarrow> recipe_ok d (?f r)" for r
    by (auto simp: recipe_ok_def stable_targets_def recipe_targets_def snapshot_matches_def)
  ultimately show ?thesis
    using assms rows by (fastforce simp: recipe_inv_def recipes_ok_but_def)
qed

section \<open>The endpoints keep the invariant\<close>

definition keeps_recipes :: "'v resp act \<Rightarrow> bool" where
  "keeps_recipes m \<longleftrightarrow> (\<forall>w. recipe_inv (tabs w) \<and> txn w = None \<longrightarrow>
     wp m (\<lambda>r w'. recipe_inv (tabs w') \<and> txn w' = None) w)"

lemma keeps_recipes_ret: "keeps_recipes (ret r)"
  by (simp add: keeps_recipes_def wp_simps)

lemma keeps_recipes_read:
  assumes "\<And>a. keeps_recipes (k a)"
  shows "keeps_recipes (handle (sql_read f) on_error k)"
  unfolding keeps_recipes_def
proof (intro allI impI wp_handle_read)
  fix w :: world and a
  assume "recipe_inv (tabs w) \<and> txn w = None"
  then have "recipe_inv (tabs (tock w)) \<and> txn (tock w) = None" by simp
  with assms [of a]
  show "wp (k a) (\<lambda>r w'. recipe_inv (tabs w') \<and> txn w' = None) (tock w)"
    unfolding keeps_recipes_def by blast
qed auto

lemma keeps_recipes_write:
  assumes "\<And>w a w'. f w = Inr (a, w') \<Longrightarrow> recipe_inv (tabs w) \<Longrightarrow> txn w = None \<Longrightarrow>
      recipe_inv (tabs w') \<and> txn w' = None" and "\<And>a. keeps_recipes (k a)"
  shows "keeps_recipes (handle (sql_write f) on_error k)"
  unfolding keeps_recipes_def
proof (intro allI impI wp_handle_write)
  fix w :: world and a w'
  assume "recipe_inv (tabs w) \<and> txn w = None" "f (tock w) = Inr (a, w')"
  with assms(1) [of "tock w"] have "recipe_inv (tabs w') \<and> txn w' = None" by simp
  with assms(2) [of a] show "wp (k a) (\<lambda>r w'. recipe_inv (tabs w') \<and> txn w' = None) w'"
    unfolding keeps_recipes_def by blast
qed auto

lemma keeps_recipes_tx:
  assumes "tx_body m" and "\<And>e. failed (on_error e)"
    and "\<And>w. recipe_inv (tabs w) \<Longrightarrow> wp m (on_okay (\<lambda>x w'. recipe_inv (tabs w'))) w"
  shows "keeps_recipes (run_tx on_error m)"
  unfolding keeps_recipes_def
proof (intro allI impI)
  fix w :: world
  assume w: "recipe_inv (tabs w) \<and> txn w = None"
  have "wp (run_tx on_error m) (\<lambda>r w'. txn w' = None \<and> (failed r \<longrightarrow> tabs w' = tabs w)) w"
    using w assms(1,2) by (intro run_tx_atomic) auto
  moreover have "wp (run_tx on_error m) (on_okay (\<lambda>x w'. recipe_inv (tabs w'))) w"
    using w assms by (intro run_tx_okay) (auto simp: rollback_def)
  ultimately have "wp (run_tx on_error m) (\<lambda>r w'. (txn w' = None \<and> (failed r \<longrightarrow> tabs w' = tabs w)) \<and>
      on_okay (\<lambda>x w'. recipe_inv (tabs w')) r w') w" by (simp add: wp_conj)
  then show "wp (run_tx on_error m) (\<lambda>r w'. recipe_inv (tabs w') \<and> txn w' = None) w"
  proof (rule wp_mono)
    fix r w'
    assume "(txn w' = None \<and> (failed r \<longrightarrow> tabs w' = tabs w)) \<and>
      on_okay (\<lambda>x w'. recipe_inv (tabs w')) r w'"
    with w show "recipe_inv (tabs w') \<and> txn w' = None" by (cases r) auto
  qed
qed

lemma keeps_handleCreateRecipe: "keeps_recipes (handleCreateRecipe user b)"
  unfolding handleCreateRecipe_def
  by (auto split: option.split sum.split
      intro!: keeps_recipes_ret keeps_recipes_tx tx_create_recipe wp_create_recipe_tx)

lemma keeps_handleUpdateRecipe: "keeps_recipes (handleUpdateRecipe user pid b)"
  unfolding handleUpdateRecipe_def recipe_read_defs
  by (auto split: option.split sum.split
      intro!: keeps_recipes_ret keeps_recipes_read keeps_recipes_tx tx_update_recipe wp_update_recipe_tx)

lemma keeps_handleForkRecipe: "keeps_recipes (handleForkRecipe user pid q)"
  unfolding handleForkRecipe_def recipe_read_defs
  by (auto split: option.split sum.split
      intro!: keeps_recipes_ret keeps_recipes_read keeps_recipes_tx tx_fork_recipe wp_fork_recipe_tx)

lemma keeps_handleDeleteRecipe: "keeps_recipes (handleDeleteRecipe user pid)"
  unfolding handleDeleteRecipe_def DeleteRecipe_def delete_resp_def
  by (auto split: option.split if_splits
      intro!: keeps_recipes_ret keeps_recipes_write drop_recipe_inv)

text \<open>The tables of comments, likes and templates are not part of the invariant.\<close>

lemma recipe_inv_other_tables:
  "recipes d' = recipes d \<Longrightarrow> revisions d' = revisions d \<Longrightarrow> ingredients d' = ingredients d \<Longrightarrow>
     recipe_inv d' = recipe_inv d"
  by (simp add: recipe_inv_def recipes_ok_but_def recipe_keys_def recipe_ok_def revs_of_def ings_of_def)

lemma keeps_handleCreateComment: "keeps_recipes (handleCreateComment user pid c)"
  unfolding handleCreateComment_def GetRecipeByID_def CreateRecipeComment_def
  by (auto split: option.split if_splits
      intro!: keeps_recipes_ret keeps_recipes_read keeps_recipes_write
      simp: sql_insert_Inr gen_uuid_def Let_def elim!: recipe_inv_other_tables [THEN iffD2, rotated -1])

lemma keeps_handleDeleteComment: "keeps_recipes (handleDeleteComment user pid)"
  unfolding handleDeleteComment_def delete_resp_def DeleteRecipeComment_def
  by (auto split: option.split
      intro!: keeps_recipes_ret keeps_recipes_write
      simp: sql_delete_Inr elim!: recipe_inv_other_tables [THEN iffD2, rotated -1])

lemma keeps_handleLikeRecipe: "keeps_recipes (handleLikeRecipe user pid)"
  unfolding handleLikeRecipe_def GetRecipeByID_def LikeRecipe_def Let_def
  by (auto split: option.split if_splits
      intro!: keeps_recipes_ret keeps_recipes_read keeps_recipes_write
      elim!: recipe_inv_other_tables [THEN iffD2, rotated -1])

lemma keeps_handleUnlikeRecipe: "keeps_recipes (handleUnlikeRecipe user pid)"
  unfolding handleUnlikeRecipe_def UnlikeRecipe_def Let_def
  by (auto split: option.split
      intro!: keeps_recipes_ret keeps_recipes_write
      elim!: recipe_inv_other_tables [THEN iffD2, rotated -1])

text \<open>A call of a recipe endpoint that writes, with any user and any request.\<close>

inductive recipe_call :: "world \<Rightarrow> world \<Rightarrow> bool" where
  call_create: "run_state (handleCreateRecipe u b) w = (r, w') \<Longrightarrow> recipe_call w w'"
| call_update: "run_state (handleUpdateRecipe u pid b) w = (r, w') \<Longrightarrow> recipe_call w w'"
| call_fork: "run_state (handleForkRecipe u pid q) w = (r, w') \<Longrightarrow> recipe_call w w'"
| call_delete: "run_state (handleDeleteRecipe u pid) w = (r, w') \<Longrightarrow> recipe_call w w'"
| call_comment: "run_state (handleCreateComment u pid c) w = (r, w') \<Longrightarrow> recipe_call w w'"
| call_uncomment: "run_state (handleDeleteComment u pid) w = (r, w') \<Longrightarrow> recipe_call w w'"
| call_like: "run_state (handleLikeRecipe u pid) w = (r, w') \<Longrightarrow> recipe_call w w'"
| call_unlike: "run_state (handleUnlikeRecipe u pid) w = (r, w') \<Longrightarrow> recipe_call w w'"

lemma keeps_recipesD:
  "keeps_recipes m \<Longrightarrow> run_state m w = (r, w') \<Longrightarrow> recipe_inv (tabs w) \<Longrightarrow> txn w = None \<Longrightarrow>
     recipe_inv (tabs w') \<and> txn w' = None"
  unfolding keeps_recipes_def by (auto dest!: spec [of _ w] wpD)

lemma recipe_call_keeps:
  assumes "recipe_call w w'" and "recipe_inv (tabs w)" and "txn w = None"
  shows "recipe_inv (tabs w') \<and> txn w' = None"
  using assms(1)
proof cases
  case (call_create u b r)
  from keeps_recipesD [OF keeps_handleCreateRecipe this assms(2,3)] show ?thesis .
next
  case (call_update u pid b r)
  from keeps_recipesD [OF keeps_handleUpdateRecipe this assms(2,3)] show ?thesis .
next
  case (call_fork u pid q r)
  from keeps_recipesD [OF keeps_handleForkRecipe this assms(2,3)] show ?thesis .
next
  case (call_delete u pid r)
  from keeps_recipesD [OF keeps_handleDeleteRecipe this assms(2,3)] show ?thesis .
next
  case (call_comment u pid c r)
  from keeps_recipesD [OF keeps_handleCreateComment this assms(2,3)] show ?thesis .
next
  case (call_uncomment u pid r)
  from keeps_recipesD [OF keeps_handleDeleteComment this assms(2,3)] show ?thesis .
next
  case (call_like u pid r)
  from keeps_recipesD [OF keeps_handleLikeRecipe this assms(2,3)] show ?thesis .
next
  case (call_unlike u pid r)
  from keeps_recipesD [OF keeps_handleUnlikeRecipe this assms(2,3)] show ?thesis .
qed

text \<open>
  C2: The history of every recipe is whole, after any sequence of calls of the recipe endpoints by
  any users, whichever of their statements fail. The revisions of a recipe are numbered 1 to
  \<^verbatim>\<open>revision_count\<close> without gap or repetition, \<^verbatim>\<open>current_revision_id\<close> is the last
  of them, and that revision is a snapshot of the recipe as it stands: its name, style,
  description, targets and every ingredient.
\<close>

theorem recipe_history:
  assumes "recipe_call\<^sup>*\<^sup>* w w'" and "recipe_inv (tabs w)" and "txn w = None"
  shows "\<forall>r\<in>set (recipes (tabs w')).
      rv_number ` set (revs_of (rc_id r) (tabs w')) = {1..rc_revision_count r} \<and>
      distinct (map rv_number (revs_of (rc_id r) (tabs w'))) \<and>
      (\<exists>v\<in>set (revs_of (rc_id r) (tabs w')). rc_current_revision r = Some (rv_id v) \<and>
         rv_number v = rc_revision_count r \<and> snapshot_matches r (ings_of (rc_id r) (tabs w')) v)"
proof -
  have "recipe_inv (tabs w') \<and> txn w' = None"
    using assms by (induction rule: rtranclp_induct) (auto dest: recipe_call_keeps)
  then have inv: "recipe_keys (tabs w')" "\<forall>r\<in>set (recipes (tabs w')). recipe_ok (tabs w') r"
    by (auto simp: recipe_inv_def recipes_ok_but_def)
  have "distinct (map rv_number (revs_of i (tabs w')))" for i
    using inv(1) by (auto simp: recipe_keys_def revs_of_def distinct_map inj_on_def)
  with inv(2) show ?thesis by (auto simp: recipe_ok_def)
qed

definition history_start :: world where
  "history_start = demo_world (empty_db\<lparr>users := [demo_user 1 ''ann'']\<rparr>) 9"

definition history_end :: world where
  "history_end = snd (run_state (handleCreateRecipe (demo_user 1 ''ann'') (Some demo_request)) history_start)"

lemma recipe_history_witness:
  "rv_number ` set (revs_of (rc_id (hd (recipes (tabs history_end)))) (tabs history_end)) =
     {1..rc_revision_count (hd (recipes (tabs history_end)))}"
proof -
  have "recipe_call history_start history_end"
    unfolding history_end_def by (rule call_create) (rule surjective_pairing)
  then have "recipe_call\<^sup>*\<^sup>* history_start history_end" by blast
  moreover have "recipe_inv (tabs history_start)"
    by (simp add: history_start_def demo_simps recipe_inv_def recipes_ok_but_def recipe_keys_def)
  moreover have "recipes (tabs history_end) \<noteq> []" by code_simp
  then have "hd (recipes (tabs history_end)) \<in> set (recipes (tabs history_end))" by simp
  ultimately show ?thesis
    using recipe_history [of history_start history_end] by (simp add: history_start_def demo_world_def)
qed

section \<open>Recipes that cannot be deleted\<close>

text \<open>
  A recipe that anybody's batch is pinned to cannot be deleted by its author: the foreign key
  of \<^verbatim>\<open>batches.recipe_revision_id\<close> refuses, the handler answers
  \<^verbatim>\<open>500 delete failed\<close>, and every table stays as it was.
\<close>

theorem pinned_recipe_undeletable:
  assumes "v \<in> set (revisions (tabs w))" and "b \<in> set (batches (tabs w))"
    and "b_recipe_revision b = Some (rv_id v)"
    and "exists_where (own_recipe (rv_recipe v) (u_id user)) (recipes (tabs w))"
  shows "run_state (handleDeleteRecipe user (Some (rv_recipe v))) w =
    (Fail 500 ''delete failed'', tock w)"
proof -
  have "recipe_pinned (rv_recipe v) (tabs w)"
    using assms(1-3) unfolding recipe_pinned_def Let_def exists_where_iff
    by (intro disjI1 bexI [of _ b]) auto
  with assms(4) show ?thesis
    by (simp add: handleDeleteRecipe_def DeleteRecipe_def run_handle run_sql_write
        split: outcome.split)
qed

definition pinned_db :: db where
  "pinned_db = empty_db\<lparr>users := [demo_user 1 ''ann'', demo_user 2 ''bob''],
     recipes := [demo_recipe 30 1 Public (Some 40)],
     revisions := [\<lparr>rv_id = 40, rv_recipe = 30, rv_number = 1, rv_author = 1, rv_message = None,
       rv_name = ''Traditional'', rv_description = None, rv_style = None, rv_target_og = None,
       rv_target_fg = None, rv_target_abv = None, rv_batch_size_l = None, rv_ingredients = [],
       rv_created_at = 0\<rparr>],
     batches := [demo_batch 20 2 (Some 30) (Some 40) Primary]\<rparr>"

lemma pinned_recipe_undeletable_witness:
  "run_state (handleDeleteRecipe (demo_user 1 ''ann'') (Some 30)) (demo_world pinned_db 0) =
    (Fail 500 ''delete failed'', tock (demo_world pinned_db 0))"
proof -
  have v: "hd (revisions pinned_db) \<in> set (revisions (tabs (demo_world pinned_db 0)))"
    by (simp add: pinned_db_def demo_simps)
  from pinned_recipe_undeletable [OF v, of "demo_batch 20 2 (Some 30) (Some 40) Primary"
      "demo_user 1 ''ann''"]
  show ?thesis by (simp add: pinned_db_def demo_simps exists_where_def own_recipe_def)
qed

end
