(* ===== verification/Batches.thy ===== *)
theory Batches
  imports Materialize Recipes
begin

text \<open>
  Batches and their readings: the statements of \<^verbatim>\<open>internal/queries/batches.sql.go\<close> and
  \<^verbatim>\<open>readings.sql.go\<close> and the handlers of \<^verbatim>\<open>internal/server/batches.go\<close> on
  them. Journal events and tasting notes are in \<open>Events\<close>.
\<close>

section \<open>Statements on batches\<close>

definition own_batch :: "uuid \<Rightarrow> uuid \<Rightarrow> batch \<Rightarrow> bool" where
  "own_batch i u b \<longleftrightarrow> b_id b = i \<and> b_brewer b = u"

record create_batch_params =
  cb_brewer :: uuid
  cb_recipe :: "uuid option"
  cb_recipe_revision :: "uuid option"
  cb_name :: string
  cb_brew_type :: string
  cb_stage :: string
  cb_started_at :: "time option"
  cb_notes :: nulltext
  cb_visibility :: string

definition CreateBatch :: "create_batch_params \<Rightarrow> batch stmt" where
  "CreateBatch p = sql_write (\<lambda>w.
     case (brew_type_of (cb_brew_type p), batch_stage_of (cb_stage p), visibility_of (cb_visibility p)) of
       (Some bt, Some st, Some vi) \<Rightarrow>
         (let (i, w1) = gen_uuid w; d = tabs w in
          sql_insert batches put_batches b_id
            (refers u_id (users d) (cb_brewer p) \<and> refers_opt rc_id (recipes d) (cb_recipe p) \<and>
             refers_opt rv_id (revisions d) (cb_recipe_revision p))
            \<lparr>b_id = i, b_brewer = cb_brewer p, b_recipe = cb_recipe p,
             b_recipe_revision = cb_recipe_revision p, b_name = cb_name p, b_brew_type = bt,
             b_stage = st, b_started_at = cb_started_at p, b_bottled_at = None, b_visibility = vi,
             b_notes = cb_notes p, b_created_at = clock w, b_updated_at = clock w\<rparr> w1)
     | _ \<Rightarrow> Inl InvalidText)"

definition GetBatchForUser :: "uuid \<Rightarrow> uuid \<Rightarrow> batch stmt" where
  "GetBatchForUser i u = sql_read (\<lambda>w. one (find_where (own_batch i u) (batches (tabs w))))"

text \<open>\<^verbatim>\<open>COALESCE(started_at, created_at)\<close>, then the id.\<close>

definition batch_key :: "batch \<Rightarrow> time \<times> uuid" where
  "batch_key b = (coalesce (b_started_at b) (b_created_at b), b_id b)"

definition ListBatchesForUser :: "uuid \<Rightarrow> (time \<times> uuid) option \<Rightarrow> nat \<Rightarrow> batch list stmt" where
  "ListBatchesForUser u cur n = sql_read (\<lambda>w.
     Inr (keyset_desc batch_key cur n (filter (\<lambda>b. b_brewer b = u) (batches (tabs w)))))"

definition ListAllBatchesForUser :: "uuid \<Rightarrow> batch list stmt" where
  "ListAllBatchesForUser u = sql_read (\<lambda>w.
     Inr (sort_key b_created_at (filter (\<lambda>b. b_brewer b = u) (batches (tabs w)))))"

record update_batch_params =
  ub_id :: uuid
  ub_brewer :: uuid
  ub_name :: nulltext
  ub_stage :: "string option"
  ub_notes :: nulltext
  ub_started_at :: "time option"
  ub_bottled_at :: "time option"
  ub_visibility :: "string option"

definition patch_batch ::
    "update_batch_params \<Rightarrow> batch_stage option \<Rightarrow> visibility option \<Rightarrow> time \<Rightarrow> batch \<Rightarrow> batch" where
  "patch_batch p st vi now b = b\<lparr>b_name := coalesce (ub_name p) (b_name b),
     b_stage := coalesce st (b_stage b), b_notes := coalesce_opt (ub_notes p) (b_notes b),
     b_started_at := coalesce_opt (ub_started_at p) (b_started_at b),
     b_bottled_at := coalesce_opt (ub_bottled_at p) (b_bottled_at b),
     b_visibility := coalesce vi (b_visibility b), b_updated_at := now\<rparr>"

definition UpdateBatch :: "update_batch_params \<Rightarrow> batch stmt" where
  "UpdateBatch p = sql_write (\<lambda>w.
     case opt_enum batch_stage_of (ub_stage p) of
       Inl e \<Rightarrow> Inl e
     | Inr st \<Rightarrow>
         (case opt_enum visibility_of (ub_visibility p) of
            Inl e \<Rightarrow> Inl e
          | Inr vi \<Rightarrow> sql_update batches put_batches (own_batch (ub_id p) (ub_brewer p))
                        (patch_batch p st vi (clock w)) w))"

text \<open>
  \<^verbatim>\<open>DELETE FROM batches\<close>: readings, events, tasting notes and reminders go with the batch, and
  a notification of such a reminder loses its reference.
\<close>

definition drop_batch :: "uuid \<Rightarrow> db \<Rightarrow> db" where
  "drop_batch i d =
     (let gone = map rm_id (filter (\<lambda>r. rm_batch r = Some i) (reminders d)) in
      d\<lparr>batches := del_where (\<lambda>b. b_id b = i) (batches d),
        readings := del_where (\<lambda>r. rd_batch r = i) (readings d),
        events := del_where (\<lambda>e. ev_batch e = i) (events d),
        tasting_notes := del_where (\<lambda>n. tn_batch n = i) (tasting_notes d),
        reminders := del_where (\<lambda>r. rm_batch r = Some i) (reminders d),
        notifications := upd_where
          (\<lambda>n. case nt_reminder n of None \<Rightarrow> False | Some r \<Rightarrow> r \<in> set gone)
          (\<lambda>n. n\<lparr>nt_reminder := None\<rparr>) (notifications d)\<rparr>)"

definition DeleteBatch :: "uuid \<Rightarrow> uuid \<Rightarrow> nat stmt" where
  "DeleteBatch i u = sql_write (\<lambda>w.
     if exists_where (own_batch i u) (batches (tabs w))
     then Inr (count_where (own_batch i u) (batches (tabs w)), set_tabs (drop_batch i (tabs w)) w)
     else Inr (0, w))"

interpretation own_batches: owner_scoped b_id b_brewer
  "\<lambda>i u. find_where (own_batch i u)" "\<lambda>f i u. upd_where (own_batch i u) f"
  "\<lambda>i u. del_where (own_batch i u)"
  by unfold_locales (auto simp: own_batch_def upd_where_def del_where_def find_where_None
      dest: find_where_Some)

section \<open>Statements on readings\<close>

definition batch_reading :: "uuid \<Rightarrow> uuid \<Rightarrow> reading \<Rightarrow> bool" where
  "batch_reading i b r \<longleftrightarrow> rd_id r = i \<and> rd_batch r = b"

record reading_params =
  pr_batch :: uuid
  pr_taken_at :: time
  pr_gravity :: "rat option"
  pr_temperature_c :: "rat option"
  pr_ph :: "rat option"
  pr_notes :: nulltext
  pr_source :: string

text \<open>\<^verbatim>\<open>gravity NUMERIC(5,3), temperature_c NUMERIC(5,2), ph NUMERIC(4,2)\<close>.\<close>

definition cast_measures ::
    "rat option \<Rightarrow> rat option \<Rightarrow> rat option \<Rightarrow> dberr + (rat option \<times> rat option \<times> rat option)" where
  "cast_measures g t p =
     (case num_cast 5 3 g of Inl e \<Rightarrow> Inl e | Inr g' \<Rightarrow>
      case num_cast 5 2 t of Inl e \<Rightarrow> Inl e | Inr t' \<Rightarrow>
      case num_cast 4 2 p of Inl e \<Rightarrow> Inl e | Inr p' \<Rightarrow> Inr (g', t', p'))"

definition CreateReading :: "reading_params \<Rightarrow> reading stmt" where
  "CreateReading p = sql_write (\<lambda>w.
     case cast_measures (pr_gravity p) (pr_temperature_c p) (pr_ph p) of
       Inl e \<Rightarrow> Inl e
     | Inr (g, t, ph) \<Rightarrow>
         (let (i, w1) = gen_uuid w in
          sql_insert readings put_readings rd_id (refers b_id (batches (tabs w)) (pr_batch p))
            \<lparr>rd_id = i, rd_batch = pr_batch p, rd_device = None, rd_taken_at = pr_taken_at p,
             rd_gravity = g, rd_temperature_c = t, rd_ph = ph, rd_notes = pr_notes p,
             rd_source = pr_source p\<rparr> w1))"

definition reading_key :: "reading \<Rightarrow> time \<times> uuid" where
  "reading_key r = (rd_taken_at r, rd_id r)"

definition ListReadingsForBatch :: "uuid \<Rightarrow> (time \<times> uuid) option \<Rightarrow> nat \<Rightarrow> reading list stmt" where
  "ListReadingsForBatch b cur n = sql_read (\<lambda>w.
     Inr (keyset_asc reading_key cur n (filter (\<lambda>r. rd_batch r = b) (readings (tabs w)))))"

definition ListAllReadingsForBatch :: "uuid \<Rightarrow> reading list stmt" where
  "ListAllReadingsForBatch b = sql_read (\<lambda>w.
     Inr (sort_key reading_key (filter (\<lambda>r. rd_batch r = b) (readings (tabs w)))))"

record update_reading_params =
  ur_id :: uuid
  ur_batch :: uuid
  ur_taken_at :: "time option"
  ur_gravity :: "rat option"
  ur_temperature_c :: "rat option"
  ur_ph :: "rat option"
  ur_notes :: nulltext

definition UpdateReading :: "update_reading_params \<Rightarrow> reading stmt" where
  "UpdateReading p = sql_write (\<lambda>w.
     if \<not> exists_where (batch_reading (ur_id p) (ur_batch p)) (readings (tabs w)) then Inl NoRows
     else case cast_measures (ur_gravity p) (ur_temperature_c p) (ur_ph p) of
       Inl e \<Rightarrow> Inl e
     | Inr (g, t, ph) \<Rightarrow>
         sql_update readings put_readings (batch_reading (ur_id p) (ur_batch p))
           (\<lambda>r. r\<lparr>rd_taken_at := coalesce (ur_taken_at p) (rd_taken_at r),
              rd_gravity := coalesce_opt g (rd_gravity r),
              rd_temperature_c := coalesce_opt t (rd_temperature_c r),
              rd_ph := coalesce_opt ph (rd_ph r),
              rd_notes := coalesce_opt (ur_notes p) (rd_notes r)\<rparr>) w)"

definition DeleteReading :: "uuid \<Rightarrow> uuid \<Rightarrow> nat stmt" where
  "DeleteReading i b = sql_write (sql_delete readings put_readings (batch_reading i b))"

definition DeleteReadingsBulk :: "uuid \<Rightarrow> uuid list \<Rightarrow> nat stmt" where
  "DeleteReadingsBulk b ids =
     sql_write (sql_delete readings put_readings (\<lambda>r. rd_batch r = b \<and> rd_id r \<in> set ids))"

interpretation batch_readings: owner_scoped rd_id rd_batch
  "\<lambda>i b. find_where (batch_reading i b)" "\<lambda>f i b. upd_where (batch_reading i b) f"
  "\<lambda>i b. del_where (batch_reading i b)"
  by unfold_locales (auto simp: batch_reading_def upd_where_def del_where_def find_where_None
      dest: find_where_Some)

section \<open>Views\<close>

record batch_view =
  bv_id :: uuid
  bv_name :: string
  bv_brew_type :: string
  bv_stage :: string
  bv_started_at :: "time option"
  bv_bottled_at :: "time option"
  bv_visibility :: string
  bv_notes :: string
  bv_created_at :: time
  bv_updated_at :: time

definition toBatchView :: "batch \<Rightarrow> batch_view" where
  "toBatchView b = \<lparr>bv_id = b_id b, bv_name = b_name b, bv_brew_type = brew_type_str (b_brew_type b),
     bv_stage = batch_stage_str (b_stage b), bv_started_at = b_started_at b,
     bv_bottled_at = b_bottled_at b, bv_visibility = visibility_str (b_visibility b),
     bv_notes = textOrEmpty (b_notes b), bv_created_at = b_created_at b,
     bv_updated_at = b_updated_at b\<rparr>"

record reading_view =
  rgv_id :: uuid
  rgv_batch :: uuid
  rgv_taken_at :: time
  rgv_gravity :: "rat option"
  rgv_temperature_c :: "rat option"
  rgv_ph :: "rat option"
  rgv_notes :: string
  rgv_source :: string

definition toReadingView :: "reading \<Rightarrow> reading_view" where
  "toReadingView r = \<lparr>rgv_id = rd_id r, rgv_batch = rd_batch r, rgv_taken_at = rd_taken_at r,
     rgv_gravity = rd_gravity r, rgv_temperature_c = rd_temperature_c r, rgv_ph = rd_ph r,
     rgv_notes = textOrEmpty (rd_notes r), rgv_source = rd_source r\<rparr>"

section \<open>Batch handlers\<close>

definition maxBatchName :: nat where "maxBatchName = 200"
definition maxNotesBytes :: nat where "maxNotesBytes = 10 * 1024"

text \<open>
  The request after decoding; \<^verbatim>\<open>recipe_id\<close> is absent, a string that is no UUID
  (\<open>Some None\<close>), or a UUID.
\<close>

record create_batch_request =
  qb_name :: string
  qb_brew_type :: string
  qb_stage :: string
  qb_started_at :: "time option"
  qb_notes :: string
  qb_visibility :: string
  qb_recipe :: "uuid option option"

definition check_create_batch :: "create_batch_request \<Rightarrow> 'v resp + create_batch_request" where
  "check_create_batch q =
     (let bt = (if qb_brew_type q = [] then defaultBrewType else qb_brew_type q) in
      if qb_name q = [] \<or> length (qb_name q) > maxBatchName
      then Inl (Fail 400 ''name required (max 200 chars)'')
      else if length (qb_notes q) > maxNotesBytes then Inl (Fail 400 ''notes too long'')
      else if bt \<notin> set allowedBrewTypes then Inl (Fail 400 unsupportedBrewTypeMsg)
      else Inr (q\<lparr>qb_brew_type := bt,
        qb_stage := (if qb_stage q = [] then ''planning'' else qb_stage q),
        qb_visibility := (if qb_visibility q = [] then ''public'' else qb_visibility q)\<rparr>))"

definition batch_params ::
    "user \<Rightarrow> create_batch_request \<Rightarrow> uuid option \<Rightarrow> uuid option \<Rightarrow> create_batch_params" where
  "batch_params user q rc rv = \<lparr>cb_brewer = u_id user, cb_recipe = rc, cb_recipe_revision = rv,
     cb_name = qb_name q, cb_brew_type = qb_brew_type q, cb_stage = qb_stage q,
     cb_started_at = qb_started_at q, cb_notes = optText (qb_notes q),
     cb_visibility = qb_visibility q\<rparr>"

definition insert_batch :: "create_batch_params \<Rightarrow> batch_view resp act" where
  "insert_batch p =
     handle (CreateBatch p)
       (\<lambda>e. if e = InvalidText then Fail 400 ''invalid stage or visibility value''
            else Fail 500 ''create failed'')
       (\<lambda>b. do {
          (case b_started_at b of
             Some t \<Rightarrow> if b_recipe b \<noteq> None then materializeTemplates b AnchorBatchStart t else ret ()
           | None \<Rightarrow> ret ());
          ret (Okay 201 (toBatchView b)) })"

definition handleCreateBatch :: "user \<Rightarrow> create_batch_request option \<Rightarrow> batch_view resp act" where
  "handleCreateBatch user body = (case body of
     None \<Rightarrow> ret (Fail 400 ''invalid json'')
   | Some q0 \<Rightarrow> (case check_create_batch q0 of
       Inl r \<Rightarrow> ret r
     | Inr q \<Rightarrow> (case qb_recipe q of
         None \<Rightarrow> insert_batch (batch_params user q None None)
       | Some None \<Rightarrow> ret (Fail 400 ''invalid recipe_id'')
       | Some (Some rid) \<Rightarrow>
           handle (GetRecipeByID rid)
             (\<lambda>e. if e = NoRows then Fail 422 ''recipe not found'' else Fail 500 ''create failed'')
             (\<lambda>r. if rc_visibility r = Private \<and> rc_author r \<noteq> u_id user
                then ret (Fail 422 ''recipe not found'')
                else insert_batch
                  (batch_params user q (Some (rc_id r)) (rc_current_revision r))))))"

definition handleListBatches ::
    "user \<Rightarrow> string \<Rightarrow> cursor_param \<Rightarrow> (batch_view list \<times> (time \<times> uuid) option) resp act" where
  "handleListBatches user limit cur = (case parseListPagination limit cur of
     Inl m \<Rightarrow> ret (Fail 400 m)
   | Inr p \<Rightarrow> handle (ListBatchesForUser (u_id user) (lp_cursor p) (nat (lp_limit p)))
       (\<lambda>e. Fail 500 ''list failed'')
       (\<lambda>rows. ret (Okay 200 (page_of toBatchView batch_key (lp_limit p) rows))))"

definition handleGetBatch :: "user \<Rightarrow> uuid option \<Rightarrow> batch_view resp act" where
  "handleGetBatch user pid = (case pid of
     None \<Rightarrow> ret (Fail 400 ''invalid id'')
   | Some i \<Rightarrow> handle (GetBatchForUser i (u_id user)) fetch_error
       (\<lambda>b. ret (Okay 200 (toBatchView b))))"

record update_batch_request =
  qub_name :: "string option"
  qub_stage :: "string option"
  qub_notes :: "string option"
  qub_started_at :: "time option"
  qub_bottled_at :: "time option"
  qub_visibility :: "string option"

definition check_update_batch :: "update_batch_request \<Rightarrow> 'v resp option" where
  "check_update_batch q =
     (if (case qub_name q of None \<Rightarrow> False | Some n \<Rightarrow> n = [] \<or> length n > maxBatchName)
      then Some (Fail 400 ''invalid name'')
      else if (case qub_notes q of None \<Rightarrow> False | Some t \<Rightarrow> length t > maxNotesBytes)
      then Some (Fail 400 ''notes too long'')
      else None)"

definition handleUpdateBatch ::
    "user \<Rightarrow> uuid option \<Rightarrow> update_batch_request option \<Rightarrow> batch_view resp act" where
  "handleUpdateBatch user pid body = (case pid of
     None \<Rightarrow> ret (Fail 400 ''invalid id'')
   | Some i \<Rightarrow> (case body of
       None \<Rightarrow> ret (Fail 400 ''invalid json'')
     | Some q \<Rightarrow> (case check_update_batch q of
         Some r \<Rightarrow> ret r
       | None \<Rightarrow>
           handle (UpdateBatch \<lparr>ub_id = i, ub_brewer = u_id user, ub_name = qub_name q,
               ub_stage = qub_stage q, ub_notes = qub_notes q, ub_started_at = qub_started_at q,
               ub_bottled_at = qub_bottled_at q, ub_visibility = qub_visibility q\<rparr>)
             (\<lambda>e. if e = NoRows then Fail 404 ''not found''
                  else if e = InvalidText then Fail 400 ''invalid stage or visibility value''
                  else Fail 500 ''update failed'')
             (\<lambda>b. do {
                (case (qub_started_at q, b_started_at b, b_recipe b) of
                   (Some _, Some t, Some _) \<Rightarrow> materializeTemplates b AnchorBatchStart t
                 | _ \<Rightarrow> ret ());
                ret (Okay 200 (toBatchView b)) }))))"

definition handleDeleteBatch :: "user \<Rightarrow> uuid option \<Rightarrow> unit resp act" where
  "handleDeleteBatch user pid = (case pid of
     None \<Rightarrow> ret (Fail 400 ''invalid id'')
   | Some i \<Rightarrow> handle (DeleteBatch i (u_id user)) (\<lambda>e. Fail 500 ''delete failed'') delete_resp)"

section \<open>Ownership\<close>

definition userOwnsBatch :: "uuid \<Rightarrow> uuid \<Rightarrow> bool act" where
  "userOwnsBatch u i = do {
     r \<leftarrow> GetBatchForUser i u;
     ret (case r of Inl e \<Rightarrow> False | Inr b \<Rightarrow> True) }"

text \<open>The guard in front of the handlers on the parts of a batch.\<close>

definition if_owner :: "user \<Rightarrow> uuid \<Rightarrow> 'v resp act \<Rightarrow> 'v resp act" where
  "if_owner user i m = do {
     ok \<leftarrow> userOwnsBatch (u_id user) i;
     if ok then m else ret (Fail 404 ''not found'') }"

section \<open>Reading handlers\<close>

record create_reading_request =
  qg_taken_at :: "time option"
  qg_gravity :: "rat option"
  qg_temperature_c :: "rat option"
  qg_ph :: "rat option"
  qg_notes :: string
  qg_source :: string

definition handleCreateReading ::
    "user \<Rightarrow> uuid option \<Rightarrow> create_reading_request option \<Rightarrow> reading_view resp act" where
  "handleCreateReading user pid body = (case pid of
     None \<Rightarrow> ret (Fail 400 ''invalid batch id'')
   | Some i \<Rightarrow> if_owner user i (case body of
       None \<Rightarrow> ret (Fail 400 ''invalid json'')
     | Some q \<Rightarrow>
         if qg_gravity q = None \<and> qg_temperature_c q = None \<and> qg_ph q = None
         then ret (Fail 400 ''at least one of gravity, temperature_c, ph required'')
         else do {
           now \<leftarrow> ask clock;
           handle (CreateReading \<lparr>pr_batch = i, pr_taken_at = coalesce (qg_taken_at q) now,
               pr_gravity = qg_gravity q, pr_temperature_c = qg_temperature_c q, pr_ph = qg_ph q,
               pr_notes = optText (qg_notes q),
               pr_source = (if qg_source q = [] then ''manual'' else qg_source q)\<rparr>)
             (\<lambda>e. Fail 500 ''create failed'') (\<lambda>r. ret (Okay 201 (toReadingView r))) }))"

definition handleListReadings ::
    "user \<Rightarrow> uuid option \<Rightarrow> string \<Rightarrow> cursor_param \<Rightarrow>
     (reading_view list \<times> (time \<times> uuid) option) resp act" where
  "handleListReadings user pid limit cur = (case pid of
     None \<Rightarrow> ret (Fail 400 ''invalid batch id'')
   | Some i \<Rightarrow> if_owner user i (case parseListPagination limit cur of
       Inl m \<Rightarrow> ret (Fail 400 m)
     | Inr p \<Rightarrow> handle (ListReadingsForBatch i (lp_cursor p) (nat (lp_limit p)))
         (\<lambda>e. Fail 500 ''list failed'')
         (\<lambda>rows. ret (Okay 200 (page_of toReadingView reading_key (lp_limit p) rows)))))"

record update_reading_request =
  qur_taken_at :: "time option"
  qur_gravity :: "rat option"
  qur_temperature_c :: "rat option"
  qur_ph :: "rat option"
  qur_notes :: "string option"

definition handleUpdateReading ::
    "user \<Rightarrow> uuid option \<Rightarrow> uuid option \<Rightarrow> update_reading_request option \<Rightarrow> reading_view resp act" where
  "handleUpdateReading user pid prid body = (case pid of
     None \<Rightarrow> ret (Fail 400 ''invalid batch id'')
   | Some i \<Rightarrow> (case prid of
       None \<Rightarrow> ret (Fail 400 ''invalid reading id'')
     | Some ri \<Rightarrow> if_owner user i (case body of
         None \<Rightarrow> ret (Fail 400 ''invalid json'')
       | Some q \<Rightarrow>
           handle (UpdateReading \<lparr>ur_id = ri, ur_batch = i, ur_taken_at = qur_taken_at q,
               ur_gravity = qur_gravity q, ur_temperature_c = qur_temperature_c q,
               ur_ph = qur_ph q, ur_notes = qur_notes q\<rparr>)
             (\<lambda>e. if e = NoRows then Fail 404 ''not found'' else Fail 500 ''update failed'')
             (\<lambda>r. ret (Okay 200 (toReadingView r))))))"

definition maxBulkDeleteReadings :: nat where "maxBulkDeleteReadings = 200"

text \<open>The ids of the request after \<^verbatim>\<open>uuid.Parse\<close>: \<open>None\<close> for one that is refused.\<close>

definition handleBulkDeleteReadings ::
    "user \<Rightarrow> uuid option \<Rightarrow> uuid option list option \<Rightarrow> nat resp act" where
  "handleBulkDeleteReadings user pid body = (case pid of
     None \<Rightarrow> ret (Fail 400 ''invalid batch id'')
   | Some i \<Rightarrow> if_owner user i (case body of
       None \<Rightarrow> ret (Fail 400 ''invalid json'')
     | Some raw \<Rightarrow>
         if raw = [] then ret (Fail 400 ''ids required'')
         else if length raw > maxBulkDeleteReadings then ret (Fail 400 ''too many ids'')
         else if None \<in> set raw then ret (Fail 400 ''invalid reading id'')
         else handle (DeleteReadingsBulk i (map the raw)) (\<lambda>e. Fail 500 ''delete failed'')
           (\<lambda>n. ret (Okay 200 n))))"

definition handleDeleteReading :: "user \<Rightarrow> uuid option \<Rightarrow> uuid option \<Rightarrow> unit resp act" where
  "handleDeleteReading user pid prid = (case pid of
     None \<Rightarrow> ret (Fail 400 ''invalid batch id'')
   | Some i \<Rightarrow> (case prid of
       None \<Rightarrow> ret (Fail 400 ''invalid reading id'')
     | Some ri \<Rightarrow> if_owner user i
         (handle (DeleteReading ri i) (\<lambda>e. Fail 500 ''delete failed'') delete_resp)))"

end
