(* ===== verification/Events.thy ===== *)
theory Events
  imports Batches
begin

text \<open>
  The journal of a batch and its tasting notes: the statements of
  \<^verbatim>\<open>internal/queries/batch_events.sql.go\<close> and \<^verbatim>\<open>tasting_notes.sql.go\<close>, the
  handlers of \<^verbatim>\<open>internal/server/batches.go\<close> on them, and the stage a batch is advanced
  to by a pitch, a rack or a bottling.
\<close>

section \<open>Statements\<close>

record event_params =
  pe_batch :: uuid
  pe_occurred_at :: time
  pe_kind :: string
  pe_title :: nulltext
  pe_description :: nulltext
  pe_details :: jsonraw

definition CreateBatchEvent :: "event_params \<Rightarrow> batch_event stmt" where
  "CreateBatchEvent p = sql_write (\<lambda>w.
     case event_kind_of (pe_kind p) of
       None \<Rightarrow> Inl InvalidText
     | Some k \<Rightarrow>
         (let (i, w1) = gen_uuid w in
          sql_insert events put_events ev_id (refers b_id (batches (tabs w)) (pe_batch p))
            \<lparr>ev_id = i, ev_batch = pe_batch p, ev_occurred_at = pe_occurred_at p, ev_kind = k,
             ev_title = pe_title p, ev_description = pe_description p, ev_details = pe_details p\<rparr> w1))"

definition event_key :: "batch_event \<Rightarrow> time \<times> uuid" where
  "event_key e = (ev_occurred_at e, ev_id e)"

definition ListBatchEventsForBatch ::
    "uuid \<Rightarrow> (time \<times> uuid) option \<Rightarrow> nat \<Rightarrow> batch_event list stmt" where
  "ListBatchEventsForBatch b cur n = sql_read (\<lambda>w.
     Inr (keyset_asc event_key cur n (filter (\<lambda>e. ev_batch e = b) (events (tabs w)))))"

definition ListAllBatchEventsForBatch :: "uuid \<Rightarrow> batch_event list stmt" where
  "ListAllBatchEventsForBatch b = sql_read (\<lambda>w.
     Inr (sort_key event_key (filter (\<lambda>e. ev_batch e = b) (events (tabs w)))))"

definition of_batch :: "uuid \<Rightarrow> uuid \<Rightarrow> batch_event \<Rightarrow> bool" where
  "of_batch i b e \<longleftrightarrow> ev_id e = i \<and> ev_batch e = b"

record update_event_params =
  ue_id :: uuid
  ue_batch :: uuid
  ue_occurred_at :: "time option"
  ue_kind :: "string option"
  ue_title :: nulltext
  ue_description :: nulltext
  ue_details :: "jsonraw option"

definition GetBatchEvent :: "uuid \<Rightarrow> uuid \<Rightarrow> batch_event stmt" where
  "GetBatchEvent i b = sql_read (\<lambda>w. one (find_where (\<lambda>e. ev_id e = i \<and> ev_batch e = b) (events (tabs w))))"

definition UpdateBatchEvent :: "update_event_params \<Rightarrow> batch_event stmt" where
  "UpdateBatchEvent p = sql_write (\<lambda>w.
     case opt_enum event_kind_of (ue_kind p) of
       Inl e \<Rightarrow> Inl e
     | Inr k \<Rightarrow>
         sql_update events put_events (of_batch (ue_id p) (ue_batch p))
           (\<lambda>e. e\<lparr>ev_occurred_at := coalesce (ue_occurred_at p) (ev_occurred_at e),
              ev_kind := coalesce k (ev_kind e),
              ev_title := coalesce_opt (ue_title p) (ev_title e),
              ev_description := coalesce_opt (ue_description p) (ev_description e),
              ev_details := coalesce (ue_details p) (ev_details e)\<rparr>) w)"

definition DeleteBatchEvent :: "uuid \<Rightarrow> uuid \<Rightarrow> nat stmt" where
  "DeleteBatchEvent i b = sql_write (sql_delete events put_events (of_batch i b))"

interpretation batch_events: owner_scoped ev_id ev_batch
  "\<lambda>i b. find_where (of_batch i b)" "\<lambda>f i b. upd_where (of_batch i b) f"
  "\<lambda>i b. del_where (of_batch i b)"
  by unfold_locales (auto simp: of_batch_def upd_where_def del_where_def find_where_None
      dest: find_where_Some)

record tasting_params =
  pt_batch :: uuid
  pt_author :: uuid
  pt_tasted_at :: time
  pt_rating :: "int option"
  pt_aroma :: nulltext
  pt_flavor :: nulltext
  pt_mouthfeel :: nulltext
  pt_finish :: nulltext
  pt_notes :: nulltext

text \<open>\<^verbatim>\<open>CHECK (rating BETWEEN 1 AND 5)\<close>.\<close>

definition CreateTastingNote :: "tasting_params \<Rightarrow> tasting_note stmt" where
  "CreateTastingNote p = sql_write (\<lambda>w.
     if (case pt_rating p of None \<Rightarrow> False | Some r \<Rightarrow> r < 1 \<or> r > 5) then Inl CheckViolation
     else let (i, w1) = gen_uuid w; d = tabs w in
       sql_insert tasting_notes put_tasting_notes tn_id
         (refers b_id (batches d) (pt_batch p) \<and> refers u_id (users d) (pt_author p))
         \<lparr>tn_id = i, tn_batch = pt_batch p, tn_author = pt_author p, tn_tasted_at = pt_tasted_at p,
          tn_rating = pt_rating p, tn_aroma = pt_aroma p, tn_flavor = pt_flavor p,
          tn_mouthfeel = pt_mouthfeel p, tn_finish = pt_finish p, tn_notes = pt_notes p\<rparr> w1)"

definition ListTastingNotesForBatch :: "uuid \<Rightarrow> tasting_note list stmt" where
  "ListTastingNotesForBatch b = sql_read (\<lambda>w.
     Inr (sort_key (\<lambda>n. (- tn_tasted_at n, tn_id n)) (filter (\<lambda>n. tn_batch n = b) (tasting_notes (tabs w)))))"

section \<open>Stages\<close>

primrec stageRank :: "batch_stage \<Rightarrow> nat" where
  "stageRank Planning = 0"
| "stageRank Primary = 1"
| "stageRank Secondary = 2"
| "stageRank Aging = 3"
| "stageRank Bottled = 4"
| "stageRank Archived = 5"

definition stageForEvent :: "event_kind \<Rightarrow> batch_stage option" where
  "stageForEvent k = (case k of
     Pitch \<Rightarrow> Some Primary | Rack \<Rightarrow> Some Secondary | Bottle \<Rightarrow> Some Bottled | _ \<Rightarrow> None)"

definition anchorForKind :: "event_kind \<Rightarrow> reminder_anchor option" where
  "anchorForKind k = (case k of
     Pitch \<Rightarrow> Some AnchorPitch | Rack \<Rightarrow> Some AnchorRack | Bottle \<Rightarrow> Some AnchorBottle | _ \<Rightarrow> None)"

definition advance_params :: "batch \<Rightarrow> batch_stage \<Rightarrow> time \<Rightarrow> update_batch_params" where
  "advance_params b target t0 = \<lparr>ub_id = b_id b, ub_brewer = b_brewer b, ub_name = None,
     ub_stage = Some (batch_stage_str target), ub_notes = None, ub_started_at = None,
     ub_bottled_at = (if target = Bottled then Some t0 else None), ub_visibility = None\<rparr>"

definition maybeAdvanceStage :: "batch \<Rightarrow> event_kind \<Rightarrow> time \<Rightarrow> unit act" where
  "maybeAdvanceStage b k t0 = (case stageForEvent k of
     None \<Rightarrow> ret ()
   | Some target \<Rightarrow>
       if stageRank target \<le> stageRank (b_stage b) then ret ()
       else do {
         _ \<leftarrow> UpdateBatch (advance_params b target t0);
         ret () })"

text \<open>What creating and updating an event end with: both effects are best effort.\<close>

definition event_effects :: "batch \<Rightarrow> batch_event \<Rightarrow> unit act" where
  "event_effects b e = do {
     (case anchorForKind (ev_kind e) of
        None \<Rightarrow> ret ()
      | Some an \<Rightarrow> if b_recipe b \<noteq> None then materializeTemplates b an (ev_occurred_at e) else ret ());
     maybeAdvanceStage b (ev_kind e) (ev_occurred_at e) }"

section \<open>Event handlers\<close>

record event_view =
  evv_id :: uuid
  evv_batch :: uuid
  evv_occurred_at :: time
  evv_kind :: string
  evv_title :: string
  evv_description :: string
  evv_details :: jsonraw

definition toEventView :: "batch_event \<Rightarrow> event_view" where
  "toEventView e = \<lparr>evv_id = ev_id e, evv_batch = ev_batch e, evv_occurred_at = ev_occurred_at e,
     evv_kind = event_kind_str (ev_kind e), evv_title = textOrEmpty (ev_title e),
     evv_description = textOrEmpty (ev_description e), evv_details = details_or_empty (ev_details e)\<rparr>"

record create_event_request =
  qe_occurred_at :: "time option"
  qe_kind :: string
  qe_title :: string
  qe_description :: string
  qe_details :: jsonraw

definition internal_error :: "dberr \<Rightarrow> 'v resp" where
  "internal_error e = (if e = NoRows then Fail 404 ''not found'' else Fail 500 ''internal error'')"

definition handleCreateBatchEvent ::
    "user \<Rightarrow> uuid option \<Rightarrow> create_event_request option \<Rightarrow> event_view resp act" where
  "handleCreateBatchEvent user pid body = (case pid of
     None \<Rightarrow> ret (Fail 400 ''invalid batch id'')
   | Some i \<Rightarrow> handle (GetBatchForUser i (u_id user)) internal_error (\<lambda>b. case body of
       None \<Rightarrow> ret (Fail 400 ''invalid json'')
     | Some q \<Rightarrow>
         if qe_kind q = [] then ret (Fail 400 ''kind required'')
         else if \<not> details_ok (qe_details q) then ret (Fail 400 ''details must be a JSON object'')
         else do {
           now \<leftarrow> ask clock;
           handle (CreateBatchEvent \<lparr>pe_batch = i, pe_occurred_at = coalesce (qe_occurred_at q) now,
               pe_kind = qe_kind q, pe_title = optText (qe_title q),
               pe_description = optText (qe_description q),
               pe_details = (if qe_details q = [] then ''{}'' else qe_details q)\<rparr>)
             (\<lambda>e. if e = InvalidText then Fail 400 ''invalid kind value'' else Fail 500 ''create failed'')
             (\<lambda>e. do { event_effects b e; ret (Okay 201 (toEventView e)) }) }))"

definition handleListBatchEvents ::
    "user \<Rightarrow> uuid option \<Rightarrow> string \<Rightarrow> cursor_param \<Rightarrow>
     (event_view list \<times> (time \<times> uuid) option) resp act" where
  "handleListBatchEvents user pid limit cur = (case pid of
     None \<Rightarrow> ret (Fail 400 ''invalid batch id'')
   | Some i \<Rightarrow> if_owner user i (case parseListPagination limit cur of
       Inl m \<Rightarrow> ret (Fail 400 m)
     | Inr p \<Rightarrow> handle (ListBatchEventsForBatch i (lp_cursor p) (nat (lp_limit p)))
         (\<lambda>e. Fail 500 ''list failed'')
         (\<lambda>rows. ret (Okay 200 (page_of toEventView event_key (lp_limit p) rows)))))"

record update_event_request =
  que_occurred_at :: "time option"
  que_kind :: "string option"
  que_title :: "string option"
  que_description :: "string option"
  que_details :: "jsonraw option"

definition handleUpdateBatchEvent ::
    "user \<Rightarrow> uuid option \<Rightarrow> uuid option \<Rightarrow> update_event_request option \<Rightarrow> event_view resp act" where
  "handleUpdateBatchEvent user pid peid body = (case pid of
     None \<Rightarrow> ret (Fail 400 ''invalid batch id'')
   | Some i \<Rightarrow> (case peid of
       None \<Rightarrow> ret (Fail 400 ''invalid event id'')
     | Some ei \<Rightarrow> handle (GetBatchForUser i (u_id user)) internal_error (\<lambda>b. case body of
         None \<Rightarrow> ret (Fail 400 ''invalid json'')
       | Some q \<Rightarrow>
           if (case que_details q of None \<Rightarrow> False | Some d \<Rightarrow> \<not> details_ok d)
           then ret (Fail 400 ''details must be a JSON object'')
           else handle (UpdateBatchEvent \<lparr>ue_id = ei, ue_batch = i,
               ue_occurred_at = que_occurred_at q, ue_kind = que_kind q, ue_title = que_title q,
               ue_description = que_description q, ue_details = que_details q\<rparr>)
             (\<lambda>e. if e = NoRows then Fail 404 ''not found''
                  else if e = InvalidText then Fail 400 ''invalid kind value''
                  else Fail 500 ''update failed'')
             (\<lambda>e. do { event_effects b e; ret (Okay 200 (toEventView e)) }))))"

definition handleDeleteBatchEvent :: "user \<Rightarrow> uuid option \<Rightarrow> uuid option \<Rightarrow> unit resp act" where
  "handleDeleteBatchEvent user pid peid = (case pid of
     None \<Rightarrow> ret (Fail 400 ''invalid batch id'')
   | Some i \<Rightarrow> (case peid of
       None \<Rightarrow> ret (Fail 400 ''invalid event id'')
     | Some ei \<Rightarrow> if_owner user i
         (handle (DeleteBatchEvent ei i) (\<lambda>e. Fail 500 ''delete failed'') delete_resp)))"

section \<open>Tasting notes\<close>

record tasting_view =
  tnv_id :: uuid
  tnv_batch :: uuid
  tnv_author :: uuid
  tnv_tasted_at :: time
  tnv_rating :: "int option"
  tnv_aroma :: string
  tnv_flavor :: string
  tnv_mouthfeel :: string
  tnv_finish :: string
  tnv_notes :: string

definition toTastingNoteView :: "tasting_note \<Rightarrow> tasting_view" where
  "toTastingNoteView n = \<lparr>tnv_id = tn_id n, tnv_batch = tn_batch n, tnv_author = tn_author n,
     tnv_tasted_at = tn_tasted_at n, tnv_rating = tn_rating n, tnv_aroma = textOrEmpty (tn_aroma n),
     tnv_flavor = textOrEmpty (tn_flavor n), tnv_mouthfeel = textOrEmpty (tn_mouthfeel n),
     tnv_finish = textOrEmpty (tn_finish n), tnv_notes = textOrEmpty (tn_notes n)\<rparr>"

record tasting_request =
  qt_tasted_at :: "time option"
  qt_rating :: "int option"
  qt_aroma :: string
  qt_flavor :: string
  qt_mouthfeel :: string
  qt_finish :: string
  qt_notes :: string

definition handleCreateTastingNote ::
    "user \<Rightarrow> uuid option \<Rightarrow> tasting_request option \<Rightarrow> tasting_view resp act" where
  "handleCreateTastingNote user pid body = (case pid of
     None \<Rightarrow> ret (Fail 400 ''invalid batch id'')
   | Some i \<Rightarrow> if_owner user i (case body of
       None \<Rightarrow> ret (Fail 400 ''invalid json'')
     | Some q \<Rightarrow>
         if (case qt_rating q of None \<Rightarrow> False | Some r \<Rightarrow> r < 1 \<or> r > 5)
         then ret (Fail 400 ''rating must be 1-5'')
         else if qt_rating q = None \<and> qt_aroma q = [] \<and> qt_flavor q = [] \<and> qt_mouthfeel q = [] \<and>
           qt_finish q = [] \<and> qt_notes q = []
         then ret (Fail 400 ''tasting note must have at least one field set'')
         else do {
           now \<leftarrow> ask clock;
           handle (CreateTastingNote \<lparr>pt_batch = i, pt_author = u_id user,
               pt_tasted_at = coalesce (qt_tasted_at q) now, pt_rating = qt_rating q,
               pt_aroma = optText (qt_aroma q), pt_flavor = optText (qt_flavor q),
               pt_mouthfeel = optText (qt_mouthfeel q), pt_finish = optText (qt_finish q),
               pt_notes = optText (qt_notes q)\<rparr>)
             (\<lambda>e. Fail 500 ''create failed'') (\<lambda>n. ret (Okay 201 (toTastingNoteView n))) }))"

definition handleListTastingNotes :: "user \<Rightarrow> uuid option \<Rightarrow> tasting_view list resp act" where
  "handleListTastingNotes user pid = (case pid of
     None \<Rightarrow> ret (Fail 400 ''invalid batch id'')
   | Some i \<Rightarrow> if_owner user i
       (handle (ListTastingNotesForBatch i) (\<lambda>e. Fail 500 ''list failed'')
         (\<lambda>rows. ret (Okay 200 (map toTastingNoteView rows)))))"

end
