(* ===== verification/Batch_Props.thy ===== *)
theory Batch_Props
  imports Events
begin

text \<open>
  What the batch and event endpoints promise: a batch is pinned to the revision of a recipe its
  brewer may see, the pages of the batch list visit every batch once, an event never moves a batch
  backward, and a deleted batch leaves no row behind.
\<close>

section \<open>Creating a batch\<close>

lemma batches_materialize:
  "run_state (materializeTemplates b an t0) w = (u, w') \<Longrightarrow> batches (tabs w') = batches (tabs w)"
  using keeps_materializeTemplates [of b an t0]
  unfolding keeps_def batch_reminders_only_def
  by (metis (no_types, lifting) db.select_convs(14) db.surjective db.update_convs(18) snd_conv)

text \<open>The row a successful insertion appends, whatever becomes of its reminders.\<close>

lemma insert_batch_row:
  assumes "run_state (insert_batch p) w = (Okay n v, w')"
  shows "\<exists>b. batches (tabs w') = batches (tabs w) @ [b] \<and> v = toBatchView b \<and> n = 201 \<and>
     b_brewer b = cb_brewer p \<and> b_recipe b = cb_recipe p \<and>
     b_recipe_revision b = cb_recipe_revision p \<and> (\<forall>c\<in>set (batches (tabs w)). b_id c \<noteq> b_id b)"
proof -
  obtain r w1 where c: "run_state (CreateBatch p) w = (r, w1)" by fastforce
  with assms obtain b where r: "r = Inr b"
    by (cases r) (auto simp: insert_batch_def run_handle split: if_splits)
  have b: "batches (tabs w1) = batches (tabs w) @ [b] \<and> b_brewer b = cb_brewer p \<and>
     b_recipe b = cb_recipe p \<and> b_recipe_revision b = cb_recipe_revision p \<and>
     (\<forall>c\<in>set (batches (tabs w)). b_id c \<noteq> b_id b)"
    using c unfolding r CreateBatch_def
    by (auto simp: run_sql_write gen_uuid_def Let_def sql_insert_Inr
        split: outcome.splits sum.splits option.splits)
  from assms c r have "v = toBatchView b" "n = 201" "batches (tabs w') = batches (tabs w1)"
    by (auto simp: insert_batch_def run_handle dest: batches_materialize
        split: option.splits if_splits prod.splits)
  with b show ?thesis by auto
qed

text \<open>
  C7: A batch that is created from a recipe is pinned to the revision that is current at that
  moment, and only to a recipe its brewer may see: the recipe is not private, or is the brewer's
  own. The batch belongs to the user of the request.
\<close>

theorem create_batch_pins_revision:
  assumes "run_state (handleCreateBatch user (Some q)) w = (Okay n v, w')"
    and "qb_recipe q = Some (Some rid)"
  shows "\<exists>b r. batches (tabs w') = batches (tabs w) @ [b] \<and> b_brewer b = u_id user \<and>
     r \<in> set (recipes (tabs w)) \<and> rc_id r = rid \<and> recipeVisibleTo r (Some user) \<and>
     b_recipe b = Some rid \<and> b_recipe_revision b = rc_current_revision r"
proof -
  obtain q' where q': "check_create_batch q = (Inr q' :: batch_view resp + create_batch_request)"
    using assms(1) by (cases "check_create_batch q :: batch_view resp + create_batch_request")
      (auto simp: handleCreateBatch_def check_create_batch_def Let_def split: if_splits)
  then have rq: "qb_recipe q' = Some (Some rid)"
    using assms(2) by (auto simp: check_create_batch_def Let_def split: if_splits)
  from assms(1) q' rq obtain r where
    r: "find_where (\<lambda>r. rc_id r = rid) (recipes (tabs w)) = Some r"
    "\<not> (rc_visibility r = Private \<and> rc_author r \<noteq> u_id user)"
    "run_state (insert_batch (batch_params user q' (Some (rc_id r)) (rc_current_revision r))) (tock w)
       = (Okay n v, w')"
    by (auto simp: handleCreateBatch_def GetRecipeByID_def run_handle run_sql_read one_def
        split: outcome.splits sum.splits option.splits if_splits)
  from insert_batch_row [OF r(3)] find_where_Some [OF r(1)] r(2) show ?thesis
    by (auto simp: batch_params_def recipeVisibleTo_def)
qed

definition pin_request :: create_batch_request where
  "pin_request = \<lparr>qb_name = ''Spring'', qb_brew_type = [], qb_stage = [], qb_started_at = None,
     qb_notes = [], qb_visibility = [], qb_recipe = Some (Some 30)\<rparr>"

definition pin_db :: db where
  "pin_db = empty_db\<lparr>users := [demo_user 1 ''ann'', demo_user 2 ''bob''],
     recipes := [demo_recipe 30 1 Public (Some 40)],
     revisions := [\<lparr>rv_id = 40, rv_recipe = 30, rv_number = 1, rv_author = 1, rv_message = None,
       rv_name = ''Traditional'', rv_description = None, rv_style = None, rv_target_og = None,
       rv_target_fg = None, rv_target_abv = None, rv_batch_size_l = None, rv_ingredients = [],
       rv_created_at = 0\<rparr>]\<rparr>"

lemma create_batch_pins_revision_witness:
  "\<exists>b r. batches (tabs (snd (run_state (handleCreateBatch (demo_user 2 ''bob'') (Some pin_request))
     (demo_world pin_db 9)))) = batches pin_db @ [b] \<and> b_recipe b = Some 30 \<and>
     b_recipe_revision b = rc_current_revision r \<and> r \<in> set (recipes pin_db)"
proof -
  let ?run = "run_state (handleCreateBatch (demo_user 2 ''bob'') (Some pin_request)) (demo_world pin_db 9)"
  have "\<not> failed (fst ?run)" by code_simp
  then obtain n v where "?run = (Okay n v, snd ?run)"
    by (metis failed.simps(1) prod.collapse resp.exhaust)
  from create_batch_pins_revision [OF this, of 30] show ?thesis
    by (auto simp: pin_request_def demo_world_def)
qed

section \<open>Stages\<close>

text \<open>No batch loses rank: the rows keep their places, their ids, their brewers and stages or later.\<close>

definition forward :: "world \<Rightarrow> world \<Rightarrow> bool" where
  "forward w w' \<longleftrightarrow> (distinct (map b_id (batches (tabs w))) \<longrightarrow>
     list_all2 (\<lambda>b b'. b_id b' = b_id b \<and> b_brewer b' = b_brewer b \<and>
        stageRank (b_stage b) \<le> stageRank (b_stage b')) (batches (tabs w)) (batches (tabs w')))"

lemma forward_same: "batches (tabs w') = batches (tabs w) \<Longrightarrow> forward w w'"
  by (simp add: forward_def list_all2_same)

lemma list_all2_ids: "list_all2 (\<lambda>b b'. b_id b' = b_id b \<and> P b b') xs ys \<Longrightarrow> map b_id ys = map b_id xs"
  by (induction rule: list_all2_induct) auto

lemma forward_trans: "forward w w' \<Longrightarrow> forward w' w'' \<Longrightarrow> forward w w''"
proof -
  assume f: "forward w w'" "forward w' w''"
  show "forward w w''"
  proof (cases "distinct (map b_id (batches (tabs w)))")
    case True
    with f(1) have l: "list_all2 (\<lambda>b b'. b_id b' = b_id b \<and> b_brewer b' = b_brewer b \<and>
        stageRank (b_stage b) \<le> stageRank (b_stage b')) (batches (tabs w)) (batches (tabs w'))"
      by (simp add: forward_def)
    from list_all2_ids [OF l] True f(2)
    have m: "list_all2 (\<lambda>b b'. b_id b' = b_id b \<and> b_brewer b' = b_brewer b \<and>
        stageRank (b_stage b) \<le> stageRank (b_stage b')) (batches (tabs w')) (batches (tabs w''))"
      by (simp add: forward_def)
    from list_all2_trans [OF _ l m] show ?thesis by (simp add: forward_def)
  qed (simp add: forward_def)
qed

interpretation fw: kept_relation forward
  by unfold_locales (auto intro: forward_same forward_trans)

text \<open>The one write to batches of the event handlers: it runs on a row of lower rank.\<close>

lemma advance_forward:
  assumes "b \<in> set (batches (tabs w))" and "stageRank (b_stage b) < stageRank target"
  shows "forward w (snd (run_state (UpdateBatch (advance_params b target t0)) w))"
proof -
  have step: "list_all2 (\<lambda>c c'. b_id c' = b_id c \<and> b_brewer c' = b_brewer c \<and>
      stageRank (b_stage c) \<le> stageRank (b_stage c')) (batches (tabs w))
    (upd_where (own_batch (b_id b) (b_brewer b)) (patch_batch p (Some target) None c0) (batches (tabs w)))"
    if "distinct (map b_id (batches (tabs w)))" for p c0
  proof -
    have "stageRank (b_stage c) < stageRank target"
      if "c \<in> set (batches (tabs w))" "own_batch (b_id b) (b_brewer b) c" for c
      using distinct_key_eq [OF \<open>distinct _\<close> that(1) assms(1)] that(2) assms(2)
      by (simp add: own_batch_def)
    then show ?thesis
      unfolding upd_where_def
      by (auto simp: list_all2_map2 patch_batch_def less_imp_le list.rel_refl_strong)
  qed
  show ?thesis
    using step
    by (auto simp: UpdateBatch_def advance_params_def run_sql_write sql_update_def forward_def
        list_all2_same split: outcome.split sum.split option.split)
qed

lemma maybeAdvance_forward:
  assumes "run_state (maybeAdvanceStage b k t0) w = (u, w')" and "b \<in> set (batches (tabs w))"
  shows "forward w w'"
proof (cases "stageForEvent k")
  case None
  with assms(1) show ?thesis by (simp add: maybeAdvanceStage_def forward_same)
next
  case (Some target)
  show ?thesis
  proof (cases "stageRank target \<le> stageRank (b_stage b)")
    case True
    with assms(1) Some show ?thesis by (simp add: maybeAdvanceStage_def forward_same)
  next
    case False
    with assms(1) Some have "w' = snd (run_state (UpdateBatch (advance_params b target t0)) w)"
      by (auto simp: maybeAdvanceStage_def split: prod.splits)
    with False advance_forward [OF assms(2), of target] show ?thesis by auto
  qed
qed

lemma event_effects_forward:
  assumes "run_state (event_effects b e) w = (u, w')" and "b \<in> set (batches (tabs w))"
  shows "forward w w'"
proof -
  let ?m = "case anchorForKind (ev_kind e) of None \<Rightarrow> ret ()
    | Some an \<Rightarrow> if b_recipe b \<noteq> None then materializeTemplates b an (ev_occurred_at e) else ret ()"
  obtain w1 where m: "run_state ?m w = ((), w1)" by (cases "run_state ?m w") auto
  then have same: "batches (tabs w1) = batches (tabs w)"
    by (auto split: option.splits if_splits dest: batches_materialize)
  have "run_state (maybeAdvanceStage b (ev_kind e) (ev_occurred_at e)) w1 = (u, w')"
    using assms(1) m by (simp add: event_effects_def)
  from maybeAdvance_forward [OF this] assms(2) same forward_same [of w1 w] forward_trans
  show ?thesis by metis
qed

text \<open>A handler that reads its batch, writes an event and runs the effects.\<close>

lemma wp_event_effects:
  assumes "b \<in> set (batches (tabs w0))" and "batches (tabs w) = batches (tabs w0)"
  shows "wp (event_effects b e) (\<lambda>u w'. forward w0 w') w"
proof (rule wpI)
  fix u w'
  assume "run_state (event_effects b e) w = (u, w')"
  from event_effects_forward [OF this] assms have "forward w w'" by simp
  moreover have "forward w0 w" using assms(2) by (rule forward_same)
  ultimately show "forward w0 w'" by (rule forward_trans [rotated])
qed

lemma wp_event_write:
  assumes "b \<in> set (batches (tabs w0))" and "batches (tabs w) = batches (tabs w0)"
    and "\<And>a w'. f (tock w) = Inr (a, w') \<Longrightarrow> batches (tabs w') = batches (tabs w)"
  shows "wp (handle (sql_write f) on_error
           (\<lambda>e. do { event_effects b e; ret (Okay n (toEventView e)) })) (\<lambda>r w'. forward w0 w') w"
proof (rule wp_handle_write)
  fix e
  show "forward w0 (tock w)" using assms(2) by (intro forward_same) simp
next
  fix a w'
  assume "f (tock w) = Inr (a, w')"
  with assms(2,3) have "batches (tabs w') = batches (tabs w0)" by simp
  with assms(1) show "wp (do { event_effects b a; ret (Okay n (toEventView a)) }) (\<lambda>r w'. forward w0 w') w'"
    by (simp add: wp_bind wp_return wp_event_effects)
qed

lemma wp_get_batch:
  assumes "\<And>e. Q (on_error e) (tock w)"
    and "\<And>b. b \<in> set (batches (tabs w)) \<Longrightarrow> own_batch i u b \<Longrightarrow> wp (k b) Q (tock w)"
  shows "wp (handle (GetBatchForUser i u) on_error k) Q w"
  unfolding GetBatchForUser_def
  by (rule wp_handle_read) (use assms in \<open>auto dest: find_where_Some\<close>)

lemma wp_create_event: "wp (handleCreateBatchEvent user pid body) (\<lambda>r w'. forward w w') w"
proof (cases pid)
  case (Some i)
  show ?thesis
    unfolding handleCreateBatchEvent_def Some option.case
  proof (rule wp_get_batch, goal_cases)
    case (2 b)
    then show ?case
      unfolding CreateBatchEvent_def
      by (cases body)
        (auto simp: wp_bind wp_return wp_ask gen_uuid_def Let_def sql_insert_Inr
          intro!: wp_event_write forward_same split: option.splits)
  qed (simp add: forward_same)
qed (simp add: handleCreateBatchEvent_def wp_return forward_same)

lemma wp_update_event: "wp (handleUpdateBatchEvent user pid peid body) (\<lambda>r w'. forward w w') w"
proof (cases "pid = None \<or> peid = None")
  case False
  then obtain i ei where i: "pid = Some i" "peid = Some ei" by auto
  show ?thesis
    unfolding handleUpdateBatchEvent_def i option.case
  proof (rule wp_get_batch, goal_cases)
    case (2 b)
    then show ?case
      unfolding UpdateBatchEvent_def
      by (cases body)
        (auto simp: wp_return sql_update_Inr
          intro!: wp_event_write forward_same split: sum.splits)
  qed (simp add: forward_same)
qed (auto simp: handleUpdateBatchEvent_def wp_return forward_same split: option.split)

text \<open>
  C8: Recording or editing a journal event never moves a batch backward. Whatever the event, the
  request and the failures on the way, every batch of the server keeps its place, its brewer and a
  stage that is the same or a later one; an archived batch stays archived.
\<close>

theorem events_never_move_back:
  assumes "m = handleCreateBatchEvent user pid c \<or> m = handleUpdateBatchEvent user pid peid q"
    and "distinct (map b_id (batches (tabs w)))" and "run_state m w = (r, w')"
  shows "list_all2 (\<lambda>b b'. b_id b' = b_id b \<and> b_brewer b' = b_brewer b \<and>
      stageRank (b_stage b) \<le> stageRank (b_stage b')) (batches (tabs w)) (batches (tabs w'))"
proof -
  from assms(1) have "wp m (\<lambda>r w'. forward w w') w" using wp_create_event wp_update_event by auto
  from wpD [OF this assms(3)] assms(2) show ?thesis by (simp add: forward_def)
qed

definition pitch_request :: create_event_request where
  "pitch_request = \<lparr>qe_occurred_at = Some 5, qe_kind = ''pitch'', qe_title = [],
     qe_description = [], qe_details = []\<rparr>"

definition stage_db :: db where
  "stage_db = empty_db\<lparr>users := [demo_user 1 ''ann'', demo_user 2 ''bob''],
     batches := [demo_batch 20 1 None None Planning, demo_batch 21 2 None None Archived]\<rparr>"

lemma events_never_move_back_witness:
  "list_all2 (\<lambda>b b'. b_id b' = b_id b \<and> b_brewer b' = b_brewer b \<and>
      stageRank (b_stage b) \<le> stageRank (b_stage b')) (batches stage_db)
    (batches (tabs (snd (run_state (handleCreateBatchEvent (demo_user 1 ''ann'') (Some 20)
      (Some pitch_request)) (demo_world stage_db 9)))))"
  using events_never_move_back [of "handleCreateBatchEvent (demo_user 1 ''ann'') (Some 20) (Some pitch_request)"
      "demo_user 1 ''ann''" "Some 20" "Some pitch_request" None None "demo_world stage_db 9"]
  by (simp add: prod_eq_iff stage_db_def demo_simps)

text \<open>
  What an event at \<open>t0\<close> means for its batch, stage by stage. Apart from the time of its last update
  the batch is determined.
\<close>

definition advanced :: "batch \<Rightarrow> event_kind \<Rightarrow> time \<Rightarrow> batch \<Rightarrow> bool" where
  "advanced b k t0 b' \<longleftrightarrow> b'\<lparr>b_updated_at := b_updated_at b\<rparr> =
     (if k = Pitch \<and> b_stage b = Planning then b\<lparr>b_stage := Primary\<rparr>
      else if k = Rack \<and> b_stage b \<in> {Planning, Primary} then b\<lparr>b_stage := Secondary\<rparr>
      else if k = Bottle \<and> b_stage b \<in> {Planning, Primary, Secondary, Aging}
      then b\<lparr>b_stage := Bottled, b_bottled_at := Some t0\<rparr>
      else b)"

lemma advanced_same:
  "stageForEvent k = None \<or> (\<exists>t. stageForEvent k = Some t \<and> stageRank t \<le> stageRank (b_stage b)) \<Longrightarrow>
     advanced b k t0 b"
  by (cases k; cases "b_stage b") (simp_all add: advanced_def stageForEvent_def)

lemma advanced_patch:
  assumes "stageForEvent k = Some target" and "\<not> stageRank target \<le> stageRank (b_stage b)"
  shows "advanced b k t0 (patch_batch (advance_params b target t0) (Some target) None now b)"
  using assms
  by (cases k; cases "b_stage b")
    (auto simp: advanced_def stageForEvent_def patch_batch_def advance_params_def)

lemma advance_params_simps [simp]:
  "ub_id (advance_params b t t0) = b_id b" "ub_brewer (advance_params b t t0) = b_brewer b"
  "ub_stage (advance_params b t t0) = Some (batch_stage_str t)" "ub_visibility (advance_params b t t0) = None"
  by (simp_all add: advance_params_def)

lemma event_effects_stage:
  assumes up: "\<And>n. x_avail (ext w) n = Up" and b: "b \<in> set (batches (tabs w))"
    and d: "distinct (map b_id (batches (tabs w)))"
    and r: "run_state (event_effects b e) w = (u, w')"
  shows "\<exists>b'. find_where (own_batch (b_id b) (b_brewer b)) (batches (tabs w')) = Some b' \<and>
     advanced b (ev_kind e) (ev_occurred_at e) b'"
proof -
  let ?m = "case anchorForKind (ev_kind e) of None \<Rightarrow> ret ()
    | Some an \<Rightarrow> if b_recipe b \<noteq> None then materializeTemplates b an (ev_occurred_at e) else ret ()"
  let ?P = "own_batch (b_id b) (b_brewer b)"
  obtain w1 where m: "run_state ?m w = ((), w1)" by (cases "run_state ?m w") auto
  have same: "batches (tabs w1) = batches (tabs w)" "ext w1 = ext w"
    using m keeps_materializeTemplates [of b]
    by (auto split: option.splits if_splits dest: batches_materialize)
      (metis batch_reminders_only_def keeps_def snd_conv)
  have f: "find_where ?P (batches (tabs w)) = Some b"
    by (rule find_where_unique [OF d b]) (simp_all add: own_batch_def)
  have g: "find_where ?P (upd_where ?P (patch_batch p st vi c) (batches (tabs w))) =
      Some (patch_batch p st vi c b)" for p st vi c
    by (subst find_where_upd_where) (simp_all add: f patch_batch_def own_batch_def)
  have "run_state (maybeAdvanceStage b (ev_kind e) (ev_occurred_at e)) w1 = ((), w')"
    using r m by (auto simp: event_effects_def)
  then show ?thesis
    using f g up same
    by (auto simp: maybeAdvanceStage_def UpdateBatch_def run_sql_write sql_update_def
        intro!: advanced_same advanced_patch split: option.splits if_splits)
qed

text \<open>
  C9: When the database answers, recording an event has the effect on its batch the journal promises.
  A pitch moves a planned batch to primary, a rack one in planning or primary to secondary, a bottling
  one in any stage before bottled to bottled, and stamps \<^verbatim>\<open>bottled_at\<close> with the time of the
  event (the time of the request where it gave none). In every other case, whatever the event, the
  batch is as it was, but for the time of its last update.
\<close>

theorem recorded_event_advances:
  assumes "\<And>n. x_avail (ext w) n = Up" and "distinct (map b_id (batches (tabs w)))"
    and "run_state (handleCreateBatchEvent user (Some i) (Some q)) w = (Okay n v, w')"
    and "event_kind_of (qe_kind q) = Some k"
    and "t0 = (case qe_occurred_at q of Some t \<Rightarrow> t | None \<Rightarrow> clock w)"
  shows "\<exists>b b'. find_where (own_batch i (u_id user)) (batches (tabs w)) = Some b \<and>
     find_where (own_batch i (u_id user)) (batches (tabs w')) = Some b' \<and> advanced b k t0 b'"
proof -
  let ?P = "own_batch i (u_id user)"
  from assms(3) obtain b where b: "find_where ?P (batches (tabs w)) = Some b"
    by (auto simp: handleCreateBatchEvent_def GetBatchForUser_def run_handle run_sql_read one_def
        internal_error_def split: outcome.splits option.splits if_splits)
  then have bs: "b \<in> set (batches (tabs w))" "b_id b = i" "b_brewer b = u_id user"
    by (auto dest!: find_where_Some simp: own_batch_def)
  have "wp (handleCreateBatchEvent user (Some i) (Some q)) (on_okay (\<lambda>v w'. \<exists>b'.
      find_where ?P (batches (tabs w')) = Some b' \<and> advanced b k t0 b')) w"
    unfolding handleCreateBatchEvent_def option.case
  proof (rule wp_get_batch, goal_cases)
    case (2 c)
    with bs assms(2) distinct_key_eq have c: "c = b" by (metis own_batch_def)
    have eff: "wp (do { event_effects b a; ret (Okay 201 (toEventView a)) }) (on_okay (\<lambda>v w'. \<exists>b'.
      find_where ?P (batches (tabs w')) = Some b' \<and> advanced b k t0 b')) w1"
      if "batches (tabs w1) = batches (tabs w)" "ext w1 = ext w" "ev_kind a = k" "ev_occurred_at a = t0"
      for a w1
      unfolding wp_bind wp_return
    proof (rule wpI)
      fix u w2
      assume "run_state (event_effects b a) w1 = (u, w2)"
      from event_effects_stage [OF _ _ _ this] that assms(1,2) bs
      show "on_okay (\<lambda>v w'. \<exists>b'. find_where ?P (batches (tabs w')) = Some b' \<and> advanced b k t0 b')
          (Okay 201 (toEventView a)) w2" by simp
    qed
    have t0: "coalesce (qe_occurred_at q) (clock w) = t0" using assms(5) by (simp add: coalesce_def)
    show ?case
      unfolding c CreateBatchEvent_def
      using assms(4)
      by (auto simp: t0 wp_bind wp_return wp_ask gen_uuid_def Let_def sql_insert_Inr
          intro!: wp_handle_write eff)
  qed (simp add: internal_error_def)
  from wpD [OF this assms(3)] b show ?thesis by simp
qed

lemma recorded_event_advances_witness:
  "\<exists>b b'. find_where (own_batch 20 1) (batches stage_db) = Some b \<and>
     find_where (own_batch 20 1) (batches (tabs (snd (run_state (handleCreateBatchEvent
       (demo_user 1 ''ann'') (Some 20) (Some pitch_request)) (demo_world stage_db 9))))) = Some b' \<and>
     advanced b Pitch 5 b'"
proof -
  let ?run = "run_state (handleCreateBatchEvent (demo_user 1 ''ann'') (Some 20) (Some pitch_request))
    (demo_world stage_db 9)"
  have "\<not> failed (fst ?run)" by code_simp
  then obtain n v where r: "?run = (Okay n v, snd ?run)"
    by (metis failed.simps(1) prod.collapse resp.exhaust)
  have k: "event_kind_of (qe_kind pitch_request) = Some Pitch" by code_simp
  have t: "5 = (case qe_occurred_at pitch_request of Some t \<Rightarrow> t | None \<Rightarrow> clock (demo_world stage_db 9))"
    by (simp add: pitch_request_def)
  from recorded_event_advances [OF _ _ r k t] show ?thesis
    by (simp add: demo_simps stage_db_def)
qed

section \<open>Listing\<close>

text \<open>A client that follows the cursors of \<^verbatim>\<open>GET /batches\<close> until there is none.\<close>

definition cursor_of :: "(time \<times> uuid) option \<Rightarrow> cursor_param" where
  "cursor_of c = (case c of None \<Rightarrow> NoCursor | Some (t, i) \<Rightarrow> CursorAt t i)"

fun crawl_batches ::
    "nat \<Rightarrow> user \<Rightarrow> string \<Rightarrow> (time \<times> uuid) option \<Rightarrow> world \<Rightarrow> batch_view list option" where
  "crawl_batches 0 user limit cur w = None"
| "crawl_batches (Suc fuel) user limit cur w =
     (case run_state (handleListBatches user limit (cursor_of cur)) w of
        (Fail n m, w') \<Rightarrow> None
      | (Okay n (vs, next), w') \<Rightarrow>
          (case next of
             None \<Rightarrow> Some vs
           | Some c \<Rightarrow> map_option ((@) vs) (crawl_batches fuel user limit (Some c) w')))"

lemma parseListPagination_cursor:
  assumes "parseListPagination limit NoCursor = Inr p"
  shows "parseListPagination limit (cursor_of cur) = Inr \<lparr>lp_cursor = cur, lp_limit = lp_limit p\<rparr>"
  using assms
  by (cases cur) (auto simp: parseListPagination_def cursor_of_def split: option.splits if_splits)

lemma crawl_is_walk:
  assumes "parseListPagination limit NoCursor = Inr p"
  shows "(\<And>n. x_avail (ext w) n = Up) \<Longrightarrow>
     crawl_batches fuel user limit cur w = map_option (map toBatchView)
       (keyset.walk batch_key (keyset_desc batch_key) fuel cur (nat (lp_limit p))
         (filter (\<lambda>b. b_brewer b = u_id user) (batches (tabs w))))"
proof (induction fuel arbitrary: cur w)
  case 0
  then show ?case by (simp add: desc.walk.simps)
next
  case (Suc fuel)
  let ?rows = "filter (\<lambda>b. b_brewer b = u_id user) (batches (tabs w))"
  let ?p = "keyset_desc batch_key cur (nat (lp_limit p)) ?rows"
  have l: "1 \<le> lp_limit p" using parseListPagination_limit [OF assms] by simp
  have "run_state (handleListBatches user limit (cursor_of cur)) w =
      (Okay 200 (page_of toBatchView batch_key (lp_limit p) ?p), tock w)"
    using Suc.prems
    by (simp add: handleListBatches_def parseListPagination_cursor [OF assms] ListBatchesForUser_def
        run_handle run_sql_read)
  moreover have "crawl_batches fuel user limit c (tock w) = map_option (map toBatchView)
      (keyset.walk batch_key (keyset_desc batch_key) fuel c (nat (lp_limit p)) ?rows)" for c
    using Suc.IH [of "tock w" c] Suc.prems by simp
  ultimately show ?case
    using l by (auto simp: desc.walk.simps Let_def page_of_def nextCursor_def nat_less_iff
        option.map_comp o_def)
qed

text \<open>
  C10: Following the cursors of the batch list terminates and returns every batch of the brewer
  exactly once, newest first, whatever the page size asked for: no batch is skipped at a page
  border, none is shown twice, none of another brewer appears. The number of requests is bounded
  by the number of batches over the page size.
\<close>

theorem batch_pages_complete:
  assumes "\<And>n. x_avail (ext w) n = Up" and "distinct (map b_id (batches (tabs w)))"
    and "parseListPagination limit NoCursor = Inr p"
    and "length (filter (\<lambda>b. b_brewer b = u_id user) (batches (tabs w))) div nat (lp_limit p) < fuel"
  shows "crawl_batches fuel user limit None w = Some (map toBatchView
     (rev (sort_key batch_key (filter (\<lambda>b. b_brewer b = u_id user) (batches (tabs w))))))"
proof -
  let ?rows = "filter (\<lambda>b. b_brewer b = u_id user) (batches (tabs w))"
  have "distinct (map b_id ?rows)" using assms(2) by (simp add: distinct_map_filter)
  then have "distinct (map batch_key ?rows)"
    by (auto simp: distinct_map inj_on_def batch_key_def)
  moreover have "0 < nat (lp_limit p)" using parseListPagination_limit [OF assms(3)] by simp
  ultimately show ?thesis
    using desc.walk_complete [of batch_key ?rows "nat (lp_limit p)" fuel] assms
    by (simp add: crawl_is_walk [OF assms(3,1)])
qed

lemma batch_pages_complete_witness:
  "crawl_batches 3 (demo_user 1 ''ann'') ''1'' None (demo_world (empty_db\<lparr>batches :=
     [demo_batch 20 1 None None Planning, demo_batch 21 2 None None Primary,
      demo_batch 22 1 None None Aging]\<rparr>) 9) =
   Some [toBatchView (demo_batch 22 1 None None Aging), toBatchView (demo_batch 20 1 None None Planning)]"
proof -
  have p: "parseListPagination ''1'' NoCursor = Inr \<lparr>lp_cursor = None, lp_limit = 1\<rparr>" by code_simp
  show ?thesis
    by (subst batch_pages_complete [OF _ _ p]) (simp_all add: demo_simps batch_key_def)
qed

section \<open>Deleting a batch\<close>

text \<open>The foreign keys into batches and reminders.\<close>

definition batch_fks :: "db \<Rightarrow> bool" where
  "batch_fks d \<longleftrightarrow>
     rd_batch ` set (readings d) \<subseteq> b_id ` set (batches d) \<and>
     ev_batch ` set (events d) \<subseteq> b_id ` set (batches d) \<and>
     tn_batch ` set (tasting_notes d) \<subseteq> b_id ` set (batches d) \<and>
     {i. \<exists>r\<in>set (reminders d). rm_batch r = Some i} \<subseteq> b_id ` set (batches d) \<and>
     {i. \<exists>n\<in>set (notifications d). nt_reminder n = Some i} \<subseteq> rm_id ` set (reminders d)"

lemma drop_batch_fks:
  assumes "batch_fks d"
  shows "batch_fks (drop_batch i d)"
proof -
  let ?d = "drop_batch i d"
  have ids: "b_id ` set (batches ?d) = b_id ` set (batches d) - {i}"
    by (auto simp: drop_batch_def Let_def set_del_where)
  have rows: "set (readings ?d) = {r \<in> set (readings d). rd_batch r \<noteq> i}"
    "set (events ?d) = {r \<in> set (events d). ev_batch r \<noteq> i}"
    "set (tasting_notes ?d) = {r \<in> set (tasting_notes d). tn_batch r \<noteq> i}"
    "set (reminders ?d) = {r \<in> set (reminders d). rm_batch r \<noteq> Some i}"
    by (auto simp: drop_batch_def Let_def set_del_where)
  have "r \<in> rm_id ` set (reminders ?d)"
    if n: "n \<in> set (notifications ?d)" "nt_reminder n = Some r" for n r
  proof -
    from n have kept: "n \<in> set (notifications d)" and
      alive: "r \<notin> rm_id ` {m \<in> set (reminders d). rm_batch m = Some i}"
      by (auto simp: drop_batch_def Let_def set_upd_where split: option.splits if_splits)
    from kept n(2) assms obtain m where "m \<in> set (reminders d)" "rm_id m = r"
      unfolding batch_fks_def by blast
    with alive show ?thesis unfolding rows by blast
  qed
  then have "{r. \<exists>n\<in>set (notifications ?d). nt_reminder n = Some r} \<subseteq> rm_id ` set (reminders ?d)"
    by blast
  then show ?thesis
    using assms unfolding batch_fks_def ids rows by blast
qed

text \<open>What is left of a database without a batch: the six tables that change, as lists of rows.\<close>

definition unlinked :: "uuid set \<Rightarrow> notification \<Rightarrow> notification" where
  "unlinked gone n = (if \<exists>r\<in>gone. nt_reminder n = Some r then n\<lparr>nt_reminder := None\<rparr> else n)"

definition without_batch :: "uuid \<Rightarrow> db \<Rightarrow> db" where
  "without_batch i d = d\<lparr>
     batches := filter (\<lambda>b. b_id b \<noteq> i) (batches d),
     readings := filter (\<lambda>r. rd_batch r \<noteq> i) (readings d),
     events := filter (\<lambda>e. ev_batch e \<noteq> i) (events d),
     tasting_notes := filter (\<lambda>t. tn_batch t \<noteq> i) (tasting_notes d),
     reminders := filter (\<lambda>r. rm_batch r \<noteq> Some i) (reminders d),
     notifications := map (unlinked (rm_id ` {r \<in> set (reminders d). rm_batch r = Some i})) (notifications d)\<rparr>"

lemma drop_batch_eq: "drop_batch i d = without_batch i d"
proof -
  have "upd_where (\<lambda>n. case nt_reminder n of None \<Rightarrow> False
        | Some r \<Rightarrow> r \<in> set (map rm_id (filter (\<lambda>r. rm_batch r = Some i) (reminders d))))
      (\<lambda>n. n\<lparr>nt_reminder := None\<rparr>) (notifications d) =
    map (unlinked (rm_id ` {r \<in> set (reminders d). rm_batch r = Some i})) (notifications d)"
    by (auto simp: upd_where_def unlinked_def split: option.splits)
  then show ?thesis by (simp add: drop_batch_def without_batch_def Let_def del_where_def)
qed

text \<open>
  C11: Deleting a batch removes it and everything that hangs on it, and nothing else. After a success
  the database is the one before without the batch, its readings, events, tasting notes and
  reminders; a notification of one of those reminders stays and loses its reference; every other row
  of every table is as it was, in its place. The batch was the caller's, and the foreign keys of the
  batch tables still hold. A failed deletion changes nothing.
\<close>

theorem delete_batch_complete:
  assumes "run_state (handleDeleteBatch user (Some i)) w = (res, w')"
    and "batch_fks (tabs w)"
  shows "if failed res then tabs w' = tabs w
    else (\<exists>b\<in>set (batches (tabs w)). b_id b = i \<and> b_brewer b = u_id user) \<and>
      tabs w' = without_batch i (tabs w) \<and> batch_fks (tabs w')"
proof -
  from assms(1) have "failed res \<and> tabs w' = tabs w \<or> \<not> failed res \<and>
      exists_where (own_batch i (u_id user)) (batches (tabs w)) \<and> tabs w' = drop_batch i (tabs w)"
    by (auto simp: handleDeleteBatch_def DeleteBatch_def delete_resp_def run_handle run_sql_write
        count_where_def exists_where_iff filter_empty_conv split: outcome.splits if_splits)
  with drop_batch_fks [OF assms(2), of i] show ?thesis
    by (auto simp: drop_batch_eq exists_where_iff own_batch_def)
qed

lemma delete_batch_complete_witness:
  "tabs (snd (run_state (handleDeleteBatch (demo_user 1 ''ann'') (Some 20)) (demo_world stage_db 9))) =
     stage_db\<lparr>batches := [demo_batch 21 2 None None Archived]\<rparr>"
proof -
  let ?run = "run_state (handleDeleteBatch (demo_user 1 ''ann'') (Some 20)) (demo_world stage_db 9)"
  have f: "\<not> failed (fst ?run)" by code_simp
  have r: "?run = (fst ?run, snd ?run)" by simp
  from delete_batch_complete [OF r] f show ?thesis
    by (simp add: demo_simps stage_db_def batch_fks_def without_batch_def empty_db_def)
qed

end
