(* ===== verification/Apprise.thy ===== *)
theory Apprise
  imports Demo
begin

text \<open>
  The policy on user-supplied Apprise URLs (\<^verbatim>\<open>internal/apprise/validator.go\<close>): the
  schemes that are refused, the address ranges that are, and the order of the checks. URL parsing,
  address parsing and the resolver are the standard library's and enter as oracles.
\<close>

section \<open>Errors\<close>

datatype apprise_error =
    TooLong
  | BadUrl string
  | NoScheme
  | WebhookScheme string
  | ZonedHost string
  | BlockedHost string addr

text \<open>The text of the error, with \<^verbatim>\<open>%q\<close> and the address printed by the library.\<close>

definition apprise_msg :: "externals \<Rightarrow> apprise_error \<Rightarrow> string" where
  "apprise_msg x e = ''apprise_url invalid: '' @ (case e of
     TooLong \<Rightarrow> ''too long (max 2048 bytes)''
   | BadUrl m \<Rightarrow> m
   | NoScheme \<Rightarrow> ''must look like scheme://...''
   | WebhookScheme s \<Rightarrow> ''scheme '' @ x_quote x s @ '' is a generic webhook target and is disabled on this instance (set APPRISE_ALLOW_WEBHOOK_SCHEMES=true to allow)''
   | ZonedHost h \<Rightarrow> ''host '' @ x_quote x h @ '' carries an IPv6 zone identifier, which is not a valid destination''
   | BlockedHost h a \<Rightarrow> ''host '' @ x_quote x h @ '' resolves to a blocked range ('' @ x_addr_text x a @ ''); ask your administrator to add it to APPRISE_ALLOWED_HOST_CIDRS'')"

section \<open>The policy\<close>

record validator =
  allowWebhookSchemes :: bool
  allowedHostCIDRs :: "prefix list"

definition MaxURLLength :: nat where "MaxURLLength = 2048"

definition deniedWebhookSchemes :: "string list" where
  "deniedWebhookSchemes = [''http'', ''https'', ''json'', ''jsons'', ''xml'', ''xmls'', ''form'', ''forms'']"

definition defaultBlockedHostCIDRs :: "prefix list" where
  "defaultBlockedHostCIDRs =
     [P4 (v4 0 0 0 0) 8, P4 (v4 10 0 0 0) 8, P4 (v4 100 64 0 0) 10, P4 (v4 127 0 0 0) 8,
      P4 (v4 169 254 0 0) 16, P4 (v4 172 16 0 0) 12, P4 (v4 192 0 0 0) 24, P4 (v4 192 0 2 0) 24,
      P4 (v4 192 168 0 0) 16, P4 (v4 198 18 0 0) 15, P4 (v4 198 51 100 0) 24, P4 (v4 203 0 113 0) 24,
      P4 (v4 224 0 0 0) 4, P4 (v4 240 0 0 0) 4, P4 (v4 255 255 255 255) 32,
      P6 0 128, P6 1 128, P6 (0x64ff9b * 2 ^ 96) 96, P6 (0x100 * 2 ^ 112) 64,
      P6 (0x20010db8 * 2 ^ 96) 32, P6 (0xfc00 * 2 ^ 112) 7, P6 (0xfe80 * 2 ^ 112) 10,
      P6 (0xff00 * 2 ^ 112) 8]"

definition checkAddr :: "validator \<Rightarrow> addr \<Rightarrow> string \<Rightarrow> apprise_error option" where
  "checkAddr v a host =
     (if list_ex (\<lambda>p. contains p a) (allowedHostCIDRs v) then None
      else if list_ex (\<lambda>p. contains p a) defaultBlockedHostCIDRs then Some (BlockedHost host a)
      else None)"

fun checkAddrs :: "validator \<Rightarrow> addr list \<Rightarrow> string \<Rightarrow> apprise_error option" where
  "checkAddrs v [] host = None"
| "checkAddrs v (a # as) host = (case checkAddr v (unmap a) host of
     Some e \<Rightarrow> Some e | None \<Rightarrow> checkAddrs v as host)"

text \<open>A literal address is not looked up. The resolver is asked at most once.\<close>

definition checkHost :: "validator \<Rightarrow> string \<Rightarrow> apprise_error option act" where
  "checkHost v host = do {
     x \<leftarrow> ask ext;
     case x_parse_addr x host of
       Some a \<Rightarrow> ret (if addr_zone a \<noteq> [] then Some (ZonedHost host) else checkAddr v (unmap a) host)
     | None \<Rightarrow> do {
         n \<leftarrow> ask tick;
         State_Monad.update tock;
         ret (case x_lookup x n host of None \<Rightarrow> None | Some ips \<Rightarrow> checkAddrs v ips host) } }"

definition Validate :: "validator \<Rightarrow> string \<Rightarrow> apprise_error option act" where
  "Validate v raw =
     (if length raw > MaxURLLength then ret (Some TooLong)
      else do {
        x \<leftarrow> ask ext;
        case x_parse_url x raw of
          Inl m \<Rightarrow> ret (Some (BadUrl m))
        | Inr (sch, host) \<Rightarrow>
            let scheme = to_lower sch in
            if scheme = [] then ret (Some NoScheme)
            else if scheme \<in> set deniedWebhookSchemes \<and> \<not> allowWebhookSchemes v
            then ret (Some (WebhookScheme scheme))
            else if host = [] then ret None
            else checkHost v host })"

section \<open>What is let through\<close>

definition permitted :: "validator \<Rightarrow> addr \<Rightarrow> bool" where
  "permitted v a \<longleftrightarrow> list_ex (\<lambda>p. contains p (unmap a)) (allowedHostCIDRs v) \<or>
     \<not> list_ex (\<lambda>p. contains p (unmap a)) defaultBlockedHostCIDRs"

lemma checkAddr_None: "checkAddr v (unmap a) host = None \<longleftrightarrow> permitted v a"
  by (simp add: checkAddr_def permitted_def)

lemma checkAddrs_None: "checkAddrs v as host = None \<longleftrightarrow> list_all (permitted v) as"
proof (induction as)
  case (Cons a as)
  then show ?case
    by (cases "checkAddr v (unmap a) host") (auto simp flip: checkAddr_None [of v _ host])
qed simp

text \<open>What an acceptance says of the parts of the URL.\<close>

lemma Validate_accepts:
  assumes "run_state (Validate v raw) w = (None, w')"
  shows "\<exists>sch host. x_parse_url (ext w) raw = Inr (sch, host) \<and> length raw \<le> 2048 \<and>
    to_lower sch \<noteq> [] \<and> (allowWebhookSchemes v \<or> to_lower sch \<notin> set deniedWebhookSchemes) \<and>
    (host = [] \<or> (case x_parse_addr (ext w) host of
       Some a \<Rightarrow> addr_zone a = [] \<and> permitted v a
     | None \<Rightarrow> (case x_lookup (ext w) (tick w) host of
           Some ips \<Rightarrow> list_all (permitted v) ips
         | None \<Rightarrow> True)))"
proof (cases "x_parse_url (ext w) raw")
  case (Inl m)
  with assms show ?thesis by (simp add: Validate_def run_ask split: if_splits)
next
  case (Inr p)
  then obtain sch host where p: "x_parse_url (ext w) raw = Inr (sch, host)" by (cases p) simp
  with assms show ?thesis
    by (auto simp: Validate_def checkHost_def run_ask run_update Let_def checkAddr_None checkAddrs_None
        MaxURLLength_def split: if_splits option.splits)
qed


text \<open>The blocked IPv4 ranges as numbers: what \<^verbatim>\<open>10.0.0.0/8\<close> and the others mean.\<close>

lemma blocked4_iff:
  "list_ex (\<lambda>p. contains p (V4 x)) defaultBlockedHostCIDRs \<longleftrightarrow>
     unat x div 2 ^ 24 \<in> {0, 10, 127} \<or> unat x div 2 ^ 28 \<in> {14, 15} \<or>
     unat x div 2 ^ 22 = 401 \<or> unat x div 2 ^ 20 = 2753 \<or> unat x div 2 ^ 17 = 25353 \<or>
     unat x div 2 ^ 16 \<in> {43518, 49320} \<or> unat x div 2 ^ 8 \<in> {12582912, 12582914, 12989284, 13303921}"
proof -
  have n: "unat (v4 a b c d) = a * 2 ^ 24 + b * 2 ^ 16 + c * 2 ^ 8 + d"
    if "a < 256" "b < 256" "c < 256" "d < 256" for a b c d
  proof -
    have "a * 2 ^ 24 + b * 2 ^ 16 + c * 2 ^ 8 + d < (2::nat) ^ 32" using that by simp
    then show ?thesis by (simp add: v4_def unat_of_nat take_bit_nat_eq_self del: of_nat_add of_nat_mult)
  qed
  have top: "unat x = 4294967295 \<Longrightarrow> unat x div 2 ^ 28 = 15" by simp
  show ?thesis
    unfolding defaultBlockedHostCIDRs_def
    using top by (auto simp: contains4_iff n)
qed

text \<open>
  Addresses inside the operator's network, as numbers: \<^verbatim>\<open>10/8\<close>, \<^verbatim>\<open>127/8\<close>,
  \<^verbatim>\<open>169.254/16\<close> (with the metadata service), \<^verbatim>\<open>192.168/16\<close>,
  \<^verbatim>\<open>172.16/12\<close>, \<^verbatim>\<open>100.64/10\<close> and multicast; \<^verbatim>\<open>::1\<close>,
  \<^verbatim>\<open>fc00::/7\<close>, \<^verbatim>\<open>fe80::/10\<close> and \<^verbatim>\<open>ff00::/8\<close>; and the
  IPv4-mapped \<^verbatim>\<open>::ffff:0:0/96\<close> of the first.
\<close>

definition internal4 :: "nat \<Rightarrow> bool" where
  "internal4 x \<longleftrightarrow> x div 2 ^ 24 \<in> {10, 127} \<or> x div 2 ^ 16 \<in> {43518, 49320} \<or>
     x div 2 ^ 20 = 2753 \<or> x div 2 ^ 22 = 401 \<or> x div 2 ^ 28 = 14"

definition internal :: "addr \<Rightarrow> bool" where
  "internal a = (case a of
     V4 x \<Rightarrow> internal4 (unat x)
   | V6 x _ \<Rightarrow> unat x = 1 \<or> unat x div 2 ^ 121 = 126 \<or> unat x div 2 ^ 118 = 1018 \<or>
       unat x div 2 ^ 120 = 255 \<or> (unat x div 2 ^ 32 = 0xffff \<and> internal4 (unat x mod 2 ^ 32)))"

lemma blocked6:
  assumes "unat x = 1 \<or> unat x div 2 ^ 121 = 126 \<or> unat x div 2 ^ 118 = 1018 \<or> unat x div 2 ^ 120 = 255"
  shows "list_ex (\<lambda>p. contains p (V6 x [])) defaultBlockedHostCIDRs"
  using assms unfolding defaultBlockedHostCIDRs_def by (auto simp: contains6_iff)

lemma mapped_iff: "drop_bit 32 x = (0xffff :: 128 word) \<longleftrightarrow> unat x div 2 ^ 32 = 0xffff"
proof -
  have "unat (drop_bit 32 x) = unat x div 2 ^ 32"
    by (simp only: unat_drop_bit_eq) (simp add: drop_bit_eq_div)
  then show ?thesis by (simp add: word_unat_eq_iff)
qed

lemma unmap_mapped:
  assumes "unat x div 2 ^ 32 = 0xffff"
  shows "unmap (V6 x z) = V4 (ucast x)" and "unat (ucast x :: 32 word) = unat x mod 2 ^ 32"
proof -
  have "drop_bit 32 x = 0xffff" using assms mapped_iff by blast
  then show "unmap (V6 x z) = V4 (ucast x)" unfolding unmap_def addr.case by (rule if_P)
  show "unat (ucast x :: 32 word) = unat x mod 2 ^ 32"
    by (simp add: unsigned_ucast_eq take_bit_eq_mod)
qed

lemma internal_not_permitted:
  assumes "allowedHostCIDRs v = []" and "internal a" and "addr_zone a = [] \<or> (\<exists>x. unmap a = V4 x)"
  shows "\<not> permitted v a"
proof -
  have four: "list_ex (\<lambda>p. contains p (V4 x)) defaultBlockedHostCIDRs" if "internal4 (unat x)" for x
    using that unfolding blocked4_iff internal4_def by blast
  show ?thesis
  proof (cases a)
    case (V4 x)
    with assms four [of x] show ?thesis by (simp add: permitted_def internal_def unmap_def)
  next
    case (V6 x z)
    show ?thesis
    proof (cases "unat x div 2 ^ 32 = 0xffff")
      case True
      then have "\<not> (unat x = 1 \<or> unat x div 2 ^ 121 = 126 \<or> unat x div 2 ^ 118 = 1018 \<or> unat x div 2 ^ 120 = 255)"
        by auto
      with True assms V6 four unmap_mapped [OF True] show ?thesis
        by (simp add: permitted_def internal_def)
    next
      case False
      then have "drop_bit 32 x \<noteq> 0xffff" using mapped_iff [of x] by simp
      then have "unmap a = V6 x z" using V6 by (simp add: unmap_def)
      with False assms V6 blocked6 [of x] show ?thesis
        by (simp add: permitted_def internal_def addr_zone_def)
    qed
  qed
qed

text \<open>
  C13: Where the operator has opened no range, a URL into the network of the operator is refused:
  one whose host is an internal address (loopback, a private network, link-local with the metadata
  service, carrier-grade, multicast, unique-local IPv6), with or without a zone, or is a name one of
  whose addresses is internal. An IPv4-mapped IPv6 address is as internal as the IPv4 address.
\<close>

theorem internal_addresses_refused:
  assumes "allowedHostCIDRs v = []"
    and "x_parse_url (ext w) raw = Inr (sch, host)" and "host \<noteq> []"
    and "x_parse_addr (ext w) host = Some a \<or>
      x_parse_addr (ext w) host = None \<and> addr_zone a = [] \<and>
      (\<exists>ips. x_lookup (ext w) (tick w) host = Some ips \<and> a \<in> set ips)"
    and "internal a"
  shows "\<exists>e. fst (run_state (Validate v raw) w) = Some e"
proof -
  have np: "addr_zone a = [] \<Longrightarrow> \<not> permitted v a" using assms(1,5) by (simp add: internal_not_permitted)
  show ?thesis
  proof (cases "fst (run_state (Validate v raw) w)")
    case None
    then have "run_state (Validate v raw) w = (None, snd (run_state (Validate v raw) w))"
      by (simp add: prod_eq_iff)
    then have "length raw \<le> 2048 \<and> to_lower sch \<noteq> [] \<and>
      (case x_parse_addr (ext w) host of
         Some a \<Rightarrow> addr_zone a = [] \<and> permitted v a
       | None \<Rightarrow> (case x_lookup (ext w) (tick w) host of
             Some ips \<Rightarrow> list_all (permitted v) ips
           | None \<Rightarrow> True))"
      using assms(2,3) by (auto dest!: Validate_accepts)
    with assms(4) np show ?thesis by (auto simp: list_all_iff)
  qed simp
qed

text \<open>A world where \<^verbatim>\<open>h\<close> is the metadata service, IPv4-mapped.\<close>

definition metadata_world :: world where
  "metadata_world = (demo_world empty_db 0)\<lparr>ext := demo_ext\<lparr>
     x_parse_url := (\<lambda>s. Inr (''ntfy'', ''h'')), x_parse_addr := (\<lambda>s. Some (V6 0xffffa9fea9fe []))\<rparr>\<rparr>"

lemma internal_addresses_refused_witness:
  "\<exists>e. fst (run_state (Validate \<lparr>allowWebhookSchemes = False, allowedHostCIDRs = []\<rparr> ''ntfy://h'')
     metadata_world) = Some e"
  by (rule internal_addresses_refused [where a = "V6 0xffffa9fea9fe []" and sch = "''ntfy''" and host = "''h''"])
    (simp_all add: metadata_world_def internal_def internal4_def)

text \<open>A resolver that answers \<^verbatim>\<open>8.8.8.8\<close>.\<close>

definition dns_world :: world where
  "dns_world = (demo_world empty_db 0)\<lparr>ext := demo_ext\<lparr>x_lookup := (\<lambda>n s. Some [V4 0x08080808])\<rparr>\<rparr>"


end
