(* ===== verification/Config.thy ===== *)
theory Config
  imports Pagination Demo
begin

text \<open>
  The configuration of an instance, read from the environment
  (\<^verbatim>\<open>internal/config/config.go\<close>): defaults, parsing, the checks that refuse to start, and
  the fallback of the backup store to the primary one. An unset variable reads as the empty string.
\<close>

section \<open>Reading the environment\<close>

type_synonym environment = "string \<Rightarrow> string"

definition getenv :: "environment \<Rightarrow> string \<Rightarrow> string \<Rightarrow> string" where
  "getenv env key def = (if env key \<noteq> [] then env key else def)"

text \<open>\<^verbatim>\<open>strconv.ParseBool\<close>.\<close>

definition parse_bool :: "string \<Rightarrow> bool option" where
  "parse_bool s =
     (if s \<in> set [''1'', ''t'', ''T'', ''true'', ''TRUE'', ''True''] then Some True
      else if s \<in> set [''0'', ''f'', ''F'', ''false'', ''FALSE'', ''False''] then Some False
      else None)"

definition getenvBool :: "environment \<Rightarrow> string \<Rightarrow> bool \<Rightarrow> bool" where
  "getenvBool env key def =
     (if env key = [] then def else case parse_bool (env key) of None \<Rightarrow> def | Some b \<Rightarrow> b)"

definition getenvInt :: "environment \<Rightarrow> string \<Rightarrow> int \<Rightarrow> int" where
  "getenvInt env key def =
     (if env key = [] then def else case atoi (env key) of None \<Rightarrow> def | Some n \<Rightarrow> n)"

text \<open>\<^verbatim>\<open>strings.TrimRight(s, "/")\<close> and \<^verbatim>\<open>strings.Split(s, ",")\<close>.\<close>

definition trim_right :: "char \<Rightarrow> string \<Rightarrow> string" where
  "trim_right c s = rev (dropWhile (\<lambda>x. x = c) (rev s))"

fun split_on :: "char \<Rightarrow> string \<Rightarrow> string list" where
  "split_on c [] = [[]]"
| "split_on c (x # xs) = (if x = c then [] # split_on c xs
     else case split_on c xs of [] \<Rightarrow> [[x]] | p # ps \<Rightarrow> (x # p) # ps)"

datatype config_error =
    NoDatabaseURL
  | BadCIDR string string
  | BadAddress string string
  | BadInstanceMode string
  | BadRetention int
  | BadTLSMode string

text \<open>A bare address is a prefix of full length.\<close>

definition host_prefix :: "addr \<Rightarrow> prefix" where
  "host_prefix a = (case a of V4 x \<Rightarrow> P4 x 32 | V6 x z \<Rightarrow> P6 x 128)"

fun parse_parts :: "externals \<Rightarrow> string \<Rightarrow> string list \<Rightarrow> config_error + prefix list" where
  "parse_parts x name [] = Inr []"
| "parse_parts x name (p0 # ps) =
     (let p = trim_space p0 in
      if p = [] then parse_parts x name ps
      else case (if contains_char (CHR ''/'') p
                 then (case x_parse_prefix x p of None \<Rightarrow> Inl (BadCIDR name p) | Some pre \<Rightarrow> Inr pre)
                 else (case x_parse_addr x p of None \<Rightarrow> Inl (BadAddress name p)
                                              | Some a \<Rightarrow> Inr (host_prefix a))) of
        Inl e \<Rightarrow> Inl e
      | Inr pre \<Rightarrow> (case parse_parts x name ps of Inl e \<Rightarrow> Inl e | Inr pres \<Rightarrow> Inr (pre # pres)))"

definition parseCIDRList :: "externals \<Rightarrow> string \<Rightarrow> string \<Rightarrow> config_error + prefix list" where
  "parseCIDRList x name raw =
     (if trim_space raw = [] then Inr [] else parse_parts x name (split_on (CHR '','') (trim_space raw)))"

definition parseTrustedProxies :: "externals \<Rightarrow> string \<Rightarrow> config_error + prefix list" where
  "parseTrustedProxies x raw = parseCIDRList x ''TRUSTED_PROXIES'' raw"

section \<open>The configuration\<close>

definition ModeSingleUser :: string where "ModeSingleUser = ''single_user''"
definition ModeClosed :: string where "ModeClosed = ''closed''"
definition ModeOpen :: string where "ModeOpen = ''open''"

record backend_config =
  bc_Backend :: string
  bc_LocalPath :: string
  bc_S3Endpoint :: string
  bc_S3Region :: string
  bc_S3Bucket :: string
  bc_S3AccessKey :: string
  bc_S3SecretKey :: string

record config =
  DatabaseURL :: string
  ListenAddr :: string
  InstanceMode :: string
  AutoMigrate :: bool
  CookieSecure :: bool
  BaseURL :: string
  VAPIDPublicKey :: string
  VAPIDPrivateKey :: string
  VAPIDSubject :: string
  AppriseAPIURL :: string
  AppriseAllowWebhookSchemes :: bool
  AppriseAllowedHostCIDRs :: "prefix list"
  SMTPHost :: string
  SMTPPort :: int
  SMTPUsername :: string
  SMTPPassword :: string
  SMTPFrom :: string
  SMTPTLSMode :: string
  Primary_backend :: backend_config
  Backup_backend :: backend_config
  BackupRetentionDays :: int
  TrustedProxies :: "prefix list"

definition Load :: "externals \<Rightarrow> environment \<Rightarrow> config_error + config" where
  "Load x env =
     (let mode = getenv env ''INSTANCE_MODE'' ModeSingleUser;
          days = getenvInt env ''BACKUP_RETENTION_DAYS'' 30;
          tls = getenv env ''SMTP_TLS_MODE'' ''starttls'' in
      if env ''DATABASE_URL'' = [] then Inl NoDatabaseURL
      else case parseTrustedProxies x (env ''TRUSTED_PROXIES'') of
        Inl e \<Rightarrow> Inl e
      | Inr proxies \<Rightarrow>
          (case parseCIDRList x ''APPRISE_ALLOWED_HOST_CIDRS'' (env ''APPRISE_ALLOWED_HOST_CIDRS'') of
             Inl e \<Rightarrow> Inl e
           | Inr holes \<Rightarrow>
               if mode \<notin> set [ModeSingleUser, ModeClosed, ModeOpen] then Inl (BadInstanceMode mode)
               else if days < 1 \<or> days > 36500 then Inl (BadRetention days)
               else if tls \<notin> set [''starttls'', ''tls'', ''none''] then Inl (BadTLSMode tls)
               else Inr \<lparr>DatabaseURL = env ''DATABASE_URL'',
                 ListenAddr = getenv env ''LISTEN_ADDR'' '':8080'', InstanceMode = mode,
                 AutoMigrate = getenvBool env ''AUTO_MIGRATE'' True,
                 CookieSecure = getenvBool env ''COOKIE_SECURE'' False,
                 BaseURL = trim_right (CHR ''/'') (env ''BASE_URL''),
                 VAPIDPublicKey = env ''VAPID_PUBLIC_KEY'',
                 VAPIDPrivateKey = env ''VAPID_PRIVATE_KEY'',
                 VAPIDSubject = getenv env ''VAPID_SUBJECT'' ''mailto:admin@localhost'',
                 AppriseAPIURL = trim_right (CHR ''/'') (env ''APPRISE_API_URL''),
                 AppriseAllowWebhookSchemes = getenvBool env ''APPRISE_ALLOW_WEBHOOK_SCHEMES'' False,
                 AppriseAllowedHostCIDRs = holes,
                 SMTPHost = env ''SMTP_HOST'', SMTPPort = getenvInt env ''SMTP_PORT'' 587,
                 SMTPUsername = env ''SMTP_USERNAME'', SMTPPassword = env ''SMTP_PASSWORD'',
                 SMTPFrom = env ''SMTP_FROM'', SMTPTLSMode = tls,
                 Primary_backend = \<lparr>bc_Backend = getenv env ''STORAGE_BACKEND'' ''local'',
                   bc_LocalPath = getenv env ''STORAGE_LOCAL_PATH'' ''./data'',
                   bc_S3Endpoint = env ''S3_ENDPOINT'', bc_S3Region = getenv env ''S3_REGION'' ''us-east-1'',
                   bc_S3Bucket = env ''S3_BUCKET'', bc_S3AccessKey = env ''S3_ACCESS_KEY'',
                   bc_S3SecretKey = env ''S3_SECRET_KEY''\<rparr>,
                 Backup_backend = \<lparr>bc_Backend = env ''BACKUP_BACKEND'',
                   bc_LocalPath = env ''BACKUP_LOCAL_PATH'', bc_S3Endpoint = env ''BACKUP_S3_ENDPOINT'',
                   bc_S3Region = env ''BACKUP_S3_REGION'', bc_S3Bucket = env ''BACKUP_S3_BUCKET'',
                   bc_S3AccessKey = env ''BACKUP_S3_ACCESS_KEY'',
                   bc_S3SecretKey = env ''BACKUP_S3_SECRET_KEY''\<rparr>,
                 BackupRetentionDays = days, TrustedProxies = proxies\<rparr>))"

definition PrimaryStorage :: "config \<Rightarrow> backend_config" where
  "PrimaryStorage c = Primary_backend c"

definition coalesce_str :: "string \<Rightarrow> string \<Rightarrow> string" where
  "coalesce_str primary fallback = (if primary \<noteq> [] then primary else fallback)"

definition BackupStorage :: "config \<Rightarrow> backend_config" where
  "BackupStorage c = (let b = Backup_backend c; p = Primary_backend c in
     \<lparr>bc_Backend = coalesce_str (bc_Backend b) (bc_Backend p),
      bc_LocalPath = coalesce_str (bc_LocalPath b) (bc_LocalPath p),
      bc_S3Endpoint = coalesce_str (bc_S3Endpoint b) (bc_S3Endpoint p),
      bc_S3Region = coalesce_str (bc_S3Region b) (bc_S3Region p),
      bc_S3Bucket = coalesce_str (bc_S3Bucket b) (bc_S3Bucket p),
      bc_S3AccessKey = coalesce_str (bc_S3AccessKey b) (bc_S3AccessKey p),
      bc_S3SecretKey = coalesce_str (bc_S3SecretKey b) (bc_S3SecretKey p)\<rparr>)"

section \<open>What a started instance can rely on\<close>

text \<open>The list is read element by element: an error anywhere refuses the whole.\<close>

lemma parse_parts_sound:
  "parse_parts x name ps = Inr pres \<Longrightarrow>
     length pres = length (filter (\<lambda>p. trim_space p \<noteq> []) ps)"
  by (induction ps arbitrary: pres) (auto simp: Let_def split: sum.splits option.splits if_splits)

text \<open>The shape of the checks: what a success went through.\<close>

lemma checks_Inr:
  "(if a then Inl e1 else case p of Inl e \<Rightarrow> Inl e | Inr ps \<Rightarrow> (case q of Inl e \<Rightarrow> Inl e
      | Inr hs \<Rightarrow> if b then Inl e2 else if c then Inl e3 else if d then Inl e4 else Inr (f ps hs))) = Inr r
   \<longleftrightarrow> (\<exists>ps hs. \<not> a \<and> p = Inr ps \<and> q = Inr hs \<and> \<not> b \<and> \<not> c \<and> \<not> d \<and> r = f ps hs)"
  by (auto split: sum.splits)

text \<open>
  C40: An instance that starts has a configuration within bounds: a known mode, a known TLS mode,
  a database, and a retention of 1 to 36500 days, so that the number of days fits the 32-bit
  parameter of the deletion statement and its cutoff never lies in the future. A deployment that
  sets no \<^verbatim>\<open>BACKUP_*\<close> variable backs up to the primary store.
\<close>

theorem loaded_config_in_bounds:
  assumes "Load x env = Inr c"
  shows "InstanceMode c \<in> {ModeSingleUser, ModeClosed, ModeOpen} \<and> DatabaseURL c \<noteq> [] \<and>
    SMTPTLSMode c \<in> {''starttls'', ''tls'', ''none''} \<and>
    1 \<le> BackupRetentionDays c \<and> BackupRetentionDays c < 2 ^ 31 \<and>
    (Backup_backend c = \<lparr>bc_Backend = [], bc_LocalPath = [], bc_S3Endpoint = [], bc_S3Region = [],
       bc_S3Bucket = [], bc_S3AccessKey = [], bc_S3SecretKey = []\<rparr> \<longrightarrow>
     BackupStorage c = PrimaryStorage c)"
proof -
  note shape = assms [unfolded Load_def Let_def checks_Inr]
  from shape have c: "env ''DATABASE_URL'' \<noteq> []"
    "getenv env ''INSTANCE_MODE'' ModeSingleUser \<in> set [ModeSingleUser, ModeClosed, ModeOpen]"
    "\<not> (getenvInt env ''BACKUP_RETENTION_DAYS'' 30 < 1 \<or> getenvInt env ''BACKUP_RETENTION_DAYS'' 30 > 36500)"
    "getenv env ''SMTP_TLS_MODE'' ''starttls'' \<in> set [''starttls'', ''tls'', ''none'']"
    "DatabaseURL c = env ''DATABASE_URL''"
    "InstanceMode c = getenv env ''INSTANCE_MODE'' ModeSingleUser"
    "BackupRetentionDays c = getenvInt env ''BACKUP_RETENTION_DAYS'' 30"
    "SMTPTLSMode c = getenv env ''SMTP_TLS_MODE'' ''starttls''"
    by (elim exE conjE; simp)+
  from c(1-4) show ?thesis
    unfolding c(5-8) by (simp add: BackupStorage_def PrimaryStorage_def coalesce_str_def Let_def)
qed

lemma loaded_config_in_bounds_witness:
  "\<exists>c. Load demo_ext (\<lambda>k. if k = ''DATABASE_URL'' then ''postgres://db'' else []) = Inr c \<and>
     InstanceMode c \<in> {ModeSingleUser, ModeClosed, ModeOpen} \<and> BackupRetentionDays c < 2 ^ 31"
proof -
  let ?l = "Load demo_ext (\<lambda>k. if k = ''DATABASE_URL'' then ''postgres://db'' else [])"
  have "isl ?l = False" by code_simp
  then obtain c where c: "?l = Inr c" by (cases ?l) auto
  from loaded_config_in_bounds [OF c] c show ?thesis by blast
qed

end
