(* ===== verification/Reminders.thy ===== *)
theory Reminders
  imports Batches Apprise Config
begin

text \<open>
  Reminders, reminder templates, notifications and their preferences, push subscriptions and user
  preferences: the statements of \<^verbatim>\<open>internal/queries\<close> on those tables and the handlers of
  \<^verbatim>\<open>internal/server/reminders.go\<close>, \<^verbatim>\<open>reminder_templates.go\<close>,
  \<^verbatim>\<open>push.go\<close> and \<^verbatim>\<open>preferences.go\<close>.
\<close>

section \<open>Statements on reminders\<close>

record create_reminder_params =
  pm_batch :: "uuid option"
  pm_user :: uuid
  pm_title :: string
  pm_description :: nulltext
  pm_fire_at :: time
  pm_suggested :: "string option"

definition CreateReminder :: "create_reminder_params \<Rightarrow> reminder stmt" where
  "CreateReminder p = sql_write (\<lambda>w.
     case opt_enum event_kind_of (pm_suggested p) of
       Inl e \<Rightarrow> Inl e
     | Inr k \<Rightarrow>
         (let (i, w1) = gen_uuid w; d = tabs w in
          sql_insert reminders put_reminders rm_id
            (refers_opt b_id (batches d) (pm_batch p) \<and> refers u_id (users d) (pm_user p))
            \<lparr>rm_id = i, rm_batch = pm_batch p, rm_user = pm_user p, rm_template = None,
             rm_title = pm_title p, rm_description = pm_description p, rm_fire_at = pm_fire_at p,
             rm_rrule = None, rm_status = Scheduled, rm_fired_at = None, rm_completed_at = None,
             rm_suggested = k, rm_created_at = clock w\<rparr> w1))"

definition ListBatchReminders :: "uuid \<Rightarrow> uuid \<Rightarrow> reminder list stmt" where
  "ListBatchReminders b u = sql_read (\<lambda>w. Inr (sort_key rm_fire_at
     (filter (\<lambda>r. rm_batch r = Some b \<and> rm_user r = u) (reminders (tabs w)))))"

definition own_reminder :: "uuid \<Rightarrow> uuid \<Rightarrow> reminder \<Rightarrow> bool" where
  "own_reminder i u r \<longleftrightarrow> rm_id r = i \<and> rm_user r = u"

record update_reminder_params =
  um_reminder :: uuid
  um_user :: uuid
  um_title :: nulltext
  um_descr :: nulltext
  um_fire_at :: "time option"
  um_status :: "string option"
  um_suggested :: "string option"

definition patch_reminder ::
    "update_reminder_params \<Rightarrow> reminder_status option \<Rightarrow> event_kind option \<Rightarrow> reminder \<Rightarrow> reminder" where
  "patch_reminder p st k r = r\<lparr>rm_title := coalesce (um_title p) (rm_title r),
     rm_description := coalesce_opt (um_descr p) (rm_description r),
     rm_fire_at := coalesce (um_fire_at p) (rm_fire_at r),
     rm_status := coalesce st (rm_status r), rm_suggested := coalesce_opt k (rm_suggested r)\<rparr>"

definition GetReminder :: "uuid \<Rightarrow> uuid \<Rightarrow> reminder stmt" where
  "GetReminder i u = sql_read (\<lambda>w. one (find_where (own_reminder i u) (reminders (tabs w))))"

definition UpdateReminder :: "update_reminder_params \<Rightarrow> reminder stmt" where
  "UpdateReminder p = sql_write (\<lambda>w.
     case opt_enum reminder_status_of (um_status p) of
       Inl e \<Rightarrow> Inl e
     | Inr st \<Rightarrow>
         (case opt_enum event_kind_of (um_suggested p) of
            Inl e \<Rightarrow> Inl e
          | Inr k \<Rightarrow> sql_update reminders put_reminders (own_reminder (um_reminder p) (um_user p))
                        (patch_reminder p st k) w))"

definition cancellable :: "uuid \<Rightarrow> uuid \<Rightarrow> reminder \<Rightarrow> bool" where
  "cancellable i u r \<longleftrightarrow> own_reminder i u r \<and> rm_status r \<notin> {Fired, Completed}"

definition CancelReminder :: "uuid \<Rightarrow> uuid \<Rightarrow> nat stmt" where
  "CancelReminder i u = sql_write (\<lambda>w. let d = tabs w in
     Inr (count_where (cancellable i u) (reminders d),
          set_tabs (d\<lparr>reminders := upd_where (cancellable i u) (\<lambda>r. r\<lparr>rm_status := Cancelled\<rparr>)
            (reminders d)\<rparr>) w))"

text \<open>
  The subselect takes the first due reminders by fire time; \<^verbatim>\<open>FOR UPDATE SKIP LOCKED\<close>
  keeps two dispatchers apart and takes them all when there is one.
\<close>

definition due_ids :: "time \<Rightarrow> nat \<Rightarrow> reminder list \<Rightarrow> uuid list" where
  "due_ids now n rows = map rm_id (take n (sort_key rm_fire_at
     (filter (\<lambda>r. rm_status r = Scheduled \<and> rm_fire_at r \<le> now) rows)))"

definition fire :: "time \<Rightarrow> reminder \<Rightarrow> reminder" where
  "fire now r = r\<lparr>rm_status := Fired, rm_fired_at := Some now\<rparr>"

text \<open>\<^verbatim>\<open>RETURNING\<close> promises no order of the rows; here they come in the order of the table.\<close>

definition ClaimDueReminders :: "nat \<Rightarrow> reminder list stmt" where
  "ClaimDueReminders n = sql_write (\<lambda>w.
     let d = tabs w; ids = due_ids (clock w) n (reminders d) in
     Inr (map (fire (clock w)) (filter (\<lambda>r. rm_id r \<in> set ids) (reminders d)),
          set_tabs (d\<lparr>reminders := upd_where (\<lambda>r. rm_id r \<in> set ids) (fire (clock w)) (reminders d)\<rparr>) w))"

interpretation own_reminders: owner_scoped rm_id rm_user
  "\<lambda>i u. find_where (own_reminder i u)" "\<lambda>f i u. upd_where (own_reminder i u) f"
  "\<lambda>i u. del_where (own_reminder i u)"
  by unfold_locales (auto simp: own_reminder_def upd_where_def del_where_def find_where_None
      dest: find_where_Some)

section \<open>Statements on templates\<close>

record template_params =
  pp_recipe :: uuid
  pp_title :: string
  pp_description :: nulltext
  pp_anchor :: string
  pp_offset_minutes :: int
  pp_suggested :: "string option"
  pp_sort_order :: int

definition CreateReminderTemplate :: "template_params \<Rightarrow> template stmt" where
  "CreateReminderTemplate p = sql_write (\<lambda>w.
     case (reminder_anchor_of (pp_anchor p), opt_enum event_kind_of (pp_suggested p)) of
       (Some an, Inr k) \<Rightarrow>
         (let (i, w1) = gen_uuid w in
          sql_insert templates put_templates tp_id (refers rc_id (recipes (tabs w)) (pp_recipe p))
            \<lparr>tp_id = i, tp_recipe = pp_recipe p, tp_title = pp_title p,
             tp_description = pp_description p, tp_anchor = an,
             tp_offset_minutes = pp_offset_minutes p, tp_suggested = k,
             tp_sort_order = pp_sort_order p\<rparr> w1)
     | _ \<Rightarrow> Inl InvalidText)"

definition ListReminderTemplates :: "uuid \<Rightarrow> template list stmt" where
  "ListReminderTemplates i = sql_read (\<lambda>w. Inr (sort_key (\<lambda>t. (tp_sort_order t, tp_id t))
     (filter (\<lambda>t. tp_recipe t = i) (templates (tabs w)))))"

definition recipe_template :: "uuid \<Rightarrow> uuid \<Rightarrow> template \<Rightarrow> bool" where
  "recipe_template i rc t \<longleftrightarrow> tp_id t = i \<and> tp_recipe t = rc"

record update_template_params =
  ut_id :: uuid
  ut_recipe :: uuid
  ut_title :: nulltext
  ut_description :: nulltext
  ut_anchor :: "string option"
  ut_offset_minutes :: "int option"
  ut_suggested :: "string option"
  ut_sort_order :: "int option"

definition GetReminderTemplate :: "uuid \<Rightarrow> template stmt" where
  "GetReminderTemplate i = sql_read (\<lambda>w. one (find_where (\<lambda>t. tp_id t = i) (templates (tabs w))))"

definition UpdateReminderTemplate :: "update_template_params \<Rightarrow> template stmt" where
  "UpdateReminderTemplate p = sql_write (\<lambda>w.
     case (opt_enum reminder_anchor_of (ut_anchor p), opt_enum event_kind_of (ut_suggested p)) of
       (Inr an, Inr k) \<Rightarrow>
         sql_update templates put_templates (recipe_template (ut_id p) (ut_recipe p))
           (\<lambda>t. t\<lparr>tp_title := coalesce (ut_title p) (tp_title t),
              tp_description := coalesce_opt (ut_description p) (tp_description t),
              tp_anchor := coalesce an (tp_anchor t),
              tp_offset_minutes := coalesce (ut_offset_minutes p) (tp_offset_minutes t),
              tp_suggested := coalesce_opt k (tp_suggested t),
              tp_sort_order := coalesce (ut_sort_order p) (tp_sort_order t)\<rparr>) w
     | _ \<Rightarrow> Inl InvalidText)"

text \<open>\<^verbatim>\<open>reminders.template_id\<close> refuses to lose its template.\<close>

definition DeleteReminderTemplate :: "uuid \<Rightarrow> uuid \<Rightarrow> nat stmt" where
  "DeleteReminderTemplate i rc = sql_write (\<lambda>w.
     if exists_where (recipe_template i rc) (templates (tabs w)) \<and>
        exists_where (\<lambda>r. rm_template r = Some i) (reminders (tabs w))
     then Inl ForeignKeyViolation
     else sql_delete templates put_templates (recipe_template i rc) w)"

interpretation recipe_templates: owner_scoped tp_id tp_recipe
  "\<lambda>i u. find_where (recipe_template i u)" "\<lambda>f i u. upd_where (recipe_template i u) f"
  "\<lambda>i u. del_where (recipe_template i u)"
  by unfold_locales (auto simp: recipe_template_def upd_where_def del_where_def find_where_None
      dest: find_where_Some)

section \<open>Statements on notifications and preferences\<close>

record notification_params =
  pn_user :: uuid
  pn_reminder :: "uuid option"
  pn_kind :: string
  pn_title :: string
  pn_body :: nulltext
  pn_url_path :: nulltext

definition CreateNotification :: "notification_params \<Rightarrow> notification stmt" where
  "CreateNotification p = sql_write (\<lambda>w. let (i, w1) = gen_uuid w; d = tabs w in
     sql_insert notifications put_notifications nt_id
       (refers u_id (users d) (pn_user p) \<and> refers_opt rm_id (reminders d) (pn_reminder p))
       \<lparr>nt_id = i, nt_user = pn_user p, nt_reminder = pn_reminder p, nt_kind = pn_kind p,
        nt_title = pn_title p, nt_body = pn_body p, nt_url_path = pn_url_path p,
        nt_read_at = None, nt_created_at = clock w\<rparr> w1)"

definition notification_key :: "notification \<Rightarrow> time \<times> uuid" where
  "notification_key n = (nt_created_at n, nt_id n)"

definition ListNotifications :: "uuid \<Rightarrow> (time \<times> uuid) option \<Rightarrow> nat \<Rightarrow> notification list stmt" where
  "ListNotifications u cur n = sql_read (\<lambda>w. Inr (keyset_desc notification_key cur n
     (filter (\<lambda>x. nt_user x = u) (notifications (tabs w)))))"

definition unread :: "uuid \<Rightarrow> notification \<Rightarrow> bool" where
  "unread u n \<longleftrightarrow> nt_user n = u \<and> nt_read_at n = None"

definition MarkNotificationRead :: "uuid \<Rightarrow> uuid \<Rightarrow> nat stmt" where
  "MarkNotificationRead i u = sql_write (\<lambda>w. let d = tabs w; P = (\<lambda>n. nt_id n = i \<and> unread u n) in
     Inr (count_where P (notifications d),
          set_tabs (d\<lparr>notifications := upd_where P (\<lambda>n. n\<lparr>nt_read_at := Some (clock w)\<rparr>)
            (notifications d)\<rparr>) w))"

definition MarkAllNotificationsRead :: "uuid \<Rightarrow> unit stmt" where
  "MarkAllNotificationsRead u = sql_write (\<lambda>w. let d = tabs w in
     Inr ((), set_tabs (d\<lparr>notifications := upd_where (unread u)
       (\<lambda>n. n\<lparr>nt_read_at := Some (clock w)\<rparr>) (notifications d)\<rparr>) w))"

definition GetNotificationPrefs :: "uuid \<Rightarrow> notification_pref stmt" where
  "GetNotificationPrefs u = sql_read (\<lambda>w.
     one (find_where (\<lambda>p. np_user p = u) (notification_prefs (tabs w))))"

text \<open>\<^verbatim>\<open>INSERT ... ON CONFLICT (user_id) DO UPDATE\<close>.\<close>

definition upsert :: "('r \<Rightarrow> bool) \<Rightarrow> ('r \<Rightarrow> 'r) \<Rightarrow> 'r \<Rightarrow> 'r list \<Rightarrow> 'r list" where
  "upsert P f r rows = (if exists_where P rows then upd_where P f rows else rows @ [r])"

definition UpsertNotificationPrefs :: "notification_pref \<Rightarrow> notification_pref stmt" where
  "UpsertNotificationPrefs p = sql_write (\<lambda>w. let d = tabs w in
     if \<not> refers u_id (users d) (np_user p) then Inl ForeignKeyViolation
     else Inr (p, set_tabs (d\<lparr>notification_prefs :=
       upsert (\<lambda>q. np_user q = np_user p) (\<lambda>q. p) p (notification_prefs d)\<rparr>) w))"

definition GetUserPrefs :: "uuid \<Rightarrow> user_pref stmt" where
  "GetUserPrefs u = sql_read (\<lambda>w. one (find_where (\<lambda>p. up_user p = u) (user_prefs (tabs w))))"

definition UpsertUserPrefs :: "uuid \<Rightarrow> string option \<Rightarrow> string option \<Rightarrow> user_pref stmt" where
  "UpsertUserPrefs u deg tz = sql_write (\<lambda>w. let d = tabs w;
       fresh = \<lparr>up_user = u, up_degree_units = coalesce deg ''C'', up_timezone = coalesce tz ''UTC''\<rparr>;
       f = (\<lambda>p. p\<lparr>up_degree_units := coalesce deg (up_degree_units p),
                  up_timezone := coalesce tz (up_timezone p)\<rparr>) in
     if \<not> refers u_id (users d) u then Inl ForeignKeyViolation
     else Inr (case find_where (\<lambda>p. up_user p = u) (user_prefs d) of None \<Rightarrow> fresh | Some p \<Rightarrow> f p,
       set_tabs (d\<lparr>user_prefs := upsert (\<lambda>p. up_user p = u) f fresh (user_prefs d)\<rparr>) w))"

section \<open>Statements on push devices\<close>

record push_params =
  ps_user :: uuid
  ps_platform :: string
  ps_token :: string
  ps_p256dh :: nulltext
  ps_auth :: nulltext

definition own_device :: "uuid \<Rightarrow> string \<Rightarrow> push_device \<Rightarrow> bool" where
  "own_device u t x \<longleftrightarrow> pd_user x = u \<and> pd_token x = t"

definition UpsertPushDevice :: "push_params \<Rightarrow> push_device stmt" where
  "UpsertPushDevice p = sql_write (\<lambda>w. let (i, w1) = gen_uuid w; d = tabs w;
       P = own_device (ps_user p) (ps_token p);
       fresh = \<lparr>pd_id = i, pd_user = ps_user p, pd_platform = ps_platform p, pd_token = ps_token p,
         pd_last_seen_at = clock w, pd_p256dh = ps_p256dh p, pd_auth = ps_auth p\<rparr>;
       f = (\<lambda>x. x\<lparr>pd_last_seen_at := clock w, pd_p256dh := ps_p256dh p, pd_auth := ps_auth p\<rparr>) in
     if \<not> refers u_id (users d) (ps_user p) then Inl ForeignKeyViolation
     else Inr (case find_where P (push_devices d) of None \<Rightarrow> fresh | Some x \<Rightarrow> f x,
       set_tabs (d\<lparr>push_devices := upsert P f fresh (push_devices d)\<rparr>) w1))"

definition DeletePushDevice :: "uuid \<Rightarrow> string \<Rightarrow> nat stmt" where
  "DeletePushDevice u t = sql_write (sql_delete push_devices put_push_devices (own_device u t))"

definition ListPushDevicesForUser :: "uuid \<Rightarrow> push_device list stmt" where
  "ListPushDevicesForUser u = sql_read (\<lambda>w.
     Inr (filter (\<lambda>x. pd_user x = u) (push_devices (tabs w))))"

end
