(* ===== verification/Reminder_Handlers.thy ===== *)
theory Reminder_Handlers
  imports Reminders Events
begin

text \<open>
  The handlers on reminders, templates, notifications and preferences, in the order of
  \<^verbatim>\<open>internal/server/reminders.go\<close>, then \<^verbatim>\<open>reminder_templates.go\<close>,
  \<^verbatim>\<open>push.go\<close> and \<^verbatim>\<open>preferences.go\<close>.
\<close>

section \<open>Reminders of a batch\<close>

definition maxReminderTitle :: nat where "maxReminderTitle = 200"
definition maxReminderDesc :: nat where "maxReminderDesc = 2 * 1024"

record reminder_view =
  rmv_id :: uuid
  rmv_batch :: "uuid option"
  rmv_title :: string
  rmv_description :: string
  rmv_fire_at :: time
  rmv_status :: string
  rmv_fired_at :: "time option"
  rmv_completed_at :: "time option"
  rmv_suggested :: "string option"
  rmv_created_at :: time

definition toReminderView :: "reminder \<Rightarrow> reminder_view" where
  "toReminderView r = \<lparr>rmv_id = rm_id r, rmv_batch = rm_batch r, rmv_title = rm_title r,
     rmv_description = textOrEmpty (rm_description r), rmv_fire_at = rm_fire_at r,
     rmv_status = reminder_status_str (rm_status r), rmv_fired_at = rm_fired_at r,
     rmv_completed_at = rm_completed_at r,
     rmv_suggested = map_option event_kind_str (rm_suggested r), rmv_created_at = rm_created_at r\<rparr>"

record create_reminder_request =
  qm_title :: string
  qm_description :: string
  qm_fire_at :: string
  qm_suggested :: "string option"

definition check_create_reminder :: "externals \<Rightarrow> create_reminder_request \<Rightarrow> 'v resp + time" where
  "check_create_reminder x q =
     (if qm_title q = [] then Inl (Fail 422 ''title is required'')
      else if length (qm_title q) > maxReminderTitle then Inl (Fail 422 ''title too long'')
      else if length (qm_description q) > maxReminderDesc then Inl (Fail 422 ''description too long'')
      else if qm_fire_at q = [] then Inl (Fail 422 ''fire_at is required'')
      else case x_rfc3339 x (qm_fire_at q) of
        None \<Rightarrow> Inl (Fail 422 ''fire_at must be RFC3339'')
      | Some t \<Rightarrow> Inr t)"

definition any_error :: "dberr \<Rightarrow> 'v resp" where
  "any_error e = Fail 500 ''internal error''"

definition handleCreateReminder ::
    "user \<Rightarrow> uuid option \<Rightarrow> create_reminder_request option \<Rightarrow> reminder_view resp act" where
  "handleCreateReminder user pid body = (case pid of
     None \<Rightarrow> ret (Fail 400 ''invalid batch id'')
   | Some i \<Rightarrow> (case body of
       None \<Rightarrow> ret (Fail 400 ''invalid json'')
     | Some q \<Rightarrow> do {
         x \<leftarrow> ask ext;
         case check_create_reminder x q of
           Inl r \<Rightarrow> ret r
         | Inr t \<Rightarrow>
             handle (GetBatchForUser i (u_id user)) internal_error (\<lambda>b.
             handle (CreateReminder \<lparr>pm_batch = Some i, pm_user = u_id user, pm_title = qm_title q,
                 pm_description = optText (qm_description q), pm_fire_at = t,
                 pm_suggested = qm_suggested q\<rparr>)
               any_error (\<lambda>r. ret (Okay 201 (toReminderView r)))) }))"

definition handleListReminders :: "user \<Rightarrow> uuid option \<Rightarrow> reminder_view list resp act" where
  "handleListReminders user pid = (case pid of
     None \<Rightarrow> ret (Fail 400 ''invalid batch id'')
   | Some i \<Rightarrow>
       handle (GetBatchForUser i (u_id user)) internal_error (\<lambda>b.
       handle (ListBatchReminders i (u_id user)) any_error
         (\<lambda>rows. ret (Okay 200 (map toReminderView rows)))))"

record update_reminder_request =
  qrm_title :: "string option"
  qrm_description :: "string option"
  qrm_fire_at :: "string option"
  qrm_status :: "string option"
  qrm_suggested :: "string option"

definition patchable_status :: "string list" where
  "patchable_status = [''scheduled'', ''snoozed'', ''completed'', ''dismissed'']"

definition check_update_reminder ::
    "externals \<Rightarrow> update_reminder_request \<Rightarrow> 'v resp + time option" where
  "check_update_reminder x q =
     (if (case qrm_title q of None \<Rightarrow> False | Some t \<Rightarrow> length t > maxReminderTitle)
      then Inl (Fail 422 ''title too long'')
      else if (case qrm_description q of None \<Rightarrow> False | Some t \<Rightarrow> length t > maxReminderDesc)
      then Inl (Fail 422 ''description too long'')
      else case (case qrm_fire_at q of None \<Rightarrow> Some None
                 | Some s \<Rightarrow> map_option Some (x_rfc3339 x s)) of
        None \<Rightarrow> Inl (Fail 422 ''fire_at must be RFC3339'')
      | Some t \<Rightarrow>
          (if (case qrm_status q of None \<Rightarrow> False | Some s \<Rightarrow> s \<notin> set patchable_status)
           then Inl (Fail 422 ''invalid status'') else Inr t))"

definition handleUpdateReminder ::
    "user \<Rightarrow> uuid option \<Rightarrow> update_reminder_request option \<Rightarrow> reminder_view resp act" where
  "handleUpdateReminder user pid body = (case pid of
     None \<Rightarrow> ret (Fail 400 ''invalid reminder id'')
   | Some i \<Rightarrow> (case body of
       None \<Rightarrow> ret (Fail 400 ''invalid json'')
     | Some q \<Rightarrow> do {
         x \<leftarrow> ask ext;
         case check_update_reminder x q of
           Inl r \<Rightarrow> ret r
         | Inr t \<Rightarrow>
             handle (UpdateReminder \<lparr>um_reminder = i, um_user = u_id user, um_title = qrm_title q,
                 um_descr = qrm_description q, um_fire_at = t, um_status = qrm_status q,
                 um_suggested = qrm_suggested q\<rparr>)
               internal_error (\<lambda>r. ret (Okay 200 (toReminderView r))) }))"

definition handleDeleteReminder :: "user \<Rightarrow> uuid option \<Rightarrow> unit resp act" where
  "handleDeleteReminder user pid = (case pid of
     None \<Rightarrow> ret (Fail 400 ''invalid reminder id'')
   | Some i \<Rightarrow> handle (CancelReminder i (u_id user)) any_error delete_resp)"

section \<open>Notifications\<close>

record notification_view =
  ntv_id :: uuid
  ntv_reminder :: "uuid option"
  ntv_kind :: string
  ntv_title :: string
  ntv_body :: string
  ntv_url_path :: string
  ntv_read_at :: "time option"
  ntv_created_at :: time

definition toNotificationView :: "notification \<Rightarrow> notification_view" where
  "toNotificationView n = \<lparr>ntv_id = nt_id n, ntv_reminder = nt_reminder n, ntv_kind = nt_kind n,
     ntv_title = nt_title n, ntv_body = textOrEmpty (nt_body n),
     ntv_url_path = textOrEmpty (nt_url_path n), ntv_read_at = nt_read_at n,
     ntv_created_at = nt_created_at n\<rparr>"

definition handleListNotifications ::
    "user \<Rightarrow> string \<Rightarrow> cursor_param \<Rightarrow> (notification_view list \<times> (time \<times> uuid) option) resp act" where
  "handleListNotifications user limit cur = (case parseListPagination limit cur of
     Inl m \<Rightarrow> ret (Fail 400 m)
   | Inr p \<Rightarrow> handle (ListNotifications (u_id user) (lp_cursor p) (nat (lp_limit p))) any_error
       (\<lambda>rows. ret (Okay 200 (page_of toNotificationView notification_key (lp_limit p) rows))))"

definition handleMarkNotificationRead :: "user \<Rightarrow> uuid option \<Rightarrow> unit resp act" where
  "handleMarkNotificationRead user pid = (case pid of
     None \<Rightarrow> ret (Fail 400 ''invalid id'')
   | Some i \<Rightarrow> handle (MarkNotificationRead i (u_id user)) any_error delete_resp)"

definition handleMarkAllNotificationsRead :: "user \<Rightarrow> unit resp act" where
  "handleMarkAllNotificationsRead user =
     handle (MarkAllNotificationsRead (u_id user)) any_error (\<lambda>_. ret (Okay 204 ()))"

section \<open>Quiet hours and notification preferences\<close>

text \<open>\<^verbatim>\<open>time.Parse("15:04", s)\<close>: an hour of one or two digits, a minute of two.\<close>

definition clock_micros :: "int \<Rightarrow> int \<Rightarrow> int option" where
  "clock_micros h m = (if h < 24 \<and> m < 60 then Some (h * 3600000000 + m * 60000000) else None)"

fun parseHHMM :: "string \<Rightarrow> int option" where
  "parseHHMM [a, b, c, d, e] =
     (case (digit_val a, digit_val b, digit_val d, digit_val e) of
        (Some h1, Some h2, Some m1, Some m2) \<Rightarrow>
          if c = CHR '':'' then clock_micros (10 * h1 + h2) (10 * m1 + m2) else None
      | _ \<Rightarrow> None)"
| "parseHHMM [a, c, d, e] =
     (case (digit_val a, digit_val d, digit_val e) of
        (Some h, Some m1, Some m2) \<Rightarrow> if c = CHR '':'' then clock_micros h (10 * m1 + m2) else None
      | _ \<Rightarrow> None)"
| "parseHHMM _ = None"

text \<open>\<^verbatim>\<open>fmt.Sprintf("%02d:%02d", h, m)\<close> for a time of day.\<close>

definition digit_chr :: "int \<Rightarrow> char" where
  "digit_chr n = char_of (48 + nat n)"

definition two_digits :: "int \<Rightarrow> string" where
  "two_digits n = [digit_chr (n div 10), digit_chr (n mod 10)]"

definition formatHHMM :: "int \<Rightarrow> string" where
  "formatHHMM t = two_digits (t div 3600000000) @ '':'' @ two_digits (t mod 3600000000 div 60000000)"

record prefs_view =
  npv_push_enabled :: bool
  npv_apprise_enabled :: bool
  npv_apprise_url :: string
  npv_email_enabled :: bool
  npv_quiet_start :: "string option"
  npv_quiet_end :: "string option"

definition toPrefsView :: "notification_pref \<Rightarrow> prefs_view" where
  "toPrefsView p = \<lparr>npv_push_enabled = np_push_enabled p, npv_apprise_enabled = np_apprise_enabled p,
     npv_apprise_url = textOrEmpty (np_apprise_url p), npv_email_enabled = np_email_enabled p,
     npv_quiet_start = map_option formatHHMM (np_quiet_start p),
     npv_quiet_end = map_option formatHHMM (np_quiet_end p)\<rparr>"

definition default_prefs :: "uuid \<Rightarrow> notification_pref" where
  "default_prefs u = \<lparr>np_user = u, np_push_enabled = True, np_apprise_enabled = False,
     np_quiet_start = None, np_quiet_end = None, np_apprise_url = None, np_email_enabled = False\<rparr>"

definition handleGetNotificationPrefs :: "user \<Rightarrow> prefs_view resp act" where
  "handleGetNotificationPrefs user = do {
     r \<leftarrow> GetNotificationPrefs (u_id user);
     ret (case r of
       Inr p \<Rightarrow> Okay 200 (toPrefsView p)
     | Inl e \<Rightarrow> if e = NoRows then Okay 200 (toPrefsView (default_prefs (u_id user)))
                else any_error e) }"

record update_prefs_request =
  qp_push_enabled :: "bool option"
  qp_apprise_enabled :: "bool option"
  qp_apprise_url :: "string option"
  qp_email_enabled :: "bool option"
  qp_quiet_start :: "string option"
  qp_quiet_end :: "string option"

definition validator_of :: "config \<Rightarrow> validator" where
  "validator_of cfg = \<lparr>allowWebhookSchemes = AppriseAllowWebhookSchemes cfg,
     allowedHostCIDRs = AppriseAllowedHostCIDRs cfg\<rparr>"

text \<open>The URL part of the request: left alone, cleared, refused, or set.\<close>

definition check_apprise_url ::
    "config \<Rightarrow> string option \<Rightarrow> nulltext \<Rightarrow> (string + nulltext) act" where
  "check_apprise_url cfg q old = (case q of
     None \<Rightarrow> ret (Inr old)
   | Some s \<Rightarrow>
       let u = trim_space s in
       if u = [] then ret (Inr None)
       else do {
         e \<leftarrow> Validate (validator_of cfg) u;
         x \<leftarrow> ask ext;
         ret (case e of None \<Rightarrow> Inr (Some u) | Some err \<Rightarrow> Inl (apprise_msg x err)) })"

text \<open>An absent quiet hour keeps the saved one; a bad one is refused.\<close>

definition quiet_field :: "string option \<Rightarrow> int option \<Rightarrow> int option option" where
  "quiet_field q old = (case q of None \<Rightarrow> Some old | Some s \<Rightarrow> map_option Some (parseHHMM s))"

definition handleUpdateNotificationPrefs ::
    "config \<Rightarrow> user \<Rightarrow> update_prefs_request option \<Rightarrow> prefs_view resp act" where
  "handleUpdateNotificationPrefs cfg user body = do {
     r \<leftarrow> GetNotificationPrefs (u_id user);
     case (case r of Inr p \<Rightarrow> Some p
                   | Inl e \<Rightarrow> if e = NoRows then Some (default_prefs (u_id user)) else None) of
       None \<Rightarrow> ret (Fail 500 ''internal error'')
     | Some old \<Rightarrow> (case body of
         None \<Rightarrow> ret (Fail 400 ''invalid json'')
       | Some q \<Rightarrow> do {
           u \<leftarrow> check_apprise_url cfg (qp_apprise_url q) (np_apprise_url old);
           case u of
             Inl m \<Rightarrow> ret (Fail 422 m)
           | Inr url \<Rightarrow> (case quiet_field (qp_quiet_start q) (np_quiet_start old) of
               None \<Rightarrow> ret (Fail 422 ''quiet_hours_start must be HH:MM'')
             | Some qs \<Rightarrow> (case quiet_field (qp_quiet_end q) (np_quiet_end old) of
                 None \<Rightarrow> ret (Fail 422 ''quiet_hours_end must be HH:MM'')
               | Some qe \<Rightarrow>
                   handle (UpsertNotificationPrefs \<lparr>np_user = u_id user,
                       np_push_enabled = coalesce (qp_push_enabled q) (np_push_enabled old),
                       np_apprise_enabled = coalesce (qp_apprise_enabled q) (np_apprise_enabled old),
                       np_quiet_start = qs, np_quiet_end = qe, np_apprise_url = url,
                       np_email_enabled = coalesce (qp_email_enabled q) (np_email_enabled old)\<rparr>)
                     any_error (\<lambda>p. ret (Okay 200 (toPrefsView p))))) }) }"

section \<open>Test messages\<close>

text \<open>
  A message handed to the sidecar or the relay: the call succeeds or answers the error,
  as the environment says.
\<close>

definition deliver :: "mail \<Rightarrow> string option act" where
  "deliver m = do {
     err \<leftarrow> ask (\<lambda>w. x_deliver (ext w) (tick w));
     State_Monad.update (\<lambda>w. (tock w)\<lparr>outbox := outbox w @ [m]\<rparr>);
     ret err }"

definition handleTestNotification :: "config \<Rightarrow> string option \<Rightarrow> unit resp act" where
  "handleTestNotification cfg body =
     (if AppriseAPIURL cfg = [] then ret (Fail 503 ''apprise not configured on this instance'')
      else case body of
        None \<Rightarrow> ret (Fail 400 ''invalid json'')
      | Some s \<Rightarrow>
          let u = trim_space s in
          if u = [] then ret (Fail 422 ''apprise_url is required'')
          else do {
            e \<leftarrow> Validate (validator_of cfg) u;
            x \<leftarrow> ask ext;
            case e of
              Some err \<Rightarrow> ret (Fail 422 (apprise_msg x err))
            | None \<Rightarrow> do {
                f \<leftarrow> deliver \<lparr>ml_channel = Apprise_Sidecar, ml_to = u,
                  ml_subject = ''Zymo test notification'',
                  ml_body = ''If you can see this, your Apprise URL is wired up correctly.'', ml_path = []\<rparr>;
                ret (case f of None \<Rightarrow> Okay 200 () | Some msg \<Rightarrow> Fail 502 msg) } })"

definition smtp_body :: string where
  "smtp_body = ''If you can see this, your instance'' @ [char_of (39 :: nat)] @
     ''s SMTP relay is wired up correctly.''"

definition handleTestEmail :: "config \<Rightarrow> user \<Rightarrow> unit resp act" where
  "handleTestEmail cfg user =
     (if SMTPHost cfg = [] \<or> SMTPFrom cfg = [] then ret (Fail 503 ''smtp not configured on this instance'')
      else if u_email user = [] then ret (Fail 422 ''account has no email address'')
      else do {
        f \<leftarrow> deliver \<lparr>ml_channel = Smtp_Relay, ml_to = u_email user,
          ml_subject = ''Zymo test notification'', ml_body = smtp_body, ml_path = []\<rparr>;
        ret (case f of None \<Rightarrow> Okay 200 () | Some msg \<Rightarrow> Fail 502 msg) })"

section \<open>Templates of a recipe\<close>

definition maxTemplateTitle :: nat where "maxTemplateTitle = 200"
definition maxTemplateDesc :: nat where "maxTemplateDesc = 2 * 1024"

definition disallowedTemplateAnchors :: "string list" where
  "disallowedTemplateAnchors = [''absolute'']"

record template_view =
  tv_id :: uuid
  tv_recipe :: uuid
  tv_title :: string
  tv_description :: string
  tv_anchor :: string
  tv_offset_minutes :: int
  tv_suggested :: "string option"
  tv_sort_order :: int

definition toTemplateView :: "template \<Rightarrow> template_view" where
  "toTemplateView t = \<lparr>tv_id = tp_id t, tv_recipe = tp_recipe t, tv_title = tp_title t,
     tv_description = textOrEmpty (tp_description t), tv_anchor = reminder_anchor_str (tp_anchor t),
     tv_offset_minutes = tp_offset_minutes t,
     tv_suggested = map_option event_kind_str (tp_suggested t), tv_sort_order = tp_sort_order t\<rparr>"

text \<open>Load the recipe and pass it on when the caller may see it.\<close>

definition recipeForTemplates ::
    "user option \<Rightarrow> uuid \<Rightarrow> (recipe \<Rightarrow> 'v resp act) \<Rightarrow> 'v resp act" where
  "recipeForTemplates viewer i k = handle (GetRecipeByID i) internal_error (\<lambda>r.
     if rc_visibility r = Private \<and>
        (case viewer of None \<Rightarrow> True | Some u \<Rightarrow> u_id u \<noteq> rc_author r)
     then ret (Fail 404 ''not found'') else k r)"

definition handleListReminderTemplates ::
    "user option \<Rightarrow> uuid option \<Rightarrow> template_view list resp act" where
  "handleListReminderTemplates viewer pid = (case pid of
     None \<Rightarrow> ret (Fail 400 ''invalid recipe id'')
   | Some i \<Rightarrow> recipeForTemplates viewer i (\<lambda>r.
       handle (ListReminderTemplates i) any_error
         (\<lambda>ts. ret (Okay 200 (map toTemplateView ts)))))"

text \<open>The three writing handlers: only the author goes on.\<close>

definition author_only :: "user \<Rightarrow> uuid \<Rightarrow> 'v resp act \<Rightarrow> 'v resp act" where
  "author_only user i m = recipeForTemplates (Some user) i (\<lambda>r.
     if rc_author r \<noteq> u_id user then ret (Fail 403 ''forbidden'') else m)"

definition anchor_msg :: string where
  "anchor_msg = ''anchor '' @ [char_of (39 :: nat)] @ ''absolute'' @ [char_of (39 :: nat)] @
     '' is not valid on recipe templates''"

definition template_error :: "dberr \<Rightarrow> 'v resp" where
  "template_error e = (if e = InvalidText then Fail 422 ''invalid anchor or suggested_event_kind value''
     else Fail 500 ''internal error'')"

record template_request =
  qt_title :: string
  qt_description :: string
  qt_anchor :: string
  qt_offset_minutes :: int
  qt_suggested :: "string option"
  qt_sort_order :: int

definition check_template :: "template_request \<Rightarrow> 'v resp option" where
  "check_template q =
     (if qt_title q = [] then Some (Fail 422 ''title is required'')
      else if length (qt_title q) > maxTemplateTitle then Some (Fail 422 ''title too long'')
      else if length (qt_description q) > maxTemplateDesc then Some (Fail 422 ''description too long'')
      else if qt_anchor q \<in> set disallowedTemplateAnchors then Some (Fail 422 anchor_msg)
      else None)"

definition handleCreateReminderTemplate ::
    "user \<Rightarrow> uuid option \<Rightarrow> template_request option \<Rightarrow> template_view resp act" where
  "handleCreateReminderTemplate user pid body = (case pid of
     None \<Rightarrow> ret (Fail 400 ''invalid recipe id'')
   | Some i \<Rightarrow> author_only user i (case body of
       None \<Rightarrow> ret (Fail 400 ''invalid json'')
     | Some q \<Rightarrow> (case check_template q of
         Some r \<Rightarrow> ret r
       | None \<Rightarrow> handle (CreateReminderTemplate \<lparr>pp_recipe = i, pp_title = qt_title q,
             pp_description = optText (qt_description q),
             pp_anchor = (if qt_anchor q = [] then ''pitch'' else qt_anchor q),
             pp_offset_minutes = qt_offset_minutes q, pp_suggested = qt_suggested q,
             pp_sort_order = qt_sort_order q\<rparr>)
           template_error (\<lambda>t. ret (Okay 201 (toTemplateView t))))))"

record template_patch =
  qtp_title :: "string option"
  qtp_description :: "string option"
  qtp_anchor :: "string option"
  qtp_offset_minutes :: "int option"
  qtp_suggested :: "string option"
  qtp_sort_order :: "int option"

definition check_template_patch :: "template_patch \<Rightarrow> 'v resp option" where
  "check_template_patch q =
     (if (case qtp_title q of None \<Rightarrow> False | Some t \<Rightarrow> length t > maxTemplateTitle)
      then Some (Fail 422 ''title too long'')
      else if (case qtp_description q of None \<Rightarrow> False | Some t \<Rightarrow> length t > maxTemplateDesc)
      then Some (Fail 422 ''description too long'')
      else if (case qtp_anchor q of None \<Rightarrow> False | Some a \<Rightarrow> a \<in> set disallowedTemplateAnchors)
      then Some (Fail 422 anchor_msg)
      else None)"

definition handleUpdateReminderTemplate ::
    "user \<Rightarrow> uuid option \<Rightarrow> uuid option \<Rightarrow> template_patch option \<Rightarrow> template_view resp act" where
  "handleUpdateReminderTemplate user pid tid body = (case pid of
     None \<Rightarrow> ret (Fail 400 ''invalid recipe id'')
   | Some i \<Rightarrow> (case tid of
       None \<Rightarrow> ret (Fail 400 ''invalid template id'')
     | Some t \<Rightarrow> author_only user i (case body of
         None \<Rightarrow> ret (Fail 400 ''invalid json'')
       | Some q \<Rightarrow> (case check_template_patch q of
           Some r \<Rightarrow> ret r
         | None \<Rightarrow> handle (UpdateReminderTemplate \<lparr>ut_id = t, ut_recipe = i, ut_title = qtp_title q,
               ut_description = qtp_description q, ut_anchor = qtp_anchor q,
               ut_offset_minutes = qtp_offset_minutes q, ut_suggested = qtp_suggested q,
               ut_sort_order = qtp_sort_order q\<rparr>)
             (\<lambda>e. if e = NoRows then Fail 404 ''not found'' else template_error e)
             (\<lambda>t'. ret (Okay 200 (toTemplateView t')))))))"

definition handleDeleteReminderTemplate ::
    "user \<Rightarrow> uuid option \<Rightarrow> uuid option \<Rightarrow> unit resp act" where
  "handleDeleteReminderTemplate user pid tid = (case pid of
     None \<Rightarrow> ret (Fail 400 ''invalid recipe id'')
   | Some i \<Rightarrow> (case tid of
       None \<Rightarrow> ret (Fail 400 ''invalid template id'')
     | Some t \<Rightarrow> author_only user i
         (handle (DeleteReminderTemplate t i) any_error delete_resp)))"

section \<open>Push subscriptions\<close>

definition handleGetVAPIDPublicKey :: "config \<Rightarrow> string resp act" where
  "handleGetVAPIDPublicKey cfg =
     (if VAPIDPublicKey cfg = [] then ret (Fail 404 ''web push not configured'')
      else ret (Okay 200 (VAPIDPublicKey cfg)))"

record subscribe_request =
  qs_endpoint :: string
  qs_p256dh :: string
  qs_auth :: string

definition handleSubscribePush ::
    "config \<Rightarrow> user \<Rightarrow> subscribe_request option \<Rightarrow> uuid resp act" where
  "handleSubscribePush cfg user body =
     (if VAPIDPublicKey cfg = [] then ret (Fail 503 ''web push not configured'')
      else case body of
        None \<Rightarrow> ret (Fail 400 ''invalid json'')
      | Some q \<Rightarrow>
          if qs_endpoint q = [] \<or> qs_p256dh q = [] \<or> qs_auth q = []
          then ret (Fail 422 ''endpoint, keys.p256dh, and keys.auth are required'')
          else handle (UpsertPushDevice \<lparr>ps_user = u_id user, ps_platform = ''web'',
              ps_token = qs_endpoint q, ps_p256dh = optText (qs_p256dh q), ps_auth = optText (qs_auth q)\<rparr>)
            any_error (\<lambda>d. ret (Okay 200 (pd_id d))))"

definition handleUnsubscribePush :: "user \<Rightarrow> string option \<Rightarrow> unit resp act" where
  "handleUnsubscribePush user body = (case body of
     None \<Rightarrow> ret (Fail 400 ''invalid json'')
   | Some e \<Rightarrow>
       if e = [] then ret (Fail 422 ''endpoint is required'')
       else handle (DeletePushDevice (u_id user) e) any_error (\<lambda>n.
         if n = 0 then ret (Fail 404 ''subscription not found'') else ret (Okay 204 ())))"

section \<open>User preferences\<close>

definition defaultUserPrefs :: "string \<times> string" where
  "defaultUserPrefs = (''C'', ''UTC'')"

definition toUserPrefsView :: "user_pref \<Rightarrow> string \<times> string" where
  "toUserPrefsView p = (up_degree_units p, up_timezone p)"

definition handleGetUserPrefs :: "user \<Rightarrow> (string \<times> string) resp act" where
  "handleGetUserPrefs user = do {
     r \<leftarrow> GetUserPrefs (u_id user);
     ret (case r of
       Inr p \<Rightarrow> Okay 200 (toUserPrefsView p)
     | Inl e \<Rightarrow> if e = NoRows then Okay 200 defaultUserPrefs else any_error e) }"

definition handleUpdateUserPrefs ::
    "user \<Rightarrow> (string option \<times> string option) option \<Rightarrow> (string \<times> string) resp act" where
  "handleUpdateUserPrefs user body = (case body of
     None \<Rightarrow> ret (Fail 400 ''invalid json'')
   | Some (deg, tz) \<Rightarrow> do {
       x \<leftarrow> ask ext;
       if (case deg of None \<Rightarrow> False | Some s \<Rightarrow> s \<noteq> ''C'' \<and> s \<noteq> ''F'')
       then ret (Fail 422 (''degree_units must be '' @ [char_of (39 :: nat)] @ ''C'' @
         [char_of (39 :: nat)] @ '' or '' @ [char_of (39 :: nat)] @ ''F'' @ [char_of (39 :: nat)]))
       else if (case tz of None \<Rightarrow> False | Some s \<Rightarrow> x_location x s = None)
       then ret (Fail 422 ''invalid timezone'')
       else handle (UpsertUserPrefs (u_id user) deg tz) any_error
         (\<lambda>p. ret (Okay 200 (toUserPrefsView p))) })"

end
