(* ===== verification/Users.thy ===== *)
theory Users
  imports Sql
begin

text \<open>
  The statements on users, sessions, email-change requests and deletion requests:
  \<^verbatim>\<open>internal/queries/users.sql.go\<close>, \<^verbatim>\<open>sessions.sql.go\<close> and
  \<^verbatim>\<open>email_change.sql.go\<close>. User names and addresses are \<^verbatim>\<open>CITEXT\<close>: they
  are compared, and unique, without regard to case.
\<close>

section \<open>Users\<close>

definition live_user :: "user \<Rightarrow> bool" where
  "live_user u \<longleftrightarrow> u_deleted_at u = None"

definition user_clash :: "user \<Rightarrow> user \<Rightarrow> bool" where
  "user_clash a b \<longleftrightarrow> u_id a = u_id b \<or> ci_eq (u_username a) (u_username b) \<or> ci_eq (u_email a) (u_email b)"

text \<open>An update of one user that must keep the unique names and addresses.\<close>

definition update_user :: "uuid \<Rightarrow> (user \<Rightarrow> bool) \<Rightarrow> (user \<Rightarrow> user) \<Rightarrow> world \<Rightarrow> dberr + (user \<times> world)" where
  "update_user i P f w =
     (case find_where (\<lambda>u. u_id u = i \<and> P u) (users (tabs w)) of
        None \<Rightarrow> Inl NoRows
      | Some u \<Rightarrow>
          if exists_where (\<lambda>v. u_id v \<noteq> i \<and> (ci_eq (u_username v) (u_username (f u)) \<or> ci_eq (u_email v) (u_email (f u))))
               (users (tabs w))
          then Inl UniqueViolation
          else sql_update users put_users (\<lambda>u. u_id u = i \<and> P u) f w)"

record create_user_params =
  cu_username :: string
  cu_email :: string
  cu_display_name :: nulltext
  cu_password_hash :: nulltext
  cu_is_admin :: bool

definition CreateUserWithPassword :: "create_user_params \<Rightarrow> user stmt" where
  "CreateUserWithPassword p = sql_write (\<lambda>w.
     let (i, w1) = gen_uuid w;
         u = \<lparr>u_id = i, u_username = cu_username p, u_email = cu_email p,
              u_display_name = cu_display_name p, u_bio = None, u_avatar_url = None,
              u_deleted_at = None, u_deletion_scheduled_for = None, u_deletion_choices = None,
              u_deletion_reason = None, u_created_at = clock w,
              u_password_hash = cu_password_hash p, u_is_admin = cu_is_admin p\<rparr> in
     if exists_where (user_clash u) (users (tabs w)) then Inl UniqueViolation
     else Inr (u, set_tabs ((tabs w)\<lparr>users := users (tabs w) @ [u]\<rparr>) w1))"

text \<open>The insert without a password, which no handler uses.\<close>

definition CreateUser :: "string \<Rightarrow> string \<Rightarrow> nulltext \<Rightarrow> user stmt" where
  "CreateUser n e dn = CreateUserWithPassword \<lparr>cu_username = n, cu_email = e, cu_display_name = dn,
     cu_password_hash = None, cu_is_admin = False\<rparr>"

definition GetUserByID :: "uuid \<Rightarrow> user stmt" where
  "GetUserByID i = sql_read (\<lambda>w. one (find_where (\<lambda>u. u_id u = i \<and> live_user u) (users (tabs w))))"

definition GetUserByUsername :: "string \<Rightarrow> user stmt" where
  "GetUserByUsername n = sql_read (\<lambda>w.
     one (find_where (\<lambda>u. ci_eq (u_username u) n \<and> live_user u) (users (tabs w))))"

definition GetUserByEmail :: "string \<Rightarrow> user stmt" where
  "GetUserByEmail n = sql_read (\<lambda>w.
     one (find_where (\<lambda>u. ci_eq (u_email u) n \<and> live_user u) (users (tabs w))))"

text \<open>The two credential lookups answer the id and the hash; the other columns are not used.\<close>

definition GetUserCredentialByEmail :: "string \<Rightarrow> (uuid \<times> nulltext) stmt" where
  "GetUserCredentialByEmail n = sql_read (\<lambda>w. one (map_option (\<lambda>u. (u_id u, u_password_hash u))
     (find_where (\<lambda>u. ci_eq (u_email u) n \<and> live_user u) (users (tabs w)))))"

definition GetUserCredentialByUsername :: "string \<Rightarrow> (uuid \<times> nulltext) stmt" where
  "GetUserCredentialByUsername n = sql_read (\<lambda>w. one (map_option (\<lambda>u. (u_id u, u_password_hash u))
     (find_where (\<lambda>u. ci_eq (u_username u) n \<and> live_user u) (users (tabs w)))))"

definition CountUsers :: "nat stmt" where
  "CountUsers = sql_read (\<lambda>w. Inr (count_where live_user (users (tabs w))))"

text \<open>\<^verbatim>\<open>ORDER BY created_at DESC LIMIT $1 OFFSET $2\<close>.\<close>

definition ListUsers :: "nat \<Rightarrow> nat \<Rightarrow> user list stmt" where
  "ListUsers n off = sql_read (\<lambda>w. Inr (take n (drop off
     (sort_key (\<lambda>u. - u_created_at u) (filter live_user (users (tabs w)))))))"

definition UpdateUser :: "nulltext \<Rightarrow> nulltext \<Rightarrow> nulltext \<Rightarrow> uuid \<Rightarrow> user stmt" where
  "UpdateUser dn bio av i = sql_write (sql_update users put_users (\<lambda>u. u_id u = i \<and> live_user u)
     (\<lambda>u. u\<lparr>u_display_name := coalesce_opt dn (u_display_name u), u_bio := coalesce_opt bio (u_bio u),
            u_avatar_url := coalesce_opt av (u_avatar_url u)\<rparr>))"

definition UpdateUserEmail :: "string \<Rightarrow> uuid \<Rightarrow> user stmt" where
  "UpdateUserEmail e i = sql_write (update_user i live_user (\<lambda>u. u\<lparr>u_email := e\<rparr>))"

definition UpdateUserPassword :: "nulltext \<Rightarrow> uuid \<Rightarrow> unit stmt" where
  "UpdateUserPassword h i = sql_write (\<lambda>w. Inr ((), set_tabs ((tabs w)\<lparr>users :=
     upd_where (\<lambda>u. u_id u = i \<and> live_user u) (\<lambda>u. u\<lparr>u_password_hash := h\<rparr>) (users (tabs w))\<rparr>) w))"

text \<open>The placeholders and the wiped row of an anonymized user.\<close>

definition placeholder_name :: "externals \<Rightarrow> uuid \<Rightarrow> string" where
  "placeholder_name x i = ''deleted-'' @ x_uuid_text x i"

definition placeholder_email :: "externals \<Rightarrow> uuid \<Rightarrow> string" where
  "placeholder_email x i = ''deleted-'' @ x_uuid_text x i @ ''@deleted.invalid''"

definition anonymized :: "externals \<Rightarrow> time \<Rightarrow> user \<Rightarrow> user" where
  "anonymized x now u = u\<lparr>u_username := placeholder_name x (u_id u),
     u_email := placeholder_email x (u_id u), u_password_hash := None, u_display_name := None,
     u_bio := None, u_avatar_url := None, u_deletion_scheduled_for := None,
     u_deletion_choices := None, u_deletion_reason := None, u_deleted_at := Some now\<rparr>"

text \<open>An \<^verbatim>\<open>:exec\<close> statement: no row is no error.\<close>

definition AnonymizeUser :: "uuid \<Rightarrow> unit stmt" where
  "AnonymizeUser i = sql_write (\<lambda>w.
     case update_user i (\<lambda>u. True) (anonymized (ext w) (clock w)) w of
       Inr (u, w') \<Rightarrow> Inr ((), w')
     | Inl e \<Rightarrow> if e = NoRows then Inr ((), w) else Inl e)"

section \<open>Deletion requests\<close>

definition CreateAccountDeletionRequest :: "uuid \<Rightarrow> deletion_request stmt" where
  "CreateAccountDeletionRequest u = sql_write (\<lambda>w. let (i, w1) = gen_uuid w in
     sql_insert deletion_requests put_deletion_requests adr_id (refers u_id (users (tabs w)) u)
       \<lparr>adr_id = i, adr_user = u, adr_requested_at = clock w\<rparr> w1)"

definition ListUnprocessedDeletionRequests :: "deletion_request list stmt" where
  "ListUnprocessedDeletionRequests = sql_read (\<lambda>w. Inr (sort_key adr_requested_at
     (filter (\<lambda>q. exists_where (\<lambda>u. u_id u = adr_user q \<and> live_user u) (users (tabs w)))
       (deletion_requests (tabs w)))))"

section \<open>Sessions\<close>

record session_params =
  sp_user :: uuid
  sp_token_hash :: string
  sp_user_agent :: nulltext
  sp_ip :: "addr option"
  sp_expires_at :: time

definition CreateSession :: "session_params \<Rightarrow> session stmt" where
  "CreateSession p = sql_write (\<lambda>w. let (i, w1) = gen_uuid w;
       s = \<lparr>s_id = i, s_user = sp_user p, s_token_hash = sp_token_hash p,
            s_user_agent = sp_user_agent p, s_ip = sp_ip p, s_created_at = clock w,
            s_last_seen_at = clock w, s_expires_at = sp_expires_at p\<rparr> in
     if \<not> refers u_id (users (tabs w)) (sp_user p) then Inl ForeignKeyViolation
     else if exists_where (\<lambda>t. s_id t = i \<or> s_token_hash t = sp_token_hash p) (sessions (tabs w))
     then Inl UniqueViolation
     else Inr (s, set_tabs ((tabs w)\<lparr>sessions := sessions (tabs w) @ [s]\<rparr>) w1))"

text \<open>The session of a token, joined with its user, both alive.\<close>

definition session_of :: "time \<Rightarrow> string \<Rightarrow> db \<Rightarrow> (session \<times> user) option" where
  "session_of now h d = (case find_where (\<lambda>s. s_token_hash s = h \<and> s_expires_at s > now) (sessions d) of
     None \<Rightarrow> None
   | Some s \<Rightarrow> map_option (Pair s) (find_where (\<lambda>u. u_id u = s_user s \<and> live_user u) (users d)))"

definition GetSessionWithUser :: "string \<Rightarrow> (session \<times> user) stmt" where
  "GetSessionWithUser h = sql_read (\<lambda>w. one (session_of (clock w) h (tabs w)))"

definition TouchSession :: "uuid \<Rightarrow> unit stmt" where
  "TouchSession i = sql_write (\<lambda>w. Inr ((), set_tabs ((tabs w)\<lparr>sessions :=
     upd_where (\<lambda>s. s_id s = i) (\<lambda>s. s\<lparr>s_last_seen_at := clock w\<rparr>) (sessions (tabs w))\<rparr>) w))"

text \<open>The deletions of these tables answer nothing.\<close>

definition delete_all ::
    "(db \<Rightarrow> 'r list) \<Rightarrow> ('r list \<Rightarrow> db \<Rightarrow> db) \<Rightarrow> (world \<Rightarrow> 'r \<Rightarrow> bool) \<Rightarrow> unit stmt" where
  "delete_all get put P = sql_write (\<lambda>w.
     Inr ((), set_tabs (put (del_where (P w) (get (tabs w))) (tabs w)) w))"

definition DeleteSessionByTokenHash :: "string \<Rightarrow> unit stmt" where
  "DeleteSessionByTokenHash h = delete_all sessions put_sessions (\<lambda>w s. s_token_hash s = h)"

definition DeleteSessionsForUser :: "uuid \<Rightarrow> unit stmt" where
  "DeleteSessionsForUser u = delete_all sessions put_sessions (\<lambda>w s. s_user s = u)"

definition DeleteExpiredSessions :: "unit stmt" where
  "DeleteExpiredSessions = delete_all sessions put_sessions (\<lambda>w s. s_expires_at s < clock w)"

section \<open>Email-change requests\<close>

record email_change_params =
  em_user :: uuid
  em_new_email :: string
  em_old_email :: string
  em_confirm_hash :: string
  em_cancel_hash :: string
  em_expires_at :: time

definition CreateEmailChangeRequest :: "email_change_params \<Rightarrow> email_change_request stmt" where
  "CreateEmailChangeRequest p = sql_write (\<lambda>w. let (i, w1) = gen_uuid w;
       q = \<lparr>ec_id = i, ec_user = em_user p, ec_new_email = em_new_email p,
            ec_old_email = em_old_email p, ec_confirm_hash = em_confirm_hash p,
            ec_cancel_hash = em_cancel_hash p, ec_created_at = clock w, ec_expires_at = em_expires_at p\<rparr> in
     if \<not> refers u_id (users (tabs w)) (em_user p) then Inl ForeignKeyViolation
     else if exists_where (\<lambda>c. ec_id c = i \<or> ec_confirm_hash c = em_confirm_hash p \<or>
            ec_cancel_hash c = em_cancel_hash p) (email_changes (tabs w))
     then Inl UniqueViolation
     else Inr (q, set_tabs ((tabs w)\<lparr>email_changes := email_changes (tabs w) @ [q]\<rparr>) w1))"

definition GetEmailChangeRequestByConfirmHash :: "string \<Rightarrow> email_change_request stmt" where
  "GetEmailChangeRequestByConfirmHash h = sql_read (\<lambda>w.
     one (find_where (\<lambda>c. ec_confirm_hash c = h \<and> ec_expires_at c > clock w) (email_changes (tabs w))))"

definition GetEmailChangeRequestByCancelHash :: "string \<Rightarrow> email_change_request stmt" where
  "GetEmailChangeRequestByCancelHash h = sql_read (\<lambda>w.
     one (find_where (\<lambda>c. ec_cancel_hash c = h \<and> ec_expires_at c > clock w) (email_changes (tabs w))))"

definition DeleteEmailChangeRequest :: "uuid \<Rightarrow> unit stmt" where
  "DeleteEmailChangeRequest i = delete_all email_changes put_email_changes (\<lambda>w c. ec_id c = i)"

definition DeleteEmailChangeRequestsForUser :: "uuid \<Rightarrow> unit stmt" where
  "DeleteEmailChangeRequestsForUser u = delete_all email_changes put_email_changes (\<lambda>w c. ec_user c = u)"

definition DeleteExpiredEmailChangeRequests :: "unit stmt" where
  "DeleteExpiredEmailChangeRequests =
     delete_all email_changes put_email_changes (\<lambda>w c. ec_expires_at c < clock w)"

section \<open>Rows of a user in the satellite tables\<close>

definition DeletePushDevicesForUser :: "uuid \<Rightarrow> unit stmt" where
  "DeletePushDevicesForUser u = delete_all push_devices put_push_devices (\<lambda>w x. pd_user x = u)"

definition DeleteNotificationsForUser :: "uuid \<Rightarrow> unit stmt" where
  "DeleteNotificationsForUser u = delete_all notifications put_notifications (\<lambda>w x. nt_user x = u)"

definition DeleteNotificationPrefsForUser :: "uuid \<Rightarrow> unit stmt" where
  "DeleteNotificationPrefsForUser u =
     delete_all notification_prefs put_notification_prefs (\<lambda>w x. np_user x = u)"

definition DeleteUserPrefsForUser :: "uuid \<Rightarrow> unit stmt" where
  "DeleteUserPrefsForUser u = delete_all user_prefs put_user_prefs (\<lambda>w x. up_user x = u)"

definition DeleteUserExportsForUser :: "uuid \<Rightarrow> unit stmt" where
  "DeleteUserExportsForUser u = delete_all exports put_exports (\<lambda>w x. ex_user x = u)"

definition DeleteAllInventoryForUser :: "uuid \<Rightarrow> unit stmt" where
  "DeleteAllInventoryForUser u = delete_all inventory put_inventory (\<lambda>w x. iv_user x = u)"

definition ListUserExportFilePathsForUser :: "uuid \<Rightarrow> nulltext list stmt" where
  "ListUserExportFilePathsForUser u = sql_read (\<lambda>w. Inr (map ex_file_path
     (filter (\<lambda>x. ex_user x = u \<and> ex_file_path x \<noteq> None) (exports (tabs w)))))"

section \<open>What the unique columns promise\<close>

definition users_ok :: "user list \<Rightarrow> bool" where
  "users_ok us \<longleftrightarrow> distinct (map u_id us) \<and> distinct (map (to_lower \<circ> u_username) us) \<and>
     distinct (map (to_lower \<circ> u_email) us)"

lemma users_ok_add:
  assumes "users_ok us" and "\<not> exists_where (user_clash u) us"
  shows "users_ok (us @ [u])"
  using assms by (auto simp: users_ok_def exists_where_iff user_clash_def ci_eq_def)

lemma distinct_upd_where:
  assumes "distinct (map k rows)" and "distinct (map key rows)"
    and "\<And>r. P r \<Longrightarrow> key r = i" and "r \<in> set rows" and "P r"
    and "\<forall>v\<in>set rows. key v \<noteq> i \<longrightarrow> k v \<noteq> k (f r)"
  shows "distinct (map k (upd_where P f rows))"
proof -
  have "inj_on k (set rows)" "inj_on key (set rows)" "distinct rows"
    using assms(1,2) by (auto simp: distinct_map)
  moreover have "P v \<Longrightarrow> v \<in> set rows \<Longrightarrow> v = r" for v
    using assms(2-5) distinct_key_eq by metis
  ultimately show ?thesis
    using assms(3-6) unfolding upd_where_def map_map distinct_map inj_on_def o_def by metis
qed

lemma update_user_ok:
  assumes "update_user i P f w = Inr (u, w')" and "users_ok (users (tabs w))"
    and "\<And>u. u_id (f u) = u_id u"
  shows "users_ok (users (tabs w'))"
proof -
  from assms(1) obtain v where v: "find_where (\<lambda>u. u_id u = i \<and> P u) (users (tabs w)) = Some v"
    and c: "\<not> exists_where (\<lambda>x. u_id x \<noteq> i \<and> (ci_eq (u_username x) (u_username (f v)) \<or>
       ci_eq (u_email x) (u_email (f v)))) (users (tabs w))"
    and w': "users (tabs w') = upd_where (\<lambda>u. u_id u = i \<and> P u) f (users (tabs w))"
    by (auto simp: update_user_def sql_update_Inr split: option.splits if_splits)
  from v have v': "v \<in> set (users (tabs w))" "u_id v = i" "P v" by (auto dest: find_where_Some)
  from assms(2) have d: "distinct (map u_id (users (tabs w)))"
    "distinct (map (to_lower \<circ> u_username) (users (tabs w)))"
    "distinct (map (to_lower \<circ> u_email) (users (tabs w)))" by (auto simp: users_ok_def)
  have "map u_id (users (tabs w')) = map u_id (users (tabs w))"
    unfolding w' using assms(3) by (intro map_upd_where) simp
  moreover have "distinct (map (to_lower \<circ> u_username) (users (tabs w')))"
    unfolding w' by (rule distinct_upd_where [OF d(2) d(1), where i = i and r = v])
      (use v' c in \<open>auto simp: exists_where_iff ci_eq_def\<close>)
  moreover have "distinct (map (to_lower \<circ> u_email) (users (tabs w')))"
    unfolding w' by (rule distinct_upd_where [OF d(3) d(1), where i = i and r = v])
      (use v' c in \<open>auto simp: exists_where_iff ci_eq_def\<close>)
  ultimately show ?thesis using d(1) by (simp add: users_ok_def)
qed

end
