(* ===== verification/Dispatcher.thy ===== *)
theory Dispatcher
  imports Reminder_Handlers Users
begin

text \<open>
  The job that fires reminders, \<^verbatim>\<open>internal/jobs/reminder_dispatcher.go\<close>. It claims
  at most 100 due reminders in one statement, writes an in-app notification for each, and sends it
  on the external channels the instance and the user have enabled, outside the user's quiet
  hours. Preferences, time zone, address and devices of a user are looked up once per run: the
  four caches are the maps of the code.
\<close>

section \<open>Quiet hours\<close>

definition tod_micros :: "int \<times> int \<Rightarrow> int" where
  "tod_micros hm = fst hm * 3600000000 + snd hm * 60000000"

definition isInQuietHours :: "externals \<Rightarrow> notification_pref \<Rightarrow> string \<Rightarrow> time \<Rightarrow> bool" where
  "isInQuietHours x p tz now = (case (np_quiet_start p, np_quiet_end p) of
     (Some a, Some b) \<Rightarrow>
       (case x_location x tz of
          None \<Rightarrow> False
        | Some loc \<Rightarrow>
            let t = tod_micros (loc now) in
            if a \<le> b then a \<le> t \<and> t < b else a \<le> t \<or> t < b)
   | _ \<Rightarrow> False)"

section \<open>Configuration\<close>

definition reminderClaimBatch :: nat where "reminderClaimBatch = 100"

definition pushConfigured :: "config \<Rightarrow> bool" where
  "pushConfigured c \<longleftrightarrow> VAPIDPublicKey c \<noteq> [] \<and> VAPIDPrivateKey c \<noteq> []"

definition appriseConfigured :: "config \<Rightarrow> bool" where
  "appriseConfigured c \<longleftrightarrow> AppriseAPIURL c \<noteq> []"

definition emailConfigured :: "config \<Rightarrow> bool" where
  "emailConfigured c \<longleftrightarrow> SMTPHost c \<noteq> [] \<and> SMTPFrom c \<noteq> []"

section \<open>Cached lookups\<close>

record caches =
  ca_prefs :: "uuid \<Rightarrow> notification_pref option"
  ca_tz :: "uuid \<Rightarrow> string option"
  ca_dev :: "uuid \<Rightarrow> push_device list option"
  ca_email :: "uuid \<Rightarrow> string option"

definition no_caches :: caches where
  "no_caches = \<lparr>ca_prefs = (\<lambda>u. None), ca_tz = (\<lambda>u. None), ca_dev = (\<lambda>u. None), ca_email = (\<lambda>u. None)\<rparr>"

definition prefs_or_default :: "uuid \<Rightarrow> dberr + notification_pref \<Rightarrow> notification_pref" where
  "prefs_or_default u r = (case r of Inr p \<Rightarrow> p | Inl e \<Rightarrow>
     \<lparr>np_user = u, np_push_enabled = True, np_apprise_enabled = False, np_quiet_start = None,
      np_quiet_end = None, np_apprise_url = None, np_email_enabled = False\<rparr>)"

definition userPrefs :: "uuid \<Rightarrow> caches \<Rightarrow> (notification_pref \<times> caches) act" where
  "userPrefs u c = (case ca_prefs c u of
     Some p \<Rightarrow> ret (p, c)
   | None \<Rightarrow> do {
       r \<leftarrow> GetNotificationPrefs u;
       ret (prefs_or_default u r, c\<lparr>ca_prefs := (ca_prefs c)(u \<mapsto> prefs_or_default u r)\<rparr>) })"

definition timezone_or_utc :: "dberr + user_pref \<Rightarrow> string" where
  "timezone_or_utc r = (case r of
     Inl e \<Rightarrow> ''UTC'' | Inr p \<Rightarrow> if up_timezone p = [] then ''UTC'' else up_timezone p)"

definition userTimezone :: "uuid \<Rightarrow> caches \<Rightarrow> (string \<times> caches) act" where
  "userTimezone u c = (case ca_tz c u of
     Some tz \<Rightarrow> ret (tz, c)
   | None \<Rightarrow> do {
       r \<leftarrow> GetUserPrefs u;
       ret (timezone_or_utc r, c\<lparr>ca_tz := (ca_tz c)(u \<mapsto> timezone_or_utc r)\<rparr>) })"

definition userEmail :: "uuid \<Rightarrow> caches \<Rightarrow> (string option \<times> caches) act" where
  "userEmail u c = (case ca_email c u of
     Some a \<Rightarrow> ret (Some a, c)
   | None \<Rightarrow> do {
       r \<leftarrow> GetUserByID u;
       ret (case r of
         Inl e \<Rightarrow> (None, c)
       | Inr v \<Rightarrow> (Some (u_email v), c\<lparr>ca_email := (ca_email c)(u \<mapsto> u_email v)\<rparr>)) })"

definition userDevices :: "uuid \<Rightarrow> caches \<Rightarrow> (push_device list option \<times> caches) act" where
  "userDevices u c = (case ca_dev c u of
     Some ds \<Rightarrow> ret (Some ds, c)
   | None \<Rightarrow> do {
       r \<leftarrow> ListPushDevicesForUser u;
       ret (case r of
         Inl e \<Rightarrow> (None, c)
       | Inr ds \<Rightarrow> (Some ds, c\<lparr>ca_dev := (ca_dev c)(u \<mapsto> ds)\<rparr>)) })"

section \<open>The channels\<close>

text \<open>\<^verbatim>\<open>"/batches/" + id\<close>, when the reminder has a batch.\<close>

definition url_path_of :: "externals \<Rightarrow> reminder \<Rightarrow> nulltext" where
  "url_path_of x r = map_option (\<lambda>b. ''/batches/'' @ x_uuid_text x b) (rm_batch r)"

definition reminder_mail :: "channel \<Rightarrow> string \<Rightarrow> string \<Rightarrow> reminder \<Rightarrow> mail" where
  "reminder_mail ch dest path r = \<lparr>ml_channel = ch, ml_to = dest, ml_subject = rm_title r,
     ml_body = textOrEmpty (rm_description r), ml_path = path\<rparr>"

definition apprise_target :: "config \<Rightarrow> notification_pref \<Rightarrow> string option" where
  "apprise_target cfg p =
     (if appriseConfigured cfg \<and> np_apprise_enabled p \<and> textOrEmpty (np_apprise_url p) \<noteq> []
      then np_apprise_url p else None)"

definition send_apprise :: "config \<Rightarrow> notification_pref \<Rightarrow> reminder \<Rightarrow> unit act" where
  "send_apprise cfg p r = (case apprise_target cfg p of
     None \<Rightarrow> ret ()
   | Some u \<Rightarrow> do {
       e \<leftarrow> Validate (validator_of cfg) u;
       (case e of
          Some err \<Rightarrow> ret ()
        | None \<Rightarrow> do { deliver (reminder_mail Apprise_Sidecar u [] r); ret () }) })"

definition send_email :: "config \<Rightarrow> notification_pref \<Rightarrow> reminder \<Rightarrow> caches \<Rightarrow> caches act" where
  "send_email cfg p r c =
     (if emailConfigured cfg \<and> np_email_enabled p then do {
        (a, c1) \<leftarrow> userEmail (rm_user r) c;
        (case a of
           None \<Rightarrow> ret c1
         | Some addr \<Rightarrow>
             if addr = [] then ret c1
             else do { deliver (reminder_mail Smtp_Relay addr [] r); ret c1 }) }
      else ret c)"

text \<open>A push that the service answers with 404 or 410 removes the device.\<close>

definition sendPush :: "push_device \<Rightarrow> mail \<Rightarrow> unit act" where
  "sendPush d m = do {
     st \<leftarrow> ask (\<lambda>w. x_push (ext w) (tick w) (pd_token d));
     State_Monad.update (\<lambda>w. (tock w)\<lparr>outbox := outbox w @ [m]\<rparr>);
     (if st = Some 410 \<or> st = Some 404
      then do { DeletePushDevice (pd_user d) (pd_token d); ret () } else ret ()) }"

definition usable :: "push_device \<Rightarrow> bool" where
  "usable d \<longleftrightarrow> pd_p256dh d \<noteq> None \<and> pd_auth d \<noteq> None"

fun push_all :: "reminder \<Rightarrow> string \<Rightarrow> push_device list \<Rightarrow> unit act" where
  "push_all r path [] = ret ()"
| "push_all r path (d # ds) = do {
     (if usable d then sendPush d (reminder_mail Web_Push (pd_token d) path r) else ret ());
     push_all r path ds }"

definition send_push :: "config \<Rightarrow> notification_pref \<Rightarrow> reminder \<Rightarrow> caches \<Rightarrow> caches act" where
  "send_push cfg p r c =
     (if \<not> pushConfigured cfg \<or> \<not> np_push_enabled p then ret c
      else do {
        (ds, c1) \<leftarrow> userDevices (rm_user r) c;
        x \<leftarrow> ask ext;
        (case ds of
           None \<Rightarrow> ret c1
         | Some xs \<Rightarrow> do { push_all r (textOrEmpty (url_path_of x r)) xs; ret c1 }) })"

section \<open>The job\<close>

definition notify :: "reminder \<Rightarrow> unit act" where
  "notify r = do {
     x \<leftarrow> ask ext;
     CreateNotification \<lparr>pn_user = rm_user r, pn_reminder = Some (rm_id r), pn_kind = ''reminder'',
       pn_title = rm_title r, pn_body = rm_description r, pn_url_path = url_path_of x r\<rparr>;
     ret () }"

definition send_external :: "config \<Rightarrow> time \<Rightarrow> reminder \<Rightarrow> caches \<Rightarrow> caches act" where
  "send_external cfg now r c =
     (if \<not> pushConfigured cfg \<and> \<not> appriseConfigured cfg \<and> \<not> emailConfigured cfg then ret c
      else do {
        (p, c1) \<leftarrow> userPrefs (rm_user r) c;
        (tz, c2) \<leftarrow> userTimezone (rm_user r) c1;
        x \<leftarrow> ask ext;
        (if isInQuietHours x p tz now then ret c2
         else do {
           send_apprise cfg p r;
           c3 \<leftarrow> send_email cfg p r c2;
           send_push cfg p r c3 }) })"

fun dispatch_all :: "config \<Rightarrow> time \<Rightarrow> reminder list \<Rightarrow> caches \<Rightarrow> unit act" where
  "dispatch_all cfg now [] c = ret ()"
| "dispatch_all cfg now (r # rs) c = do {
     notify r;
     c' \<leftarrow> send_external cfg now r c;
     dispatch_all cfg now rs c' }"

definition Work :: "config \<Rightarrow> unit stmt" where
  "Work cfg = do {
     due \<leftarrow> ClaimDueReminders reminderClaimBatch;
     (case due of
        Inl e \<Rightarrow> ret (Inl e)
      | Inr rs \<Rightarrow> do {
          now \<leftarrow> ask clock;
          dispatch_all cfg now rs no_caches;
          ret (Inr ()) }) }"

end
