(* ===== verification/Dispatch_Props.thy ===== *)
theory Dispatch_Props
  imports Dispatcher Demo "HOL-Library.Sublist"
begin

text \<open>
  What the dispatcher promises: which messages a run sends (a specification without caches), what
  it does to the reminders and notifications whatever fails, that a backlog drains, and what the
  quiet hours mean.
\<close>

section \<open>Quiet hours\<close>

definition day_micros :: int where "day_micros = 86400000000"

lemma digit_val_Some: "digit_val c = Some n \<longleftrightarrow> 0 \<le> n \<and> n \<le> 9 \<and> c = digit_chr n"
proof
  assume "digit_val c = Some n"
  then have n: "n = int (of_char c) - 48" "48 \<le> (of_char c :: nat)" "of_char c \<le> (57 :: nat)"
    by (auto simp: digit_val_def Let_def split: if_splits)
  then have "48 + nat n = of_char c" by simp
  then have "digit_chr n = c" by (simp add: digit_chr_def)
  with n show "0 \<le> n \<and> n \<le> 9 \<and> c = digit_chr n" by simp
next
  assume n: "0 \<le> n \<and> n \<le> 9 \<and> c = digit_chr n"
  then have "(of_char c :: nat) = (48 + nat n) mod 256" by (simp add: digit_chr_def)
  moreover from n have "nat n \<le> 9" by (simp add: nat_le_iff)
  ultimately have c: "(of_char c :: nat) = 48 + nat n" by simp
  have "nat n \<le> 9" using n by linarith
  with n c show "digit_val c = Some n" by (simp add: digit_val_def Let_def)
qed

lemma two_digits_simps:
  "0 \<le> a \<Longrightarrow> a \<le> 9 \<Longrightarrow> 0 \<le> b \<Longrightarrow> b \<le> 9 \<Longrightarrow> two_digits (10 * a + b) = [digit_chr a, digit_chr b]"
  by (simp add: two_digits_def)

text \<open>What is parsed is an hour and a minute, written with two digits each or a shorter hour.\<close>

lemma parseHHMM_Some:
  assumes "parseHHMM s = Some t"
  shows "\<exists>h m. 0 \<le> h \<and> h < 24 \<and> 0 \<le> m \<and> m < 60 \<and> t = h * 3600000000 + m * 60000000 \<and>
    (length s = 5 \<longrightarrow> s = two_digits h @ '':'' @ two_digits m)"
proof (cases s rule: parseHHMM.cases)
  case (1 a b c d e)
  with assms obtain h1 h2 m1 m2 where
    d: "digit_val a = Some h1" "digit_val b = Some h2" "digit_val d = Some m1" "digit_val e = Some m2"
    and c: "c = CHR '':''" "clock_micros (10 * h1 + h2) (10 * m1 + m2) = Some t"
    by (auto split: option.splits if_splits)
  from d have r: "0 \<le> h1" "h1 \<le> 9" "0 \<le> h2" "h2 \<le> 9" "0 \<le> m1" "m1 \<le> 9" "0 \<le> m2" "m2 \<le> 9"
    and s: "s = two_digits (10 * h1 + h2) @ '':'' @ two_digits (10 * m1 + m2)"
    using 1 c(1) by (auto simp: digit_val_Some two_digits_simps)
  from c(2) have "10 * h1 + h2 < 24" "10 * m1 + m2 < 60"
    "t = (10 * h1 + h2) * 3600000000 + (10 * m1 + m2) * 60000000"
    by (auto simp: clock_micros_def split: if_splits)
  moreover from r have "0 \<le> 10 * h1 + h2" "0 \<le> 10 * m1 + m2" by simp_all
  ultimately show ?thesis using s by blast
next
  case (2 a c d e)
  with assms obtain h m1 m2 where
    d: "digit_val a = Some h" "digit_val d = Some m1" "digit_val e = Some m2"
    and c: "clock_micros h (10 * m1 + m2) = Some t"
    by (auto split: option.splits if_splits)
  from d have "0 \<le> h" "0 \<le> 10 * m1 + m2" by (auto simp: digit_val_Some)
  moreover from c have "h < 24" "10 * m1 + m2 < 60" "t = h * 3600000000 + (10 * m1 + m2) * 60000000"
    by (auto simp: clock_micros_def split: if_splits)
  ultimately show ?thesis using 2 by (intro exI [of _ h] exI [of _ "10 * m1 + m2"]) simp
qed (use assms in auto)

lemma formatHHMM_clock:
  assumes "0 \<le> h" "0 \<le> m" "m < 60"
  shows "formatHHMM (h * 3600000000 + m * 60000000) = two_digits h @ '':'' @ two_digits m"
proof -
  have "(h * 3600000000 + m * 60000000) div 3600000000 = h"
    using assms by (simp add: div_add1_eq)
  moreover have "(h * 3600000000 + m * 60000000) mod 3600000000 = m * 60000000"
    using assms by simp
  ultimately show ?thesis unfolding formatHHMM_def by simp
qed

lemma parseHHMM_clock:
  assumes "0 \<le> h" "h < 24" "0 \<le> m" "m < 60"
  shows "parseHHMM (two_digits h @ '':'' @ two_digits m) = Some (h * 3600000000 + m * 60000000)"
proof -
  have d: "digit_val (digit_chr n) = Some n" if "0 \<le> n" "n \<le> 9" for n
    using that by (simp add: digit_val_Some)
  have "10 * (h div 10) + h mod 10 = h" "10 * (m div 10) + m mod 10 = m" by simp_all
  with assms show ?thesis
    by (simp add: two_digits_def d clock_micros_def)
qed

text \<open>
  Quiet hours survive the round trip through the database. Whatever text a PATCH saves, the
  text a later GET shows parses to the same time of day, so a client that sends back what it was
  shown changes nothing, and a text in the shape \<^verbatim>\<open>HH:MM\<close> is shown as it was written.
\<close>

theorem quiet_hours_roundtrip:
  assumes "parseHHMM s = Some t"
  shows "parseHHMM (formatHHMM t) = Some t \<and> (length s = 5 \<longrightarrow> formatHHMM t = s)"
proof -
  from parseHHMM_Some [OF assms] obtain h m where
    "0 \<le> h" "h < 24" "0 \<le> m" "m < 60" "t = h * 3600000000 + m * 60000000"
    "length s = 5 \<longrightarrow> s = two_digits h @ '':'' @ two_digits m" by blast
  then show ?thesis using formatHHMM_clock [of h m] parseHHMM_clock [of h m] by simp
qed

lemma quiet_hours_roundtrip_witness:
  "parseHHMM ''7:30'' = Some 27000000000 \<and> formatHHMM 27000000000 = ''07:30'' \<and>
   parseHHMM (formatHHMM 27000000000) = Some 27000000000"
proof -
  have p: "parseHHMM ''7:30'' = Some 27000000000" by code_simp
  moreover have "formatHHMM 27000000000 = ''07:30''" by code_simp
  ultimately show ?thesis using quiet_hours_roundtrip [OF p] by blast
qed

text \<open>
  C17: The quiet hours are the cyclic interval from start to end. For any two times a user can
  save, the dispatcher is silent exactly when the time since the last start, around the clock, is
  less than the length of the window, around the clock. So a window may cross midnight, the start
  is quiet, the end is not, and equal times mean no quiet hours at all.
\<close>

theorem quiet_hours_cyclic:
  assumes "parseHHMM s1 = Some a" and "parseHHMM s2 = Some b"
    and "np_quiet_start p = Some a" and "np_quiet_end p = Some b"
    and "x_location x tz = Some loc" and "loc now = (h, m)"
    and "0 \<le> h" and "h < 24" and "0 \<le> m" and "m < 60"
  shows "isInQuietHours x p tz now \<longleftrightarrow>
    (tod_micros (h, m) - a) mod day_micros < (b - a) mod day_micros"
proof -
  let ?t = "tod_micros (h, m)"
  from assms(1,2) have a: "0 \<le> a" "a < day_micros" and b: "0 \<le> b" "b < day_micros"
    by (auto dest!: parseHHMM_Some simp: day_micros_def)
  from assms(7-10) have t: "0 \<le> ?t" "?t < day_micros" by (simp_all add: tod_micros_def day_micros_def)
  have wrap: "(u - a) mod day_micros = (if a \<le> u then u - a else u - a + day_micros)"
    if "0 \<le> u" "u < day_micros" for u
  proof (cases "a \<le> u")
    case False
    have "(u - a) mod day_micros = (u - a + day_micros) mod day_micros" by simp
    also have "\<dots> = u - a + day_micros" using False that a by (intro mod_pos_pos_trivial) auto
    finally show ?thesis using False by simp
  qed (use that a in simp)
  have "isInQuietHours x p tz now \<longleftrightarrow> (if a \<le> b then a \<le> ?t \<and> ?t < b else a \<le> ?t \<or> ?t < b)"
    using assms(3-6) by (simp add: isInQuietHours_def Let_def)
  then show ?thesis unfolding wrap [OF t] wrap [OF b] using t a b by auto
qed

text \<open>Ten at night to six in the morning: half past five is quiet, six is not.\<close>

definition demo_prefs :: "uuid \<Rightarrow> int option \<Rightarrow> int option \<Rightarrow> notification_pref" where
  "demo_prefs u a b = \<lparr>np_user = u, np_push_enabled = True, np_apprise_enabled = True,
     np_quiet_start = a, np_quiet_end = b, np_apprise_url = Some ''ntfy://brew'',
     np_email_enabled = True\<rparr>"

lemma quiet_hours_cyclic_witness:
  "isInQuietHours demo_ext (demo_prefs 1 (parseHHMM ''22:00'') (parseHHMM ''06:00'')) ''UTC'' 19800000000 \<and>
   \<not> isInQuietHours demo_ext (demo_prefs 1 (parseHHMM ''22:00'') (parseHHMM ''06:00'')) ''UTC'' 21600000000"
proof -
  let ?p = "demo_prefs 1 (parseHHMM ''22:00'') (parseHHMM ''06:00'')"
  let ?loc = "\<lambda>t::int. (t div 3600000000 mod 24, t div 60000000 mod 60)"
  have a: "parseHHMM ''22:00'' = Some 79200000000" and b: "parseHHMM ''06:00'' = Some 21600000000"
    by code_simp+
  have l: "x_location demo_ext ''UTC'' = Some ?loc" by (simp add: demo_ext_def)
  have p: "np_quiet_start ?p = Some 79200000000" "np_quiet_end ?p = Some 21600000000"
    unfolding a b by (simp_all add: demo_prefs_def)
  have "?loc 19800000000 = (5, 30)" "?loc 21600000000 = (6, 0)" by simp_all
  then show ?thesis
    using quiet_hours_cyclic [OF a b p l, of 19800000000 5 30]
      quiet_hours_cyclic [OF a b p l, of 21600000000 6 0]
    by (simp add: tod_micros_def day_micros_def)
qed

section \<open>Which messages a run sends\<close>

text \<open>The specification, on the database as the run finds it and without caches.\<close>

definition prefs_of :: "db \<Rightarrow> uuid \<Rightarrow> notification_pref" where
  "prefs_of d u = prefs_or_default u (one (find_where (\<lambda>p. np_user p = u) (notification_prefs d)))"

definition timezone_of :: "db \<Rightarrow> uuid \<Rightarrow> string" where
  "timezone_of d u = timezone_or_utc (one (find_where (\<lambda>p. up_user p = u) (user_prefs d)))"

definition address_of :: "db \<Rightarrow> uuid \<Rightarrow> string option" where
  "address_of d u = map_option u_email (find_where (\<lambda>v. u_id v = u \<and> live_user v) (users d))"

definition devices_of :: "db \<Rightarrow> uuid \<Rightarrow> push_device list" where
  "devices_of d u = filter (\<lambda>x. pd_user x = u) (push_devices d)"

definition accepts :: "config \<Rightarrow> world \<Rightarrow> string \<Rightarrow> bool" where
  "accepts cfg w url \<longleftrightarrow> fst (run_state (Validate (validator_of cfg) url) w) = None"

definition apprise_messages :: "config \<Rightarrow> world \<Rightarrow> reminder \<Rightarrow> mail list" where
  "apprise_messages cfg w r = (case apprise_target cfg (prefs_of (tabs w) (rm_user r)) of
     None \<Rightarrow> []
   | Some u \<Rightarrow> if accepts cfg w u then [reminder_mail Apprise_Sidecar u [] r] else [])"

definition email_messages :: "config \<Rightarrow> world \<Rightarrow> reminder \<Rightarrow> mail list" where
  "email_messages cfg w r =
     (if emailConfigured cfg \<and> np_email_enabled (prefs_of (tabs w) (rm_user r)) then
        (case address_of (tabs w) (rm_user r) of
           None \<Rightarrow> []
         | Some a \<Rightarrow> if a = [] then [] else [reminder_mail Smtp_Relay a [] r])
      else [])"

definition push_messages :: "config \<Rightarrow> world \<Rightarrow> reminder \<Rightarrow> mail list" where
  "push_messages cfg w r =
     (if pushConfigured cfg \<and> np_push_enabled (prefs_of (tabs w) (rm_user r)) then
        map (\<lambda>d. reminder_mail Web_Push (pd_token d) (textOrEmpty (url_path_of (ext w) r)) r)
          (filter usable (devices_of (tabs w) (rm_user r)))
      else [])"

definition quiet_for :: "world \<Rightarrow> uuid \<Rightarrow> bool" where
  "quiet_for w u \<longleftrightarrow>
     isInQuietHours (ext w) (prefs_of (tabs w) u) (timezone_of (tabs w) u) (clock w)"

definition messages :: "config \<Rightarrow> world \<Rightarrow> reminder \<Rightarrow> mail list" where
  "messages cfg w r = (if quiet_for w (rm_user r) then []
     else apprise_messages cfg w r @ email_messages cfg w r @ push_messages cfg w r)"

text \<open>
  The run is on a database that answers; push services, the resolver and the relay do what they like.
  \<open>sync\<close> relates the caches and the world of a run under way to the world the run started in;
  it is not before round trip \<open>t\<close>.
\<close>

definition healthy :: "world \<Rightarrow> bool" where
  "healthy w \<longleftrightarrow> (\<forall>n. x_avail (ext w) n = Up)"

definition sync :: "nat \<Rightarrow> world \<Rightarrow> caches \<Rightarrow> world \<Rightarrow> bool" where
  "sync t w0 c w \<longleftrightarrow> t \<le> tick w \<and> ext w = ext w0 \<and>
     notification_prefs (tabs w) = notification_prefs (tabs w0) \<and>
     user_prefs (tabs w) = user_prefs (tabs w0) \<and> users (tabs w) = users (tabs w0) \<and>
     (\<forall>u p. ca_prefs c u = Some p \<longrightarrow> p = prefs_of (tabs w0) u) \<and>
     (\<forall>u z. ca_tz c u = Some z \<longrightarrow> z = timezone_of (tabs w0) u) \<and>
     (\<forall>u a. ca_email c u = Some a \<longrightarrow> address_of (tabs w0) u = Some a) \<and>
     (\<forall>u ds. ca_dev c u = Some ds \<longrightarrow> ds = devices_of (tabs w0) u) \<and>
     (\<forall>u. ca_dev c u = None \<longrightarrow> devices_of (tabs w) u = devices_of (tabs w0) u)"

abbreviation sent :: "nat \<Rightarrow> world \<Rightarrow> caches \<Rightarrow> mail list \<Rightarrow> world \<Rightarrow> bool" where
  "sent t w0 c ms w' \<equiv> sync t w0 c w' \<and> outbox w' = ms"

lemma healthy_read:
  "healthy w0 \<Longrightarrow> sync t w0 c w \<Longrightarrow> wp (sql_read f) Q w \<longleftrightarrow> Q (f (tock w)) (tock w)"
  by (simp add: wp_def run_sql_read healthy_def sync_def)

lemma sync_tock [simp]: "sync t w0 c w \<Longrightarrow> sync t w0 c (tock w)"
  by (simp add: sync_def)

lemma sync_later: "sync n w0 c w \<Longrightarrow> t \<le> n \<Longrightarrow> sync t w0 c w"
  by (simp add: sync_def)

lemma wp_userPrefs:
  assumes "healthy w0" and "sync t w0 c w"
  shows "wp (userPrefs u c) (\<lambda>(p, c') w'. p = prefs_of (tabs w0) u \<and> sent t w0 c' (outbox w) w') w"
proof (cases "ca_prefs c u")
  case None
  with assms show ?thesis
    by (simp add: userPrefs_def wp_simps GetNotificationPrefs_def healthy_read [OF assms])
      (auto simp: sync_def prefs_of_def)
next
  case (Some p)
  with assms(2) show ?thesis by (auto simp: userPrefs_def wp_simps sync_def)
qed

lemma wp_userTimezone:
  assumes "healthy w0" and "sync t w0 c w"
  shows "wp (userTimezone u c) (\<lambda>(z, c') w'. z = timezone_of (tabs w0) u \<and> sent t w0 c' (outbox w) w') w"
proof (cases "ca_tz c u")
  case None
  with assms show ?thesis
    by (simp add: userTimezone_def wp_simps GetUserPrefs_def healthy_read [OF assms])
      (auto simp: sync_def timezone_of_def)
next
  case (Some p)
  with assms(2) show ?thesis by (auto simp: userTimezone_def wp_simps sync_def)
qed

lemma wp_userEmail:
  assumes "healthy w0" and "sync t w0 c w"
  shows "wp (userEmail u c) (\<lambda>(a, c') w'. a = address_of (tabs w0) u \<and> sent t w0 c' (outbox w) w') w"
proof (cases "ca_email c u")
  case None
  with assms show ?thesis
    by (simp add: userEmail_def wp_simps GetUserByID_def healthy_read [OF assms])
      (auto simp: sync_def address_of_def one_def split: option.splits)
next
  case (Some p)
  with assms(2) show ?thesis by (auto simp: userEmail_def wp_simps sync_def)
qed

lemma wp_userDevices:
  assumes "healthy w0" and "sync t w0 c w"
  shows "wp (userDevices u c) (\<lambda>(ds, c') w'. ds = Some (devices_of (tabs w0) u) \<and>
    ca_dev c' u \<noteq> None \<and> sent t w0 c' (outbox w) w') w"
proof (cases "ca_dev c u")
  case None
  then have "devices_of (tabs w) u = devices_of (tabs w0) u" using assms(2) by (simp add: sync_def)
  with None assms show ?thesis
    by (simp add: userDevices_def wp_simps ListPushDevicesForUser_def healthy_read [OF assms])
      (auto simp: sync_def devices_of_def)
next
  case (Some p)
  with assms(2) show ?thesis by (auto simp: userDevices_def wp_simps sync_def)
qed

lemma wp_Validate:
  assumes "sync t w0 c w"
  shows "wp (Validate v u) (\<lambda>e w'. e = fst (run_state (Validate v u) (w0\<lparr>tick := tick w\<rparr>)) \<and>
    sent (tick w) w0 c (outbox w) w') w"
proof -
  from assms have x: "ext w = ext w0" by (simp add: sync_def)
  show ?thesis
    using assms
    by (auto simp: wp_def Validate_def checkHost_def run_ask run_update Let_def x sync_def
        split: option.split sum.split)
qed

lemma wp_deliver:
  "sync t w0 c w \<Longrightarrow> wp (deliver m) (\<lambda>ok w'. sent t w0 c (outbox w @ [m]) w') w"
  by (simp add: deliver_def wp_simps sync_def)

lemma wp_send_apprise:
  assumes "sync t w0 c w"
  shows "wp (send_apprise cfg (prefs_of (tabs w0) (rm_user r)) r)
    (\<lambda>_. sent (tick w) w0 c (outbox w @ apprise_messages cfg (w0\<lparr>tick := tick w\<rparr>) r)) w"
proof (cases "apprise_target cfg (prefs_of (tabs w0) (rm_user r))")
  case None
  with assms show ?thesis
    by (simp add: send_apprise_def apprise_messages_def wp_simps sync_def)
next
  case (Some u)
  then have e: "send_apprise cfg (prefs_of (tabs w0) (rm_user r)) r = do {
      e \<leftarrow> Validate (validator_of cfg) u;
      (case e of Some err \<Rightarrow> ret ()
       | None \<Rightarrow> do { deliver (reminder_mail Apprise_Sidecar u [] r); ret () }) }"
    and m: "apprise_messages cfg (w0\<lparr>tick := tick w\<rparr>) r =
      (if accepts cfg (w0\<lparr>tick := tick w\<rparr>) u then [reminder_mail Apprise_Sidecar u [] r] else [])"
    by (simp_all add: send_apprise_def apprise_messages_def)
  have d: "wp (deliver (reminder_mail Apprise_Sidecar u [] r)) (\<lambda>_ w'. sent (tick w) w0 c
      (outbox w @ [reminder_mail Apprise_Sidecar u [] r]) w') v"
    if "sent (tick w) w0 c (outbox w) v" for v
    using wp_deliver [of "tick w" w0 c v] that by auto
  show ?thesis unfolding e wp_bind
    by (auto simp: m accepts_def wp_bind wp_return intro!: wp_mono [OF wp_Validate [OF assms]] wp_mono [OF d]
        split: option.splits)
qed

lemma wp_send_email:
  assumes "healthy w0" and "sync t w0 c w"
  shows "wp (send_email cfg (prefs_of (tabs w0) (rm_user r)) r c)
    (\<lambda>c'. sent t w0 c' (outbox w @ email_messages cfg w0 r)) w"
proof (cases "emailConfigured cfg \<and> np_email_enabled (prefs_of (tabs w0) (rm_user r))")
  case True
  then have "send_email cfg (prefs_of (tabs w0) (rm_user r)) r c = do {
        (a, c1) \<leftarrow> userEmail (rm_user r) c;
        (case a of
           None \<Rightarrow> ret c1
         | Some addr \<Rightarrow>
             if addr = [] then ret c1
             else do { deliver (reminder_mail Smtp_Relay addr [] r); ret c1 }) }"
    by (simp add: send_email_def)
  then show ?thesis using True
    by (auto simp: wp_simps email_messages_def split: option.splits
        intro!: wp_mono [OF wp_userEmail [OF assms]] wp_mono [OF wp_deliver])
next
  case False
  with assms(2) show ?thesis by (auto simp: send_email_def email_messages_def wp_simps)
qed

lemma wp_sendPush:
  assumes "healthy w0" and "sync t w0 c w" and "ca_dev c (pd_user d) \<noteq> None"
  shows "wp (sendPush d m) (\<lambda>_. sent t w0 c (outbox w @ [m])) w"
proof -
  have other: "devices_of (d'\<lparr>push_devices := del_where (own_device (pd_user d) t) (push_devices d')\<rparr>) u
      = devices_of d' u" if "u \<noteq> pd_user d" for d' t u
    using that unfolding devices_of_def
    by (auto simp: own_device_def intro!: filter_del_where_other)
  have ne: "u \<noteq> pd_user d" if "ca_dev c u = None" for u using that assms(3) by auto
  have up: "x_avail (ext w) n = Up" for n using assms(1,2) by (simp add: healthy_def sync_def)
  show ?thesis
    using assms(2) other ne
    by (auto simp: sendPush_def wp_simps DeletePushDevice_def wp_sql_write up sql_delete_def sync_def)
qed

lemma wp_push_all:
  assumes "healthy w0" and "ca_dev c u \<noteq> None" and "\<forall>d\<in>set ds. pd_user d = u" and "sync t w0 c w"
  shows "wp (push_all r path ds)
    (\<lambda>_. sent t w0 c (outbox w @ map (\<lambda>d. reminder_mail Web_Push (pd_token d) path r) (filter usable ds))) w"
  using assms(3,4)
proof (induction ds arbitrary: w)
  case (Cons d ds)
  show ?case
  proof (cases "usable d")
    case True
    have "wp (sendPush d (reminder_mail Web_Push (pd_token d) path r))
        (\<lambda>_. sent t w0 c (outbox w @ [reminder_mail Web_Push (pd_token d) path r])) w"
      using Cons.prems assms(1,2) by (intro wp_sendPush) auto
    with True Cons.prems(1) show ?thesis
      by (auto simp: wp_simps elim!: wp_mono intro!: wp_mono [OF Cons.IH])
  qed (use Cons in \<open>simp add: wp_simps\<close>)
qed (simp add: wp_simps)

lemma wp_send_push:
  assumes "healthy w0" and "sync t w0 c w"
  shows "wp (send_push cfg (prefs_of (tabs w0) (rm_user r)) r c)
    (\<lambda>c'. sent t w0 c' (outbox w @ push_messages cfg w0 r)) w"
proof (cases "pushConfigured cfg \<and> np_push_enabled (prefs_of (tabs w0) (rm_user r))")
  case True
  then have "send_push cfg (prefs_of (tabs w0) (rm_user r)) r c = do {
        (ds, c1) \<leftarrow> userDevices (rm_user r) c;
        x \<leftarrow> ask ext;
        (case ds of
           None \<Rightarrow> ret c1
         | Some xs \<Rightarrow> do { push_all r (textOrEmpty (url_path_of x r)) xs; ret c1 }) }"
    by (simp add: send_push_def)
  moreover have "\<forall>d\<in>set (devices_of (tabs w0) (rm_user r)). pd_user d = rm_user r"
    by (simp add: devices_of_def)
  ultimately show ?thesis using True
    by (auto simp: wp_simps push_messages_def sync_def [of _ _ _ w] split: prod.splits
        intro!: wp_mono [OF wp_userDevices [OF assms]] wp_mono [OF wp_push_all [OF assms(1)]])
      (auto simp: sync_def)
next
  case False
  with assms(2) show ?thesis by (auto simp: send_push_def push_messages_def wp_simps)
qed

lemma wp_notify:
  assumes "sync t w0 c w"
  shows "wp (notify r) (\<lambda>_. sent t w0 c (outbox w)) w"
  using assms unfolding notify_def wp_simps CreateNotification_def
  by (intro wp_sql_writeI) (auto simp: sql_insert_Inr gen_uuid_def Let_def sync_def devices_of_def)

lemma messages_at [simp]:
  "email_messages cfg (w\<lparr>tick := n\<rparr>) r = email_messages cfg w r"
  "push_messages cfg (w\<lparr>tick := n\<rparr>) r = push_messages cfg w r"
  "quiet_for (w\<lparr>tick := n\<rparr>) u = quiet_for w u"
  by (simp_all add: email_messages_def push_messages_def quiet_for_def)

lemma wp_send_external:
  assumes "healthy w0" and "sync t w0 c w"
  shows "wp (send_external cfg (clock w0) r c)
    (\<lambda>c' w'. \<exists>n\<ge>t. sent n w0 c' (outbox w @ messages cfg (w0\<lparr>tick := n\<rparr>) r) w') w"
proof (cases "pushConfigured cfg \<or> appriseConfigured cfg \<or> emailConfigured cfg")
  case True
  then have e: "send_external cfg (clock w0) r c = do {
        (p, c1) \<leftarrow> userPrefs (rm_user r) c;
        (tz, c2) \<leftarrow> userTimezone (rm_user r) c1;
        x \<leftarrow> ask ext;
        (if isInQuietHours x p tz (clock w0) then ret c2
         else do {
           send_apprise cfg p r;
           c3 \<leftarrow> send_email cfg p r c2;
           send_push cfg p r c3 }) }"
    by (auto simp: send_external_def)
  let ?p = "prefs_of (tabs w0) (rm_user r)"
  have rest: "wp (do { send_apprise cfg ?p r; c3 \<leftarrow> send_email cfg ?p r c2; send_push cfg ?p r c3 })
      (\<lambda>c' w'. \<exists>n\<ge>t. sent n w0 c' (outbox w @ messages cfg (w0\<lparr>tick := n\<rparr>) r) w') v"
    if v: "sent t w0 c2 (outbox w) v" and q: "\<not> quiet_for w0 (rm_user r)" for c2 v
  proof -
    have two: "wp (do { c3 \<leftarrow> send_email cfg ?p r c2; send_push cfg ?p r c3 })
        (\<lambda>c' w'. sent n w0 c' (outbox u @ email_messages cfg w0 r @ push_messages cfg w0 r) w') u"
      if "sync n w0 c2 u" for n u
      unfolding wp_bind
      by (rule wp_mono [OF wp_send_email [OF assms(1) that]])
        (auto intro!: wp_mono [OF wp_send_push [OF assms(1)]])
    show ?thesis
      unfolding wp_bind [of "send_apprise cfg ?p r"]
    proof (rule wp_mono [OF wp_send_apprise [OF conjunct1 [OF v]]])
      fix a u
      assume "sent (tick v) w0 c2 (outbox v @ apprise_messages cfg (w0\<lparr>tick := tick v\<rparr>) r) u"
      then obtain n where n: "t \<le> n" "sync n w0 c2 u"
        "outbox u = outbox w @ apprise_messages cfg (w0\<lparr>tick := n\<rparr>) r" using v by (auto simp: sync_def)
      show "wp (do { c3 \<leftarrow> send_email cfg ?p r c2; send_push cfg ?p r c3 })
          (\<lambda>c' w'. \<exists>n\<ge>t. sent n w0 c' (outbox w @ messages cfg (w0\<lparr>tick := n\<rparr>) r) w') u"
        by (rule wp_mono [OF two [OF n(2)]]) (use n q in \<open>auto simp: messages_def intro!: exI [of _ n]\<close>)
    qed
  qed
  have quiet: "wp (if isInQuietHours (ext v) ?p (timezone_of (tabs w0) (rm_user r)) (clock w0) then ret c2
        else do { send_apprise cfg ?p r; c3 \<leftarrow> send_email cfg ?p r c2; send_push cfg ?p r c3 })
      (\<lambda>c' w'. \<exists>n\<ge>t. sent n w0 c' (outbox w @ messages cfg (w0\<lparr>tick := n\<rparr>) r) w') v"
    if v: "sent t w0 c2 (outbox w) v" for c2 v
  proof -
    have q: "isInQuietHours (ext v) ?p (timezone_of (tabs w0) (rm_user r)) (clock w0) \<longleftrightarrow> quiet_for w0 (rm_user r)"
      using v by (simp add: quiet_for_def sync_def)
    show ?thesis
    proof (cases "quiet_for w0 (rm_user r)")
      case True
      with v show ?thesis unfolding q by (auto simp: wp_return messages_def intro!: exI [of _ t])
    next
      case False
      with rest [OF v False] show ?thesis unfolding q by simp
    qed
  qed
  let ?Q = "\<lambda>c' w'. \<exists>n\<ge>t. sent n w0 c' (outbox w @ messages cfg (w0\<lparr>tick := n\<rparr>) r) w'"
  have zone: "wp (userTimezone (rm_user r) c1) (\<lambda>(tz, c2). wp (do {
        x \<leftarrow> ask ext;
        (if isInQuietHours x ?p tz (clock w0) then ret c2
         else do { send_apprise cfg ?p r; c3 \<leftarrow> send_email cfg ?p r c2; send_push cfg ?p r c3 }) }) ?Q) v"
    if v: "sent t w0 c1 (outbox w) v" for c1 v
  proof (rule wp_mono [OF wp_userTimezone [OF assms(1) conjunct1 [OF v]]], clarify)
    fix c2 u
    assume "sync t w0 c2 u" "outbox u = outbox v"
    with v show "wp (do {
        x \<leftarrow> ask ext;
        (if isInQuietHours x ?p (timezone_of (tabs w0) (rm_user r)) (clock w0) then ret c2
         else do { send_apprise cfg ?p r; c3 \<leftarrow> send_email cfg ?p r c2; send_push cfg ?p r c3 }) }) ?Q u"
      unfolding wp_bind [of "ask ext"] wp_ask by (intro quiet) simp
  qed
  show ?thesis
    unfolding e wp_bind [of "userPrefs (rm_user r) c"]
  proof (rule wp_mono [OF wp_userPrefs [OF assms]], clarify)
    fix c1 v
    assume "sync t w0 c1 v" "outbox v = outbox w"
    then have v: "sent t w0 c1 (outbox w) v" by blast
    show "wp (do { (tz, c2) \<leftarrow> userTimezone (rm_user r) c1; x \<leftarrow> ask ext;
        (if isInQuietHours x ?p tz (clock w0) then ret c2
         else do { send_apprise cfg ?p r; c3 \<leftarrow> send_email cfg ?p r c2; send_push cfg ?p r c3 }) }) ?Q v"
      using zone [OF v] unfolding wp_bind [of "userTimezone (rm_user r) c1"] by (simp add: case_prod_unfold)
  qed
next
  case False
  then have "messages cfg (w0\<lparr>tick := n\<rparr>) r = []" for n
    by (simp add: messages_def apprise_messages_def email_messages_def push_messages_def
        apprise_target_def)
  with False assms(2) show ?thesis by (auto simp: send_external_def wp_simps intro!: exI [of _ t])
qed

text \<open>
  \<open>messages_at_ticks\<close>: the messages for a list of reminders, each with the resolver as it answers at
  the round trip given for it.
\<close>

definition messages_at_ticks :: "config \<Rightarrow> world \<Rightarrow> nat list \<Rightarrow> reminder list \<Rightarrow> mail list" where
  "messages_at_ticks cfg w ns rs = concat (map2 (\<lambda>n r. messages cfg (w\<lparr>tick := n\<rparr>) r) ns rs)"

lemma wp_dispatch_all:
  assumes "healthy w0" and "sync t w0 c w"
  shows "wp (dispatch_all cfg (clock w0) rs c)
    (\<lambda>_ w'. \<exists>ns. length ns = length rs \<and> sorted (t # ns @ [tick w']) \<and>
      outbox w' = outbox w @ messages_at_ticks cfg w0 ns rs) w"
  using assms(2)
proof (induction rs arbitrary: c w t)
  case Nil
  then show ?case by (simp add: wp_return messages_at_ticks_def sync_def)
next
  case (Cons r rs)
  have tail: "wp (dispatch_all cfg (clock w0) rs c')
      (\<lambda>_ w'. \<exists>ns. length ns = length (r # rs) \<and> sorted (t # ns @ [tick w']) \<and>
        outbox w' = outbox w @ messages_at_ticks cfg w0 ns (r # rs)) v"
    if n: "t \<le> n" "sync n w0 c' v" "outbox v = outbox w @ messages cfg (w0\<lparr>tick := n\<rparr>) r" for n c' v
  proof (rule wp_mono [OF Cons.IH [OF n(2)]])
    fix a w'
    assume "\<exists>ns. length ns = length rs \<and> sorted (n # ns @ [tick w']) \<and>
      outbox w' = outbox v @ messages_at_ticks cfg w0 ns rs"
    then obtain ns where "length ns = length rs" "sorted (n # ns @ [tick w'])"
      "outbox w' = outbox v @ messages_at_ticks cfg w0 ns rs" by blast
    with n show "\<exists>ns. length ns = length (r # rs) \<and> sorted (t # ns @ [tick w']) \<and>
        outbox w' = outbox w @ messages_at_ticks cfg w0 ns (r # rs)"
      by (intro exI [of _ "n # ns"]) (auto simp: messages_at_ticks_def)
  qed
  show ?case
    unfolding dispatch_all.simps wp_bind
  proof (rule wp_mono [OF wp_notify [OF Cons.prems]])
    fix a v
    assume v: "sent t w0 c (outbox w) v"
    show "wp (send_external cfg (clock w0) r c) (\<lambda>c'. wp (dispatch_all cfg (clock w0) rs c')
        (\<lambda>_ w'. \<exists>ns. length ns = length (r # rs) \<and> sorted (t # ns @ [tick w']) \<and>
          outbox w' = outbox w @ messages_at_ticks cfg w0 ns (r # rs))) v"
    proof (rule wp_mono [OF wp_send_external [OF assms(1) conjunct1 [OF v]]])
      fix c' u
      assume "\<exists>n\<ge>t. sent n w0 c' (outbox v @ messages cfg (w0\<lparr>tick := n\<rparr>) r) u"
      then obtain n where "t \<le> n" "sync n w0 c' u" "outbox u = outbox v @ messages cfg (w0\<lparr>tick := n\<rparr>) r"
        by blast
      with v show "wp (dispatch_all cfg (clock w0) rs c')
        (\<lambda>_ w'. \<exists>ns. length ns = length (r # rs) \<and> sorted (t # ns @ [tick w']) \<and>
          outbox w' = outbox w @ messages_at_ticks cfg w0 ns (r # rs)) u"
        by (intro tail [of n]) simp_all
    qed
  qed
qed

definition claimed :: "world \<Rightarrow> reminder list" where
  "claimed w = filter (\<lambda>r. rm_id r \<in> set (due_ids (clock w) reminderClaimBatch (reminders (tabs w))))
     (reminders (tabs w))"

lemma fire_simps [simp]:
  "rm_user (fire now r) = rm_user r" "rm_id (fire now r) = rm_id r"
  "rm_title (fire now r) = rm_title r" "rm_description (fire now r) = rm_description r"
  "url_path_of x (fire now r) = url_path_of x r"
  "reminder_mail ch dest path (fire now r) = reminder_mail ch dest path r"
  by (simp_all add: fire_def url_path_of_def reminder_mail_def)

lemma messages_fire: "messages_at_ticks cfg w ns (map (fire now) rs) = messages_at_ticks cfg w ns rs"
proof -
  have "messages cfg w (fire now r) = messages cfg w r" for w r
    unfolding messages_def apprise_messages_def email_messages_def push_messages_def fire_simps ..
  then show ?thesis by (simp add: messages_at_ticks_def zip_map2 comp_def case_prod_unfold)
qed

text \<open>
  C14: On a database that answers, a run of the dispatcher sends exactly the messages of its
  specification: for each reminder it claims, in order, and unless its user is in quiet hours, one
  Apprise message if the user enabled a saved URL that still passes the policy, one mail if the
  user enabled mail and is not deleted, and one push for each usable device. The policy asks the
  resolver while the run is under way, for one reminder after the other, and the answers may change
  in between; the caches and the removal of revoked devices along the way change nothing.
\<close>

theorem dispatch_refines_messages:
  assumes "healthy w" and "run_state (Work cfg) w = (Inr (), w')"
  shows "\<exists>ns. length ns = length (claimed w) \<and> sorted (tick w # ns @ [tick w']) \<and>
    outbox w' = outbox w @ messages_at_ticks cfg w ns (claimed w)"
proof -
  let ?Q = "\<lambda>w'. \<exists>ns. length ns = length (claimed w) \<and> sorted (tick w # ns @ [tick w']) \<and>
    outbox w' = outbox w @ messages_at_ticks cfg w ns (claimed w)"
  have s: "sync (tick w) w no_caches (set_tabs ((tabs w)\<lparr>reminders := rs\<rparr>) (tock w))" for rs
    by (auto simp: sync_def no_caches_def devices_of_def)
  have "wp (dispatch_all cfg (clock w) (map (fire (clock w)) (claimed w)) no_caches) (\<lambda>_. ?Q)
      (set_tabs ((tabs w)\<lparr>reminders := rs\<rparr>) (tock w))" for rs
    using wp_dispatch_all [OF assms(1) s, where cfg = cfg and rs = "map (fire (clock w)) (claimed w)"]
    by (simp only: messages_fire length_map set_tabs_simps tock_simps)
  moreover have "x_avail (ext w) (tick w) = Up" using assms(1) by (simp add: healthy_def)
  ultimately have "wp (Work cfg) (\<lambda>r w'. isl r \<or> ?Q w') w"
    unfolding Work_def wp_simps ClaimDueReminders_def
    by (intro wp_sql_writeI) (auto simp: wp_simps Let_def claimed_def elim!: wp_mono)
  from wpD [OF this assms(2)] show ?thesis by simp
qed

definition demo_config :: config where
  "demo_config = \<lparr>DatabaseURL = ''postgres://db'', ListenAddr = '':8080'', InstanceMode = ModeOpen,
     AutoMigrate = True, CookieSecure = True, BaseURL = ''https://brew'', VAPIDPublicKey = ''pub'',
     VAPIDPrivateKey = ''priv'', VAPIDSubject = ''mailto:a@b'', AppriseAPIURL = ''http://apprise'',
     AppriseAllowWebhookSchemes = False, AppriseAllowedHostCIDRs = [], SMTPHost = ''relay'',
     SMTPPort = 587, SMTPUsername = [], SMTPPassword = [], SMTPFrom = ''zymo@brew'',
     SMTPTLSMode = ''starttls'',
     Primary_backend = \<lparr>bc_Backend = ''local'', bc_LocalPath = ''./data'', bc_S3Endpoint = [],
       bc_S3Region = [], bc_S3Bucket = [], bc_S3AccessKey = [], bc_S3SecretKey = []\<rparr>,
     Backup_backend = \<lparr>bc_Backend = [], bc_LocalPath = [], bc_S3Endpoint = [], bc_S3Region = [],
       bc_S3Bucket = [], bc_S3AccessKey = [], bc_S3SecretKey = []\<rparr>,
     BackupRetentionDays = 30, TrustedProxies = []\<rparr>"

text \<open>
  Two users with a due reminder each; it is half past five in the morning, quiet for the first.
\<close>

definition dispatch_db :: db where
  "dispatch_db = empty_db\<lparr>users := [demo_user 1 ''ann'', demo_user 2 ''bob''],
     notification_prefs := [demo_prefs 1 (Some 79200000000) (Some 21600000000), demo_prefs 2 None None],
     push_devices := [\<lparr>pd_id = 3, pd_user = 2, pd_platform = ''web'', pd_token = ''https://push'',
       pd_last_seen_at = 0, pd_p256dh = Some ''k'', pd_auth = Some ''a''\<rparr>],
     reminders := [demo_reminder 4 None 1 None 5, demo_reminder 5 None 2 None 6]\<rparr>"

lemma dispatch_refines_messages_witness:
  "(\<exists>ns. length ns = 2 \<and> outbox (snd (run_state (Work demo_config) (demo_world dispatch_db 19800000000))) =
     messages_at_ticks demo_config (demo_world dispatch_db 19800000000) ns
       (claimed (demo_world dispatch_db 19800000000))) \<and>
   map ml_channel (outbox (snd (run_state (Work demo_config) (demo_world dispatch_db 19800000000)))) =
     [Apprise_Sidecar, Smtp_Relay, Web_Push]"
proof -
  let ?w = "demo_world dispatch_db 19800000000"
  have "fst (run_state (Work demo_config) ?w) = Inr ()" by code_simp
  then have r: "run_state (Work demo_config) ?w = (Inr (), snd (run_state (Work demo_config) ?w))"
    by (metis prod.collapse)
  have h: "healthy ?w" by (simp add: healthy_def demo_world_def demo_ext_def)
  have o: "outbox ?w = []" by (simp add: demo_world_def)
  have l: "length (claimed ?w) = 2" by code_simp
  have "map ml_channel (outbox (snd (run_state (Work demo_config) ?w))) =
      [Apprise_Sidecar, Smtp_Relay, Web_Push]" by code_simp
  with dispatch_refines_messages [OF h r] show ?thesis unfolding o l by auto
qed

section \<open>What a run changes, whatever fails\<close>

definition is_note :: "reminder \<Rightarrow> notification \<Rightarrow> bool" where
  "is_note r n \<longleftrightarrow> nt_user n = rm_user r \<and> nt_reminder n = Some (rm_id r) \<and>
     nt_kind n = ''reminder'' \<and> nt_title n = rm_title r \<and> nt_body n = rm_description r \<and>
     nt_read_at n = None"

text \<open>
  \<open>revoked U ms w w' gone\<close>: each subscription of \<open>gone\<close> belongs to a user of \<open>U\<close>, was sent one of
  the messages \<open>ms\<close> between \<open>w\<close> and \<open>w'\<close>, and its push service answered in that time that it is no
  more (\<^verbatim>\<open>404\<close> or \<^verbatim>\<open>410\<close>).
\<close>

definition revoked :: "uuid set \<Rightarrow> mail list \<Rightarrow> world \<Rightarrow> world \<Rightarrow> (uuid \<times> string) set \<Rightarrow> bool" where
  "revoked U ms w w' gone \<longleftrightarrow> (\<forall>u t. (u, t) \<in> gone \<longrightarrow> u \<in> U \<and>
     (\<exists>m\<in>set ms. ml_channel m = Web_Push \<and> ml_to m = t) \<and>
     (\<exists>n. tick w \<le> n \<and> n < tick w' \<and> x_push (ext w) n t \<in> {Some 404, Some 410}))"

definition without_devices :: "(uuid \<times> string) set \<Rightarrow> push_device list \<Rightarrow> push_device list" where
  "without_devices gone = filter (\<lambda>d. (pd_user d, pd_token d) \<notin> gone)"

text \<open>
  \<open>notified U rs w w'\<close>: some of the reminders got one notification each, messages went out, devices
  of users of \<open>U\<close> that the services call revoked are gone, and nothing else changed.
\<close>

definition notified :: "uuid set \<Rightarrow> reminder list \<Rightarrow> world \<Rightarrow> world \<Rightarrow> bool" where
  "notified U rs w w' \<longleftrightarrow> clock w' = clock w \<and> ext w' = ext w \<and> tick w \<le> tick w' \<and>
     (\<exists>fired ns ms gone. subseq fired rs \<and> list_all2 is_note fired ns \<and>
       outbox w' = outbox w @ ms \<and> revoked U ms w w' gone \<and>
       tabs w' = (tabs w)\<lparr>push_devices := without_devices gone (push_devices (tabs w)),
         notifications := notifications (tabs w) @ ns\<rparr>)"

lemma db_frames:
  "d\<lparr>push_devices := push_devices d, notifications := notifications d\<rparr> = d"
  "d\<lparr>push_devices := ds, notifications := notifications d\<rparr> = d\<lparr>push_devices := ds\<rparr>"
  "d\<lparr>push_devices := push_devices d, notifications := ns\<rparr> = d\<lparr>notifications := ns\<rparr>"
  "d\<lparr>push_devices := ds, notifications := ns, push_devices := ds', notifications := ns'\<rparr> =
     d\<lparr>push_devices := ds', notifications := ns'\<rparr>"
  by (cases d; simp)+

lemma revoked_none [simp]: "revoked U ms w w' {}"
  by (simp add: revoked_def)

lemma revoked_wider:
  assumes "revoked U ms w w' g" and "tick v \<le> tick w" and "ext v = ext w" and "tick w' \<le> tick v'"
    and "set ms \<subseteq> set ms'"
  shows "revoked U ms' v v' g"
proof -
  have "u \<in> U \<and> (\<exists>m\<in>set ms'. ml_channel m = Web_Push \<and> ml_to m = t) \<and>
      (\<exists>n. tick v \<le> n \<and> n < tick v' \<and> x_push (ext v) n t \<in> {Some 404, Some 410})"
    if "(u, t) \<in> g" for u t
  proof -
    from assms(1) that obtain m n where "u \<in> U" "m \<in> set ms" "ml_channel m = Web_Push" "ml_to m = t"
      "tick w \<le> n" "n < tick w'" "x_push (ext w) n t \<in> {Some 404, Some 410}"
      unfolding revoked_def by metis
    with assms(2-5) show ?thesis by (intro conjI bexI [of _ m] exI [of _ n]) auto
  qed
  then show ?thesis unfolding revoked_def by simp
qed

lemma revoked_Un: "revoked U ms w w' g \<Longrightarrow> revoked U ms w w' g' \<Longrightarrow> revoked U ms w w' (g \<union> g')"
  unfolding revoked_def Un_iff by metis

lemma without_devices_simps [simp]:
  "without_devices {} ds = ds" "without_devices g' (without_devices g ds) = without_devices (g \<union> g') ds"
  by (auto simp: without_devices_def intro: filter_cong)

lemma notified_same:
  assumes "tabs w' = tabs w" "clock w' = clock w" "ext w' = ext w" "tick w \<le> tick w'" "outbox w' = outbox w @ ms"
  shows "notified U rs w w'"
  unfolding notified_def using assms
  by (intro conjI exI [of _ "[]"] exI [of _ ms] exI [of _ "{}"]) (simp_all add: db_frames)

lemma notified_append:
  assumes "notified U rs w w'" and "notified U rs' w' w''"
  shows "notified U (rs @ rs') w w''"
proof -
  from assms(1) obtain f ns ms g where 1: "subseq f rs" "list_all2 is_note f ns" "outbox w' = outbox w @ ms"
    "revoked U ms w w' g" "clock w' = clock w" "ext w' = ext w" "tick w \<le> tick w'"
    "tabs w' = (tabs w)\<lparr>push_devices := without_devices g (push_devices (tabs w)), notifications := notifications (tabs w) @ ns\<rparr>"
    by (auto simp: notified_def)
  from assms(2) obtain f' ns' ms' g' where 2: "subseq f' rs'" "list_all2 is_note f' ns'" "outbox w'' = outbox w' @ ms'"
    "revoked U ms' w' w'' g'" "clock w'' = clock w'" "ext w'' = ext w'" "tick w' \<le> tick w''"
    "tabs w'' = (tabs w')\<lparr>push_devices := without_devices g' (push_devices (tabs w')), notifications := notifications (tabs w') @ ns'\<rparr>"
    by (auto simp: notified_def)
  have "subseq (f @ f') (rs @ rs')" "list_all2 is_note (f @ f') (ns @ ns')"
    using 1(1,2) 2(1,2) by (auto intro: list_emb_append_mono list_all2_appendI)
  moreover have "tabs w'' = (tabs w)\<lparr>push_devices := without_devices (g \<union> g') (push_devices (tabs w)),
      notifications := notifications (tabs w) @ (ns @ ns')\<rparr>"
    by (simp add: 1(8) 2(8))
  moreover have "revoked U (ms @ ms') w w'' (g \<union> g')"
    using 1(6,7) 2(7) by (intro revoked_Un revoked_wider [OF 1(4)] revoked_wider [OF 2(4)]) simp_all
  moreover have "outbox w'' = outbox w @ (ms @ ms')" "clock w'' = clock w" "ext w'' = ext w" "tick w \<le> tick w''"
    using 1 2 by simp_all
  ultimately show ?thesis unfolding notified_def by blast
qed

text \<open>The channels: what they change is \<open>notified\<close> with no reminder.\<close>

interpretation po: kept_relation "notified U []" for U
proof
  show "notified U [] w w''" if "notified U [] w w'" "notified U [] w' w''" for w w' w''
    using notified_append [OF that] by simp
qed (simp_all add: notified_same)

lemma po_deliver: "keeps (notified U []) (deliver m)"
  by (simp add: keeps_def deliver_def run_ask run_update notified_same)

lemma po_Validate: "keeps (notified U []) (Validate v u)"
proof -
  have "keeps (notified U []) (State_Monad.update tock)"
    by (simp add: keeps_def run_update notified_same)
  then show ?thesis
    unfolding Validate_def checkHost_def
    by (auto intro!: po.keeps_intros split: option.split sum.split simp: Let_def)
qed

lemma po_lookups:
  "keeps (notified U []) (userPrefs u c)" "keeps (notified U []) (userTimezone u c)"
  "keeps (notified U []) (userEmail u c)" "keeps (notified U []) (userDevices u c)"
  unfolding userPrefs_def userTimezone_def userEmail_def userDevices_def GetNotificationPrefs_def
    GetUserPrefs_def GetUserByID_def ListPushDevicesForUser_def
  by (auto intro!: po.keeps_intros split: option.split)

text \<open>The cached devices of a user are the user's.\<close>

definition devices_kept :: "caches \<Rightarrow> bool" where
  "devices_kept c \<longleftrightarrow> (\<forall>u ds. ca_dev c u = Some ds \<longrightarrow> (\<forall>d\<in>set ds. pd_user d = u))"

lemma lookups_devices:
  "run_state (userPrefs u c) w = ((p, c'), w') \<Longrightarrow> ca_dev c' = ca_dev c"
  "run_state (userTimezone u c) w = ((z, c'), w') \<Longrightarrow> ca_dev c' = ca_dev c"
  "run_state (userEmail u c) w = ((a, c'), w') \<Longrightarrow> ca_dev c' = ca_dev c"
  by (auto simp: userPrefs_def userTimezone_def userEmail_def split: option.splits prod.splits sum.splits)

lemma userDevices_own:
  assumes "run_state (userDevices u c) w = ((ds, c'), w')" and "devices_kept c"
  shows "devices_kept c' \<and> (\<forall>xs. ds = Some xs \<longrightarrow> (\<forall>d\<in>set xs. pd_user d = u))"
proof (cases "ca_dev c u")
  case None
  with assms show ?thesis
    by (auto simp: userDevices_def ListPushDevicesForUser_def run_sql_read devices_kept_def
        split: outcome.splits if_splits)
qed (use assms in \<open>auto simp: userDevices_def devices_kept_def\<close>)

lemma po_sendPush:
  assumes "pd_user d \<in> U" and "ml_channel m = Web_Push" and "ml_to m = pd_token d"
  shows "keeps (notified U []) (sendPush d m)"
  unfolding keeps_def
proof
  fix w
  define w1 where "w1 = (tock w)\<lparr>outbox := outbox w @ [m]\<rparr>"
  let ?st = "x_push (ext w) (tick w) (pd_token d)"
  have s: "notified U [] w w1" by (rule notified_same [where ms = "[m]"]) (simp_all add: w1_def)
  show "notified U [] w (snd (run_state (sendPush d m) w))"
  proof (cases "(?st = Some 410 \<or> ?st = Some 404) \<and> x_avail (ext w) (Suc (tick w)) = Up")
    case True
    let ?gone = "{(pd_user d, pd_token d)}"
    let ?w2 = "set_tabs ((tabs w)\<lparr>push_devices := without_devices ?gone (push_devices (tabs w))\<rparr>) (tock w1)"
    have r: "snd (run_state (sendPush d m) w) = ?w2"
      using True by (auto simp: sendPush_def run_ask run_update DeletePushDevice_def run_sql_write sql_delete_def
          w1_def without_devices_def del_where_def own_device_def)
    have "revoked U [m] w ?w2 ?gone"
      using True assms by (auto simp: revoked_def w1_def intro!: exI [of _ "tick w"])
    then show ?thesis
      unfolding r notified_def
      by (intro conjI exI [of _ "[]"] exI [of _ "[m]"] exI [of _ ?gone]) (simp_all add: w1_def db_frames)
  next
    case False
    then have "snd (run_state (sendPush d m) w) = w1 \<or> snd (run_state (sendPush d m) w) = tock w1"
      by (cases "x_avail (ext w) (Suc (tick w))")
        (auto simp: sendPush_def run_ask run_update DeletePushDevice_def run_sql_write w1_def)
    with s po.kept_trans [OF s po.kept_tock] show ?thesis by auto
  qed
qed

lemma po_push_all:
  assumes "\<forall>d\<in>set ds. pd_user d \<in> U"
  shows "keeps (notified U []) (push_all r path ds)"
  using assms
proof (induction ds)
  case (Cons d ds)
  then have "keeps (notified U []) (sendPush d (reminder_mail Web_Push (pd_token d) path r))"
    by (intro po_sendPush) (simp_all add: reminder_mail_def)
  with Cons show ?case by (auto intro!: po.keeps_intros)
qed (simp add: po.keeps_return)

lemma keptD: "keeps R m \<Longrightarrow> run_state m w = (a, w') \<Longrightarrow> R w w'"
  by (metis keeps_def snd_conv)

lemma po_send_push:
  assumes "run_state (send_push cfg p r c) w = (c', w')" and "devices_kept c" and "rm_user r \<in> U"
  shows "notified U [] w w' \<and> devices_kept c'"
proof (cases "\<not> pushConfigured cfg \<or> \<not> np_push_enabled p")
  case True
  with assms show ?thesis by (simp add: send_push_def po.kept_refl)
next
  case False
  obtain ds c1 w1 where d: "run_state (userDevices (rm_user r) c) w = ((ds, c1), w1)" by (metis surj_pair)
  note own = userDevices_own [OF d assms(2)]
  note k = keptD [OF po_lookups(4) d, of U]
  show ?thesis
  proof (cases ds)
    case None
    with assms(1) False d own k show ?thesis by (simp add: send_push_def run_ask)
  next
    case (Some xs)
    let ?m = "push_all r (textOrEmpty (url_path_of (ext w1) r)) xs"
    from own Some assms(3) have "keeps (notified U []) ?m" by (intro po_push_all) auto
    then have "notified U [] w1 (snd (run_state ?m w1))" by (simp add: keeps_def)
    moreover have "c' = c1" "w' = snd (run_state ?m w1)"
      using assms(1) False d Some by (auto simp: send_push_def run_ask split: prod.splits)
    ultimately show ?thesis using k own by (auto intro: po.kept_trans)
  qed
qed

lemma po_send_apprise: "keeps (notified U []) (send_apprise cfg p r)"
  unfolding send_apprise_def
  by (auto intro!: po.keeps_intros po_Validate po_deliver split: option.split)

lemma po_send_email:
  assumes "run_state (send_email cfg p r c) w = (c', w')"
  shows "notified U [] w w' \<and> ca_dev c' = ca_dev c"
proof
  have "keeps (notified U []) (send_email cfg p r c)"
    unfolding send_email_def
    by (auto intro!: po.keeps_intros po_lookups po_deliver split: option.split prod.split)
  then show "notified U [] w w'" by (rule keptD) (rule assms)
  show "ca_dev c' = ca_dev c"
    using assms by (auto simp: send_email_def split: if_splits prod.splits option.splits dest: lookups_devices)
qed

lemma po_send_external:
  assumes "run_state (send_external cfg now r c) w = (c', w')" and "devices_kept c" and "rm_user r \<in> U"
  shows "notified U [] w w' \<and> devices_kept c'"
proof (cases "\<not> pushConfigured cfg \<and> \<not> appriseConfigured cfg \<and> \<not> emailConfigured cfg")
  case True
  with assms show ?thesis by (simp add: send_external_def po.kept_refl)
next
  case False
  obtain p c1 w1 where 1: "run_state (userPrefs (rm_user r) c) w = ((p, c1), w1)" by (metis surj_pair)
  obtain z c2 w2 where 2: "run_state (userTimezone (rm_user r) c1) w1 = ((z, c2), w2)" by (metis surj_pair)
  have k: "notified U [] w w2" by (rule po.kept_trans [OF keptD [OF po_lookups(1) 1] keptD [OF po_lookups(2) 2]])
  have c2: "devices_kept c2"
    using assms(2) lookups_devices(1) [OF 1] lookups_devices(2) [OF 2] by (simp add: devices_kept_def)
  show ?thesis
  proof (cases "isInQuietHours (ext w2) p z now")
    case True
    with assms(1) False 1 2 have "c' = c2" "w' = w2" by (simp_all add: send_external_def run_ask)
    with k c2 show ?thesis by simp
  next
    case quiet: False
    obtain a w3 where 3: "run_state (send_apprise cfg p r) w2 = (a, w3)" by (metis surj_pair)
    obtain c4 w4 where 4: "run_state (send_email cfg p r c2) w3 = (c4, w4)" by fastforce
    have 5: "run_state (send_push cfg p r c4) w4 = (c', w')"
      using assms(1) False quiet 1 2 3 4 by (simp add: send_external_def run_ask)
    from po_send_email [OF 4, of U] c2 have "notified U [] w3 w4" "devices_kept c4" by (simp_all add: devices_kept_def)
    moreover from po_send_push [OF 5 this(2) assms(3)] have "notified U [] w4 w'" "devices_kept c'" by simp_all
    ultimately show ?thesis
      using k keptD [OF po_send_apprise 3, of U] by (meson po.kept_trans)
  qed
qed

lemma notified_notify: "notified U [r] w (snd (run_state (notify r) w))"
proof -
  have one: "notified U [r] v (set_tabs ((tabs v)\<lparr>notifications := notifications (tabs v) @ [n]\<rparr>) w')"
    if "is_note r n" "clock w' = clock v" "ext w' = ext v" "tick v \<le> tick w'" "outbox w' = outbox v" for v w' n
    unfolding notified_def using that
    by (intro conjI exI [of _ "[r]"] exI [of _ "[n]"] exI [of _ "[]"] exI [of _ "{}"]) (simp_all add: db_frames)
  have "wp (notify r) (\<lambda>_. notified U [r] w) w"
    unfolding notify_def wp_simps CreateNotification_def
    by (intro wp_sql_writeI)
      (auto simp: sql_insert_Inr gen_uuid_def Let_def is_note_def intro!: notified_same one)
  then show ?thesis by (simp add: wp_def split: prod.splits)
qed

lemma notified_dispatch_all:
  assumes "devices_kept c" and "rm_user ` set rs \<subseteq> U"
  shows "notified U rs w (snd (run_state (dispatch_all cfg now rs c) w))"
  using assms
proof (induction rs arbitrary: c w)
  case Nil
  then show ?case by (simp add: notified_same)
next
  case (Cons r rs)
  obtain u w1 where n: "run_state (notify r) w = (u, w1)" by (cases "run_state (notify r) w") auto
  obtain c' w2 where e: "run_state (send_external cfg now r c) w1 = (c', w2)" by fastforce
  from n have "notified U [r] w w1" using notified_notify [of U r w] by simp
  moreover from po_send_external [OF e Cons.prems(1), of U] Cons.prems(2)
  have "notified U [] w1 w2" and c': "devices_kept c'" by simp_all
  ultimately have "notified U [r] w w2" using notified_append by fastforce
  with Cons.IH [OF c', of w2] Cons.prems(2) n e show ?case
    using notified_append [of U "[r]" w w2 rs] by simp
qed

lemma no_caches_kept: "devices_kept no_caches"
  by (simp add: devices_kept_def no_caches_def)

text \<open>The claim: the due reminders, oldest first, at most a hundred, are fired.\<close>

lemma run_claim:
  "run_state (ClaimDueReminders reminderClaimBatch) w =
     (case x_avail (ext w) (tick w) of
        Down \<Rightarrow> (Inl Infra, tock w)
      | Conflict \<Rightarrow> (Inl SerializationFailure, tock w)
      | Up \<Rightarrow> (Inr (map (fire (clock w)) (claimed w)), set_tabs ((tabs w)\<lparr>reminders :=
          upd_where (\<lambda>r. rm_id r \<in> set (due_ids (clock w) reminderClaimBatch (reminders (tabs w))))
            (fire (clock w)) (reminders (tabs w))\<rparr>) (tock w)))"
  by (simp add: ClaimDueReminders_def run_sql_write Let_def claimed_def split: outcome.split)

definition due :: "time \<Rightarrow> reminder \<Rightarrow> bool" where
  "due now r \<longleftrightarrow> rm_status r = Scheduled \<and> rm_fire_at r \<le> now"

lemma due_ids_due:
  assumes "distinct (map rm_id rows)" and "r \<in> set rows" and "rm_id r \<in> set (due_ids now n rows)"
  shows "due now r"
proof -
  from assms(3) obtain q where "q \<in> set rows" "due now q" "rm_id q = rm_id r"
    by (auto simp: due_ids_def due_def dest!: in_set_takeD)
  with assms(1,2) show ?thesis using distinct_key_eq by metis
qed

text \<open>The effect of a run on every table.\<close>

lemma work_effect:
  assumes "run_state (Work cfg) w = (res, w')" and "distinct (map rm_id (reminders (tabs w)))"
  shows "(\<exists>e. res = Inl e) \<and> tabs w' = tabs w \<or>
    (\<exists>fired ns ms gone. res = Inr () \<and> subseq fired (claimed w) \<and> list_all2 is_note fired ns \<and>
       length (claimed w) \<le> 100 \<and> (\<forall>r\<in>set (claimed w). due (clock w) r) \<and>
       outbox w' = outbox w @ ms \<and> revoked (rm_user ` set (claimed w)) ms w w' gone \<and>
       tabs w' = (tabs w)\<lparr>push_devices := without_devices gone (push_devices (tabs w)),
         notifications := notifications (tabs w) @ ns,
         reminders := upd_where (\<lambda>r. r \<in> set (claimed w)) (fire (clock w)) (reminders (tabs w))\<rparr>)"
proof (cases "x_avail (ext w) (tick w)")
  case Up
  let ?ids = "set (due_ids (clock w) reminderClaimBatch (reminders (tabs w)))"
  let ?w1 = "set_tabs ((tabs w)\<lparr>reminders := upd_where (\<lambda>r. rm_id r \<in> ?ids) (fire (clock w))
    (reminders (tabs w))\<rparr>) (tock w)"
  obtain w2 where d: "run_state (dispatch_all cfg (clock w) (map (fire (clock w)) (claimed w)) no_caches) ?w1 = ((), w2)"
    by (cases "run_state (dispatch_all cfg (clock w) (map (fire (clock w)) (claimed w)) no_caches) ?w1") auto
  with Up assms(1) have r: "res = Inr ()" "w' = w2" by (auto simp: Work_def run_claim run_ask)
  let ?U = "rm_user ` set (claimed w)"
  from d notified_dispatch_all [OF no_caches_kept, of "map (fire (clock w)) (claimed w)" ?U ?w1 cfg "clock w"]
  have "notified ?U (map (fire (clock w)) (claimed w)) ?w1 w2" by (simp add: image_image)
  then obtain f ns ms gone where f: "subseq f (map (fire (clock w)) (claimed w))" "list_all2 is_note f ns"
    "tabs w2 = (tabs ?w1)\<lparr>push_devices := without_devices gone (push_devices (tabs ?w1)),
      notifications := notifications (tabs ?w1) @ ns\<rparr>"
    and o: "outbox w2 = outbox w @ ms" "revoked ?U ms ?w1 w2 gone" "tick ?w1 \<le> tick w2"
    by (auto simp: notified_def)
  have o2: "revoked ?U ms w w2 gone" by (rule revoked_wider [OF o(2)]) simp_all
  from f(1) obtain f' where f': "subseq f' (claimed w)" "f = map (fire (clock w)) f'"
    by (auto simp: subseq_conv_nths nths_map)
  have "list_all2 is_note f' ns"
    using f(2) f'(2) by (simp add: list_all2_map1 is_note_def [abs_def])
  moreover have "upd_where (\<lambda>r. r \<in> set (claimed w)) (fire (clock w)) (reminders (tabs w)) =
      upd_where (\<lambda>r. rm_id r \<in> ?ids) (fire (clock w)) (reminders (tabs w))"
    by (auto simp: upd_where_def claimed_def)
  moreover have "length (claimed w) \<le> 100"
  proof -
    have "distinct (map rm_id (claimed w))" "set (map rm_id (claimed w)) \<subseteq> ?ids"
      using assms(2) by (auto simp: claimed_def distinct_map_filter)
    then have "length (claimed w) \<le> card ?ids" by (metis List.finite_set card_mono distinct_card length_map)
    also have "\<dots> \<le> 100"
      by (rule order_trans [OF card_length]) (simp add: due_ids_def reminderClaimBatch_def)
    finally show ?thesis .
  qed
  moreover have "\<forall>r\<in>set (claimed w). due (clock w) r"
    using assms(2) by (auto simp: claimed_def intro: due_ids_due)
  ultimately show ?thesis using f(3) f'(1) r o(1) o2
    by (intro disjI2 exI [of _ f'] exI [of _ ns] exI [of _ ms] exI [of _ gone]) (simp add: db_frames)
qed (use assms(1) in \<open>auto simp: Work_def run_claim\<close>)

text \<open>
  C15: A run fires each reminder at most once, whichever of its statements and messages fail. If
  the claim fails, no row changes. Otherwise exactly the claimed reminders, at most 100 of those
  scheduled and due, become fired, and some of them, each at most once and in their order, get an
  unread notification of their user with their title and text. Besides, the only rows that change are
  push devices, and one of those goes only if its owner has a claimed reminder, a push was sent to it
  in this run, and its push service answered in this run that the subscription is revoked. So a
  notification whose insert fails is lost: the reminder is fired, and no later run claims it.
\<close>

theorem dispatch_at_most_once:
  assumes "run_state (Work cfg) w = (res, w')" and "distinct (map rm_id (reminders (tabs w)))"
  shows "(\<exists>e. res = Inl e) \<and> tabs w' = tabs w \<or>
    (\<exists>fired ns ms gone. res = Inr () \<and> subseq fired (claimed w) \<and> list_all2 is_note fired ns \<and>
       length (claimed w) \<le> 100 \<and> (\<forall>r\<in>set (claimed w). due (clock w) r) \<and>
       outbox w' = outbox w @ ms \<and> revoked (rm_user ` set (claimed w)) ms w w' gone \<and>
       tabs w' = (tabs w)\<lparr>push_devices := without_devices gone (push_devices (tabs w)),
         notifications := notifications (tabs w) @ ns,
         reminders := upd_where (\<lambda>r. r \<in> set (claimed w)) (fire (clock w)) (reminders (tabs w))\<rparr>)"
  by (rule work_effect [OF assms])

text \<open>The first insert is refused: the first reminder is fired, and its notification is lost.\<close>

lemma dispatch_at_most_once_witness:
  "map nt_reminder (notifications (tabs (snd (run_state (Work demo_config)
      (faulty_world (\<lambda>n. if n = 1 then Down else Up) dispatch_db 19800000000))))) = [Some 5] \<and>
   map rm_status (reminders (tabs (snd (run_state (Work demo_config)
      (faulty_world (\<lambda>n. if n = 1 then Down else Up) dispatch_db 19800000000))))) = [Fired, Fired]"
proof -
  let ?w = "faulty_world (\<lambda>n. if n = 1 then Down else Up) dispatch_db 19800000000"
  let ?r = "run_state (Work demo_config) ?w"
  have f: "fst ?r = Inr ()" and n: "map nt_reminder (notifications (tabs (snd ?r))) = [Some 5]"
    by code_simp+
  have c: "claimed ?w = reminders dispatch_db" by code_simp
  have d: "distinct (map rm_id (reminders (tabs ?w)))" "tabs ?w = dispatch_db"
    by (simp_all add: demo_simps dispatch_db_def)
  from f have r: "run_state (Work demo_config) ?w = (Inr (), snd ?r)" by (metis prod.collapse)
  from dispatch_at_most_once [OF r d(1)] f obtain gone ns where
    "tabs (snd ?r) = dispatch_db\<lparr>push_devices := without_devices gone (push_devices dispatch_db), notifications := ns, reminders :=
       upd_where (\<lambda>r. r \<in> set (reminders dispatch_db)) (fire (clock ?w)) (reminders dispatch_db)\<rparr>"
    unfolding c d(2) by auto
  then have "map rm_status (reminders (tabs (snd ?r))) = [Fired, Fired]"
    by (simp add: dispatch_db_def demo_simps upd_where_def fire_def)
  with n show ?thesis by blast
qed

section \<open>A backlog drains\<close>

lemma filter_drop_sorted:
  "sorted (map f xs) \<Longrightarrow>
     length (filter (\<lambda>x. f x \<le> T) (drop n xs)) = length (filter (\<lambda>x. f x \<le> T) xs) - n"
proof (induction xs arbitrary: n)
  case (Cons x xs)
  show ?case
  proof (cases n)
    case (Suc m)
    have "filter (\<lambda>y. f y \<le> T) xs = []" if "\<not> f x \<le> T"
      using Cons.prems that by (auto simp: filter_empty_conv)
    with Cons Suc show ?thesis by auto
  qed simp
qed simp

definition backlog :: "time \<Rightarrow> world \<Rightarrow> reminder list" where
  "backlog T w = filter (due T) (reminders (tabs w))"

text \<open>One run takes a hundred off the backlog of any past moment, oldest first.\<close>

lemma claim_backlog:
  assumes "distinct (map rm_id rows)" and "T \<le> now"
    and "C = set (filter (\<lambda>r. rm_id r \<in> set (due_ids now n rows)) rows)"
  shows "length (filter (due T) (upd_where (\<lambda>r. r \<in> C) (fire now) rows)) =
    length (filter (due T) rows) - n"
proof -
  define S where "S = sort_key rm_fire_at (filter (due now) rows)"
  have d: "distinct rows" "distinct S" using assms(1) by (simp_all add: S_def distinct_map)
  have S: "set S = {r \<in> set rows. due now r}" "sorted (map rm_fire_at S)" by (simp_all add: S_def)
  have ids: "due_ids now n rows = map rm_id (take n S)" by (simp add: due_ids_def S_def due_def [abs_def])
  have C: "C = set (take n S)"
  proof -
    have "set (take n S) \<subseteq> set rows" using S(1) by (auto dest: in_set_takeD)
    then show ?thesis using assms(1) unfolding assms(3) ids
      by (auto dest: distinct_key_eq)
  qed
  have e: "due T r \<longleftrightarrow> rm_fire_at r \<le> T" if "r \<in> set S" for r
    using that S(1) by (simp add: due_def)
  have le: "due T r \<Longrightarrow> due now r" for r using assms(2) by (simp add: due_def)
  have cut: "set S = set (take n S) \<union> set (drop n S)" "set (take n S) \<inter> set (drop n S) = {}"
    using d(2) by (metis append_take_drop_id set_append) (rule set_take_disj_set_drop_if_distinct [OF d(2)], simp)
  have "length (filter (due T) (upd_where (\<lambda>r. r \<in> C) (fire now) rows)) =
      length (filter (\<lambda>r. due T r \<and> r \<notin> C) rows)"
    unfolding upd_where_def by (induction rows) (auto simp: due_def fire_def)
  also have "\<dots> = card {r \<in> set (drop n S). due T r}"
  proof -
    have "set (filter (\<lambda>r. due T r \<and> r \<notin> C) rows) = {r \<in> set (drop n S). due T r}"
      unfolding C using S(1) cut le by auto
    then show ?thesis using d(1) by (metis distinct_card distinct_filter)
  qed
  also have "\<dots> = length (filter (due T) (drop n S))"
    using d(2) by (metis distinct_card distinct_drop distinct_filter set_filter)
  also have "\<dots> = length (filter (\<lambda>r. rm_fire_at r \<le> T) (drop n S))"
    using e by (metis (mono_tags, lifting) filter_cong in_set_dropD)
  also have "\<dots> = length (filter (\<lambda>r. rm_fire_at r \<le> T) S) - n" by (rule filter_drop_sorted [OF S(2)])
  also have "filter (\<lambda>r. rm_fire_at r \<le> T) S = filter (due T) S"
    using e by (metis (mono_tags, lifting) filter_cong)
  also have "length (filter (due T) S) = length (filter (due T) rows)"
  proof -
    have "filter (due T) (filter (due now) rows) = filter (due T) rows"
      using le by (auto intro: filter_cong)
    then show ?thesis by (simp add: S_def filter_sort)
  qed
  finally show ?thesis .
qed

text \<open>Successive runs, at the given times.\<close>

fun ticks :: "config \<Rightarrow> time list \<Rightarrow> world \<Rightarrow> world" where
  "ticks cfg [] w = w"
| "ticks cfg (t # ts) w = ticks cfg ts (snd (run_state (Work cfg) (w\<lparr>clock := t\<rparr>)))"

definition fired_only :: "reminder \<Rightarrow> reminder \<Rightarrow> bool" where
  "fired_only r r' \<longleftrightarrow> r' = r \<or> (\<exists>t. due t r \<and> r' = fire t r)"

lemma fired_only_intros: "fired_only r r" "due t r \<Longrightarrow> fired_only r (fire t r)"
  by (auto simp: fired_only_def)

lemma fired_only_trans: "fired_only r r' \<Longrightarrow> fired_only r' r'' \<Longrightarrow> fired_only r r''"
  by (auto simp: fired_only_def due_def fire_def)

lemma run_tick:
  assumes "\<forall>n. x_avail (ext w) n = Up" and "distinct (map rm_id (reminders (tabs w)))"
    and "T \<le> t" and "w' = snd (run_state (Work cfg) (w\<lparr>clock := t\<rparr>))"
  shows "ext w' = ext w \<and> map rm_id (reminders (tabs w')) = map rm_id (reminders (tabs w)) \<and>
    length (backlog T w') = length (backlog T w) - 100 \<and>
    list_all2 fired_only (reminders (tabs w)) (reminders (tabs w'))"
proof -
  let ?w = "w\<lparr>clock := t\<rparr>"
  obtain res where r: "run_state (Work cfg) ?w = (res, w')" using assms(4) by (metis prod.collapse)
  have ext: "ext w' = ext w"
  proof -
    have k: "ext v' = ext v" if "run_state (dispatch_all cfg t rs no_caches) v = (u, v')" for rs u v v'
      using that notified_dispatch_all [OF no_caches_kept, of rs UNIV v cfg t] by (simp add: notified_def)
    show ?thesis using r assms(1)
      by (auto simp: Work_def run_claim run_ask split: prod.splits dest!: k)
  qed
  have res: "\<not> (\<exists>e. res = Inl e)"
    using r assms(1) by (auto simp: Work_def run_claim run_ask split: prod.splits)
  with work_effect [OF r] assms(2) have
    due: "\<forall>q\<in>set (claimed ?w). due t q" and
    w': "reminders (tabs w') = upd_where (\<lambda>r. r \<in> set (claimed ?w)) (fire t) (reminders (tabs w))"
    by auto
  have "length (backlog T w') = length (backlog T w) - 100"
    using claim_backlog [OF assms(2,3) refl, of 100]
    by (simp add: backlog_def w' claimed_def reminderClaimBatch_def)
  moreover have "list_all2 fired_only (reminders (tabs w)) (reminders (tabs w'))"
    using due by (auto simp: w' upd_where_def list_all2_map2
        intro!: list_all2_same [THEN iffD2] fired_only_intros)
  moreover have "map rm_id (reminders (tabs w')) = map rm_id (reminders (tabs w))"
    by (simp add: w' upd_where_def)
  ultimately show ?thesis using ext by blast
qed

text \<open>
  C16: Every due reminder is fired. However long the backlog, with a database that answers, one
  run for each hundred reminders due at time \<open>T\<close> fires them all, whatever became due in the
  meantime: the runs take the oldest first. No reminder is lost, and none changes otherwise.
\<close>

theorem backlog_drains:
  assumes "\<forall>n. x_avail (ext w) n = Up" and "distinct (map rm_id (reminders (tabs w)))"
    and "\<forall>t\<in>set ts. T \<le> t" and "length (backlog T w) \<le> 100 * length ts"
  shows "backlog T (ticks cfg ts w) = [] \<and>
    list_all2 fired_only (reminders (tabs w)) (reminders (tabs (ticks cfg ts w)))"
  using assms
proof (induction ts arbitrary: w)
  case Nil
  then show ?case by (auto simp: fired_only_def intro: list_all2_refl)
next
  case (Cons t ts)
  let ?w' = "snd (run_state (Work cfg) (w\<lparr>clock := t\<rparr>))"
  from Cons.prems run_tick [of w T t ?w' cfg]
  have r: "ext ?w' = ext w" "map rm_id (reminders (tabs ?w')) = map rm_id (reminders (tabs w))"
    "length (backlog T ?w') = length (backlog T w) - 100"
    "list_all2 fired_only (reminders (tabs w)) (reminders (tabs ?w'))" by auto
  from Cons.prems r(1-3) have "backlog T (ticks cfg ts ?w') = [] \<and>
      list_all2 fired_only (reminders (tabs ?w')) (reminders (tabs (ticks cfg ts ?w')))"
    by (intro Cons.IH) simp_all
  with r(4) show ?case
    by (auto intro: list_all2_trans [of fired_only fired_only fired_only] fired_only_trans)
qed

lemma backlog_drains_witness:
  "backlog 6 (ticks demo_config [7] (demo_world dispatch_db 0)) = [] \<and>
   backlog 6 (demo_world dispatch_db 0) \<noteq> []"
proof -
  have "length (backlog 6 (demo_world dispatch_db 0)) = 2" by code_simp
  then show ?thesis
    using backlog_drains [of "demo_world dispatch_db 0" "[7]" 6 demo_config]
    by (simp add: demo_simps dispatch_db_def) auto
qed

section \<open>A snoozed reminder\<close>

lemma tick_fired_only:
  assumes "distinct (map rm_id (reminders (tabs w)))"
    and "w' = snd (run_state (Work cfg) (w\<lparr>clock := t\<rparr>))"
  shows "map rm_id (reminders (tabs w')) = map rm_id (reminders (tabs w)) \<and>
    list_all2 fired_only (reminders (tabs w)) (reminders (tabs w'))"
proof -
  let ?w = "w\<lparr>clock := t\<rparr>"
  obtain res where r: "run_state (Work cfg) ?w = (res, w')" using assms(2) by (metis prod.collapse)
  from work_effect [OF r] assms(1) have "reminders (tabs w') = reminders (tabs w) \<or>
      (\<forall>q\<in>set (claimed ?w). due t q) \<and>
      reminders (tabs w') = upd_where (\<lambda>r. r \<in> set (claimed ?w)) (fire t) (reminders (tabs w))"
    by auto
  then show ?thesis
    by (auto simp: upd_where_def list_all2_map2 comp_def
        intro!: list_all2_same [THEN iffD2] fired_only_intros)
qed

text \<open>
  C19: A snoozed reminder never fires. Once a reminder has the status snoozed, no run of the
  dispatcher, at whatever time and whatever fails, touches it: the claim takes scheduled reminders
  only, and the time to wake up that the client saved with the snooze is never looked at.
\<close>

theorem snoozed_never_fires:
  assumes "distinct (map rm_id (reminders (tabs w)))" and "r \<in> set (reminders (tabs w))"
    and "rm_status r = Snoozed"
  shows "r \<in> set (reminders (tabs (ticks cfg ts w)))"
  using assms(1,2)
proof (induction ts arbitrary: w)
  case (Cons t ts)
  let ?w' = "snd (run_state (Work cfg) (w\<lparr>clock := t\<rparr>))"
  from tick_fired_only [OF Cons.prems(1) refl, of cfg t]
  have t: "map rm_id (reminders (tabs ?w')) = map rm_id (reminders (tabs w))"
    "list_all2 fired_only (reminders (tabs w)) (reminders (tabs ?w'))" by blast+
  from list_all2_left [OF t(2) Cons.prems(2)] obtain r' where
    "r' \<in> set (reminders (tabs ?w'))" "fired_only r r'" by blast
  with assms(3) have "r \<in> set (reminders (tabs ?w'))" by (auto simp: fired_only_def due_def)
  moreover have "distinct (map rm_id (reminders (tabs ?w')))" using t(1) Cons.prems(1) by simp
  ultimately show ?case using Cons.IH by simp
qed simp

text \<open>Ann snoozes her reminder until 20; at 21, and ever after, it sleeps on.\<close>

lemma snoozed_never_fires_witness:
  "\<exists>r. r \<in> set (reminders (tabs (ticks demo_config [21, 22] (snd (run_state
       (handleUpdateReminder (demo_user 1 ''ann'') (Some 4)
         (Some \<lparr>qrm_title = None, qrm_description = None, qrm_fire_at = Some ''2026'',
            qrm_status = Some ''snoozed'', qrm_suggested = None\<rparr>))
       (demo_world dispatch_db 3)))))) \<and> rm_status r = Snoozed \<and> rm_fire_at r = 4"
proof -
  let ?q = "\<lparr>qrm_title = None, qrm_description = None, qrm_fire_at = Some ''2026'',
    qrm_status = Some ''snoozed'', qrm_suggested = None\<rparr>"
  let ?w = "snd (run_state (handleUpdateReminder (demo_user 1 ''ann'') (Some 4) (Some ?q)) (demo_world dispatch_db 3))"
  let ?r = "(demo_reminder 4 None 1 None 4)\<lparr>rm_status := Snoozed\<rparr>"
  have "reminders (tabs ?w) = [?r, demo_reminder 5 None 2 None 6]" by code_simp
  then have "distinct (map rm_id (reminders (tabs ?w)))" "?r \<in> set (reminders (tabs ?w))"
    "rm_status ?r = Snoozed" by (simp_all add: demo_reminder_def)
  from snoozed_never_fires [OF this, of demo_config "[21, 22]"] show ?thesis
    by (intro exI [of _ ?r]) (simp add: demo_reminder_def)
qed

end
