(* ===== verification/Auth.thy ===== *)
theory Auth
  imports Users Config
begin

text \<open>
  Registration, login, logout and the session middleware, \<^verbatim>\<open>internal/server/auth.go\<close>
  with the primitives of \<^verbatim>\<open>internal/auth\<close>. Hashing and token generation are external.
  Login runs argon2 against a dummy hash when there is no user: that takes time and decides
  nothing, and time is not modelled. A cookie carries the token of the answer, so it is not shown
  apart.
\<close>

section \<open>Requests\<close>

record request =
  rq_cookie :: "string option"
  rq_authorization :: string
  rq_user_agent :: string
  rq_ip :: "addr option"
  rq_remote :: string
  rq_host :: string

definition sessionDuration :: time where "sessionDuration = 30 * 24 * 3600000000"
definition sessionTouchInterval :: time where "sessionTouchInterval = 5 * 60000000"
definition minPasswordLen :: nat where "minPasswordLen = 8"

text \<open>\<^verbatim>\<open>^[a-zA-Z0-9_-]{3,32}$\<close>, on bytes.\<close>

definition username_char :: "char \<Rightarrow> bool" where
  "username_char c \<longleftrightarrow> (let n = (of_char c :: nat) in
     97 \<le> n \<and> n \<le> 122 \<or> 65 \<le> n \<and> n \<le> 90 \<or> 48 \<le> n \<and> n \<le> 57 \<or> n = 95 \<or> n = 45)"

definition usernameRE :: "string \<Rightarrow> bool" where
  "usernameRE s \<longleftrightarrow> 3 \<le> length s \<and> length s \<le> 32 \<and> list_all username_char s"

definition extractToken :: "request \<Rightarrow> string" where
  "extractToken r = (case rq_cookie r of
     Some v \<Rightarrow> v
   | None \<Rightarrow>
       let h = rq_authorization r in
       if length h > 7 \<and> ci_eq (take 7 h) ''Bearer '' then trim_space (drop 7 h) else [])"

section \<open>External calls\<close>

definition NewSessionToken :: "(string \<times> string) option act" where
  "NewSessionToken = do {
     x \<leftarrow> ask ext;
     n \<leftarrow> ask tick;
     State_Monad.update tock;
     ret (map_option (\<lambda>raw. (raw, x_token_hash x raw)) (x_token x n)) }"

definition HashPassword :: "string \<Rightarrow> string option act" where
  "HashPassword p = do {
     x \<leftarrow> ask ext;
     n \<leftarrow> ask tick;
     State_Monad.update tock;
     ret (x_hash_password x n p) }"

definition limiter_allow :: "string \<Rightarrow> bool act" where
  "limiter_allow key = do {
     x \<leftarrow> ask ext;
     n \<leftarrow> ask tick;
     State_Monad.update tock;
     ret (x_allow x n key) }"

section \<open>Middleware\<close>

text \<open>
  The user of a request. The refresh of \<^verbatim>\<open>last_seen_at\<close> runs in a goroutine whose result
  is ignored; here it runs before the handler.
\<close>

definition authMiddleware :: "request \<Rightarrow> user option act" where
  "authMiddleware r =
     (if extractToken r = [] then ret None
      else do {
        x \<leftarrow> ask ext;
        row \<leftarrow> GetSessionWithUser (x_token_hash x (extractToken r));
        now \<leftarrow> ask clock;
        (case row of
           Inl e \<Rightarrow> ret None
         | Inr (s, u) \<Rightarrow> do {
             (if now - s_last_seen_at s > sessionTouchInterval
              then do { TouchSession (s_id s); ret () } else ret ());
             ret (Some u) }) })"

definition requireAuth :: "request \<Rightarrow> (user \<Rightarrow> 'v resp act) \<Rightarrow> 'v resp act" where
  "requireAuth r k = do {
     u \<leftarrow> authMiddleware r;
     (case u of None \<Rightarrow> ret (Fail 401 ''unauthorized'') | Some v \<Rightarrow> k v) }"

definition ipRateLimit :: "request \<Rightarrow> 'v resp act \<Rightarrow> 'v resp act" where
  "ipRateLimit r k = do {
     ok \<leftarrow> limiter_allow (rq_remote r);
     (if ok then k else ret (Fail 429 ''too many requests'')) }"

section \<open>Sessions\<close>

record public_user =
  pu_id :: uuid
  pu_username :: string
  pu_email :: string
  pu_display_name :: string
  pu_is_admin :: bool

definition toPublicUser :: "user \<Rightarrow> public_user" where
  "toPublicUser u = \<lparr>pu_id = u_id u, pu_username = u_username u, pu_email = u_email u,
     pu_display_name = textOrEmpty (u_display_name u), pu_is_admin = u_is_admin u\<rparr>"

text \<open>The token, or nothing when a step failed.\<close>

definition issueSession :: "request \<Rightarrow> uuid \<Rightarrow> string option act" where
  "issueSession r u = do {
     t \<leftarrow> NewSessionToken;
     (case t of
        None \<Rightarrow> ret None
      | Some (raw, h) \<Rightarrow> do {
          now \<leftarrow> ask clock;
          s \<leftarrow> CreateSession \<lparr>sp_user = u, sp_token_hash = h, sp_user_agent = optText (rq_user_agent r),
            sp_ip = rq_ip r, sp_expires_at = now + sessionDuration\<rparr>;
          ret (case s of Inl e \<Rightarrow> None | Inr _ \<Rightarrow> Some raw) }) }"

definition answer_session ::
    "request \<Rightarrow> nat \<Rightarrow> string \<Rightarrow> user \<Rightarrow> (string \<times> public_user) resp act" where
  "answer_session r code msg u = do {
     t \<leftarrow> issueSession r (u_id u);
     ret (case t of None \<Rightarrow> Fail 500 msg | Some raw \<Rightarrow> Okay code (raw, toPublicUser u)) }"

section \<open>Registration\<close>

record register_request =
  qg_username :: string
  qg_email :: string
  qg_password :: string
  qg_display_name :: string

datatype register_error = RegistrationClosed | DbError dberr

text \<open>The single-user gate: count and insert in one serializable transaction.\<close>

definition register_gated :: "create_user_params \<Rightarrow> (register_error + user) act" where
  "register_gated p = do {
     c \<leftarrow> CountUsers;
     (case c of
        Inl e \<Rightarrow> ret (Inl (DbError e))
      | Inr n \<Rightarrow>
          if n > 0 then ret (Inl RegistrationClosed)
          else do {
            r \<leftarrow> CreateUserWithPassword p;
            (case r of
               Inl e \<Rightarrow> ret (Inl (DbError e))
             | Inr u \<Rightarrow> do {
                 k \<leftarrow> tx_commit;
                 ret (case k of
                   Inl e \<Rightarrow> Inl (if e = SerializationFailure then RegistrationClosed else DbError e)
                 | Inr _ \<Rightarrow> Inr u) }) }) }"

definition createRegistrationUser :: "config \<Rightarrow> create_user_params \<Rightarrow> (register_error + user) act" where
  "createRegistrationUser cfg p =
     (if InstanceMode cfg \<noteq> ModeSingleUser then do {
        r \<leftarrow> CreateUserWithPassword p;
        ret (case r of Inl e \<Rightarrow> Inl (DbError e) | Inr u \<Rightarrow> Inr u) }
      else do {
        b \<leftarrow> tx_begin;
        (case b of
           Inl e \<Rightarrow> ret (Inl (DbError e))
         | Inr _ \<Rightarrow> defer_rollback (register_gated p)) })"

definition check_register :: "config \<Rightarrow> register_request \<Rightarrow> 'v resp option" where
  "check_register cfg q =
     (if \<not> usernameRE (qg_username q) then Some (Fail 400 ''username must be 3-32 chars [a-zA-Z0-9_-]'')
      else if \<not> contains_char (CHR ''@'') (qg_email q) then Some (Fail 400 ''invalid email'')
      else if length (qg_password q) < minPasswordLen then Some (Fail 400 ''password too short'')
      else if InstanceMode cfg = ModeOpen \<or> InstanceMode cfg = ModeSingleUser then None
      else if InstanceMode cfg = ModeClosed then Some (Fail 403 ''registration disabled'')
      else Some (Fail 500 ''unknown instance mode''))"

definition register_fail :: "register_error \<Rightarrow> 'v resp" where
  "register_fail e = (case e of
     RegistrationClosed \<Rightarrow> Fail 403 ''registration disabled (single-user mode)''
   | DbError d \<Rightarrow> if d = UniqueViolation then Fail 409 ''username or email already taken''
       else Fail 500 ''user create failed'')"

definition handleRegister ::
    "config \<Rightarrow> request \<Rightarrow> register_request option \<Rightarrow> (string \<times> public_user) resp act" where
  "handleRegister cfg r body = (case body of
     None \<Rightarrow> ret (Fail 400 ''invalid json'')
   | Some q \<Rightarrow> (case check_register cfg q of
       Some f \<Rightarrow> ret f
     | None \<Rightarrow> do {
         h \<leftarrow> HashPassword (qg_password q);
         (case h of
            None \<Rightarrow> ret (Fail 500 ''hash failed'')
          | Some hash \<Rightarrow> do {
              u \<leftarrow> createRegistrationUser cfg \<lparr>cu_username = qg_username q, cu_email = qg_email q,
                cu_display_name = optText (qg_display_name q), cu_password_hash = Some hash,
                cu_is_admin = (InstanceMode cfg = ModeSingleUser)\<rparr>;
              (case u of
                 Inl e \<Rightarrow> ret (register_fail e)
               | Inr v \<Rightarrow> answer_session r 201 ''session create failed'' v) }) }))"

section \<open>Login and logout\<close>

definition lookupCredential :: "string \<Rightarrow> (uuid \<times> nulltext) option act" where
  "lookupCredential ident = do {
     r \<leftarrow> (if contains_char (CHR ''@'') ident then GetUserCredentialByEmail ident
           else GetUserCredentialByUsername ident);
     ret (case r of Inl e \<Rightarrow> None | Inr c \<Rightarrow> Some c) }"

text \<open>The account a pair of identifier and password opens.\<close>

definition verified :: "externals \<Rightarrow> string \<Rightarrow> (uuid \<times> nulltext) option \<Rightarrow> uuid option" where
  "verified x password c = (case c of
     Some (i, Some h) \<Rightarrow> if x_verify_password x h password then Some i else None
   | _ \<Rightarrow> None)"

definition handleLogin ::
    "request \<Rightarrow> (string \<times> string) option \<Rightarrow> (string \<times> public_user) resp act" where
  "handleLogin r body = (case body of
     None \<Rightarrow> ret (Fail 400 ''invalid json'')
   | Some (ident, password) \<Rightarrow> do {
       ok \<leftarrow> (if ident \<noteq> [] then limiter_allow (to_lower ident) else ret True);
       (if \<not> ok then ret (Fail 429 ''too many login attempts for this account'')
        else do {
          c \<leftarrow> lookupCredential ident;
          x \<leftarrow> ask ext;
          (case verified x password c of
             None \<Rightarrow> ret (Fail 401 ''invalid credentials'')
           | Some i \<Rightarrow>
               handle (GetUserByID i) (\<lambda>e. Fail 500 ''user fetch failed'')
                 (\<lambda>u. answer_session r 200 ''session create failed'' u)) }) })"

definition handleLogout :: "request \<Rightarrow> unit resp act" where
  "handleLogout r = do {
     x \<leftarrow> ask ext;
     (if extractToken r \<noteq> [] then do { DeleteSessionByTokenHash (x_token_hash x (extractToken r)); ret () }
      else ret ());
     ret (Okay 200 ()) }"

definition handleMe :: "user \<Rightarrow> public_user resp act" where
  "handleMe user = ret (Okay 200 (toPublicUser user))"

section \<open>The hourly cleanup\<close>

text \<open>\<^verbatim>\<open>internal/jobs/expired_sessions.go\<close>.\<close>

definition expired_sessions_Work :: "unit stmt" where
  "expired_sessions_Work = do {
     r \<leftarrow> DeleteExpiredSessions;
     (case r of Inl e \<Rightarrow> ret (Inl e) | Inr _ \<Rightarrow> DeleteExpiredEmailChangeRequests) }"

end
