(* ===== verification/Storage.thy ===== *)
theory Storage
  imports Sql
begin

text \<open>
  The blob stores, \<^verbatim>\<open>internal/storage\<close>: the primary one with the archives of the user
  exports and the one of the admin backups, each on the local file system or in an S3 bucket.
  The keys of the two pipelines differ in their first segment, so the two maps of the world do not
  overlap even when both are one directory. File system and network are oracles.
\<close>

section \<open>Backends\<close>

datatype store = Export_Store | Backup_Store

datatype backend = Local_FS | S3_Bucket

primrec Backend :: "backend \<Rightarrow> string" where
  "Backend Local_FS = ''local''"
| "Backend S3_Bucket = ''s3''"

primrec blobs :: "store \<Rightarrow> world \<Rightarrow> string \<Rightarrow> string option" where
  "blobs Export_Store w = export_blobs w"
| "blobs Backup_Store w = backup_blobs w"

primrec set_blob :: "store \<Rightarrow> string \<Rightarrow> string option \<Rightarrow> world \<Rightarrow> world" where
  "set_blob Export_Store k b w = w\<lparr>export_blobs := (export_blobs w)(k := b)\<rparr>"
| "set_blob Backup_Store k b w = w\<lparr>backup_blobs := (backup_blobs w)(k := b)\<rparr>"

text \<open>One call to the file system or the network, and whether it went well.\<close>

definition io_step :: "bool act" where
  "io_step = do {
     ok \<leftarrow> ask (\<lambda>w. x_storage (ext w) (tick w));
     State_Monad.update tock;
     ret ok }"

section \<open>Operations\<close>

text \<open>
  \<^verbatim>\<open>Put\<close>: \<open>None\<close> is a reader that ends in an error. The local store creates the file,
  copies, and removes the file when the copy fails; an S3 object appears whole or not at all.
\<close>

definition local_put :: "store \<Rightarrow> string \<Rightarrow> string option \<Rightarrow> bool act" where
  [simp]: "local_put st k body = do {
     opened \<leftarrow> io_step;
     (if \<not> opened then ret False
      else do {
        copied \<leftarrow> io_step;
        (if copied \<and> body \<noteq> None then do { State_Monad.update (set_blob st k body); ret True }
         else do { State_Monad.update (set_blob st k None); ret False }) }) }"

definition s3_put :: "store \<Rightarrow> string \<Rightarrow> string option \<Rightarrow> bool act" where
  [simp]: "s3_put st k body = do {
     sent \<leftarrow> io_step;
     (if sent \<and> body \<noteq> None then do { State_Monad.update (set_blob st k body); ret True }
      else ret False) }"

primrec store_put :: "backend \<Rightarrow> store \<Rightarrow> string \<Rightarrow> string option \<Rightarrow> bool act" where
  "store_put Local_FS st k body = local_put st k body"
| "store_put S3_Bucket st k body = s3_put st k body"

text \<open>\<^verbatim>\<open>Get\<close>: the bytes, whose number is the size; nothing on an error.\<close>

definition store_get :: "store \<Rightarrow> string \<Rightarrow> string option act" where
  "store_get st k = do {
     ok \<leftarrow> io_step;
     b \<leftarrow> ask (\<lambda>w. blobs st w k);
     ret (if ok then b else None) }"

text \<open>\<^verbatim>\<open>Delete\<close>: a missing key is no error.\<close>

definition store_delete :: "store \<Rightarrow> string \<Rightarrow> bool act" where
  "store_delete st k = do {
     ok \<leftarrow> io_step;
     (if ok then State_Monad.update (set_blob st k None) else ret ());
     ret ok }"

text \<open>The empty string: this backend cannot presign.\<close>

definition s3_presign :: "string \<Rightarrow> string option act" where
  [simp]: "s3_presign k = do {
     u \<leftarrow> ask (\<lambda>w. x_presign (ext w) (tick w) k);
     State_Monad.update tock;
     ret u }"

primrec PresignGet :: "backend \<Rightarrow> string \<Rightarrow> string option act" where
  "PresignGet Local_FS k = ret (Some [])"
| "PresignGet S3_Bucket k = s3_presign k"

text \<open>The loop of every clean-up over the paths a statement answered; an error is logged.\<close>

fun delete_paths :: "store \<Rightarrow> nulltext list \<Rightarrow> unit act" where
  "delete_paths st [] = ret ()"
| "delete_paths st (p # ps) = do {
     (if textOrEmpty p = [] then ret () else do { store_delete st (textOrEmpty p); ret () });
     delete_paths st ps }"

section \<open>What a store promises\<close>

lemma set_blob_simps [simp]:
  "tabs (set_blob st k b w) = tabs w" "clock (set_blob st k b w) = clock w"
  "tick (set_blob st k b w) = tick w" "txn (set_blob st k b w) = txn w"
  "outbox (set_blob st k b w) = outbox w" "ext (set_blob st k b w) = ext w"
  by (cases st; simp)+

lemma blobs_set_blob [simp]:
  "blobs st (set_blob st k b w) = (blobs st w)(k := b)"
  "st \<noteq> st' \<Longrightarrow> blobs st (set_blob st' k b w) = blobs st w"
  by (cases st; simp) (cases st; cases st'; simp)

lemma blobs_tock [simp]: "blobs st (tock w) = blobs st w"
  by (cases st) simp_all

lemma run_io_step: "run_state io_step w = (x_storage (ext w) (tick w), tock w)"
  by (simp add: io_step_def run_ask run_update)

text \<open>A step that touches blobs only.\<close>

definition only_blobs :: "world \<Rightarrow> world \<Rightarrow> bool" where
  "only_blobs w w' \<longleftrightarrow> tabs w' = tabs w \<and> clock w' = clock w \<and> txn w' = txn w \<and>
     outbox w' = outbox w \<and> ext w' = ext w"

lemma only_blobs_refl [simp]: "only_blobs w w" "only_blobs w (tock w)"
  by (simp_all add: only_blobs_def)

lemma only_blobs_trans: "only_blobs w w' \<Longrightarrow> only_blobs w' w'' \<Longrightarrow> only_blobs w w''"
  by (simp add: only_blobs_def)

locale blob_store =
  fixes st :: store
    and put :: "string \<Rightarrow> string option \<Rightarrow> bool act"
    and get :: "string \<Rightarrow> string option act"
    and del :: "string \<Rightarrow> bool act"
  assumes put_only: "run_state (put k b) w = (ok, w') \<Longrightarrow> only_blobs w w'"
    and put_others: "run_state (put k b) w = (ok, w') \<Longrightarrow> j \<noteq> k \<Longrightarrow> blobs st w' j = blobs st w j"
    and put_done: "run_state (put k b) w = (True, w') \<Longrightarrow> b \<noteq> None \<and> blobs st w' k = b"
    and put_failed: "run_state (put k b) w = (False, w') \<Longrightarrow> blobs st w' k \<in> {None, blobs st w k}"
    and get_only: "run_state (get k) w = (r, w') \<Longrightarrow> only_blobs w w' \<and> blobs st w' = blobs st w"
    and get_sound: "run_state (get k) w = (Some v, w') \<Longrightarrow> blobs st w k = Some v"
    and del_only: "run_state (del k) w = (ok, w') \<Longrightarrow> only_blobs w w'"
    and del_result: "run_state (del k) w = (ok, w') \<Longrightarrow>
          blobs st w' = (if ok then (blobs st w)(k := None) else blobs st w)"
begin

text \<open>What was put is got, and what was deleted is not.\<close>

lemma get_after_put:
  "run_state (put k b) w = (True, w1) \<Longrightarrow> run_state (get k) w1 = (Some v, w2) \<Longrightarrow> b = Some v"
  using put_done get_sound by fastforce

lemma get_after_del:
  assumes "run_state (del k) w = (True, w1)"
  shows "fst (run_state (get k) w1) = None"
proof (cases "fst (run_state (get k) w1)")
  case (Some v)
  then obtain w2 where "run_state (get k) w1 = (Some v, w2)" by (metis prod.collapse)
  from get_sound [OF this] del_result [OF assms] show ?thesis by simp
qed

text \<open>Nothing that is stored is altered but by a successful put of that very key.\<close>

lemma put_stored:
  "run_state (put k b) w = (ok, w') \<Longrightarrow> blobs st w' j = Some v \<Longrightarrow>
     blobs st w j = Some v \<or> (ok \<and> j = k \<and> b = Some v)"
  using put_others [of k b w ok w' j] put_done [of k b w w'] put_failed [of k b w w']
  by (cases ok; cases "j = k") auto

lemma del_stored:
  "run_state (del k) w = (ok, w') \<Longrightarrow> blobs st w' j = Some v \<Longrightarrow> blobs st w j = Some v"
  using del_result [of k w ok w'] by (auto split: if_splits)

end

lemma store_put_effect:
  assumes "run_state (store_put bk st k b) w = (ok, w')"
  shows "only_blobs w w' \<and> (if ok then b \<noteq> None \<and> blobs st w' = (blobs st w)(k := b)
     else blobs st w' \<in> {blobs st w, (blobs st w)(k := None)})"
  using assms
  by (cases bk) (auto simp: run_io_step run_update only_blobs_def split: if_splits)

lemma store_get_effect:
  assumes "run_state (store_get st k) w = (r, w')"
  shows "w' = tock w \<and> (r = None \<or> r = blobs st w k)"
  using assms by (auto simp: store_get_def run_io_step run_ask)

lemma store_delete_effect:
  assumes "run_state (store_delete st k) w = (ok, w')"
  shows "only_blobs w w' \<and> blobs st w' = (if ok then (blobs st w)(k := None) else blobs st w)"
  using assms by (auto simp: store_delete_def run_io_step run_update only_blobs_def split: if_splits)

interpretation bs: blob_store st "store_put bk st" "store_get st" "store_delete st" for st bk
proof
  fix k j :: string and b :: "string option" and w w' :: world and ok
  assume "run_state (store_put bk st k b) w = (ok, w')"
  note e = store_put_effect [OF this]
  from e show "only_blobs w w'" by simp
  assume "j \<noteq> k"
  with e show "blobs st w' j = blobs st w j" by (auto split: if_splits)
next
  fix k :: string and b :: "string option" and w w' :: world
  show "b \<noteq> None \<and> blobs st w' k = b" if "run_state (store_put bk st k b) w = (True, w')"
    using store_put_effect [OF that] by simp
  show "blobs st w' k \<in> {None, blobs st w k}" if "run_state (store_put bk st k b) w = (False, w')"
    using store_put_effect [OF that] by auto
next
  fix k :: string and w w' :: world and r v
  show "only_blobs w w' \<and> blobs st w' = blobs st w" if "run_state (store_get st k) w = (r, w')"
    using store_get_effect [OF that] by simp
  show "blobs st w k = Some v" if "run_state (store_get st k) w = (Some v, w')"
    using store_get_effect [OF that] by simp
next
  fix k :: string and w w' :: world and ok
  assume "run_state (store_delete st k) w = (ok, w')"
  from store_delete_effect [OF this]
  show "only_blobs w w'" "blobs st w' = (if ok then (blobs st w)(k := None) else blobs st w)" by simp_all
qed

text \<open>A clean-up touches blobs only, and stores nothing.\<close>

lemma delete_paths_effect:
  assumes "run_state (delete_paths st ps) w = ((), w')"
  shows "only_blobs w w' \<and> (\<forall>k. blobs st w' k \<in> {None, blobs st w k}) \<and>
    (\<forall>k. k \<notin> textOrEmpty ` set ps \<longrightarrow> blobs st w' k = blobs st w k)"
  using assms
proof (induction ps arbitrary: w)
  case (Cons p ps)
  show ?case
  proof (cases "textOrEmpty p = []")
    case True
    with Cons show ?thesis by auto
  next
    case False
    obtain ok w1 where d: "run_state (store_delete st (textOrEmpty p)) w = (ok, w1)" by fastforce
    with Cons.prems False have "run_state (delete_paths st ps) w1 = ((), w')" by simp
    from Cons.IH [OF this] store_delete_effect [OF d]
    show ?thesis by (auto intro: only_blobs_trans split: if_splits)
  qed
qed simp

end
