(* ===== verification/Account.thy ===== *)
theory Account
  imports Auth Reminder_Handlers Storage
begin

text \<open>
  Profile, password, account deletion and the verified change of the address:
  \<^verbatim>\<open>internal/server/profile.go\<close>, \<^verbatim>\<open>email_change.go\<close> and
  \<^verbatim>\<open>internal/account/account.go\<close>.
\<close>

section \<open>Profile\<close>

definition maxDisplayNameLen :: nat where "maxDisplayNameLen = 64"
definition maxBioBytes :: nat where "maxBioBytes = 2 * 1024"
definition maxAvatarURLBytes :: nat where "maxAvatarURLBytes = 512"

record public_profile =
  pf_id :: uuid
  pf_username :: string
  pf_display_name :: string
  pf_bio :: string
  pf_avatar_url :: string
  pf_created_at :: time

definition toPublicProfile :: "user \<Rightarrow> public_profile" where
  "toPublicProfile u = \<lparr>pf_id = u_id u, pf_username = u_username u,
     pf_display_name = textOrEmpty (u_display_name u), pf_bio = textOrEmpty (u_bio u),
     pf_avatar_url = textOrEmpty (u_avatar_url u), pf_created_at = u_created_at u\<rparr>"

definition handleGetProfile :: "string \<Rightarrow> public_profile resp act" where
  "handleGetProfile username = handle (GetUserByUsername username)
     (\<lambda>e. Fail 404 ''user not found'') (\<lambda>u. ret (Okay 200 (toPublicProfile u)))"

record update_profile_request =
  qpr_display_name :: "string option"
  qpr_bio :: "string option"
  qpr_avatar_url :: "string option"

definition check_profile :: "update_profile_request \<Rightarrow> 'v resp option" where
  "check_profile q =
     (if (case qpr_display_name q of None \<Rightarrow> False | Some s \<Rightarrow> length s > maxDisplayNameLen)
      then Some (Fail 400 ''display_name too long'')
      else if (case qpr_bio q of None \<Rightarrow> False | Some s \<Rightarrow> length s > maxBioBytes)
      then Some (Fail 400 ''bio too long'')
      else if (case qpr_avatar_url q of None \<Rightarrow> False | Some s \<Rightarrow> length (trim_space s) > maxAvatarURLBytes)
      then Some (Fail 400 ''avatar_url too long'')
      else None)"

definition handleUpdateProfile :: "user \<Rightarrow> update_profile_request option \<Rightarrow> public_profile resp act" where
  "handleUpdateProfile user body = (case body of
     None \<Rightarrow> ret (Fail 400 ''invalid json'')
   | Some q \<Rightarrow> (case check_profile q of
       Some f \<Rightarrow> ret f
     | None \<Rightarrow>
         handle (UpdateUser (qpr_display_name q) (qpr_bio q)
             (map_option trim_space (qpr_avatar_url q)) (u_id user))
           (\<lambda>e. Fail 500 ''update failed'') (\<lambda>u. ret (Okay 200 (toPublicProfile u)))))"

section \<open>Password\<close>

definition check_password ::
    "externals \<Rightarrow> user \<Rightarrow> string \<times> string \<Rightarrow> 'v resp option" where
  "check_password x user q = (case q of (current, new) \<Rightarrow>
     if length new < minPasswordLen then Some (Fail 400 ''password too short'')
     else case u_password_hash user of
       None \<Rightarrow> Some (Fail 400 ''account has no password set'')
     | Some h \<Rightarrow>
         if \<not> x_verify_password x h current then Some (Fail 401 ''current password incorrect'')
         else if new = current then Some (Fail 400 ''new password must differ from current'')
         else None)"

definition handleChangePassword ::
    "user \<Rightarrow> request \<Rightarrow> (string \<times> string) option \<Rightarrow> (string \<times> public_user) resp act" where
  "handleChangePassword user r body = (case body of
     None \<Rightarrow> ret (Fail 400 ''invalid json'')
   | Some q \<Rightarrow> do {
       x \<leftarrow> ask ext;
       (case check_password x user q of
          Some f \<Rightarrow> ret f
        | None \<Rightarrow> do {
            h \<leftarrow> HashPassword (snd q);
            (case h of
               None \<Rightarrow> ret (Fail 500 ''hash failed'')
             | Some hash \<Rightarrow>
                 handle (UpdateUserPassword (Some hash) (u_id user)) (\<lambda>e. Fail 500 ''update failed'') (\<lambda>_.
                 handle (DeleteSessionsForUser (u_id user)) (\<lambda>e. Fail 500 ''session rotate failed'') (\<lambda>_.
                   answer_session r 200 ''session rotate failed'' user))) }) })"

section \<open>Account deletion\<close>

fun exec_all :: "unit stmt list \<Rightarrow> unit stmt" where
  "exec_all [] = ret (Inr ())"
| "exec_all (s # ss) = do {
     r \<leftarrow> s;
     (case r of Inl e \<Rightarrow> ret (Inl e) | Inr _ \<Rightarrow> exec_all ss) }"

definition anonymize_stmts :: "uuid \<Rightarrow> unit stmt list" where
  "anonymize_stmts u = [DeleteSessionsForUser u, DeletePushDevicesForUser u,
     DeleteNotificationsForUser u, DeleteNotificationPrefsForUser u, DeleteUserPrefsForUser u,
     DeleteEmailChangeRequestsForUser u, DeleteUserExportsForUser u, DeleteAllInventoryForUser u,
     AnonymizeUser u]"

text \<open>The transaction answers the paths of the blobs to remove.\<close>

definition anonymize_tx :: "uuid \<Rightarrow> nulltext list stmt" where
  "anonymize_tx u = do {
     ps \<leftarrow> ListUserExportFilePathsForUser u;
     (case ps of
        Inl e \<Rightarrow> ret (Inl e)
      | Inr paths \<Rightarrow> do {
          r \<leftarrow> exec_all (anonymize_stmts u);
          (case r of
             Inl e \<Rightarrow> ret (Inl e)
           | Inr _ \<Rightarrow> do {
               c \<leftarrow> tx_commit;
               ret (case c of Inl e \<Rightarrow> Inl e | Inr _ \<Rightarrow> Inr paths) }) }) }"

definition Anonymize :: "uuid \<Rightarrow> unit stmt" where
  "Anonymize u = do {
     b \<leftarrow> tx_begin;
     (case b of
        Inl e \<Rightarrow> ret (Inl e)
      | Inr _ \<Rightarrow> do {
          r \<leftarrow> defer_rollback (anonymize_tx u);
          (case r of
             Inl e \<Rightarrow> ret (Inl e)
           | Inr paths \<Rightarrow> do { delete_paths Export_Store paths; ret (Inr ()) }) }) }"

definition handleDeleteAccount :: "user \<Rightarrow> string option \<Rightarrow> unit resp act" where
  "handleDeleteAccount user body =
     (if u_is_admin user then ret (Fail 403 ''admin must hand off role before deletion'')
      else case body of
        None \<Rightarrow> ret (Fail 400 ''invalid json'')
      | Some password \<Rightarrow> (case u_password_hash user of
          None \<Rightarrow> ret (Fail 400 ''account has no password set'')
        | Some h \<Rightarrow> do {
            x \<leftarrow> ask ext;
            (if \<not> x_verify_password x h password then ret (Fail 401 ''password incorrect'')
             else
               handle (CreateAccountDeletionRequest (u_id user)) (\<lambda>e. Fail 500 ''delete failed'') (\<lambda>_.
               handle (Anonymize (u_id user)) (\<lambda>e. Fail 500 ''delete failed'') (\<lambda>_.
                 ret (Okay 204 ())))) }))"

text \<open>
  \<^verbatim>\<open>zymo reprocess-deletions\<close>: after a restore, the recorded deletions are run again.
  A failure is counted and the next one tried; the answer is the count of failures.
\<close>

fun reprocess :: "deletion_request list \<Rightarrow> nat act" where
  "reprocess [] = ret 0"
| "reprocess (q # qs) = do {
     r \<leftarrow> Anonymize (adr_user q);
     n \<leftarrow> reprocess qs;
     ret (case r of Inl e \<Rightarrow> Suc n | Inr _ \<Rightarrow> n) }"

definition reprocessDeletions :: "nat stmt" where
  "reprocessDeletions = do {
     ps \<leftarrow> ListUnprocessedDeletionRequests;
     (case ps of
        Inl e \<Rightarrow> ret (Inl e)
      | Inr qs \<Rightarrow> do { n \<leftarrow> reprocess qs; ret (Inr n) }) }"

section \<open>Change of the address\<close>

definition emailChangeTTL :: time where "emailChangeTTL = 24 * 3600000000"

definition baseURL :: "config \<Rightarrow> request \<Rightarrow> string" where
  "baseURL cfg r = (if BaseURL cfg \<noteq> [] then BaseURL cfg
     else (if CookieSecure cfg then ''https'' else ''http'') @ ''://'' @ rq_host r)"

definition newline :: string where "newline = [char_of (10 :: nat)]"

definition confirm_mail :: "string \<Rightarrow> string \<Rightarrow> mail" where
  "confirm_mail addr url = \<lparr>ml_channel = Smtp_Relay, ml_to = addr,
     ml_subject = ''Confirm your new Zymo email'',
     ml_body = ''You (or someone using your Zymo account) asked to change this account'' @
       [char_of (39 :: nat)] @ ''s email to '' @ addr @ ''.'' @ newline @ newline @
       ''Confirm the change by opening this link:'' @ newline @ url @ newline @ newline @
       ''The link expires in 24 hours. If you didn'' @ [char_of (39 :: nat)] @
       ''t request this, you can ignore this email.'' @ newline, ml_path = []\<rparr>"

definition notice_mail :: "string \<Rightarrow> string \<Rightarrow> string \<Rightarrow> mail" where
  "notice_mail old addr url = \<lparr>ml_channel = Smtp_Relay, ml_to = old,
     ml_subject = ''Your Zymo email is being changed'',
     ml_body = ''A request was made to change your Zymo account email to '' @ addr @ ''.'' @ newline @
       newline @ ''The change won'' @ [char_of (39 :: nat)] @ ''t take effect until it'' @
       [char_of (39 :: nat)] @ ''s confirmed from the new address. If you didn'' @
       [char_of (39 :: nat)] @ ''t request this, cancel it immediately:'' @ newline @ url @ newline @
       newline @ ''This link expires in 24 hours.'' @ newline, ml_path = []\<rparr>"

definition check_new_email :: "externals \<Rightarrow> user \<Rightarrow> string \<Rightarrow> 'v resp option" where
  "check_new_email x user e =
     (if x_parse_mail x e \<noteq> Some e then Some (Fail 400 ''invalid email'')
      else if ci_eq e (u_email user) then Some (Fail 400 ''new email matches current email'')
      else None)"

definition check_current_password :: "externals \<Rightarrow> user \<Rightarrow> string \<Rightarrow> 'v resp option" where
  "check_current_password x user password = (case u_password_hash user of
     None \<Rightarrow> Some (Fail 400 ''account has no password set'')
   | Some h \<Rightarrow> if x_verify_password x h password then None
               else Some (Fail 401 ''current password incorrect''))"

abbreviation change_failed :: "'v resp" where
  "change_failed \<equiv> Fail 500 ''email change failed''"

text \<open>The links are mailed; a confirmation that cannot be sent takes the request back.\<close>

definition mail_links ::
    "string \<Rightarrow> user \<Rightarrow> string \<Rightarrow> email_change_request \<Rightarrow> string \<Rightarrow> string \<Rightarrow> string resp act" where
  "mail_links base user addr q confirm cancel = do {
     f \<leftarrow> deliver (confirm_mail addr (base @ ''/email/confirm?token='' @ confirm));
     (case f of
        Some msg \<Rightarrow> do {
          DeleteEmailChangeRequest (ec_id q);
          ret (Fail 502 msg) }
      | None \<Rightarrow> do {
          deliver (notice_mail (u_email user) addr (base @ ''/email/cancel?token='' @ cancel));
          ret (Okay 202 addr) }) }"

definition start_change :: "string \<Rightarrow> user \<Rightarrow> string \<Rightarrow> string resp act" where
  "start_change base user addr = do {
     c \<leftarrow> NewSessionToken;
     (case c of
        None \<Rightarrow> ret change_failed
      | Some (confirm, ch) \<Rightarrow> do {
          d \<leftarrow> NewSessionToken;
          (case d of
             None \<Rightarrow> ret change_failed
           | Some (cancel, dh) \<Rightarrow> do {
               now \<leftarrow> ask clock;
               handle (DeleteEmailChangeRequestsForUser (u_id user)) (\<lambda>e. change_failed) (\<lambda>_.
               handle (CreateEmailChangeRequest \<lparr>em_user = u_id user, em_new_email = addr,
                   em_old_email = u_email user, em_confirm_hash = ch, em_cancel_hash = dh,
                   em_expires_at = now + emailChangeTTL\<rparr>) (\<lambda>e. change_failed) (\<lambda>q.
                 mail_links base user addr q confirm cancel)) }) }) }"

definition handleChangeEmail ::
    "config \<Rightarrow> user \<Rightarrow> request \<Rightarrow> (string \<times> string) option \<Rightarrow> string resp act" where
  "handleChangeEmail cfg user r body =
     (if SMTPHost cfg = [] \<or> SMTPFrom cfg = [] then ret (Fail 503 ''smtp not configured on this instance'')
      else case body of
        None \<Rightarrow> ret (Fail 400 ''invalid json'')
      | Some (password, raw) \<Rightarrow> do {
          x \<leftarrow> ask ext;
          (case check_new_email x user (trim_space raw) of
             Some f \<Rightarrow> ret f
           | None \<Rightarrow> do {
               ok \<leftarrow> limiter_allow (x_uuid_text x (u_id user));
               (if \<not> ok then ret (Fail 429 ''too many email-change requests'')
                else case check_current_password x user password of
                  Some f \<Rightarrow> ret f
                | None \<Rightarrow> do {
                    t \<leftarrow> GetUserCredentialByEmail (trim_space raw);
                    (case t of
                       Inr _ \<Rightarrow> ret (Fail 409 ''email already taken'')
                     | Inl e \<Rightarrow>
                         if e \<noteq> NoRows then ret change_failed
                         else start_change (baseURL cfg r) user (trim_space raw)) }) }) })"

definition handleConfirmEmailChange :: "string option \<Rightarrow> public_user resp act" where
  "handleConfirmEmailChange body = (case body of
     None \<Rightarrow> ret (Fail 400 ''invalid json'')
   | Some token \<Rightarrow>
       if token = [] then ret (Fail 400 ''missing token'')
       else do {
         x \<leftarrow> ask ext;
         handle (GetEmailChangeRequestByConfirmHash (x_token_hash x token))
           (\<lambda>e. if e = NoRows then Fail 400 ''invalid or expired link'' else Fail 500 ''confirm failed'') (\<lambda>q.
         handle (UpdateUserEmail (ec_new_email q) (ec_user q))
           (\<lambda>e. if e = UniqueViolation then Fail 409 ''email already taken'' else Fail 500 ''confirm failed'') (\<lambda>u. do {
           DeleteEmailChangeRequest (ec_id q);
           ret (Okay 200 (toPublicUser u)) })) })"

definition handleCancelEmailChange :: "string option \<Rightarrow> unit resp act" where
  "handleCancelEmailChange body = (case body of
     None \<Rightarrow> ret (Fail 400 ''invalid json'')
   | Some token \<Rightarrow>
       if token = [] then ret (Fail 400 ''missing token'')
       else do {
         x \<leftarrow> ask ext;
         handle (GetEmailChangeRequestByCancelHash (x_token_hash x token))
           (\<lambda>e. if e = NoRows then Fail 400 ''invalid or expired link'' else Fail 500 ''cancel failed'') (\<lambda>q.
         handle (DeleteEmailChangeRequest (ec_id q)) (\<lambda>e. Fail 500 ''cancel failed'')
           (\<lambda>_. ret (Okay 200 ()))) })"

end
