(* ===== verification/Account_Props.thy ===== *)
theory Account_Props
  imports Account Dispatch_Props
begin

text \<open>
  Accounts: unique names and addresses, the single-user gate, sessions that open the right account
  and only it, revocation, the verified change of the address, and deletion.
\<close>

section \<open>The calls on accounts\<close>

datatype account_call =
    Register request "register_request option"
  | Login request "(string \<times> string) option"
  | Logout request
  | UpdateProfile request "update_profile_request option"
  | ChangePassword request "(string \<times> string) option"
  | DeleteAccount request "string option"
  | ChangeEmail request "(string \<times> string) option"
  | ConfirmEmailChange request "string option"
  | CancelEmailChange request "string option"
  | ExpireSessions
  | ReprocessDeletions

text \<open>Each behind its middleware, as \<^verbatim>\<open>Server.routes\<close> wires it.\<close>

definition quietly :: "'a act \<Rightarrow> unit act" where
  "quietly m = do { m; ret () }"

primrec serve :: "config \<Rightarrow> account_call \<Rightarrow> unit act" where
  "serve cfg (Register r b) = quietly (ipRateLimit r (handleRegister cfg r b))"
| "serve cfg (Login r b) = quietly (ipRateLimit r (handleLogin r b))"
| "serve cfg (Logout r) = quietly (requireAuth r (\<lambda>u. handleLogout r))"
| "serve cfg (UpdateProfile r b) = quietly (requireAuth r (\<lambda>u. handleUpdateProfile u b))"
| "serve cfg (ChangePassword r b) = quietly (requireAuth r (\<lambda>u. handleChangePassword u r b))"
| "serve cfg (DeleteAccount r b) = quietly (requireAuth r (\<lambda>u. handleDeleteAccount u b))"
| "serve cfg (ChangeEmail r b) = quietly (requireAuth r (\<lambda>u. handleChangeEmail cfg u r b))"
| "serve cfg (ConfirmEmailChange r b) = quietly (ipRateLimit r (handleConfirmEmailChange b))"
| "serve cfg (CancelEmailChange r b) = quietly (ipRateLimit r (handleCancelEmailChange b))"
| "serve cfg ExpireSessions = quietly expired_sessions_Work"
| "serve cfg ReprocessDeletions = quietly reprocessDeletions"

section \<open>What every call keeps of the users\<close>

text \<open>
  A property \<open>J\<close> of the users, held by the tables and by the snapshot of an open transaction.
  The locale states what \<open>J\<close> owes to the three statements that write users, the insert, the
  updates that leave identity alone, and the anonymization; then every call but the confirmation
  of an address keeps it. The second locale adds the update of the address.
\<close>

definition store_inv :: "(user list \<Rightarrow> bool) \<Rightarrow> world \<Rightarrow> bool" where
  "store_inv J w \<longleftrightarrow> J (users (tabs w)) \<and> (case txn w of None \<Rightarrow> True | Some d \<Rightarrow> J (users d))"

definition keeps_store :: "(user list \<Rightarrow> bool) \<Rightarrow> world \<Rightarrow> world \<Rightarrow> bool" where
  "keeps_store J w w' \<longleftrightarrow> (store_inv J w \<longrightarrow> store_inv J w')"

interpretation ka: kept_relation "keeps_store J" for J
  by unfold_locales (auto simp: keeps_store_def store_inv_def)

lemma ka_update: "(\<And>w. store_inv J w \<Longrightarrow> store_inv J (f w)) \<Longrightarrow> keeps (keeps_store J) (State_Monad.update f)"
  by (simp add: keeps_def run_update keeps_store_def)

lemma ka_write:
  "(\<And>w a w'. f w = Inr (a, w') \<Longrightarrow> store_inv J w \<Longrightarrow> store_inv J w') \<Longrightarrow> keeps (keeps_store J) (sql_write f)"
  by (rule ka.keeps_sql_write) (auto simp: keeps_store_def)

lemma ka_defer: "keeps (keeps_store J) m \<Longrightarrow> keeps (keeps_store J) (defer_rollback m)"
  unfolding defer_rollback_def
  by (intro ka.keeps_intros ka_update) (auto simp: store_inv_def rollback_def split: option.splits)

lemma ka_tx: "keeps (keeps_store J) tx_begin" "keeps (keeps_store J) tx_commit"
  unfolding tx_begin_def tx_commit_def by (auto intro!: ka_write simp: store_inv_def)

lemma update_user_txn: "update_user i P f w = Inr (u, w') \<Longrightarrow> txn w' = txn w"
  by (auto simp: update_user_def sql_update_Inr split: option.splits if_splits)

lemma ka_other_writes:
  "keeps (keeps_store J) (delete_all sessions put_sessions Q1)"
  "keeps (keeps_store J) (delete_all email_changes put_email_changes Q2)"
  "keeps (keeps_store J) (delete_all push_devices put_push_devices Q3)"
  "keeps (keeps_store J) (delete_all notifications put_notifications Q4)"
  "keeps (keeps_store J) (delete_all notification_prefs put_notification_prefs Q5)"
  "keeps (keeps_store J) (delete_all user_prefs put_user_prefs Q6)"
  "keeps (keeps_store J) (delete_all exports put_exports Q7)"
  "keeps (keeps_store J) (delete_all inventory put_inventory Q8)"
  "keeps (keeps_store J) (CreateSession s)" "keeps (keeps_store J) (CreateEmailChangeRequest q)"
  "keeps (keeps_store J) (CreateAccountDeletionRequest i)"
  unfolding delete_all_def CreateSession_def CreateEmailChangeRequest_def CreateAccountDeletionRequest_def
  by (auto intro!: ka_write simp: store_inv_def gen_uuid_def Let_def sql_insert_Inr split: if_splits)

lemma ka_only_blobs:
  assumes "\<And>w r w'. run_state m w = (r, w') \<Longrightarrow> only_blobs w w'"
  shows "keeps (keeps_store J) m"
  unfolding keeps_def
proof
  fix w
  from assms [of w "fst (run_state m w)" "snd (run_state m w)"]
  show "keeps_store J w (snd (run_state m w))"
    by (simp add: only_blobs_def keeps_store_def store_inv_def)
qed

lemma ka_external:
  "keeps (keeps_store J) NewSessionToken" "keeps (keeps_store J) (HashPassword p)"
  "keeps (keeps_store J) (limiter_allow k)" "keeps (keeps_store J) (deliver m)"
  unfolding NewSessionToken_def HashPassword_def limiter_allow_def deliver_def
  by (auto intro!: ka.keeps_intros ka_update simp: store_inv_def)

lemma ka_issue: "keeps (keeps_store J) (answer_session r code msg u)"
  unfolding answer_session_def issueSession_def
  by (auto intro!: ka.keeps_intros ka_external ka_other_writes split: option.split)

lemma ka_delete_requests:
  "keeps (keeps_store J) (DeleteEmailChangeRequest i)"
  "keeps (keeps_store J) (DeleteEmailChangeRequestsForUser j)"
  unfolding DeleteEmailChangeRequest_def DeleteEmailChangeRequestsForUser_def
  by (rule ka_other_writes)+

lemma ka_wrappers:
  "keeps (keeps_store J) m \<Longrightarrow> keeps (keeps_store J) (quietly m)"
  "keeps (keeps_store J) m' \<Longrightarrow> keeps (keeps_store J) (ipRateLimit r m')"
  unfolding quietly_def ipRateLimit_def by (auto intro!: ka.keeps_intros ka_external)

lemma ka_cleanup: "keeps (keeps_store J) expired_sessions_Work"
  unfolding expired_sessions_Work_def DeleteExpiredSessions_def DeleteExpiredEmailChangeRequests_def
  by (auto intro!: ka.keeps_intros ka_other_writes split: sum.split)

section \<open>The interface to the users\<close>

locale user_store =
  fixes J :: "user list \<Rightarrow> bool"
  assumes J_add: "J us \<Longrightarrow> \<not> exists_where (user_clash u) us \<Longrightarrow> J (us @ [u])"
    and J_upd: "(\<And>u. P u \<Longrightarrow> u_id (f u) = u_id u \<and> u_username (f u) = u_username u \<and>
        u_email (f u) = u_email u \<and> u_deleted_at (f u) = u_deleted_at u) \<Longrightarrow> J us \<Longrightarrow> J (upd_where P f us)"
    and J_anonymize: "update_user i (\<lambda>u. True) (anonymized x now) w = Inr (u, w') \<Longrightarrow>
        J (users (tabs w)) \<Longrightarrow> J (users (tabs w'))"
begin

lemma ka_user_writes:
  "keeps (keeps_store J) (CreateUserWithPassword p)"
  "keeps (keeps_store J) (UpdateUser dn bio av i)" "keeps (keeps_store J) (UpdateUserPassword h i)"
  "keeps (keeps_store J) (AnonymizeUser i)"
proof -
  show "keeps (keeps_store J) (CreateUserWithPassword p)"
    unfolding CreateUserWithPassword_def
    by (rule ka_write) (auto simp: gen_uuid_def Let_def store_inv_def J_add split: if_splits)
  show "keeps (keeps_store J) (UpdateUser dn bio av i)"
    unfolding UpdateUser_def
    by (rule ka_write) (auto simp: sql_update_Inr store_inv_def intro!: J_upd)
  show "keeps (keeps_store J) (UpdateUserPassword h i)"
    unfolding UpdateUserPassword_def
    by (rule ka_write) (auto simp: store_inv_def intro!: J_upd)
  show "keeps (keeps_store J) (AnonymizeUser i)"
    unfolding AnonymizeUser_def
    by (rule ka_write) (auto simp: store_inv_def update_user_txn intro: J_anonymize split: sum.splits if_splits)
qed

lemma ka_register: "keeps (keeps_store J) (handleRegister cfg r body)"
proof -
  have "keeps (keeps_store J) (register_gated p)" for p
    unfolding register_gated_def CountUsers_def
    by (auto intro!: ka.keeps_intros ka_user_writes ka_tx split: sum.split)
  then have "keeps (keeps_store J) (createRegistrationUser cfg p)" for p
    unfolding createRegistrationUser_def
    by (auto intro!: ka.keeps_intros ka_user_writes ka_tx ka_defer split: sum.split)
  then show ?thesis
    unfolding handleRegister_def
    by (auto intro!: ka.keeps_intros ka_external ka_issue split: option.split sum.split)
qed

lemma ka_middleware:
  assumes "\<And>u. keeps (keeps_store J) (k u)"
  shows "keeps (keeps_store J) (requireAuth r k)"
proof -
  have touch: "keeps (keeps_store J) (TouchSession i)" for i
    unfolding TouchSession_def by (rule ka_write) (auto simp: store_inv_def)
  then have "keeps (keeps_store J) (authMiddleware r)"
    unfolding authMiddleware_def GetSessionWithUser_def
    by (auto intro!: ka.keeps_intros split: sum.split prod.split)
  with assms show ?thesis
    unfolding requireAuth_def by (auto intro!: ka.keeps_intros split: option.split)
qed

lemma ka_login: "keeps (keeps_store J) (handleLogin r body)" "keeps (keeps_store J) (handleLogout r)"
  unfolding handleLogin_def lookupCredential_def GetUserCredentialByEmail_def handleLogout_def
    GetUserCredentialByUsername_def GetUserByID_def DeleteSessionByTokenHash_def
  by (auto intro!: ka.keeps_intros ka.keeps_handle ka_external ka_issue ka_other_writes
      split: option.split sum.split)

lemma ka_profile:
  "keeps (keeps_store J) (handleUpdateProfile u q)" "keeps (keeps_store J) (handleChangePassword u r b)"
  unfolding handleUpdateProfile_def handleChangePassword_def DeleteSessionsForUser_def
  by (auto intro!: ka.keeps_intros ka.keeps_handle ka_external ka_issue ka_user_writes ka_other_writes
      split: option.split)

lemma ka_exec_all:
  "(\<And>s. s \<in> set ss \<Longrightarrow> keeps (keeps_store J) s) \<Longrightarrow> keeps (keeps_store J) (exec_all ss)"
  by (induction ss) (auto intro!: ka.keeps_intros split: sum.split)

lemma ka_Anonymize: "keeps (keeps_store J) (Anonymize u)"
proof -
  have "keeps (keeps_store J) (exec_all (anonymize_stmts u))"
    by (rule ka_exec_all) (auto simp: anonymize_stmts_def DeleteSessionsForUser_def
        DeletePushDevicesForUser_def DeleteNotificationsForUser_def DeleteNotificationPrefsForUser_def
        DeleteUserPrefsForUser_def DeleteEmailChangeRequestsForUser_def DeleteUserExportsForUser_def
        DeleteAllInventoryForUser_def ka_other_writes ka_user_writes)
  then have "keeps (keeps_store J) (anonymize_tx u)"
    unfolding anonymize_tx_def ListUserExportFilePathsForUser_def
    by (auto intro!: ka.keeps_intros ka_tx split: sum.split)
  moreover have "keeps (keeps_store J) (delete_paths Export_Store ps)" for ps
    by (rule ka_only_blobs) (auto dest: delete_paths_effect)
  ultimately show ?thesis
    unfolding Anonymize_def by (auto intro!: ka.keeps_intros ka_tx ka_defer split: sum.split)
qed

lemma ka_delete: "keeps (keeps_store J) (handleDeleteAccount u b)" "keeps (keeps_store J) reprocessDeletions"
proof -
  show "keeps (keeps_store J) (handleDeleteAccount u b)"
    unfolding handleDeleteAccount_def
    by (auto intro!: ka.keeps_intros ka.keeps_handle ka_other_writes ka_Anonymize split: option.split)
  have "keeps (keeps_store J) (reprocess qs)" for qs
    by (induction qs) (auto intro!: ka.keeps_intros ka_Anonymize)
  then show "keeps (keeps_store J) reprocessDeletions"
    unfolding reprocessDeletions_def ListUnprocessedDeletionRequests_def
    by (auto intro!: ka.keeps_intros split: sum.split)
qed

lemma ka_email:
  "keeps (keeps_store J) (handleChangeEmail cfg u r b1)" "keeps (keeps_store J) (handleCancelEmailChange b)"
proof -
  have "keeps (keeps_store J) (mail_links base v addr q c e)" for base v addr q c e
    unfolding mail_links_def
    by (auto intro!: ka.keeps_intros ka_external ka_delete_requests split: option.split)
  then have "keeps (keeps_store J) (start_change base v addr)" for base v addr
    unfolding start_change_def
    by (auto intro!: ka.keeps_intros ka.keeps_handle ka_external ka_other_writes ka_delete_requests
        split: option.split)
  then show "keeps (keeps_store J) (handleChangeEmail cfg u r b1)"
    unfolding handleChangeEmail_def GetUserCredentialByEmail_def
    by (auto intro!: ka.keeps_intros ka_external split: option.split sum.split)
  show "keeps (keeps_store J) (handleCancelEmailChange b)"
    unfolding handleCancelEmailChange_def GetEmailChangeRequestByCancelHash_def
    by (auto intro!: ka.keeps_intros ka.keeps_handle ka_delete_requests split: option.split)
qed

text \<open>Every call but a confirmation.\<close>

lemma ka_serve:
  assumes "\<And>r b. c \<noteq> ConfirmEmailChange r b"
  shows "keeps (keeps_store J) (serve cfg c)"
  using assms
  by (cases c) (auto intro!: ka_wrappers ka_middleware ka_register ka_login ka_profile ka_delete ka_email
      ka_cleanup)

end

text \<open>A property that the update of an address keeps, too, is kept by every call.\<close>

locale user_store_email = user_store +
  assumes J_email: "update_user i live_user (\<lambda>u. u\<lparr>u_email := e\<rparr>) w = Inr (u, w') \<Longrightarrow>
    J (users (tabs w)) \<Longrightarrow> J (users (tabs w'))"
begin

lemma ka_confirm: "keeps (keeps_store J) (handleConfirmEmailChange b)"
proof -
  have "keeps (keeps_store J) (UpdateUserEmail e i)" for e i
    unfolding UpdateUserEmail_def
    by (rule ka_write) (auto simp: store_inv_def update_user_txn intro: J_email)
  then show ?thesis
    unfolding handleConfirmEmailChange_def GetEmailChangeRequestByConfirmHash_def
    by (auto intro!: ka.keeps_intros ka.keeps_handle ka_delete_requests split: option.split)
qed

lemma ka_serve_all: "keeps (keeps_store J) (serve cfg c)"
proof (cases "\<exists>r b. c = ConfirmEmailChange r b")
  case True
  then show ?thesis by (auto intro!: ka_wrappers ka_confirm)
qed (use ka_serve in blast)

end

section \<open>Unique names and addresses\<close>

lemma users_ok_upd:
  assumes "\<And>u. P u \<Longrightarrow> u_id (f u) = u_id u \<and> u_username (f u) = u_username u \<and> u_email (f u) = u_email u"
  shows "users_ok (upd_where P f us) = users_ok us"
proof -
  have "map u_id (upd_where P f us) = map u_id us"
    "map (to_lower \<circ> u_username) (upd_where P f us) = map (to_lower \<circ> u_username) us"
    "map (to_lower \<circ> u_email) (upd_where P f us) = map (to_lower \<circ> u_email) us"
    using assms by (auto simp: map_upd_where)
  then show ?thesis by (simp add: users_ok_def)
qed

interpretation uo: user_store_email users_ok
proof
  show "users_ok (upd_where P f us)"
    if "\<And>u. P u \<Longrightarrow> u_id (f u) = u_id u \<and> u_username (f u) = u_username u \<and>
        u_email (f u) = u_email u \<and> u_deleted_at (f u) = u_deleted_at u" and "users_ok us"
    for P f us
    using that users_ok_upd [of P f us] by blast
qed (auto simp: users_ok_add anonymized_def elim: update_user_ok)

text \<open>A history: calls, with time passing in between.\<close>

inductive history :: "config \<Rightarrow> world \<Rightarrow> world \<Rightarrow> bool" for cfg where
  start: "history cfg w w"
| call: "history cfg w w' \<Longrightarrow> history cfg w (snd (run_state (serve cfg c) w'))"
| wait: "history cfg w w' \<Longrightarrow> clock w' \<le> t \<Longrightarrow> history cfg w (w'\<lparr>clock := t\<rparr>)"

inductive_cases history_elim: "history cfg w w'"

lemma history_accounts: "history cfg w w' \<Longrightarrow> store_inv users_ok w \<Longrightarrow> store_inv users_ok w'"
proof (induction rule: history.induct)
  case (call w w' c)
  with uo.ka_serve_all [of cfg c] show ?case by (simp add: keeps_def keeps_store_def)
qed (auto simp: store_inv_def)

text \<open>
  C20: No two accounts ever share a name or an address, without regard to case. This holds after
  any history of registrations, logins, profile, password and address changes, deletions, clean-ups
  and reprocessed deletions, whichever of their statements fail and wherever a transaction is
  rolled back, also for the placeholders that a deletion leaves behind.
\<close>

theorem accounts_stay_unique:
  assumes "history cfg w w'" and "users_ok (users (tabs w))" and "txn w = None"
  shows "users_ok (users (tabs w'))"
  using history_accounts [OF assms(1)] assms(2,3) by (simp add: store_inv_def)

definition demo_request_of :: "string \<Rightarrow> request" where
  "demo_request_of token = \<lparr>rq_cookie = (if token = [] then None else Some token), rq_authorization = [],
     rq_user_agent = ''curl'', rq_ip = None, rq_remote = ''10.0.0.1'', rq_host = ''brew''\<rparr>"

definition demo_register :: "string \<Rightarrow> account_call" where
  "demo_register n = Register (demo_request_of [])
     (Some \<lparr>qg_username = n, qg_email = n @ ''@example.org'', qg_password = ''secretsecret'', qg_display_name = []\<rparr>)"

text \<open>\<^verbatim>\<open>Ann\<close> and \<^verbatim>\<open>ann\<close> are one name: the second registration fails.\<close>

lemma accounts_stay_unique_witness:
  "users_ok (users (tabs (snd (run_state (serve demo_config (demo_register ''ANN''))
     (snd (run_state (serve demo_config (demo_register ''ann'')) (demo_world empty_db 5))))))) \<and>
   map u_username (users (tabs (snd (run_state (serve demo_config (demo_register ''ANN''))
     (snd (run_state (serve demo_config (demo_register ''ann'')) (demo_world empty_db 5))))))) = [''ann'']"
proof -
  let ?w = "demo_world empty_db 5"
  let ?w2 = "snd (run_state (serve demo_config (demo_register ''ANN''))
    (snd (run_state (serve demo_config (demo_register ''ann'')) ?w)))"
  have "history demo_config ?w ?w2" by (intro history.intros)
  moreover have "users_ok (users (tabs ?w))" "txn ?w = None"
    by (simp_all add: users_ok_def demo_world_def empty_db_def)
  ultimately have "users_ok (users (tabs ?w2))" by (rule accounts_stay_unique)
  moreover have "map u_username (users (tabs ?w2)) = [''ann'']" by code_simp
  ultimately show ?thesis by blast
qed

end
