(* ===== verification/Session_Props.thy ===== *)
theory Session_Props
  imports Account_Props
begin

text \<open>
  Sessions: what a login opens and for how long, what ends it, who can become administrator, and
  that an address changes only with the confirmation token.
\<close>

section \<open>Login\<close>

lemma run_external:
  "run_state NewSessionToken w =
     (map_option (\<lambda>raw. (raw, x_token_hash (ext w) raw)) (x_token (ext w) (tick w)), tock w)"
  "run_state (HashPassword p) w = (x_hash_password (ext w) (tick w) p, tock w)"
  "run_state (limiter_allow k) w = (x_allow (ext w) (tick w) k, tock w)"
  by (simp_all add: NewSessionToken_def HashPassword_def limiter_allow_def run_ask run_update)

definition new_session :: "world \<Rightarrow> request \<Rightarrow> uuid \<Rightarrow> string \<Rightarrow> session \<Rightarrow> bool" where
  "new_session w r u tok s \<longleftrightarrow> s_user s = u \<and> s_token_hash s = x_token_hash (ext w) tok \<and>
     s_expires_at s = clock w + sessionDuration \<and> s_last_seen_at s = clock w \<and>
     s_user_agent s = optText (rq_user_agent r) \<and> s_ip s = rq_ip r \<and>
     (\<forall>t\<in>set (sessions (tabs w)). s_token_hash t \<noteq> s_token_hash s)"

text \<open>A session that is issued is one more row, and nothing else.\<close>

lemma answer_session_Okay:
  assumes "run_state (answer_session r code msg u) w = (Okay c (tok, pu), w')"
  shows "c = code \<and> pu = toPublicUser u \<and> ext w' = ext w \<and> clock w' = clock w \<and> txn w' = txn w \<and>
    (\<exists>s. tabs w' = (tabs w)\<lparr>sessions := sessions (tabs w) @ [s]\<rparr> \<and> new_session w r (u_id u) tok s)"
  using assms
  by (auto simp: answer_session_def issueSession_def run_external run_ask CreateSession_def run_sql_write
      gen_uuid_def Let_def new_session_def exists_where_iff
      split: option.splits outcome.splits if_splits prod.splits)

lemma find_live_user:
  assumes "users_ok us" and "u \<in> set us" and "live_user u"
  shows "find_where (\<lambda>v. u_id v = u_id u \<and> live_user v) us = Some u"
  using assms by (intro find_where_unique [where k = u_id]) (auto simp: users_ok_def)

definition login_name :: "string \<Rightarrow> user \<Rightarrow> string" where
  "login_name ident u = (if contains_char (CHR ''@'') ident then u_email u else u_username u)"

lemma lookupCredential_Some:
  assumes "run_state (lookupCredential ident) w = (Some (i, h), w')"
  shows "w' = tock w \<and> (\<exists>u\<in>set (users (tabs w)). live_user u \<and> ci_eq (login_name ident u) ident \<and>
    u_id u = i \<and> u_password_hash u = h)"
  using assms
  by (auto simp: lookupCredential_def GetUserCredentialByEmail_def GetUserCredentialByUsername_def
      run_sql_read one_def login_name_def split: if_splits outcome.splits option.splits sum.splits
      dest!: find_where_Some)

text \<open>The account a successful login opened.\<close>

lemma login_Okay:
  assumes "run_state (handleLogin r (Some (ident, pw))) w = (Okay c (tok, pu), w')"
    and "users_ok (users (tabs w))"
  shows "\<exists>u h s. u \<in> set (users (tabs w)) \<and> live_user u \<and> ci_eq (login_name ident u) ident \<and>
    u_password_hash u = Some h \<and> x_verify_password (ext w) h pw \<and> pu = toPublicUser u \<and>
    new_session w r (u_id u) tok s \<and> ext w' = ext w \<and> clock w' = clock w \<and>
    tabs w' = (tabs w)\<lparr>sessions := sessions (tabs w) @ [s]\<rparr>"
proof -
  obtain ok w1 where l: "run_state (if ident \<noteq> [] then limiter_allow (to_lower ident) else ret True) w = (ok, w1)"
    and w1: "tabs w1 = tabs w" "ext w1 = ext w" "clock w1 = clock w"
    by (cases "ident = []") (auto simp: run_external)
  obtain cred w2 where c: "run_state (lookupCredential ident) w1 = (cred, w2)" by fastforce
  from assms(1) l have ok: ok by (cases ok) (auto simp: handleLogin_def)
  with assms(1) l c obtain i where v: "verified (ext w2) pw cred = Some i"
    by (cases "verified (ext w2) pw cred") (auto simp: handleLogin_def run_ask)
  then obtain h where h: "cred = Some (i, Some h)" "x_verify_password (ext w2) h pw"
    by (auto simp: verified_def split: option.splits if_splits)
  from lookupCredential_Some [of ident w1 i "Some h" w2] c h(1) obtain u where w2: "w2 = tock w1" and
    u: "u \<in> set (users (tabs w))" "live_user u" "ci_eq (login_name ident u) ident" "u_id u = i"
    "u_password_hash u = Some h" using w1 by auto
  have f: "find_where (\<lambda>v. u_id v = i \<and> live_user v) (users (tabs w)) = Some u"
    using find_live_user [OF assms(2) u(1,2)] u(4) by simp
  from assms(1) l ok c v w2 w1 f
  have a: "run_state (answer_session r 200 ''session create failed'' u) (tock w2) = (Okay c (tok, pu), w')"
    by (auto simp: handleLogin_def run_ask run_handle GetUserByID_def run_sql_read one_def
        split: outcome.splits)
  from answer_session_Okay [OF a] obtain s where s: "new_session (tock w2) r (u_id u) tok s"
    "tabs w' = (tabs w)\<lparr>sessions := sessions (tabs w) @ [s]\<rparr>" "pu = toPublicUser u"
    "ext w' = ext w" "clock w' = clock w"
    using w1 w2 by auto
  moreover from s(1) have "new_session w r (u_id u) tok s" using w1 w2 by (auto simp: new_session_def)
  moreover have "x_verify_password (ext w) h pw" using h(2) w1 w2 by simp
  ultimately show ?thesis using u by blast
qed

text \<open>A session that was added opens its account, while it lasts.\<close>

lemma session_of_new:
  assumes "new_session w r (u_id u) tok s" and "users_ok (users (tabs w))"
    and "u \<in> set (users (tabs w))" and "live_user u" and "t < clock w + sessionDuration"
  shows "session_of t (x_token_hash (ext w) tok) ((tabs w)\<lparr>sessions := sessions (tabs w) @ [s]\<rparr>) = Some (s, u)"
proof -
  have "find_where (\<lambda>q. s_token_hash q = x_token_hash (ext w) tok \<and> t < s_expires_at q) (sessions (tabs w)) = None"
    using assms(1) by (auto simp: find_where_None new_session_def)
  moreover have "s_token_hash s = x_token_hash (ext w) tok" "t < s_expires_at s" "s_user s = u_id u"
    using assms(1,5) by (auto simp: new_session_def)
  ultimately show ?thesis
    using find_live_user [OF assms(2-4)] by (simp add: session_of_def find_where_append)
qed

lemma authMiddleware_session:
  assumes "session_of (clock w) (x_token_hash (ext w) (extractToken r)) (tabs w) = Some (s, u)"
    and "extractToken r \<noteq> []" and "x_avail (ext w) (tick w) = Up"
  shows "fst (run_state (authMiddleware r) w) = Some u"
  using assms
  by (auto simp: authMiddleware_def run_ask GetSessionWithUser_def run_sql_read one_def split: prod.splits)

text \<open>
  C21: A login opens the right account, and its token opens it again. The identifier named a live
  account, by address if it has an at sign and else by name, without regard to case; the password
  verified against the hash of that very account; and for the thirty days that follow, a request
  that carries the token, in the cookie or the header, is taken for this user. Nothing else
  changes than that one session is added.
\<close>

theorem login_opens_account:
  assumes "run_state (handleLogin r (Some (ident, pw))) w = (Okay c (tok, pu), w')"
    and "users_ok (users (tabs w))" and "tok \<noteq> []"
    and "extractToken r' = tok" and "t < clock w + sessionDuration"
    and "x_avail (ext w) (tick w') = Up"
  shows "\<exists>u h s. u \<in> set (users (tabs w)) \<and> live_user u \<and> ci_eq (login_name ident u) ident \<and>
    u_password_hash u = Some h \<and> x_verify_password (ext w) h pw \<and>
    tabs w' = (tabs w)\<lparr>sessions := sessions (tabs w) @ [s]\<rparr> \<and>
    fst (run_state (authMiddleware r') (w'\<lparr>clock := t\<rparr>)) = Some u"
proof -
  from login_Okay [OF assms(1,2)] obtain u h s where
    u: "u \<in> set (users (tabs w))" "live_user u" "ci_eq (login_name ident u) ident"
       "u_password_hash u = Some h" "x_verify_password (ext w) h pw" and
    s: "new_session w r (u_id u) tok s" "ext w' = ext w"
       "tabs w' = (tabs w)\<lparr>sessions := sessions (tabs w) @ [s]\<rparr>" by blast
  have "session_of t (x_token_hash (ext w) tok) (tabs w') = Some (s, u)"
    unfolding s(3) by (rule session_of_new [OF s(1) assms(2) u(1,2) assms(5)])
  then have "fst (run_state (authMiddleware r') (w'\<lparr>clock := t\<rparr>)) = Some u"
    using assms(3,4,6) s(2) by (intro authMiddleware_session) simp_all
  with u s(3) show ?thesis by blast
qed

definition demo_db :: db where
  "demo_db = empty_db\<lparr>users := [demo_user 1 ''ann'', demo_user 2 ''bob'']\<rparr>"

lemma demo_db_ok: "users_ok (users demo_db)"
  by (simp add: users_ok_def demo_db_def demo_user_def to_lower_def lower_char_def)

text \<open>Ann logs in as \<^verbatim>\<open>ANN\<close> and is known by her cookie later.\<close>

lemma login_opens_account_witness:
  "\<exists>u. u \<in> set (users demo_db) \<and> ci_eq (u_username u) ''ANN'' \<and>
     fst (run_state (authMiddleware (demo_request_of ''ttt''))
       ((snd (run_state (handleLogin (demo_request_of []) (Some (''ANN'', ''secret'')))
          (demo_world demo_db 5)))\<lparr>clock := 99\<rparr>)) = Some u"
proof -
  let ?w = "demo_world demo_db 5"
  let ?r = "run_state (handleLogin (demo_request_of []) (Some (''ANN'', ''secret''))) ?w"
  have "fst ?r = Okay 200 (''ttt'', toPublicUser (demo_user 1 ''ann''))" by code_simp
  then have r: "?r = (Okay 200 (''ttt'', toPublicUser (demo_user 1 ''ann'')), snd ?r)"
    by (metis prod.collapse)
  have "users_ok (users (tabs ?w))" "extractToken (demo_request_of ''ttt'') = ''ttt''"
    "99 < clock ?w + sessionDuration" "x_avail (ext ?w) (tick (snd ?r)) = Up" "tabs ?w = demo_db"
    using demo_db_ok by (simp_all add: demo_world_def demo_ext_def extractToken_def demo_request_of_def sessionDuration_def)
  with login_opens_account [OF r, of "demo_request_of ''ttt''" 99] show ?thesis
    by (fastforce simp: login_name_def contains_char_def)
qed

section \<open>What ends a session\<close>

text \<open>
  C22: A changed password ends every session but the caller's new one. If the answer is a success,
  the current password had verified, the new one is at least eight characters and different, its
  hash is saved, and the one session left of the account is the one of the new token; the sessions
  of other accounts stay as they were.
\<close>

theorem password_change_revokes:
  assumes "run_state (handleChangePassword user r (Some (current, new))) w = (Okay c (tok, pu), w')"
  shows "(\<exists>h hash. u_password_hash user = Some h \<and> x_verify_password (ext w) h current \<and>
       minPasswordLen \<le> length new \<and> new \<noteq> current \<and>
       x_hash_password (ext w) (tick w) new = Some hash \<and>
       users (tabs w') = upd_where (\<lambda>u. u_id u = u_id user \<and> live_user u)
         (\<lambda>u. u\<lparr>u_password_hash := Some hash\<rparr>) (users (tabs w))) \<and>
    map s_token_hash (filter (\<lambda>s. s_user s = u_id user) (sessions (tabs w'))) = [x_token_hash (ext w) tok] \<and>
    filter (\<lambda>s. s_user s \<noteq> u_id user) (sessions (tabs w')) =
      filter (\<lambda>s. s_user s \<noteq> u_id user) (sessions (tabs w))"
proof -
  from assms obtain h hash where h: "u_password_hash user = Some h" "x_verify_password (ext w) h current"
      "minPasswordLen \<le> length new" "new \<noteq> current" "x_hash_password (ext w) (tick w) new = Some hash"
    by (auto simp: handleChangePassword_def run_ask run_external check_password_def
        split: option.splits if_splits)
  let ?us = "upd_where (\<lambda>u. u_id u = u_id user \<and> live_user u) (\<lambda>u. u\<lparr>u_password_hash := Some hash\<rparr>) (users (tabs w))"
  let ?ss = "del_where (\<lambda>s. s_user s = u_id user) (sessions (tabs w))"
  define v where "v = set_tabs ((tabs w)\<lparr>users := ?us, sessions := ?ss\<rparr>)
    (tock (set_tabs ((tabs w)\<lparr>users := ?us\<rparr>) (tock (tock w))))"
  have "run_state (answer_session r 200 ''session rotate failed'' user) v = (Okay c (tok, pu), w')"
    using assms h unfolding v_def
    by (auto simp: handleChangePassword_def run_ask run_external check_password_def run_handle
        UpdateUserPassword_def DeleteSessionsForUser_def delete_all_def run_sql_write
        split: outcome.splits if_splits)
  then have v: "ext v = ext w" "tabs v = (tabs w)\<lparr>users := ?us, sessions := ?ss\<rparr>"
      "run_state (answer_session r 200 ''session rotate failed'' user) v = (Okay c (tok, pu), w')"
    by (simp_all add: v_def)
  from answer_session_Okay [OF v(3)] obtain s where s: "new_session v r (u_id user) tok s"
    "tabs w' = (tabs v)\<lparr>sessions := sessions (tabs v) @ [s]\<rparr>" by blast
  have "s_user s = u_id user" "s_token_hash s = x_token_hash (ext w) tok"
    using s(1) v(1) by (auto simp: new_session_def)
  then have "map s_token_hash (filter (\<lambda>s. s_user s = u_id user) (sessions (tabs w'))) = [x_token_hash (ext w) tok]"
    "filter (\<lambda>s. s_user s \<noteq> u_id user) (sessions (tabs w')) = filter (\<lambda>s. s_user s \<noteq> u_id user) (sessions (tabs w))"
    by (simp_all add: s(2) v(2) del_where_def)
  moreover have "users (tabs w') = ?us" by (simp add: s(2) v(2))
  ultimately show ?thesis using h by blast
qed

definition demo_session :: "uuid \<Rightarrow> uuid \<Rightarrow> string \<Rightarrow> session" where
  "demo_session i u tok = \<lparr>s_id = i, s_user = u, s_token_hash = CHR ''h'' # tok, s_user_agent = None,
     s_ip = None, s_created_at = 0, s_last_seen_at = 0, s_expires_at = 1000\<rparr>"

text \<open>Ann's stolen session and her own are gone, Bob's is not.\<close>

lemma password_change_revokes_witness:
  "filter (\<lambda>s. s_user s \<noteq> 1) (sessions (tabs (snd (run_state
     (handleChangePassword (demo_user 1 ''ann'') (demo_request_of ''a'') (Some (''secret'', ''newsecret'')))
     (demo_world (demo_db\<lparr>sessions := [demo_session 7 1 ''a'', demo_session 8 1 ''b'', demo_session 9 2 ''c'']\<rparr>) 5)))))
   = [demo_session 9 2 ''c'']"
proof -
  let ?w = "demo_world (demo_db\<lparr>sessions := [demo_session 7 1 ''a'', demo_session 8 1 ''b'', demo_session 9 2 ''c'']\<rparr>) 5"
  let ?r = "run_state (handleChangePassword (demo_user 1 ''ann'') (demo_request_of ''a'') (Some (''secret'', ''newsecret''))) ?w"
  have "fst ?r = Okay 200 (''ttt'', toPublicUser (demo_user 1 ''ann''))" by code_simp
  then have r: "?r = (Okay 200 (''ttt'', toPublicUser (demo_user 1 ''ann'')), snd ?r)"
    by (metis prod.collapse)
  show ?thesis using password_change_revokes [OF r]
    by (simp add: demo_world_def demo_session_def demo_user_def)
qed

text \<open>
  A token that was logged out opens nothing any more, at any later time, and every other
  session goes on. The request was answered \<^verbatim>\<open>ok\<close>, and the database was up.
\<close>

theorem logout_ends_session:
  assumes "run_state (handleLogout r) w = (res, w')" and "extractToken r \<noteq> []"
    and "x_avail (ext w) (tick w) = Up" and "extractToken r' = extractToken r"
  shows "fst (run_state (authMiddleware r') (w'\<lparr>clock := t\<rparr>)) = None \<and>
    filter (\<lambda>s. s_token_hash s \<noteq> x_token_hash (ext w) (extractToken r)) (sessions (tabs w)) =
      sessions (tabs w')"
proof -
  let ?h = "x_token_hash (ext w) (extractToken r)"
  from assms(1-3) have w': "ext w' = ext w"
    "tabs w' = (tabs w)\<lparr>sessions := del_where (\<lambda>s. s_token_hash s = ?h) (sessions (tabs w))\<rparr>"
    by (auto simp: handleLogout_def run_ask DeleteSessionByTokenHash_def delete_all_def run_sql_write)
  have "session_of t ?h (tabs w') = None"
    by (auto simp: session_of_def w'(2) find_where_None del_where_def split: option.split
        dest!: find_where_Some)
  then have "fst (run_state (authMiddleware r') (w'\<lparr>clock := t\<rparr>)) = None"
    using assms(4) w'(1)
    by (auto simp: authMiddleware_def run_ask GetSessionWithUser_def run_sql_read one_def
        split: outcome.splits)
  then show ?thesis by (simp add: w'(2) del_where_def)
qed

lemma logout_ends_session_witness:
  "fst (run_state (authMiddleware (demo_request_of ''b'')) ((snd (run_state (handleLogout (demo_request_of ''b''))
     (demo_world (demo_db\<lparr>sessions := [demo_session 8 1 ''b'', demo_session 9 2 ''c'']\<rparr>) 5)))\<lparr>clock := 6\<rparr>)) = None"
  using logout_ends_session [OF surjective_pairing, of "demo_request_of ''b''"
      "demo_world (demo_db\<lparr>sessions := [demo_session 8 1 ''b'', demo_session 9 2 ''c'']\<rparr>) 5" "demo_request_of ''b''" 6]
  by (simp add: extractToken_def demo_request_of_def demo_world_def demo_ext_def)

section \<open>Registration\<close>

text \<open>The row a registration adds.\<close>

lemma CreateUser_Inr:
  "run_state (CreateUserWithPassword p) w = (Inr u, w') \<Longrightarrow>
     tabs w' = (tabs w)\<lparr>users := users (tabs w) @ [u]\<rparr> \<and> txn w' = txn w \<and> ext w' = ext w \<and> live_user u \<and>
     u_is_admin u = cu_is_admin p \<and> u_username u = cu_username p \<and> u_email u = cu_email p \<and>
     u_password_hash u = cu_password_hash p"
  by (auto simp: CreateUserWithPassword_def run_sql_write gen_uuid_def Let_def live_user_def
      split: outcome.splits if_splits)

lemma createRegistrationUser_Inr:
  assumes "run_state (createRegistrationUser cfg p) w = (Inr u, w')" and "txn w = None"
  shows "users (tabs w') = users (tabs w) @ [u] \<and> ext w' = ext w \<and> live_user u \<and> u_is_admin u = cu_is_admin p \<and>
    u_username u = cu_username p \<and> u_email u = cu_email p \<and> u_password_hash u = cu_password_hash p \<and>
    (InstanceMode cfg = ModeSingleUser \<longrightarrow> list_all (\<lambda>v. \<not> live_user v) (users (tabs w)))"
proof (cases "InstanceMode cfg = ModeSingleUser")
  case False
  with assms(1) obtain v where "run_state (CreateUserWithPassword p) w = (Inr u, w')"
    by (auto simp: createRegistrationUser_def split: prod.splits sum.splits)
  from CreateUser_Inr [OF this] False show ?thesis by simp
next
  case True
  define w1 where "w1 = (tock w)\<lparr>txn := Some (tabs w)\<rparr>"
  have b: "tabs w1 = tabs w" "ext w1 = ext w" by (simp_all add: w1_def)
  from assms obtain w3 where g: "run_state (register_gated p) w1 = (Inr u, w3)" and w': "w' = rollback w3"
    by (auto simp: createRegistrationUser_def True tx_begin_def run_sql_write run_update w1_def
        defer_rollback_def split: outcome.splits prod.splits sum.splits)
  from g obtain w2 where n: "list_all (\<lambda>v. \<not> live_user v) (users (tabs w1))"
    and c: "run_state (CreateUserWithPassword p) (tock w1) = (Inr u, w2)"
    and k: "run_state tx_commit w2 = (Inr (), w3)"
    by (auto simp: register_gated_def CountUsers_def run_sql_read count_where_0 list_all_iff
        split: outcome.splits prod.splits sum.splits if_splits)
  from k have "txn w3 = None" "tabs w3 = tabs w2" "ext w3 = ext w2"
    by (auto simp: tx_commit_def run_sql_write split: outcome.splits)
  with w' have "tabs w' = tabs w2" "ext w' = ext w2" by (simp_all add: rollback_def)
  with CreateUser_Inr [OF c] n b show ?thesis by simp
qed

text \<open>A failed insertion leaves the accounts as they were, also when only the commit fails.\<close>

lemma CreateUser_Inl:
  "run_state (CreateUserWithPassword p) w = (Inl e, w') \<Longrightarrow> tabs w' = tabs w \<and> txn w' = txn w"
  by (auto simp: CreateUserWithPassword_def run_sql_write gen_uuid_def Let_def
      split: outcome.splits if_splits)

lemma createRegistrationUser_Inl:
  assumes "run_state (createRegistrationUser cfg p) w = (Inl e, w')" and "txn w = None"
  shows "tabs w' = tabs w"
proof (cases "InstanceMode cfg = ModeSingleUser")
  case False
  with assms(1) obtain d where "run_state (CreateUserWithPassword p) w = (Inl d, w')"
    by (auto simp: createRegistrationUser_def split: prod.splits sum.splits)
  from CreateUser_Inl [OF this] show ?thesis by simp
next
  case True
  define w1 where "w1 = (tock w)\<lparr>txn := Some (tabs w)\<rparr>"
  have "tabs w' = tabs w \<or> (\<exists>w3. run_state (register_gated p) w1 = (Inl e, w3) \<and> w' = rollback w3)"
    using assms(1)
    by (auto simp: createRegistrationUser_def True tx_begin_def run_sql_write run_update w1_def
        defer_rollback_def split: outcome.splits prod.splits sum.splits)
  moreover have "tabs (rollback w3) = tabs w" if "run_state (register_gated p) w1 = (Inl e, w3)" for w3
  proof -
    have "txn w3 = Some (tabs w)"
      using that
      by (auto simp: register_gated_def CountUsers_def run_sql_read tx_commit_def run_sql_write w1_def
          dest: CreateUser_Inl CreateUser_Inr split: outcome.splits prod.splits sum.splits if_splits)
    then show ?thesis by (simp add: rollback_def)
  qed
  ultimately show ?thesis by auto
qed

lemma answer_session_users: "users (tabs (snd (run_state (answer_session r code msg u) w))) = users (tabs w)"
  by (auto simp: answer_session_def issueSession_def run_external run_ask CreateSession_def run_sql_write
      gen_uuid_def Let_def split: option.splits outcome.splits if_splits)

text \<open>The account behind a registration that succeeded.\<close>

lemma register_Okay:
  assumes "run_state (handleRegister cfg r (Some q)) w = (Okay c (tok, pu), w')" and "txn w = None"
  shows "\<exists>u hash. check_register cfg q = (None :: (string \<times> public_user) resp option) \<and>
    x_hash_password (ext w) (tick w) (qg_password q) = Some hash \<and>
    users (tabs w') = users (tabs w) @ [u] \<and> ext w' = ext w \<and> live_user u \<and> pu = toPublicUser u \<and>
    u_username u = qg_username q \<and> u_email u = qg_email q \<and> u_password_hash u = Some hash \<and>
    (u_is_admin u \<longleftrightarrow> InstanceMode cfg = ModeSingleUser) \<and>
    (InstanceMode cfg = ModeSingleUser \<longrightarrow> list_all (\<lambda>v. \<not> live_user v) (users (tabs w)))"
proof -
  from assms(1) have ck: "check_register cfg q = (None :: (string \<times> public_user) resp option)"
    by (auto simp: handleRegister_def check_register_def split: option.splits if_splits)
  from assms(1) ck obtain hash where h: "x_hash_password (ext w) (tick w) (qg_password q) = Some hash"
    by (auto simp: handleRegister_def run_external split: option.splits)
  let ?p = "\<lparr>cu_username = qg_username q, cu_email = qg_email q, cu_display_name = optText (qg_display_name q),
    cu_password_hash = Some hash, cu_is_admin = (InstanceMode cfg = ModeSingleUser)\<rparr>"
  obtain u w1 where u: "run_state (createRegistrationUser cfg ?p) (tock w) = (u, w1)" by fastforce
  with assms(1) ck h obtain v where v: "u = Inr v"
    by (cases u) (auto simp: handleRegister_def run_external register_fail_def split: register_error.splits if_splits)
  from createRegistrationUser_Inr [of cfg ?p "tock w" v w1] u v assms(2)
  have i: "users (tabs w1) = users (tabs w) @ [v]" "ext w1 = ext w" "live_user v" "u_is_admin v \<longleftrightarrow> InstanceMode cfg = ModeSingleUser"
    "u_username v = qg_username q" "u_email v = qg_email q" "u_password_hash v = Some hash"
    "InstanceMode cfg = ModeSingleUser \<longrightarrow> list_all (\<lambda>v. \<not> live_user v) (users (tabs w))" by simp_all
  from assms(1) ck h u v have "run_state (answer_session r 201 ''session create failed'' v) w1 = (Okay c (tok, pu), w')"
    by (simp add: handleRegister_def run_external)
  from answer_session_Okay [OF this] have "users (tabs w') = users (tabs w1)" "ext w' = ext w1" "pu = toPublicUser v" by auto
  with i ck h show ?thesis by auto
qed

lemma check_register_None:
  "check_register cfg q = None \<Longrightarrow> InstanceMode cfg \<noteq> ModeClosed \<and> usernameRE (qg_username q) \<and>
     contains_char (CHR ''@'') (qg_email q)"
  by (auto simp: check_register_def ModeClosed_def ModeOpen_def ModeSingleUser_def split: if_splits)

text \<open>
  C23: The gate of registration, whatever the answer. A call adds at most one account and touches no
  other. If it adds one, the instance is not closed, the name is valid, and the account is an
  administrator exactly in single-user mode, and there only if no account was live before. That is
  the one way in which a call that adds an account answers a failure: its session could not be
  created. Every other failure leaves the accounts as they were.
\<close>

theorem registration_gate:
  assumes "run_state (handleRegister cfg r body) w = (res, w')" and "txn w = None"
  shows "(failed res \<and> users (tabs w') = users (tabs w)) \<or>
    (\<exists>u. users (tabs w') = users (tabs w) @ [u] \<and> live_user u \<and> usernameRE (u_username u) \<and>
      InstanceMode cfg \<noteq> ModeClosed \<and>
      (u_is_admin u \<longleftrightarrow> InstanceMode cfg = ModeSingleUser) \<and>
      (InstanceMode cfg = ModeSingleUser \<longrightarrow> list_all (\<lambda>v. \<not> live_user v) (users (tabs w))) \<and>
      (res = Fail 500 ''session create failed'' \<or> (\<exists>tok. res = Okay 201 (tok, toPublicUser u))))"
proof (cases "\<exists>q hash. body = Some q \<and> check_register cfg q = (None :: (string \<times> public_user) resp option) \<and>
    x_hash_password (ext w) (tick w) (qg_password q) = Some hash")
  case False
  with assms(1) have "failed res \<and> users (tabs w') = users (tabs w)"
    by (auto simp: handleRegister_def check_register_def run_external split: option.splits if_splits)
  then show ?thesis by simp
next
  case True
  then obtain q hash where q: "body = Some q" and ck: "check_register cfg q = (None :: (string \<times> public_user) resp option)"
    and h: "x_hash_password (ext w) (tick w) (qg_password q) = Some hash" by blast
  let ?p = "\<lparr>cu_username = qg_username q, cu_email = qg_email q, cu_display_name = optText (qg_display_name q),
    cu_password_hash = Some hash, cu_is_admin = (InstanceMode cfg = ModeSingleUser)\<rparr>"
  obtain c w1 where c: "run_state (createRegistrationUser cfg ?p) (tock w) = (c, w1)" by fastforce
  show ?thesis
  proof (cases c)
    case (Inl e)
    with assms(1) q ck h c have "res = register_fail e" "w' = w1"
      by (auto simp: handleRegister_def run_external)
    moreover from createRegistrationUser_Inl [of cfg ?p "tock w" e w1] c Inl assms(2)
    have "tabs w1 = tabs w" by simp
    ultimately show ?thesis by (auto simp: register_fail_def split: register_error.splits)
  next
    case (Inr v)
    with assms(1) q ck h c have a: "run_state (answer_session r 201 ''session create failed'' v) w1 = (res, w')"
      by (simp add: handleRegister_def run_external)
    have "users (tabs w') = users (tabs w1)"
      using answer_session_users [of r 201 "''session create failed''" v w1] a by simp
    moreover have "res = Fail 500 ''session create failed'' \<or> (\<exists>tok. res = Okay 201 (tok, toPublicUser v))"
      using a by (auto simp: answer_session_def split: prod.splits option.splits)
    ultimately show ?thesis
      using createRegistrationUser_Inr [of cfg ?p "tock w" v w1] c Inr assms(2) check_register_None [OF ck]
      by auto
  qed
qed

definition single_config :: config where
  "single_config = demo_config\<lparr>InstanceMode := ModeSingleUser\<rparr>"

definition ann_register :: register_request where
  "ann_register = \<lparr>qg_username = ''ann'', qg_email = ''ann@example.org'', qg_password = ''secretsecret'', qg_display_name = []\<rparr>"

text \<open>The first account of a single-user instance is its administrator.\<close>

lemma registration_gate_witness:
  "\<exists>u. users (tabs (snd (run_state (handleRegister single_config (demo_request_of []) (Some ann_register))
     (demo_world empty_db 5)))) = [u] \<and> u_is_admin u"
proof -
  let ?w = "demo_world empty_db 5"
  let ?r = "run_state (handleRegister single_config (demo_request_of []) (Some ann_register)) ?w"
  have f: "\<not> failed (fst ?r)" by code_simp
  have r: "?r = (fst ?r, snd ?r)" by simp
  have "txn ?w = None" and e: "users (tabs ?w) = []" by (simp_all add: demo_world_def empty_db_def)
  moreover have "InstanceMode single_config = ModeSingleUser" by (simp add: single_config_def)
  ultimately show ?thesis using registration_gate [OF r] f by auto
qed

end
