(* ===== verification/Deletion_Props.thy ===== *)
theory Deletion_Props
  imports Session_Props
begin

text \<open>
  Account deletion: it is all or nothing, it removes what identifies the user and nothing else,
  and a foreign address can block it. Then the change of an address, which takes the confirmation
  token.
\<close>

section \<open>The transaction\<close>

lemma exec_all_Cons:
  "run_state (exec_all (s # ss)) w = (Inr (), w') \<longleftrightarrow>
     (\<exists>w1. run_state s w = (Inr (), w1) \<and> run_state (exec_all ss) w1 = (Inr (), w'))"
  by (auto split: prod.splits sum.splits)

lemma run_delete_all:
  "run_state (delete_all get put P) w = (Inr (), w') \<longleftrightarrow> x_avail (ext w) (tick w) = Up \<and>
     w' = set_tabs (put (del_where (P (tock w)) (get (tabs w))) (tabs w)) (tock w)"
  by (auto simp: delete_all_def run_sql_write split: outcome.splits)

definition cleared :: "uuid \<Rightarrow> db \<Rightarrow> db" where
  "cleared u d = d\<lparr>sessions := del_where (\<lambda>s. s_user s = u) (sessions d),
     push_devices := del_where (\<lambda>p. pd_user p = u) (push_devices d),
     notifications := del_where (\<lambda>n. nt_user n = u) (notifications d),
     notification_prefs := del_where (\<lambda>p. np_user p = u) (notification_prefs d),
     user_prefs := del_where (\<lambda>p. up_user p = u) (user_prefs d),
     email_changes := del_where (\<lambda>c. ec_user c = u) (email_changes d),
     exports := del_where (\<lambda>e. ex_user e = u) (exports d),
     inventory := del_where (\<lambda>v. iv_user v = u) (inventory d)\<rparr>"

definition wiped :: "externals \<Rightarrow> time \<Rightarrow> uuid \<Rightarrow> db \<Rightarrow> db" where
  "wiped x now u d =
     (cleared u d)\<lparr>users := upd_where (\<lambda>v. u_id v = u) (anonymized x now) (users d)\<rparr>"

definition blocks :: "externals \<Rightarrow> uuid \<Rightarrow> user \<Rightarrow> bool" where
  "blocks x u m \<longleftrightarrow> u_id m \<noteq> u \<and> (ci_eq (u_username m) (placeholder_name x u) \<or>
     ci_eq (u_email m) (placeholder_email x u))"

lemma AnonymizeUser_Inr:
  assumes "run_state (AnonymizeUser u) w = (Inr (), w')"
  shows "tabs w' = (tabs w)\<lparr>users := upd_where (\<lambda>v. u_id v = u) (anonymized (ext w) (clock w)) (users (tabs w))\<rparr> \<and>
    txn w' = txn w \<and> ext w' = ext w \<and> clock w' = clock w \<and> export_blobs w' = export_blobs w \<and>
    (u \<in> u_id ` set (users (tabs w)) \<longrightarrow> \<not> list_ex (blocks (ext w) u) (users (tabs w)))"
proof -
  let ?f = "anonymized (ext w) (clock w)"
  from assms consider
      (none) "find_where (\<lambda>v. u_id v = u) (users (tabs w)) = None" "w' = tock w"
    | (row) v where "find_where (\<lambda>v. u_id v = u) (users (tabs w)) = Some v"
        "\<not> exists_where (\<lambda>m. u_id m \<noteq> u \<and> (ci_eq (u_username m) (u_username (?f v)) \<or>
           ci_eq (u_email m) (u_email (?f v)))) (users (tabs w))"
        "w' = set_tabs ((tabs w)\<lparr>users := upd_where (\<lambda>v. u_id v = u) ?f (users (tabs w))\<rparr>) (tock w)"
    by (auto simp: AnonymizeUser_def run_sql_write update_user_def sql_update_def
        split: outcome.splits sum.splits option.splits if_splits)
  then show ?thesis
  proof cases
    case none
    then have "upd_where (\<lambda>v. u_id v = u) ?f (users (tabs w)) = users (tabs w)" "u \<notin> u_id ` set (users (tabs w))"
      by (auto simp: find_where_None upd_where_id)
    with none show ?thesis by simp
  next
    case row
    then have "u_id v = u" by (auto dest: find_where_Some)
    with row(2) have "\<not> list_ex (blocks (ext w) u) (users (tabs w))"
      by (auto simp: exists_where_iff list_ex_iff blocks_def anonymized_def)
    with row(3) show ?thesis by simp
  qed
qed

lemma anonymize_stmts_Inr:
  assumes "run_state (exec_all (anonymize_stmts u)) w = (Inr (), w')"
  shows "tabs w' = wiped (ext w) (clock w) u (tabs w) \<and> txn w' = txn w \<and> ext w' = ext w \<and>
    clock w' = clock w \<and> export_blobs w' = export_blobs w \<and>
    (u \<in> u_id ` set (users (tabs w)) \<longrightarrow> \<not> list_ex (blocks (ext w) u) (users (tabs w)))"
proof -
  have "\<exists>w1. run_state (AnonymizeUser u) w1 = (Inr (), w') \<and> tabs w1 = cleared u (tabs w) \<and>
      txn w1 = txn w \<and> ext w1 = ext w \<and> clock w1 = clock w \<and> export_blobs w1 = export_blobs w"
    using assms
    unfolding anonymize_stmts_def exec_all_Cons DeleteSessionsForUser_def DeletePushDevicesForUser_def
      DeleteNotificationsForUser_def DeleteNotificationPrefsForUser_def DeleteUserPrefsForUser_def
      DeleteEmailChangeRequestsForUser_def DeleteUserExportsForUser_def DeleteAllInventoryForUser_def
      run_delete_all cleared_def
    by clarsimp (intro exI conjI, assumption, simp_all)
  then obtain w1 where w1: "run_state (AnonymizeUser u) w1 = (Inr (), w')" "tabs w1 = cleared u (tabs w)"
    "txn w1 = txn w" "ext w1 = ext w" "clock w1 = clock w" "export_blobs w1 = export_blobs w" by blast
  have "users (cleared u (tabs w)) = users (tabs w)" by (simp add: cleared_def)
  with AnonymizeUser_Inr [OF w1(1)] w1(2-6) show ?thesis by (simp add: wiped_def)
qed

lemma st_delete_all: "keeps same_txn (delete_all get put P)"
  unfolding delete_all_def by (rule st.keeps_sql_write) (auto simp: same_txn_def)

lemma st_exec_all:
  "(\<And>s. s \<in> set ss \<Longrightarrow> keeps same_txn s) \<Longrightarrow> keeps same_txn (exec_all ss)"
  by (induction ss) (auto intro!: st.keeps_intros split: sum.split)

lemma st_anonymize: "keeps same_txn (exec_all (anonymize_stmts u))"
proof (rule st_exec_all)
  have a: "keeps same_txn (AnonymizeUser u)"
    unfolding AnonymizeUser_def
    by (rule st.keeps_sql_write) (auto simp: same_txn_def dest!: update_user_txn split: sum.splits if_splits)
  show "keeps same_txn s" if "s \<in> set (anonymize_stmts u)" for s
    using that a
    by (auto simp: anonymize_stmts_def DeleteSessionsForUser_def DeletePushDevicesForUser_def
        DeleteNotificationsForUser_def DeleteNotificationPrefsForUser_def DeleteUserPrefsForUser_def
        DeleteEmailChangeRequestsForUser_def DeleteUserExportsForUser_def
        DeleteAllInventoryForUser_def st_delete_all)
qed

text \<open>The body of the transaction: an error leaves it open, a success has committed the wipe.\<close>

lemma anonymize_tx_result:
  assumes "run_state (anonymize_tx u) w = (r, w')" and "txn w = Some d"
  shows "case r of Inl e \<Rightarrow> txn w' = Some d
    | Inr ps \<Rightarrow> txn w' = None \<and> tabs w' = wiped (ext w) (clock w) u (tabs w) \<and>
        ext w' = ext w \<and> clock w' = clock w \<and> export_blobs w' = export_blobs w \<and>
        ps = map ex_file_path (filter (\<lambda>x. ex_user x = u \<and> ex_file_path x \<noteq> None) (exports (tabs w))) \<and>
        (u \<in> u_id ` set (users (tabs w)) \<longrightarrow> \<not> list_ex (blocks (ext w) u) (users (tabs w)))"
proof (cases "x_avail (ext w) (tick w) = Up")
  case False
  with assms show ?thesis
    by (auto simp: anonymize_tx_def ListUserExportFilePathsForUser_def run_sql_read split: outcome.splits)
next
  case True
  obtain q w1 where q: "run_state (exec_all (anonymize_stmts u)) (tock w) = (q, w1)" by fastforce
  with st_anonymize [of u] assms(2) have t: "txn w1 = Some d"
    unfolding keeps_def same_txn_def by (metis snd_conv tock_simps(4))
  show ?thesis
  proof (cases q)
    case (Inl e)
    with assms True q t show ?thesis
      by (auto simp: anonymize_tx_def ListUserExportFilePathsForUser_def run_sql_read)
  next
    case (Inr x)
    with q anonymize_stmts_Inr [of u "tock w" w1] have i: "tabs w1 = wiped (ext w) (clock w) u (tabs w)"
      "ext w1 = ext w" "clock w1 = clock w" "export_blobs w1 = export_blobs w"
      "u \<in> u_id ` set (users (tabs w)) \<longrightarrow> \<not> list_ex (blocks (ext w) u) (users (tabs w))" by auto
    from assms True q Inr t i show ?thesis
      by (auto simp: anonymize_tx_def ListUserExportFilePathsForUser_def run_sql_read tx_commit_def
          run_sql_write split: outcome.splits)
  qed
qed

text \<open>The blobs go after the commit, and nothing else with them.\<close>

lemma delete_paths_blobs:
  "\<exists>w'. run_state (delete_paths Export_Store ps) w = ((), w') \<and> tabs w' = tabs w \<and> txn w' = txn w \<and> ext w' = ext w \<and>
     clock w' = clock w \<and>
     ((\<forall>n. x_storage (ext w) n) \<longrightarrow> export_blobs w' =
       (\<lambda>k. if k \<noteq> [] \<and> k \<in> textOrEmpty ` set ps then None else export_blobs w k))"
proof (induction ps arbitrary: w)
  case (Cons p ps)
  show ?case
  proof (cases "textOrEmpty p = []")
    case True
    with Cons [of w] show ?thesis by (auto simp: fun_eq_iff)
  next
    case False
    define w1 where "w1 = (tock w)\<lparr>export_blobs := (if x_storage (ext w) (tick w)
      then (export_blobs w)(textOrEmpty p := None) else export_blobs w)\<rparr>"
    have r: "run_state (store_delete Export_Store (textOrEmpty p)) w = (x_storage (ext w) (tick w), w1)"
      by (simp add: store_delete_def run_io_step run_update w1_def)
    from Cons [of w1] obtain w' where "run_state (delete_paths Export_Store ps) w1 = ((), w')" "tabs w' = tabs w"
      "txn w' = txn w" "ext w' = ext w" "clock w' = clock w" and
      b: "(\<forall>n. x_storage (ext w) n) \<longrightarrow> export_blobs w' =
        (\<lambda>k. if k \<noteq> [] \<and> k \<in> textOrEmpty ` set ps then None else export_blobs w1 k)"
      by (auto simp: w1_def)
    then show ?thesis using False r
      by (intro exI [of _ w']) (auto simp: w1_def fun_eq_iff)
  qed
qed simp

lemma Anonymize_result:
  assumes "run_state (Anonymize u) w = (r, w')" and "txn w = None"
  shows "txn w' = None \<and> (case r of Inl e \<Rightarrow> tabs w' = tabs w
    | Inr x \<Rightarrow> tabs w' = wiped (ext w) (clock w) u (tabs w) \<and>
        ((\<forall>n. x_storage (ext w) n) \<longrightarrow> list_all (\<lambda>e. ex_user e = u \<longrightarrow> textOrEmpty (ex_file_path e) = [] \<or>
           export_blobs w' (textOrEmpty (ex_file_path e)) = None) (exports (tabs w))) \<and>
        (u \<in> u_id ` set (users (tabs w)) \<longrightarrow> \<not> list_ex (blocks (ext w) u) (users (tabs w))))"
proof (cases "x_avail (ext w) (tick w) = Up")
  case False
  with assms show ?thesis by (auto simp: Anonymize_def tx_begin_def run_sql_write split: outcome.splits)
next
  case True
  define w1 where "w1 = (tock w)\<lparr>txn := Some (tabs w)\<rparr>"
  then have w1: "txn w1 = Some (tabs w)" "tabs w1 = tabs w" "ext w1 = ext w" "clock w1 = clock w" by simp_all
  obtain q w2 where q: "run_state (anonymize_tx u) w1 = (q, w2)" by fastforce
  have r: "run_state (Anonymize u) w = (case q of Inl e \<Rightarrow> (Inl e, rollback w2)
      | Inr ps \<Rightarrow> (Inr (), snd (run_state (delete_paths Export_Store ps) (rollback w2))))"
    using True q by (auto simp: Anonymize_def tx_begin_def run_sql_write defer_rollback_def run_update w1_def
        split: sum.split prod.split)
  note t = anonymize_tx_result [OF q w1(1)]
  show ?thesis
  proof (cases q)
    case (Inl e)
    with t r assms(1) show ?thesis by (auto simp: rollback_def)
  next
    case (Inr ps)
    with t have t': "txn w2 = None" "tabs w2 = wiped (ext w) (clock w) u (tabs w)" "ext w2 = ext w"
      "ps = map ex_file_path (filter (\<lambda>x. ex_user x = u \<and> ex_file_path x \<noteq> None) (exports (tabs w)))"
      "u \<in> u_id ` set (users (tabs w)) \<longrightarrow> \<not> list_ex (blocks (ext w) u) (users (tabs w))"
      by (auto simp: w1)
    have "rollback w2 = w2" by (simp add: rollback_def t'(1))
    with r Inr assms(1) delete_paths_blobs [of ps w2] t'(1-3)
    have w': "r = Inr ()" "tabs w' = wiped (ext w) (clock w) u (tabs w)" "txn w' = None" and
      b: "(\<forall>n. x_storage (ext w) n) \<longrightarrow> export_blobs w' =
        (\<lambda>k. if k \<noteq> [] \<and> k \<in> textOrEmpty ` set ps then None else export_blobs w2 k)" by auto
    have "textOrEmpty (ex_file_path e) \<in> textOrEmpty ` set ps"
      if "e \<in> set (exports (tabs w))" "ex_user e = u" "textOrEmpty (ex_file_path e) \<noteq> []" for e
    proof -
      have "ex_file_path e \<in> set ps" using that unfolding t'(4)
        by (auto simp: textOrEmpty_def split: option.splits intro!: rev_image_eqI [of e])
      then show ?thesis by simp
    qed
    with b w' t'(5) show ?thesis by (auto simp: list_all_iff)
  qed
qed

section \<open>Deleting an account\<close>

lemma run_delete_account:
  assumes "run_state (handleDeleteAccount user b) w = (Okay c v, w')" and "txn w = None"
  shows "\<exists>w1 q. run_state (Anonymize (u_id user)) w1 = (Inr (), w') \<and>
    tabs w1 = (tabs w)\<lparr>deletion_requests := deletion_requests (tabs w) @ [q]\<rparr> \<and> txn w1 = None \<and>
    ext w1 = ext w \<and> clock w1 = clock w \<and>
    adr_user q = u_id user \<and> adr_requested_at q = clock w \<and> \<not> u_is_admin user"
  using assms
  by (auto simp: handleDeleteAccount_def run_ask run_handle CreateAccountDeletionRequest_def run_sql_write
      gen_uuid_def Let_def sql_insert_Inr split: if_splits option.splits outcome.splits sum.splits prod.splits)
    (intro exI conjI, assumption, subst set_tabs_simps, rule refl, simp_all)

text \<open>
  What is left of an account: its row keeps the id, the day of its creation and whether it was an
  administrator's, and nothing else; the rows that belong to it go from eight tables.
\<close>

definition erased :: "externals \<Rightarrow> time \<Rightarrow> user \<Rightarrow> user" where
  "erased x now v = \<lparr>u_id = u_id v, u_username = ''deleted-'' @ x_uuid_text x (u_id v),
     u_email = ''deleted-'' @ x_uuid_text x (u_id v) @ ''@deleted.invalid'',
     u_display_name = None, u_bio = None, u_avatar_url = None, u_deleted_at = Some now,
     u_deletion_scheduled_for = None, u_deletion_choices = None, u_deletion_reason = None,
     u_created_at = u_created_at v, u_password_hash = None, u_is_admin = u_is_admin v\<rparr>"

definition without_account :: "externals \<Rightarrow> time \<Rightarrow> uuid \<Rightarrow> db \<Rightarrow> db" where
  "without_account x now u d = d\<lparr>
     users := map (\<lambda>v. if u_id v = u then erased x now v else v) (users d),
     sessions := filter (\<lambda>s. s_user s \<noteq> u) (sessions d),
     push_devices := filter (\<lambda>p. pd_user p \<noteq> u) (push_devices d),
     notifications := filter (\<lambda>n. nt_user n \<noteq> u) (notifications d),
     notification_prefs := filter (\<lambda>p. np_user p \<noteq> u) (notification_prefs d),
     user_prefs := filter (\<lambda>p. up_user p \<noteq> u) (user_prefs d),
     email_changes := filter (\<lambda>c. ec_user c \<noteq> u) (email_changes d),
     exports := filter (\<lambda>e. ex_user e \<noteq> u) (exports d),
     inventory := filter (\<lambda>v. iv_user v \<noteq> u) (inventory d)\<rparr>"

lemma wiped_eq: "wiped x now u d = without_account x now u d"
proof -
  have "anonymized x now v = erased x now v" for v
    by (cases v) (simp add: anonymized_def erased_def placeholder_name_def placeholder_email_def)
  then show ?thesis
    by (simp add: wiped_def cleared_def without_account_def upd_where_def del_where_def)
qed


definition deletion_db :: db where
  "deletion_db = demo_db\<lparr>sessions := [demo_session 8 1 ''b'', demo_session 9 2 ''c''],
     recipes := [demo_recipe 20 1 Public None], notification_prefs := [demo_prefs 1 None None],
     batches := [demo_batch 30 1 None None Planning]\<rparr>"


text \<open>A deletion that fails leaves every table as it was, but for the request it put on record.\<close>

lemma failed_deletion:
  assumes "run_state (handleDeleteAccount user b) w = (Fail n msg, w')" and "txn w = None"
  shows "txn w' = None \<and> (\<exists>qs. list_all (\<lambda>q. adr_user q = u_id user) qs \<and>
    tabs w' = (tabs w)\<lparr>deletion_requests := deletion_requests (tabs w) @ qs\<rparr>)"
proof -
  have tail: "txn w2 = None \<and> (\<exists>qs. list_all (\<lambda>q. adr_user q = u_id user) qs \<and>
      tabs w2 = (tabs w)\<lparr>deletion_requests := deletion_requests (tabs w) @ qs\<rparr>)"
    if "run_state (Anonymize (u_id user)) w1 = (Inl e, w2)" and "txn w1 = None"
      and "tabs w1 = (tabs w)\<lparr>deletion_requests := deletion_requests (tabs w) @ [q]\<rparr>"
      and "adr_user q = u_id user" for w1 w2 e q
    using Anonymize_result [OF that(1,2)] that(3,4) by (auto intro!: exI [of _ "[q]"])
  from assms show ?thesis
    by (auto simp: handleDeleteAccount_def run_ask run_handle CreateAccountDeletionRequest_def run_sql_write
        gen_uuid_def Let_def sql_insert_def insert_rows_def
        split: if_splits option.splits outcome.splits sum.splits prod.splits dest!: tail)
      (rule exI [of _ "[]"], simp)+
qed

text \<open>
  C25: An account can be kept from being deleted. If another account has the placeholder address
  \<^verbatim>\<open>deleted-<id>@deleted.invalid\<close> of a user, which anybody can register who has seen the
  user's id in a recipe, then whatever the user sends, the deletion of the account answers an error
  and changes no table but the record of deletion requests, to which it may add requests of the user.
\<close>

theorem deletion_can_be_blocked:
  assumes "m \<in> set (users (tabs w))" and "u_id m \<noteq> u_id user"
    and "ci_eq (u_email m) (placeholder_email (ext w) (u_id user))"
    and "user \<in> set (users (tabs w))" and "txn w = None"
    and "run_state (handleDeleteAccount user b) w = (res, w')"
  shows "failed res \<and> (\<exists>qs. list_all (\<lambda>q. adr_user q = u_id user) qs \<and>
    tabs w' = (tabs w)\<lparr>deletion_requests := deletion_requests (tabs w) @ qs\<rparr>)"
proof -
  have "failed res"
  proof (rule ccontr)
    assume "\<not> failed res"
    then obtain c v where "res = Okay c v" by (cases res) auto
    with assms(6) have "run_state (handleDeleteAccount user b) w = (Okay c v, w')" by simp
    from run_delete_account [OF this assms(5)] obtain q w1 where
      "tabs w1 = (tabs w)\<lparr>deletion_requests := deletion_requests (tabs w) @ [q]\<rparr>" "txn w1 = None"
      "ext w1 = ext w" and r: "run_state (Anonymize (u_id user)) w1 = (Inr (), w')" by blast
    moreover from calculation Anonymize_result [OF r] assms(4)
    have "\<not> list_ex (blocks (ext w) (u_id user)) (users (tabs w))" by auto
    ultimately show False using assms(1-3) by (auto simp: list_ex_iff blocks_def)
  qed
  then obtain n msg where "res = Fail n msg" by (cases res) auto
  with failed_deletion [of user b w n msg w'] assms(5,6) show ?thesis by auto
qed

definition blocker :: user where
  "blocker = (demo_user 2 ''mallory'')\<lparr>u_email := ''DELETED-x@deleted.invalid''\<rparr>"

text \<open>Mallory has taken Ann's placeholder, in capitals.\<close>

lemma deletion_can_be_blocked_witness:
  "failed (fst (run_state (handleDeleteAccount (demo_user 1 ''ann'') (Some ''secret''))
     (demo_world (empty_db\<lparr>users := [demo_user 1 ''ann'', blocker]\<rparr>) 5)))"
proof -
  let ?w = "demo_world (empty_db\<lparr>users := [demo_user 1 ''ann'', blocker]\<rparr>) 5"
  have "ci_eq (u_email blocker) (placeholder_email (ext ?w) (u_id (demo_user 1 ''ann'')))" by code_simp
  moreover have "blocker \<in> set (users (tabs ?w))" "demo_user 1 ''ann'' \<in> set (users (tabs ?w))"
    "u_id blocker \<noteq> u_id (demo_user 1 ''ann'')" "txn ?w = None"
    by (simp_all add: demo_world_def blocker_def demo_user_def)
  ultimately show ?thesis
    using deletion_can_be_blocked [OF _ _ _ _ _ surjective_pairing, of blocker ?w] by blast
qed

section \<open>A failed deletion\<close>

text \<open>
  A deletion that fails deletes nothing. Whatever goes wrong on the way, the lost connection,
  the commit, or a wrong password, no table but the record of deletion requests has changed, so the
  account is whole and can still be used; and the record lets the deletion be tried again.
\<close>

theorem deletion_all_or_nothing:
  assumes "run_state (handleDeleteAccount user b) w = (Fail n msg, w')" and "txn w = None"
  shows "txn w' = None \<and> (\<exists>qs. tabs w' = (tabs w)\<lparr>deletion_requests := deletion_requests (tabs w) @ qs\<rparr>)"
  using failed_deletion [OF assms] by auto

lemma deletion_all_or_nothing_witness:
  "\<exists>qs. tabs (snd (run_state (handleDeleteAccount (demo_user 1 ''ann'') (Some ''secret''))
     (faulty_world (\<lambda>n. if n = 9 then Down else Up) deletion_db 5))) =
     deletion_db\<lparr>deletion_requests := qs\<rparr>"
proof -
  let ?w = "faulty_world (\<lambda>n. if n = 9 then Down else Up) deletion_db 5"
  let ?r = "run_state (handleDeleteAccount (demo_user 1 ''ann'') (Some ''secret'')) ?w"
  have "fst ?r = Fail 500 ''delete failed''" by code_simp
  then have r: "?r = (Fail 500 ''delete failed'', snd ?r)" by (metis prod.collapse)
  have "txn ?w = None" "tabs ?w = deletion_db" by (simp_all add: faulty_world_def demo_world_def)
  with deletion_all_or_nothing [OF r] show ?thesis by auto
qed

end
