(* ===== verification/Email_Props.thy ===== *)
theory Email_Props
  imports Session_Props
begin

text \<open>
  The verified change of an address: whatever is called, an address changes only when the
  confirmation token is presented, and a confirmation changes it to the requested one.
\<close>

section \<open>Addresses that stay\<close>

definition emails_from :: "user list \<Rightarrow> user list \<Rightarrow> bool" where
  "emails_from base us \<longleftrightarrow> u_id ` set base \<subseteq> u_id ` set us \<and>
     (\<forall>v\<in>set us. \<forall>b\<in>set base. u_id v = u_id b \<longrightarrow> u_email v = u_email b \<or> u_deleted_at v \<noteq> None)"

lemma emails_from_upd:
  assumes "emails_from base us"
    and f: "\<And>u. P u \<Longrightarrow> u_id (f u) = u_id u \<and> (u_email (f u) = u_email u \<and>
      u_deleted_at (f u) = u_deleted_at u \<or> u_deleted_at (f u) \<noteq> None)"
  shows "emails_from base (upd_where P f us)"
  unfolding emails_from_def set_upd_where
proof (intro conjI ballI impI)
  have "u_id ` (\<lambda>r. if P r then f r else r) ` set us = u_id ` set us"
    unfolding image_image using f by (intro image_cong) auto
  with assms(1) show "u_id ` set base \<subseteq> u_id ` (\<lambda>r. if P r then f r else r) ` set us"
    by (simp add: emails_from_def)
next
  fix v b
  assume v: "v \<in> (\<lambda>r. if P r then f r else r) ` set us" and b: "b \<in> set base" "u_id v = u_id b"
  from v obtain r where r: "r \<in> set us" "v = (if P r then f r else r)" by blast
  with f [of r] b(2) have "u_id r = u_id b" by (auto split: if_splits)
  with assms(1) r(1) b(1) have "u_email r = u_email b \<or> u_deleted_at r \<noteq> None"
    unfolding emails_from_def by blast
  with r(2) f [of r] show "u_email v = u_email b \<or> u_deleted_at v \<noteq> None"
    by (auto split: if_splits)
qed

lemma emails_from_add:
  assumes "emails_from base us" and "\<not> exists_where (user_clash u) us"
  shows "emails_from base (us @ [u])"
proof -
  have "u_id u \<noteq> u_id v" if "v \<in> set us" for v
    using assms(2) that by (auto simp: exists_where_iff user_clash_def)
  with assms(1) have "u_id u \<notin> u_id ` set base" unfolding emails_from_def by blast
  with assms(1) show ?thesis by (auto simp: emails_from_def)
qed

interpretation em: user_store "emails_from base" for base
proof
  show "emails_from base (us @ [u])"
    if "emails_from base us" "\<not> exists_where (user_clash u) us" for base us u
    using that by (rule emails_from_add)
next
  show "emails_from base (upd_where P f us)"
    if "\<And>u. P u \<Longrightarrow> u_id (f u) = u_id u \<and> u_username (f u) = u_username u \<and>
      u_email (f u) = u_email u \<and> u_deleted_at (f u) = u_deleted_at u" "emails_from base us" for base P f us
    using that by (intro emails_from_upd) blast+
next
  show "emails_from base (users (tabs w'))"
    if "update_user i (\<lambda>u. True) (anonymized x now) w = Inr (u, w')" "emails_from base (users (tabs w))"
    for base i x now w u w'
    using that
    by (auto simp: update_user_def sql_update_Inr anonymized_def intro!: emails_from_upd
        split: option.splits if_splits)
qed

text \<open>The confirmation: what it reads and what it writes.\<close>

lemma users_delete_request:
  "run_state (DeleteEmailChangeRequest i) w = (r, w') \<Longrightarrow> users (tabs w') = users (tabs w)"
  by (auto simp: DeleteEmailChangeRequest_def delete_all_def run_sql_write split: outcome.splits)

lemma confirm_users:
  assumes "run_state (handleConfirmEmailChange b) w = (res, w')"
  shows "users (tabs w') = users (tabs w) \<or>
    (\<exists>token q u w1 w2. b = Some token \<and> q \<in> set (email_changes (tabs w)) \<and>
       ec_confirm_hash q = x_token_hash (ext w) token \<and> clock w < ec_expires_at q \<and>
       update_user (ec_user q) live_user (\<lambda>u. u\<lparr>u_email := ec_new_email q\<rparr>) w1 = Inr (u, w2) \<and>
       users (tabs w1) = users (tabs w) \<and> users (tabs w') = users (tabs w2))"
proof (cases "users (tabs w') = users (tabs w)")
  case False
  then obtain token where b: "b = Some token" "token \<noteq> []"
    using assms by (cases b) (auto simp: handleConfirmEmailChange_def split: if_splits)
  obtain r1 w1 where g: "run_state (GetEmailChangeRequestByConfirmHash (x_token_hash (ext w) token)) w = (r1, w1)"
    by fastforce
  then have w1: "w1 = tock w"
    by (auto simp: GetEmailChangeRequestByConfirmHash_def run_sql_read split: outcome.splits)
  from assms g b w1 False obtain q where q: "r1 = Inr q"
    by (cases r1) (auto simp: handleConfirmEmailChange_def run_ask run_handle)
  with g have q_in: "q \<in> set (email_changes (tabs w))" "ec_confirm_hash q = x_token_hash (ext w) token"
    "clock w < ec_expires_at q"
    by (auto simp: GetEmailChangeRequestByConfirmHash_def run_sql_read split: outcome.splits dest!: find_where_Some)
  obtain r2 w2 where u: "run_state (UpdateUserEmail (ec_new_email q) (ec_user q)) w1 = (r2, w2)" by fastforce
  have rest: "users (tabs w') = users (tabs w2)"
    using assms g b q u
    by (auto simp: handleConfirmEmailChange_def run_ask run_handle split: sum.splits prod.splits
        dest: users_delete_request)
  with u w1 False obtain v where
    "update_user (ec_user q) live_user (\<lambda>u. u\<lparr>u_email := ec_new_email q\<rparr>) (tock w1) = Inr (v, w2)"
    by (auto simp: UpdateUserEmail_def run_sql_write split: outcome.splits sum.splits)
  with q_in b rest w1 show ?thesis by fastforce
qed simp

lemma update_email_users:
  assumes "update_user i live_user (\<lambda>u. u\<lparr>u_email := e\<rparr>) w = Inr (u, w')"
  shows "users (tabs w') = upd_where (\<lambda>u. u_id u = i \<and> live_user u) (\<lambda>u. u\<lparr>u_email := e\<rparr>) (users (tabs w))"
  using assms by (auto simp: update_user_def sql_update_Inr split: option.splits if_splits)

text \<open>
  C26: The address of a live account changes only by confirmation: if any call on accounts, with
  any statement failing, leaves a user with another address than before and not deleted, then the
  call presented a token whose hash is that of an unexpired request of this very user, and the
  new address is the one that was requested.
\<close>

theorem email_change_needs_token:
  assumes "run_state (serve cfg c) w = ((), w')" and "users_ok (users (tabs w))" and "txn w = None"
    and "u \<in> set (users (tabs w))" and "v \<in> set (users (tabs w'))" and "u_id v = u_id u"
    and "live_user v" and "u_email v \<noteq> u_email u"
  shows "\<exists>r token q. c = ConfirmEmailChange r (Some token) \<and> q \<in> set (email_changes (tabs w)) \<and>
    ec_user q = u_id u \<and> ec_confirm_hash q = x_token_hash (ext w) token \<and>
    clock w < ec_expires_at q \<and> u_email v = ec_new_email q"
proof (cases "\<exists>r b. c = ConfirmEmailChange r b")
  case False
  then have "keeps (keeps_store (emails_from (users (tabs w)))) (serve cfg c)"
    by (intro em.ka_serve) blast
  moreover have "emails_from (users (tabs w)) (users (tabs w))"
    using assms(2) by (auto simp: emails_from_def users_ok_def dest: distinct_key_eq)
  ultimately have "emails_from (users (tabs w)) (users (tabs w'))"
    using assms(1,3) by (auto simp: keeps_def keeps_store_def store_inv_def dest!: spec [of _ w])
  with assms(4-8) show ?thesis by (auto simp: emails_from_def live_user_def)
next
  case True
  then obtain r b where c: "c = ConfirmEmailChange r b" by blast
  obtain ok w0 where l: "run_state (limiter_allow (rq_remote r)) w = (ok, w0)" "w0 = tock w"
    by (cases "run_state (limiter_allow (rq_remote r)) w") (simp add: run_external)
  have ne: "users (tabs w') \<noteq> users (tabs w)"
    using assms(2,4-6,8) by (auto simp: users_ok_def dest: distinct_key_eq)
  with assms(1) c l obtain res where "run_state (handleConfirmEmailChange b) (tock w) = (res, w')"
    by (cases ok) (auto simp: quietly_def ipRateLimit_def split: prod.splits)
  from confirm_users [OF this] ne obtain token q y w1 w2 where
    q: "b = Some token" "q \<in> set (email_changes (tabs w))" "ec_confirm_hash q = x_token_hash (ext w) token"
      "clock w < ec_expires_at q" and
    up: "update_user (ec_user q) live_user (\<lambda>u. u\<lparr>u_email := ec_new_email q\<rparr>) w1 = Inr (y, w2)"
      "users (tabs w1) = users (tabs w)" "users (tabs w') = users (tabs w2)"
    by auto
  from assms(5) obtain z where z: "z \<in> set (users (tabs w))"
    "v = (if u_id z = ec_user q \<and> live_user z then z\<lparr>u_email := ec_new_email q\<rparr> else z)"
    unfolding up(3) update_email_users [OF up(1)] up(2) set_upd_where by blast
  with assms(6) have "u_id z = u_id u" by (auto split: if_splits)
  with assms(2,4) z(1) have "z = u" by (auto simp: users_ok_def dest: distinct_key_eq)
  with z(2) assms(8) have "ec_user q = u_id u \<and> u_email v = ec_new_email q" by (auto split: if_splits)
  with q c show ?thesis by auto
qed

definition demo_email_change :: email_change_request where
  "demo_email_change = \<lparr>ec_id = 9, ec_user = 1, ec_new_email = ''new@example.org'',
     ec_old_email = ''ann@example.org'', ec_confirm_hash = ''htok'', ec_cancel_hash = ''hcan'',
     ec_created_at = 0, ec_expires_at = 100\<rparr>"

definition change_world :: world where
  "change_world = demo_world (empty_db\<lparr>users := [demo_user 1 ''ann''], email_changes := [demo_email_change]\<rparr>) 5"

definition changed_world :: world where
  "changed_world = snd (run_state (serve demo_config (ConfirmEmailChange (demo_request_of []) (Some ''tok''))) change_world)"

lemma email_change_needs_token_witness:
  "map u_email (users (tabs changed_world)) = [''new@example.org''] \<and>
   (\<exists>r token q. ConfirmEmailChange (demo_request_of []) (Some ''tok'') = ConfirmEmailChange r (Some token) \<and>
     q \<in> set (email_changes (tabs change_world)) \<and> ec_user q = 1 \<and> ec_new_email q = ''new@example.org'')"
proof -
  let ?v = "(demo_user 1 ''ann'')\<lparr>u_email := ''new@example.org''\<rparr>"
  have us: "users (tabs changed_world) = [?v]" by code_simp
  have w: "users (tabs change_world) = [demo_user 1 ''ann'']" "txn change_world = None"
    by (simp_all add: change_world_def demo_world_def)
  have run: "run_state (serve demo_config (ConfirmEmailChange (demo_request_of []) (Some ''tok''))) change_world
    = ((), changed_world)"
    by (simp add: changed_world_def prod_eq_iff)
  have "users_ok (users (tabs change_world))" by (simp add: w users_ok_def)
  from email_change_needs_token [OF run this w(2), of "demo_user 1 ''ann''" ?v]
  show ?thesis
    unfolding us w(1) by (auto simp: demo_user_def live_user_def)
qed

end
