(* ===== verification/Exports.thy ===== *)
theory Exports
  imports Account
begin

text \<open>
  User exports and admin backups: the statements of \<^verbatim>\<open>internal/queries/exports.sql.go\<close>,
  the handlers of \<^verbatim>\<open>internal/server/exports.go\<close>, and the jobs
  \<^verbatim>\<open>user_export.go\<close>, \<^verbatim>\<open>admin_backup.go\<close> and the formats of
  \<^verbatim>\<open>archive.go\<close>. A row is the life of one archive: pending, running, complete or failed,
  and expired once it was downloaded or its hour is over.
\<close>

section \<open>Statements on exports\<close>

definition CreateUserExport :: "uuid \<Rightarrow> string \<Rightarrow> user_export stmt" where
  "CreateUserExport u f = sql_write (\<lambda>w. let (i, w1) = gen_uuid w in
     sql_insert exports put_exports ex_id (refers u_id (users (tabs w)) u)
       \<lparr>ex_id = i, ex_user = u, ex_status = JobPending, ex_file_path = None, ex_size_bytes = None,
        ex_error = None, ex_created_at = clock w, ex_completed_at = None, ex_expires_at = None,
        ex_sha256 = None, ex_format = f\<rparr> w1)"

text \<open>The oldest five; \<^verbatim>\<open>RETURNING\<close> gives them in the order of the table.\<close>

definition pending_exports :: "user_export list \<Rightarrow> uuid list" where
  "pending_exports rows = map ex_id (take 5 (sort_key ex_created_at (filter (\<lambda>x. ex_status x = JobPending) rows)))"

definition ClaimPendingUserExports :: "user_export list stmt" where
  "ClaimPendingUserExports = sql_write (\<lambda>w.
     let ids = pending_exports (exports (tabs w)); start = (\<lambda>x. x\<lparr>ex_status := JobRunning\<rparr>) in
     Inr (map start (filter (\<lambda>x. ex_id x \<in> set ids) (exports (tabs w))),
          set_tabs ((tabs w)\<lparr>exports := upd_where (\<lambda>x. ex_id x \<in> set ids) start (exports (tabs w))\<rparr>) w))"

definition completed :: "string \<Rightarrow> int \<Rightarrow> string \<Rightarrow> time \<Rightarrow> user_export \<Rightarrow> user_export" where
  "completed path n sha now x = x\<lparr>ex_status := JobComplete, ex_file_path := Some path,
     ex_size_bytes := Some n, ex_sha256 := Some sha, ex_completed_at := Some now,
     ex_expires_at := Some (now + 3600000000)\<rparr>"

definition CompleteUserExport :: "uuid \<Rightarrow> string \<Rightarrow> int \<Rightarrow> string \<Rightarrow> user_export stmt" where
  "CompleteUserExport i path n sha = sql_write (\<lambda>w.
     sql_update exports put_exports (\<lambda>x. ex_id x = i) (completed path n sha (clock w)) w)"

definition FailUserExport :: "uuid \<Rightarrow> string \<Rightarrow> unit stmt" where
  "FailUserExport i msg = sql_write (\<lambda>w. Inr ((), set_tabs ((tabs w)\<lparr>exports :=
     upd_where (\<lambda>x. ex_id x = i)
       (\<lambda>x. x\<lparr>ex_status := JobFailed, ex_error := Some msg, ex_completed_at := Some (clock w)\<rparr>)
       (exports (tabs w))\<rparr>) w))"

text \<open>\<^verbatim>\<open>LIMIT 1\<close> without an order; only whether there is one is used.\<close>

definition GetPendingUserExport :: "uuid \<Rightarrow> user_export stmt" where
  "GetPendingUserExport u = sql_read (\<lambda>w. one (find_where
     (\<lambda>x. ex_user x = u \<and> (ex_status x = JobPending \<or> ex_status x = JobRunning)) (exports (tabs w))))"

definition own_export :: "uuid \<Rightarrow> uuid \<Rightarrow> user_export \<Rightarrow> bool" where
  "own_export i u x \<longleftrightarrow> ex_id x = i \<and> ex_user x = u"

definition GetUserExport :: "uuid \<Rightarrow> uuid \<Rightarrow> user_export stmt" where
  "GetUserExport i u = sql_read (\<lambda>w. one (find_where (own_export i u) (exports (tabs w))))"

definition ListUserExports :: "uuid \<Rightarrow> user_export list stmt" where
  "ListUserExports u = sql_read (\<lambda>w. Inr (take 20
     (sort_key (\<lambda>x. - ex_created_at x) (filter (\<lambda>x. ex_user x = u) (exports (tabs w))))))"

abbreviation retire :: "user_export \<Rightarrow> user_export" where
  "retire x \<equiv> x\<lparr>ex_status := JobExpired\<rparr>"

definition ExpireUserExportByID :: "uuid \<Rightarrow> uuid \<Rightarrow> nulltext stmt" where
  "ExpireUserExportByID i u = sql_write (\<lambda>w.
     case sql_update exports put_exports (\<lambda>x. own_export i u x \<and> ex_status x = JobComplete) retire w of
       Inl e \<Rightarrow> Inl e
     | Inr (x, w') \<Rightarrow> Inr (ex_file_path x, w'))"

definition stale_export :: "time \<Rightarrow> user_export \<Rightarrow> bool" where
  "stale_export now x \<longleftrightarrow> ex_status x = JobComplete \<and>
     (case ex_expires_at x of None \<Rightarrow> False | Some t \<Rightarrow> t < now)"

definition ExpireUserExports :: "nulltext list stmt" where
  "ExpireUserExports = sql_write (\<lambda>w.
     Inr (map ex_file_path (filter (stale_export (clock w)) (exports (tabs w))),
          set_tabs ((tabs w)\<lparr>exports := upd_where (stale_export (clock w)) retire (exports (tabs w))\<rparr>) w))"

definition ListFollowsByUser :: "uuid \<Rightarrow> follow list stmt" where
  "ListFollowsByUser u = sql_read (\<lambda>w.
     Inr (sort_key fo_created_at (filter (\<lambda>x. fo_follower x = u) (follows (tabs w)))))"

definition ListLikesByUser :: "uuid \<Rightarrow> like list stmt" where
  "ListLikesByUser u = sql_read (\<lambda>w.
     Inr (sort_key lk_created_at (filter (\<lambda>x. lk_user x = u) (likes (tabs w)))))"

definition ListRecipeCommentsByUser :: "uuid \<Rightarrow> comment list stmt" where
  "ListRecipeCommentsByUser u = sql_read (\<lambda>w.
     Inr (sort_key cm_created_at (filter (\<lambda>x. cm_author x = u) (comments (tabs w)))))"

section \<open>Statements on backups\<close>

definition CreateAdminBackup :: "string \<Rightarrow> admin_backup stmt" where
  "CreateAdminBackup bk = sql_write (\<lambda>w. let (i, w1) = gen_uuid w in
     sql_insert backups put_backups ab_id True
       \<lparr>ab_id = i, ab_status = JobPending, ab_file_path = None, ab_size_bytes = None,
        ab_storage_backend = bk, ab_error = None, ab_created_at = clock w, ab_completed_at = None,
        ab_sha256 = None\<rparr> w1)"

definition pending_backups :: "admin_backup list \<Rightarrow> uuid list" where
  "pending_backups rows = map ab_id (take 1 (sort_key ab_created_at (filter (\<lambda>b. ab_status b = JobPending) rows)))"

definition ClaimPendingAdminBackups :: "admin_backup list stmt" where
  "ClaimPendingAdminBackups = sql_write (\<lambda>w.
     let ids = pending_backups (backups (tabs w)); start = (\<lambda>b. b\<lparr>ab_status := JobRunning\<rparr>) in
     Inr (map start (filter (\<lambda>b. ab_id b \<in> set ids) (backups (tabs w))),
          set_tabs ((tabs w)\<lparr>backups := upd_where (\<lambda>b. ab_id b \<in> set ids) start (backups (tabs w))\<rparr>) w))"

definition CompleteAdminBackup :: "uuid \<Rightarrow> string \<Rightarrow> int \<Rightarrow> string \<Rightarrow> admin_backup stmt" where
  "CompleteAdminBackup i path n sha = sql_write (\<lambda>w.
     sql_update backups put_backups (\<lambda>b. ab_id b = i)
       (\<lambda>b. b\<lparr>ab_status := JobComplete, ab_file_path := Some path, ab_size_bytes := Some n,
              ab_sha256 := Some sha, ab_completed_at := Some (clock w)\<rparr>) w)"

definition FailAdminBackup :: "uuid \<Rightarrow> string \<Rightarrow> unit stmt" where
  "FailAdminBackup i msg = sql_write (\<lambda>w. Inr ((), set_tabs ((tabs w)\<lparr>backups :=
     upd_where (\<lambda>b. ab_id b = i)
       (\<lambda>b. b\<lparr>ab_status := JobFailed, ab_error := Some msg, ab_completed_at := Some (clock w)\<rparr>)
       (backups (tabs w))\<rparr>) w))"

definition GetAdminBackup :: "uuid \<Rightarrow> admin_backup stmt" where
  "GetAdminBackup i = sql_read (\<lambda>w. one (find_where (\<lambda>b. ab_id b = i) (backups (tabs w))))"

definition ListAdminBackups :: "admin_backup list stmt" where
  "ListAdminBackups = sql_read (\<lambda>w. Inr (take 20 (sort_key (\<lambda>b. - ab_created_at b) (backups (tabs w)))))"

text \<open>A day of \<^verbatim>\<open>interval '1 day'\<close>, the sessions running in UTC.\<close>

definition day :: time where "day = 24 * 3600000000"

definition old_backup :: "time \<Rightarrow> int \<Rightarrow> admin_backup \<Rightarrow> bool" where
  "old_backup now days b \<longleftrightarrow> (ab_status b = JobComplete \<or> ab_status b = JobFailed) \<and>
     (case ab_completed_at b of None \<Rightarrow> False | Some t \<Rightarrow> t < now - days * day)"

definition DeleteExpiredAdminBackups :: "int \<Rightarrow> nulltext list stmt" where
  "DeleteExpiredAdminBackups days = sql_write (\<lambda>w.
     Inr (map ab_file_path (filter (old_backup (clock w) days) (backups (tabs w))),
          set_tabs ((tabs w)\<lparr>backups := del_where (old_backup (clock w) days) (backups (tabs w))\<rparr>) w))"

section \<open>Formats\<close>

definition ExportFormatZip :: string where "ExportFormatZip = ''zip''"
definition ExportFormatTarGz :: string where "ExportFormatTarGz = ''tar.gz''"
definition ExportFormatZstd :: string where "ExportFormatZstd = ''zstd''"

definition FormatExtension :: "string \<Rightarrow> string" where
  "FormatExtension f = (if f = ExportFormatTarGz then ''tar.gz''
     else if f = ExportFormatZstd then ''tar.zst'' else ''zip'')"

definition FormatContentType :: "string \<Rightarrow> string" where
  "FormatContentType f = (if f = ExportFormatTarGz then ''application/gzip''
     else if f = ExportFormatZstd then ''application/zstd'' else ''application/zip'')"

definition IsValidExportFormat :: "string \<Rightarrow> bool" where
  "IsValidExportFormat f \<longleftrightarrow> f \<in> set [ExportFormatZip, ExportFormatTarGz, ExportFormatZstd]"

section \<open>The archive of a user\<close>

text \<open>A list whose statement failed is left out: its error is dropped.\<close>

definition or_null :: "'a stmt \<Rightarrow> 'a option act" where
  "or_null m = do { r \<leftarrow> m; ret (case r of Inl e \<Rightarrow> None | Inr a \<Rightarrow> Some a) }"

fun recipe_docs ::
    "recipe list \<Rightarrow> (recipe \<times> ingredient list option \<times> revision list option) list act" where
  "recipe_docs [] = ret []"
| "recipe_docs (r # rs) = do {
     ings \<leftarrow> or_null (ListRecipeIngredients (rc_id r));
     revs \<leftarrow> or_null (ListRecipeRevisions (rc_id r));
     out \<leftarrow> recipe_docs rs;
     ret ((r, ings, revs) # out) }"

fun batch_docs ::
    "batch list \<Rightarrow> (batch \<times> reading list option \<times> batch_event list option \<times> tasting_note list option) list act" where
  "batch_docs [] = ret []"
| "batch_docs (b # bs) = do {
     rds \<leftarrow> or_null (ListAllReadingsForBatch (b_id b));
     evs \<leftarrow> or_null (ListAllBatchEventsForBatch (b_id b));
     nts \<leftarrow> or_null (ListTastingNotesForBatch (b_id b));
     out \<leftarrow> batch_docs bs;
     ret ((b, rds, evs, nts) # out) }"

definition writeRecipes :: "uuid \<Rightarrow> archive_entry stmt" where
  "writeRecipes u = do {
     r \<leftarrow> ListAllRecipesForAuthor u;
     (case r of Inl e \<Rightarrow> ret (Inl e)
      | Inr rs \<Rightarrow> do { out \<leftarrow> recipe_docs rs; ret (Inr (Recipes_Json out)) }) }"

definition writeBatches :: "uuid \<Rightarrow> archive_entry stmt" where
  "writeBatches u = do {
     r \<leftarrow> ListAllBatchesForUser u;
     (case r of Inl e \<Rightarrow> ret (Inl e)
      | Inr bs \<Rightarrow> do { out \<leftarrow> batch_docs bs; ret (Inr (Batches_Json out)) }) }"

definition writeSocial :: "uuid \<Rightarrow> archive_entry act" where
  "writeSocial u = do {
     fs \<leftarrow> or_null (ListFollowsByUser u);
     ls \<leftarrow> or_null (ListLikesByUser u);
     cs \<leftarrow> or_null (ListRecipeCommentsByUser u);
     ret (Social_Json fs ls cs) }"

definition profile_entry :: "user \<Rightarrow> archive_entry" where
  "profile_entry u = Profile_Json (u_id u) (u_username u) (textOrEmpty (u_display_name u))
     (textOrEmpty (u_bio u)) (textOrEmpty (u_avatar_url u)) (u_created_at u)"

definition error_text :: "string act" where
  "error_text = ask (\<lambda>w. x_error_text (ext w) (tick w))"

text \<open>
  The entries are encoded as they are read; here they are encoded together at the end. An error on
  the way ends the archive in either order, and nothing but the bytes comes of it.
\<close>

definition encode_archive :: "string \<Rightarrow> archive_entry list \<Rightarrow> (string + string) act" where
  "encode_archive f es = do {
     out \<leftarrow> ask (\<lambda>w. x_archive (ext w) (tick w) f es);
     State_Monad.update tock;
     t \<leftarrow> error_text;
     ret (case out of None \<Rightarrow> Inl t | Some b \<Rightarrow> Inr b) }"

definition buildArchive :: "uuid \<Rightarrow> string \<Rightarrow> (string + string) act" where
  "buildArchive u f =
     (if f \<noteq> [] \<and> \<not> IsValidExportFormat f then ret (Inl (''unsupported export format: '' @ f))
      else do {
        r \<leftarrow> GetUserByID u;
        t \<leftarrow> error_text;
        (case r of
           Inl e \<Rightarrow> ret (Inl t)
         | Inr v \<Rightarrow> do {
             now \<leftarrow> ask clock;
             rs \<leftarrow> writeRecipes u;
             t1 \<leftarrow> error_text;
             (case rs of
                Inl e \<Rightarrow> ret (Inl t1)
              | Inr rdoc \<Rightarrow> do {
                  bs \<leftarrow> writeBatches u;
                  t2 \<leftarrow> error_text;
                  (case bs of
                     Inl e \<Rightarrow> ret (Inl t2)
                   | Inr bdoc \<Rightarrow> do {
                       sdoc \<leftarrow> writeSocial u;
                       encode_archive f [Manifest_Json now (u_username v) f, profile_entry v, rdoc, bdoc, sdoc] }) }) }) })"

section \<open>The export job\<close>

definition export_format :: "user_export \<Rightarrow> string" where
  "export_format row = (if ex_format row = [] then ExportFormatZip else ex_format row)"

definition export_key :: "externals \<Rightarrow> user_export \<Rightarrow> string" where
  "export_key x row = ''tmp/exports/'' @ x_uuid_text x (ex_user row) @ ''/'' @
     x_uuid_text x (ex_id row) @ ''.'' @ FormatExtension (export_format row)"

text \<open>The first half: the archive in a temporary file, which is created, and rewound when written.\<close>

definition build_export :: "user_export \<Rightarrow> (string + string) act" where
  "build_export row = do {
     created \<leftarrow> io_step;
     t \<leftarrow> error_text;
     (if \<not> created then ret (Inl (''create temp: '' @ t))
      else do {
        a \<leftarrow> buildArchive (ex_user row) (export_format row);
        (case a of
           Inl m \<Rightarrow> ret (Inl (''build archive: '' @ m))
         | Inr body \<Rightarrow> do {
             rewound \<leftarrow> io_step;
             t1 \<leftarrow> error_text;
             ret (if rewound then Inr body else Inl t1) }) }) }"

text \<open>The second half: the bytes go to the store, their digest and number to the row.\<close>

definition store_export :: "backend \<Rightarrow> user_export \<Rightarrow> string \<Rightarrow> (string + unit) act" where
  "store_export bk row body = do {
     x \<leftarrow> ask ext;
     ok \<leftarrow> store_put bk Export_Store (export_key x row) (Some body);
     t \<leftarrow> error_text;
     (if \<not> ok then ret (Inl (''store put: '' @ t))
      else do {
        r \<leftarrow> CompleteUserExport (ex_id row) (export_key x row) (int (length body)) (x_sha256 x body);
        t1 \<leftarrow> error_text;
        ret (case r of Inl e \<Rightarrow> Inl t1 | Inr _ \<Rightarrow> Inr ()) }) }"

definition processExport :: "backend \<Rightarrow> user_export \<Rightarrow> (string + unit) act" where
  "processExport bk row = do {
     b \<leftarrow> build_export row;
     (case b of Inl m \<Rightarrow> ret (Inl m) | Inr body \<Rightarrow> store_export bk row body) }"

text \<open>What the job does with the outcome.\<close>

definition record_failure :: "user_export \<Rightarrow> string + unit \<Rightarrow> unit act" where
  "record_failure row r = (case r of
     Inr _ \<Rightarrow> ret ()
   | Inl m \<Rightarrow> do { FailUserExport (ex_id row) m; ret () })"

fun process_exports :: "backend \<Rightarrow> user_export list \<Rightarrow> unit act" where
  "process_exports bk [] = ret ()"
| "process_exports bk (row # rows) = do {
     r \<leftarrow> processExport bk row;
     record_failure row r;
     process_exports bk rows }"

definition pruneExpiredExports :: "unit act" where
  "pruneExpiredExports = do {
     r \<leftarrow> ExpireUserExports;
     (case r of Inl e \<Rightarrow> ret () | Inr ps \<Rightarrow> delete_paths Export_Store ps) }"

definition export_Work :: "backend \<Rightarrow> unit stmt" where
  "export_Work bk = do {
     r \<leftarrow> ClaimPendingUserExports;
     (case r of
        Inl e \<Rightarrow> ret (Inl e)
      | Inr rows \<Rightarrow> do {
          process_exports bk rows;
          pruneExpiredExports;
          ret (Inr ()) }) }"

section \<open>Handlers of exports\<close>

record export_view =
  xv_id :: uuid
  xv_status :: job_status
  xv_format :: string
  xv_created_at :: time
  xv_size_bytes :: "int option"
  xv_sha256 :: "string option"
  xv_completed_at :: "time option"
  xv_expires_at :: "time option"
  xv_error :: "string option"

definition exportView :: "user_export \<Rightarrow> export_view" where
  "exportView e = \<lparr>xv_id = ex_id e, xv_status = ex_status e, xv_format = ex_format e,
     xv_created_at = ex_created_at e, xv_size_bytes = ex_size_bytes e, xv_sha256 = ex_sha256 e,
     xv_completed_at = ex_completed_at e, xv_expires_at = ex_expires_at e, xv_error = ex_error e\<rparr>"

abbreviation internal_error :: "'v resp" where
  "internal_error \<equiv> Fail 500 ''internal error''"

definition not_found_or_500 :: "dberr \<Rightarrow> 'v resp" where
  "not_found_or_500 e = (if e = NoRows then Fail 404 ''not found'' else internal_error)"

text \<open>The body is absent, or has a format: \<open>Some []\<close>; \<open>None\<close> is a body that does not parse.\<close>

definition handleTriggerExport :: "user \<Rightarrow> string option \<Rightarrow> export_view resp act" where
  "handleTriggerExport user body = (case body of
     None \<Rightarrow> ret (Fail 400 ''invalid body'')
   | Some f0 \<Rightarrow>
       let f = (if f0 = [] then ExportFormatZip else f0) in
       if \<not> IsValidExportFormat f then ret (Fail 400 ''format must be one of: zip, tar.gz, zstd'')
       else do {
         p \<leftarrow> GetPendingUserExport (u_id user);
         (case p of
            Inr _ \<Rightarrow> ret (Fail 409 ''an export is already in progress'')
          | Inl e \<Rightarrow>
              if e \<noteq> NoRows then ret internal_error
              else handle (CreateUserExport (u_id user) f) (\<lambda>e. internal_error)
                (\<lambda>x. ret (Okay 202 (exportView x)))) })"

definition handleListExports :: "user \<Rightarrow> export_view list resp act" where
  "handleListExports user = handle (ListUserExports (u_id user)) (\<lambda>e. internal_error)
     (\<lambda>xs. ret (Okay 200 (map exportView xs)))"

definition handleGetExport :: "user \<Rightarrow> uuid option \<Rightarrow> export_view resp act" where
  "handleGetExport user pid = (case pid of
     None \<Rightarrow> ret (Fail 400 ''invalid id'')
   | Some i \<Rightarrow> handle (GetUserExport i (u_id user)) not_found_or_500
       (\<lambda>x. ret (Okay 200 (exportView x))))"

text \<open>A body that is streamed, with its headers; \<open>dl_whole\<close> tells whether the client got all of it.\<close>

record download =
  dl_sha256 :: string
  dl_type :: string
  dl_filename :: string
  dl_body :: string
  dl_whole :: bool

definition client_reads :: "bool act" where
  "client_reads = do {
     ok \<leftarrow> ask (\<lambda>w. x_stream (ext w) (tick w));
     State_Monad.update tock;
     ret ok }"

text \<open>The clean-up after a download that went through: only the one that flips the row deletes.\<close>

definition retire_download :: "uuid \<Rightarrow> uuid \<Rightarrow> unit act" where
  "retire_download i u = do {
     r \<leftarrow> ExpireUserExportByID i u;
     (case r of
        Inl e \<Rightarrow> ret ()
      | Inr p \<Rightarrow> if textOrEmpty p = [] then ret ()
                 else do { store_delete Export_Store (textOrEmpty p); ret () }) }"

definition stream_export :: "uuid \<Rightarrow> uuid \<Rightarrow> user_export \<Rightarrow> string \<Rightarrow> download resp act" where
  "stream_export i u x body = do {
     e \<leftarrow> ask ext;
     whole \<leftarrow> client_reads;
     (if whole then retire_download i u else ret ());
     ret (Okay 200 \<lparr>dl_sha256 = textOrEmpty (ex_sha256 x), dl_type = FormatContentType (ex_format x),
       dl_filename = ''zymo-export-'' @ x_uuid_text e i @ ''.'' @ FormatExtension (ex_format x),
       dl_body = body, dl_whole = whole\<rparr>) }"

definition handleDownloadExport :: "user \<Rightarrow> uuid option \<Rightarrow> download resp act" where
  "handleDownloadExport user pid = (case pid of
     None \<Rightarrow> ret (Fail 400 ''invalid id'')
   | Some i \<Rightarrow> handle (GetUserExport i (u_id user)) not_found_or_500 (\<lambda>x.
       if ex_status x \<noteq> JobComplete
       then ret (Fail 409 (''export status is '' @ job_status_str (ex_status x)))
       else do {
         b \<leftarrow> store_get Export_Store (textOrEmpty (ex_file_path x));
         (case b of
            None \<Rightarrow> ret internal_error
          | Some body \<Rightarrow> stream_export i (u_id user) x body) }))"

end
