(* ===== verification/Backups.thy ===== *)
theory Backups
  imports Exports
begin

text \<open>
  Admin backups, the job of \<^verbatim>\<open>internal/jobs/admin_backup.go\<close> and the handlers of
  \<^verbatim>\<open>internal/server/exports.go\<close>, the middleware that lets administrators only in, and
  the summary of the configuration they are shown, \<^verbatim>\<open>admin_config.go\<close>.
\<close>

section \<open>The backup jobs\<close>

definition schedule_Work :: "backend \<Rightarrow> unit stmt" where
  "schedule_Work bk = do {
     r \<leftarrow> CreateAdminBackup (Backend bk);
     ret (case r of Inl e \<Rightarrow> Inl e | Inr _ \<Rightarrow> Inr ()) }"

definition backup_key :: "externals \<Rightarrow> admin_backup \<Rightarrow> string" where
  "backup_key x row = ''exports/admin/'' @ x_uuid_text x (ab_id row) @ ''.dump''"

text \<open>
  \<^verbatim>\<open>pg_dump\<close> writes into a pipe that \<^verbatim>\<open>Put\<close> reads: when the dump fails, the
  reader ends in an error. The number of bytes and the digest are those the store read.
\<close>

definition processBackup :: "backend \<Rightarrow> admin_backup \<Rightarrow> (string + unit) act" where
  "processBackup bk row = do {
     x \<leftarrow> ask ext;
     dump \<leftarrow> ask (\<lambda>w. x_dump (ext w) (tick w));
     State_Monad.update tock;
     ok \<leftarrow> store_put bk Backup_Store (backup_key x row) dump;
     t \<leftarrow> error_text;
     (case dump of
        None \<Rightarrow> ret (Inl (''pg_dump: '' @ t))
      | Some body \<Rightarrow>
          if \<not> ok then ret (Inl (''store put: '' @ t))
          else do {
            r \<leftarrow> CompleteAdminBackup (ab_id row) (backup_key x row) (int (length body)) (x_sha256 x body);
            t1 \<leftarrow> error_text;
            ret (case r of Inl e \<Rightarrow> Inl t1 | Inr _ \<Rightarrow> Inr ()) }) }"

definition record_backup_failure :: "admin_backup \<Rightarrow> string + unit \<Rightarrow> unit act" where
  "record_backup_failure row r = (case r of
     Inr _ \<Rightarrow> ret ()
   | Inl m \<Rightarrow> do { FailAdminBackup (ab_id row) m; ret () })"

fun process_backups :: "backend \<Rightarrow> admin_backup list \<Rightarrow> unit act" where
  "process_backups bk [] = ret ()"
| "process_backups bk (row # rows) = do {
     r \<leftarrow> processBackup bk row;
     record_backup_failure row r;
     process_backups bk rows }"

definition pruneExpired :: "int \<Rightarrow> unit act" where
  "pruneExpired days = do {
     r \<leftarrow> DeleteExpiredAdminBackups days;
     (case r of Inl e \<Rightarrow> ret () | Inr ps \<Rightarrow> delete_paths Backup_Store ps) }"

definition backup_Work :: "backend \<Rightarrow> int \<Rightarrow> unit stmt" where
  "backup_Work bk days = do {
     r \<leftarrow> ClaimPendingAdminBackups;
     (case r of
        Inl e \<Rightarrow> ret (Inl e)
      | Inr rows \<Rightarrow> do {
          process_backups bk rows;
          pruneExpired days;
          ret (Inr ()) }) }"

section \<open>Administrators only\<close>

definition requireAdmin :: "user \<Rightarrow> 'v resp act \<Rightarrow> 'v resp act" where
  "requireAdmin user k = (if u_is_admin user then k else ret (Fail 403 ''forbidden''))"

section \<open>Handlers\<close>

record backup_view =
  bv_id :: uuid
  bv_status :: job_status
  bv_storage_backend :: string
  bv_created_at :: time
  bv_size_bytes :: "int option"
  bv_sha256 :: "string option"
  bv_completed_at :: "time option"
  bv_error :: "string option"

definition backupView :: "admin_backup \<Rightarrow> backup_view" where
  "backupView b = \<lparr>bv_id = ab_id b, bv_status = ab_status b, bv_storage_backend = ab_storage_backend b,
     bv_created_at = ab_created_at b, bv_size_bytes = ab_size_bytes b, bv_sha256 = ab_sha256 b,
     bv_completed_at = ab_completed_at b, bv_error = ab_error b\<rparr>"

definition handleTriggerAdminBackup :: "backend \<Rightarrow> backup_view resp act" where
  "handleTriggerAdminBackup bk = handle (CreateAdminBackup (Backend bk)) (\<lambda>e. internal_error)
     (\<lambda>b. ret (Okay 202 (backupView b)))"

definition handleListAdminBackups :: "backup_view list resp act" where
  "handleListAdminBackups = handle ListAdminBackups (\<lambda>e. internal_error)
     (\<lambda>bs. ret (Okay 200 (map backupView bs)))"

definition handleGetAdminBackup :: "uuid option \<Rightarrow> backup_view resp act" where
  "handleGetAdminBackup pid = (case pid of
     None \<Rightarrow> ret (Fail 400 ''invalid id'')
   | Some i \<Rightarrow> handle (GetAdminBackup i) not_found_or_500 (\<lambda>b. ret (Okay 200 (backupView b))))"

text \<open>A backup is streamed, or the client is sent to the presigned URL of the object.\<close>

datatype served = Redirected string string | Streamed download

definition serveStorageFile :: "backend \<Rightarrow> string \<Rightarrow> string \<Rightarrow> string \<Rightarrow> string \<Rightarrow> served resp act" where
  "serveStorageFile bk key name ctype sha = do {
     p \<leftarrow> PresignGet bk key;
     (case p of
        None \<Rightarrow> ret internal_error
      | Some url \<Rightarrow>
          if url \<noteq> [] then ret (Okay 302 (Redirected url sha))
          else do {
            b \<leftarrow> store_get Backup_Store key;
            (case b of
               None \<Rightarrow> ret internal_error
             | Some body \<Rightarrow> do {
                 whole \<leftarrow> client_reads;
                 ret (Okay 200 (Streamed \<lparr>dl_sha256 = sha, dl_type = ctype, dl_filename = name,
                   dl_body = body, dl_whole = whole\<rparr>)) }) }) }"

definition handleDownloadAdminBackup :: "backend \<Rightarrow> uuid option \<Rightarrow> served resp act" where
  "handleDownloadAdminBackup bk pid = (case pid of
     None \<Rightarrow> ret (Fail 400 ''invalid id'')
   | Some i \<Rightarrow> handle (GetAdminBackup i) not_found_or_500 (\<lambda>b.
       if ab_status b \<noteq> JobComplete
       then ret (Fail 409 (''backup status is '' @ job_status_str (ab_status b)))
       else do {
         x \<leftarrow> ask ext;
         serveStorageFile bk (textOrEmpty (ab_file_path b)) (''zymo-backup-'' @ x_uuid_text x i @ ''.dump'')
           ''application/octet-stream'' (textOrEmpty (ab_sha256 b)) }))"

section \<open>The summary of the configuration\<close>

record admin_config_view =
  ac_instance_mode :: string
  ac_auto_migrate :: bool
  ac_cookie_secure :: bool
  ac_push_configured :: bool
  ac_apprise_configured :: bool
  ac_email_configured :: bool
  ac_apprise_allow_webhook_schemes :: bool
  ac_apprise_allowed_host_cidr_count :: nat
  ac_smtp_tls_mode :: string
  ac_storage_backend :: string
  ac_backup_backend :: string
  ac_backup_retention_days :: int
  ac_trusted_proxy_count :: nat
  ac_database_url_set :: bool
  ac_vapid_private_key_set :: bool
  ac_smtp_password_set :: bool
  ac_s3_secret_key_set :: bool
  ac_s3_access_key_masked :: string

definition isSet :: "string \<Rightarrow> bool" where
  "isSet v \<longleftrightarrow> v \<noteq> []"

text \<open>The mask is four bullets, whose UTF-8 bytes are written out.\<close>

definition mask_prefix :: string where
  "mask_prefix = concat (replicate 4 (map char_of [0xE2, 0x80, 0xA2 :: nat]))"

definition maskTail :: "string \<Rightarrow> nat \<Rightarrow> string" where
  "maskTail v keep =
     (if v = [] then []
      else if length v \<le> keep then mask_prefix
      else mask_prefix @ drop (length v - keep) v)"

definition admin_config :: "config \<Rightarrow> admin_config_view" where
  "admin_config c = (let primary = PrimaryStorage c; backup = BackupStorage c;
       email = SMTPHost c \<noteq> [] \<and> SMTPFrom c \<noteq> [] in
     \<lparr>ac_instance_mode = InstanceMode c, ac_auto_migrate = AutoMigrate c,
      ac_cookie_secure = CookieSecure c,
      ac_push_configured = (VAPIDPublicKey c \<noteq> [] \<and> VAPIDPrivateKey c \<noteq> []),
      ac_apprise_configured = (AppriseAPIURL c \<noteq> []), ac_email_configured = email,
      ac_apprise_allow_webhook_schemes = AppriseAllowWebhookSchemes c,
      ac_apprise_allowed_host_cidr_count = length (AppriseAllowedHostCIDRs c),
      ac_smtp_tls_mode = (if email then SMTPTLSMode c else []),
      ac_storage_backend = bc_Backend primary, ac_backup_backend = bc_Backend backup,
      ac_backup_retention_days = BackupRetentionDays c,
      ac_trusted_proxy_count = length (TrustedProxies c),
      ac_database_url_set = isSet (DatabaseURL c),
      ac_vapid_private_key_set = isSet (VAPIDPrivateKey c),
      ac_smtp_password_set = isSet (SMTPPassword c),
      ac_s3_secret_key_set = isSet (bc_S3SecretKey primary),
      ac_s3_access_key_masked = maskTail (bc_S3AccessKey primary) 4\<rparr>)"

definition handleAdminConfig :: "config \<Rightarrow> admin_config_view resp act" where
  "handleAdminConfig c = ret (Okay 200 (admin_config c))"

section \<open>Opening the stores\<close>

text \<open>
  \<^verbatim>\<open>storage.New\<close>: the local root must be creatable, a bucket named; an unknown backend is
  refused. Both stores are opened from the configuration, the exports' from \<^verbatim>\<open>STORAGE_*\<close>.
\<close>

definition store_New :: "backend_config \<Rightarrow> backend option act" where
  "store_New bc = do {
     ok \<leftarrow> io_step;
     ret (if bc_Backend bc = ''local'' \<or> bc_Backend bc = [] then (if ok then Some Local_FS else None)
       else if bc_Backend bc = ''s3'' then (if bc_S3Bucket bc \<noteq> [] \<and> ok then Some S3_Bucket else None)
       else None) }"

definition openStores :: "config \<Rightarrow> (backend \<times> backend) option act" where
  "openStores cfg = do {
     e \<leftarrow> store_New (PrimaryStorage cfg);
     (case e of
        None \<Rightarrow> ret None
      | Some eb \<Rightarrow> do {
          b \<leftarrow> store_New (BackupStorage cfg);
          ret (case b of None \<Rightarrow> None | Some bb \<Rightarrow> Some (eb, bb)) }) }"

section \<open>The administrators' calls\<close>

datatype admin_call =
    AdminConfig | TriggerBackup | ListBackups | GetBackup "uuid option" | DownloadBackup "uuid option"

datatype admin_answer =
    ConfigAnswer admin_config_view | BackupAnswer backup_view | BackupsAnswer "backup_view list"
  | ServedAnswer served

primrec map_resp :: "('v \<Rightarrow> 'u) \<Rightarrow> 'v resp \<Rightarrow> 'u resp" where
  "map_resp f (Fail n m) = Fail n m"
| "map_resp f (Okay n v) = Okay n (f v)"

definition answering :: "('v \<Rightarrow> 'u) \<Rightarrow> 'v resp act \<Rightarrow> 'u resp act" where
  "answering f m = do { r \<leftarrow> m; ret (map_resp f r) }"

primrec admin_handler :: "config \<Rightarrow> backend \<Rightarrow> admin_call \<Rightarrow> admin_answer resp act" where
  "admin_handler cfg bk AdminConfig = answering ConfigAnswer (handleAdminConfig cfg)"
| "admin_handler cfg bk TriggerBackup = answering BackupAnswer (handleTriggerAdminBackup bk)"
| "admin_handler cfg bk ListBackups = answering BackupsAnswer handleListAdminBackups"
| "admin_handler cfg bk (GetBackup i) = answering BackupAnswer (handleGetAdminBackup i)"
| "admin_handler cfg bk (DownloadBackup i) = answering ServedAnswer (handleDownloadAdminBackup bk i)"

text \<open>\<^verbatim>\<open>/api/admin\<close>, behind both middlewares.\<close>

definition serve_admin :: "config \<Rightarrow> backend \<Rightarrow> request \<Rightarrow> admin_call \<Rightarrow> admin_answer resp act" where
  "serve_admin cfg bk r c = requireAuth r (\<lambda>u. requireAdmin u (admin_handler cfg bk c))"

end
