(* ===== verification/Backup_Props.thy ===== *)
theory Backup_Props
  imports Backups Session_Props
begin

text \<open>
  Backups: only administrators reach them, the configuration they are shown has no secret in it,
  and a run of the job removes the backups that are older than the retention and no other.
\<close>

section \<open>Administrators only\<close>

definition caller :: "request \<Rightarrow> world \<Rightarrow> user option" where
  "caller r w = (if extractToken r = [] then None
     else map_option snd (session_of (clock w) (x_token_hash (ext w) (extractToken r)) (tabs w)))"

text \<open>All a request does before its handler is to refresh its session.\<close>

definition only_touched :: "world \<Rightarrow> world \<Rightarrow> bool" where
  "only_touched w w' \<longleftrightarrow> ext w' = ext w \<and> clock w' = clock w \<and> txn w' = txn w \<and> outbox w' = outbox w \<and>
     export_blobs w' = export_blobs w \<and> backup_blobs w' = backup_blobs w \<and>
     (\<exists>f. tabs w' = (tabs w)\<lparr>sessions := map f (sessions (tabs w))\<rparr> \<and>
        (\<forall>s. f s = s \<or> f s = s\<lparr>s_last_seen_at := clock w\<rparr>))"

lemma only_touched_tock: "only_touched w (tock w)"
  unfolding only_touched_def by (auto intro!: exI [of _ id])

lemma only_touched_touch:
  "only_touched w ((set_tabs ((tabs w)\<lparr>sessions := upd_where P (\<lambda>s. s\<lparr>s_last_seen_at := clock w\<rparr>) (sessions (tabs w))\<rparr>) w))"
  unfolding only_touched_def upd_where_def
  by (auto intro!: exI [of _ "\<lambda>s. if P s then s\<lparr>s_last_seen_at := clock w\<rparr> else s"])

lemma only_touched_trans:
  assumes "only_touched w w1" and "only_touched w1 w2"
  shows "only_touched w w2"
proof -
  from assms obtain f g where f: "tabs w1 = (tabs w)\<lparr>sessions := map f (sessions (tabs w))\<rparr>"
    "\<forall>s. f s = s \<or> f s = s\<lparr>s_last_seen_at := clock w\<rparr>" and
    g: "tabs w2 = (tabs w1)\<lparr>sessions := map g (sessions (tabs w1))\<rparr>"
    "\<forall>s. g s = s \<or> g s = s\<lparr>s_last_seen_at := clock w\<rparr>"
    by (auto simp: only_touched_def)
  from f g have "tabs w2 = (tabs w)\<lparr>sessions := map (g \<circ> f) (sessions (tabs w))\<rparr>" by simp
  moreover have "(g \<circ> f) s = s \<or> (g \<circ> f) s = s\<lparr>s_last_seen_at := clock w\<rparr>" for s
    using f(2) [rule_format, of s] g(2) [rule_format, of "f s"] by auto
  ultimately have "\<exists>f. tabs w2 = (tabs w)\<lparr>sessions := map f (sessions (tabs w))\<rparr> \<and>
      (\<forall>s. f s = s \<or> f s = s\<lparr>s_last_seen_at := clock w\<rparr>)" by blast
  with assms show ?thesis unfolding only_touched_def by simp
qed

lemma only_touched_refl: "only_touched w w"
  unfolding only_touched_def by (auto intro!: exI [of _ id])

interpretation ot: kept_relation only_touched
  by unfold_locales (rule only_touched_refl only_touched_tock | erule only_touched_trans, assumption)+

lemma middleware_caller:
  assumes "run_state (authMiddleware r) w = (v, w')"
  shows "only_touched w w' \<and> (v = None \<or> v = caller r w)"
proof -
  have "keeps only_touched (TouchSession i)" for i
    unfolding TouchSession_def by (rule ot.keeps_sql_write) (auto simp: only_touched_touch)
  then have "keeps only_touched (authMiddleware r)"
    unfolding authMiddleware_def GetSessionWithUser_def
    by (auto intro!: ot.keeps_intros split: sum.split prod.split)
  with assms have "only_touched w w'" unfolding keeps_def by (metis snd_conv)
  moreover have "v = None \<or> v = caller r w"
    using assms
    by (auto simp: authMiddleware_def run_ask GetSessionWithUser_def run_sql_read one_def caller_def
        split: if_splits outcome.splits option.splits prod.splits)
  ultimately show ?thesis by blast
qed

lemma session_of_live: "session_of now h d = Some (s, u) \<Longrightarrow> u \<in> set (users d) \<and> live_user u"
  by (auto simp: session_of_def split: option.splits dest!: find_where_Some)

text \<open>
  C27: The administration is for administrators. An answer other than an error means that the
  request carried the token of a running session of a live user who is an administrator. For
  everyone else all five endpoints answer 401 or 403 and do nothing but refresh the session: no
  backup row is made, no blob is read or moved, and no URL is signed.
\<close>

theorem admin_only:
  assumes "run_state (serve_admin cfg bk r c) w = (res, w')"
  shows "(\<exists>u. caller r w = Some u \<and> u \<in> set (users (tabs w)) \<and> live_user u \<and> u_is_admin u) \<or>
    ((res = Fail 401 ''unauthorized'' \<or> res = Fail 403 ''forbidden'') \<and> only_touched w w')"
proof -
  obtain v w1 where m: "run_state (authMiddleware r) w = (v, w1)" by fastforce
  note c = middleware_caller [OF m]
  show ?thesis
  proof (cases v)
    case None
    with assms m c show ?thesis by (auto simp: serve_admin_def requireAuth_def)
  next
    case (Some u)
    with c have u: "caller r w = Some u" by simp
    then obtain s where "session_of (clock w) (x_token_hash (ext w) (extractToken r)) (tabs w) = Some (s, u)"
      by (auto simp: caller_def split: if_splits)
    from session_of_live [OF this] have l: "u \<in> set (users (tabs w))" "live_user u" by blast+
    show ?thesis
    proof (cases "u_is_admin u")
      case False
      with assms m Some have "res = Fail 403 ''forbidden'' \<and> w' = w1"
        by (auto simp: serve_admin_def requireAuth_def requireAdmin_def)
      with c show ?thesis by blast
    qed (use u l in blast)
  qed
qed

definition admin_db :: db where
  "admin_db = empty_db\<lparr>users := [demo_user 1 ''ann'', (demo_user 2 ''root'')\<lparr>u_is_admin := True\<rparr>],
     sessions := [demo_session 11 1 ''tok'', demo_session 12 2 ''adm'']\<rparr>"

text \<open>A user is refused, the administrator gets a backup.\<close>

lemma admin_only_witness:
  "\<exists>res w' res' w''.
     run_state (serve_admin demo_config Local_FS (demo_request_of ''tok'') TriggerBackup) (demo_world admin_db 5) = (res, w') \<and>
     backups (tabs w') = [] \<and> res = Fail 403 ''forbidden'' \<and>
     run_state (serve_admin demo_config Local_FS (demo_request_of ''adm'') TriggerBackup) (demo_world admin_db 5) = (res', w'') \<and>
     length (backups (tabs w'')) = 1"
proof -
  let ?m = "\<lambda>t. run_state (serve_admin demo_config Local_FS (demo_request_of t) TriggerBackup) (demo_world admin_db 5)"
  obtain res w' where r: "?m ''tok'' = (res, w')" by fastforce
  obtain res' w'' where r': "?m ''adm'' = (res', w'')" by fastforce
  have no: "\<not> (\<exists>u. caller (demo_request_of ''tok'') (demo_world admin_db 5) = Some u \<and>
      u \<in> set (users (tabs (demo_world admin_db 5))) \<and> live_user u \<and> u_is_admin u)"
  proof -
    have "map_option u_is_admin (caller (demo_request_of ''tok'') (demo_world admin_db 5)) = Some False" by code_simp
    then show ?thesis
      by (cases "caller (demo_request_of ''tok'') (demo_world admin_db 5)") simp_all
  qed
  from admin_only [OF r] no have "only_touched (demo_world admin_db 5) w'" by blast
  then have "backups (tabs w') = []"
    by (auto simp: only_touched_def admin_db_def demo_world_def empty_db_def)
  moreover have "(case ?m ''tok'' of (Fail n m, v) \<Rightarrow> n = 403 \<and> m = ''forbidden'' | (Okay n x, v) \<Rightarrow> False)"
    by code_simp
  with r have "res = Fail 403 ''forbidden''" by (cases res) auto
  moreover have "length (backups (tabs (snd (?m ''adm'')))) = 1" by code_simp
  with r' have "length (backups (tabs w'')) = 1" by simp
  ultimately show ?thesis using r r' by blast
qed

section \<open>No secret in the summary\<close>

text \<open>Another configuration with other secrets, set where the first has them set.\<close>

definition other_secrets :: "config \<Rightarrow> config \<Rightarrow> bool" where
  "other_secrets c c' \<longleftrightarrow> (let p = Primary_backend c; b = Backup_backend c in
     \<exists>db vapid smtp_user smtp key id bkey bid.
       c' = c\<lparr>DatabaseURL := db, VAPIDPrivateKey := vapid, SMTPUsername := smtp_user, SMTPPassword := smtp,
         Primary_backend := p\<lparr>bc_S3SecretKey := key, bc_S3AccessKey := id\<rparr>,
         Backup_backend := b\<lparr>bc_S3SecretKey := bkey, bc_S3AccessKey := bid\<rparr>\<rparr> \<and>
       (db = [] \<longleftrightarrow> DatabaseURL c = []) \<and> (vapid = [] \<longleftrightarrow> VAPIDPrivateKey c = []) \<and>
       (smtp = [] \<longleftrightarrow> SMTPPassword c = []) \<and> (key = [] \<longleftrightarrow> bc_S3SecretKey p = []) \<and>
       (id = bc_S3AccessKey p \<or> (\<exists>tail h h'. length tail = 4 \<and> h \<noteq> [] \<and> h' \<noteq> [] \<and>
          id = h @ tail \<and> bc_S3AccessKey p = h' @ tail)))"

lemma maskTail_tail: "length t = k \<Longrightarrow> h \<noteq> [] \<Longrightarrow> maskTail (h @ t) k = mask_prefix @ t"
  by (cases h) (simp_all add: maskTail_def)

text \<open>
  C28: The configuration summary tells no secret. Whatever the database URL, the VAPID private
  key, the SMTP credentials and the S3 secret keys are, and whatever precedes the last four
  characters of the access key, whose length is not told either, the administrator reads the same
  answer, as long as the same of them are set.
\<close>

theorem config_tells_no_secret:
  assumes "other_secrets c c'"
  shows "handleAdminConfig c' = handleAdminConfig c"
proof -
  from assms obtain db vapid smtp_user smtp key ident bkey bid where
    c': "c' = c\<lparr>DatabaseURL := db, VAPIDPrivateKey := vapid, SMTPUsername := smtp_user, SMTPPassword := smtp,
         Primary_backend := (Primary_backend c)\<lparr>bc_S3SecretKey := key, bc_S3AccessKey := ident\<rparr>,
         Backup_backend := (Backup_backend c)\<lparr>bc_S3SecretKey := bkey, bc_S3AccessKey := bid\<rparr>\<rparr>" and
    s: "db = [] \<longleftrightarrow> DatabaseURL c = []" "vapid = [] \<longleftrightarrow> VAPIDPrivateKey c = []"
      "smtp = [] \<longleftrightarrow> SMTPPassword c = []" "key = [] \<longleftrightarrow> bc_S3SecretKey (Primary_backend c) = []" and
    i: "ident = bc_S3AccessKey (Primary_backend c) \<or> (\<exists>t h h'. length t = 4 \<and> h \<noteq> [] \<and> h' \<noteq> [] \<and>
          ident = h @ t \<and> bc_S3AccessKey (Primary_backend c) = h' @ t)"
    unfolding other_secrets_def Let_def by (elim exE conjE) blast
  from i have "maskTail ident 4 = maskTail (bc_S3AccessKey (Primary_backend c)) 4"
    by (auto simp: maskTail_tail)
  then show ?thesis
    using s unfolding c'
    by (simp add: handleAdminConfig_def admin_config_def Let_def PrimaryStorage_def BackupStorage_def
        coalesce_str_def isSet_def)
qed

lemma config_tells_no_secret_witness:
  "handleAdminConfig (demo_config\<lparr>DatabaseURL := ''postgres://other''\<rparr>) = handleAdminConfig demo_config \<and>
   DatabaseURL demo_config \<noteq> ''postgres://other''"
proof -
  have d: "DatabaseURL demo_config \<noteq> [] \<and> DatabaseURL demo_config \<noteq> ''postgres://other''" by code_simp
  have eq: "demo_config\<lparr>DatabaseURL := ''postgres://other''\<rparr> = demo_config\<lparr>DatabaseURL := ''postgres://other'',
    VAPIDPrivateKey := VAPIDPrivateKey demo_config, SMTPUsername := SMTPUsername demo_config,
    SMTPPassword := SMTPPassword demo_config, Primary_backend := (Primary_backend demo_config)
      \<lparr>bc_S3SecretKey := bc_S3SecretKey (Primary_backend demo_config),
       bc_S3AccessKey := bc_S3AccessKey (Primary_backend demo_config)\<rparr>,
    Backup_backend := (Backup_backend demo_config)
      \<lparr>bc_S3SecretKey := bc_S3SecretKey (Backup_backend demo_config),
       bc_S3AccessKey := bc_S3AccessKey (Backup_backend demo_config)\<rparr>\<rparr>" by simp
  have "other_secrets demo_config (demo_config\<lparr>DatabaseURL := ''postgres://other''\<rparr>)"
    unfolding other_secrets_def Let_def by (intro exI conjI, rule eq) (use d in simp_all)
  with d config_tells_no_secret show ?thesis by blast
qed

section \<open>Retention\<close>

definition backup_path :: "externals \<Rightarrow> uuid \<Rightarrow> string" where
  "backup_path x i = ''exports/admin/'' @ x_uuid_text x i @ ''.dump''"

lemma backup_path_inj: "inj (x_uuid_text x) \<Longrightarrow> backup_path x i = backup_path x j \<longleftrightarrow> i = j"
  by (simp add: backup_path_def inj_eq)

text \<open>What the rows promise: their ids are unique and a path is that of the id.\<close>

definition backups_ok :: "externals \<Rightarrow> admin_backup list \<Rightarrow> bool" where
  "backups_ok x rows \<longleftrightarrow> distinct (map ab_id rows) \<and>
     (\<forall>b\<in>set rows. case ab_file_path b of None \<Rightarrow> True | Some p \<Rightarrow> p = backup_path x (ab_id b))"

lemma backups_ok_upd:
  assumes "backups_ok x rows" and "\<And>b. P b \<Longrightarrow> ab_id (f b) = ab_id b"
    and "\<And>b. P b \<Longrightarrow> ab_file_path (f b) \<in> {ab_file_path b, Some (backup_path x (ab_id b))}"
  shows "backups_ok x (upd_where P f rows)"
proof -
  have "map ab_id (upd_where P f rows) = map ab_id rows" using assms(2) by (simp add: map_upd_where)
  moreover have "case ab_file_path (f b) of None \<Rightarrow> True | Some p \<Rightarrow> p = backup_path x (ab_id (f b))"
    if "b \<in> set rows" "P b" for b
    using assms(1) assms(2) [OF that(2)] assms(3) [OF that(2)] that(1)
    by (auto simp: backups_ok_def split: option.splits)
  ultimately show ?thesis using assms(1) unfolding backups_ok_def set_upd_where by (auto split: if_splits)
qed

text \<open>A backup the run at hand has claimed: it is running, or was finished just now.\<close>

definition in_hand :: "time \<Rightarrow> admin_backup \<Rightarrow> bool" where
  "in_hand now b \<longleftrightarrow> ab_status b = JobRunning \<or> ab_completed_at b = Some now"

text \<open>Work on the backups of \<open>I\<close>: the other rows and their blobs are as they were.\<close>

definition works_on :: "uuid set \<Rightarrow> world \<Rightarrow> world \<Rightarrow> bool" where
  "works_on I w w' \<longleftrightarrow> ext w' = ext w \<and> clock w' = clock w \<and>
     filter (\<lambda>b. ab_id b \<notin> I) (backups (tabs w')) = filter (\<lambda>b. ab_id b \<notin> I) (backups (tabs w)) \<and>
     (\<forall>k. k \<notin> backup_path (ext w) ` I \<longrightarrow> backup_blobs w' k = backup_blobs w k) \<and>
     (backups_ok (ext w) (backups (tabs w)) \<longrightarrow> backups_ok (ext w) (backups (tabs w'))) \<and>
     map ab_id (backups (tabs w')) = map ab_id (backups (tabs w)) \<and>
     ((\<forall>b\<in>set (backups (tabs w)). ab_id b \<in> I \<longrightarrow> in_hand (clock w) b) \<longrightarrow>
      (\<forall>b\<in>set (backups (tabs w')). ab_id b \<in> I \<longrightarrow> in_hand (clock w) b))"

interpretation wo: kept_relation "works_on I" for I
  by unfold_locales (auto simp: works_on_def)

lemma wo_update_rows:
  assumes "\<And>b. P b \<Longrightarrow> ab_id b \<in> I \<and> ab_id (f b) = ab_id b"
    and "\<And>b. P b \<Longrightarrow> ab_file_path (f b) \<in> {ab_file_path b, Some (backup_path (ext w) (ab_id b))}"
    and "\<And>b. P b \<Longrightarrow> in_hand (clock w) (f b)"
  shows "works_on I w (set_tabs ((tabs w)\<lparr>backups := upd_where P f (backups (tabs w))\<rparr>) w)"
proof -
  have "map ab_id (upd_where P f (backups (tabs w))) = map ab_id (backups (tabs w))"
    using assms(1) by (simp add: map_upd_where)
  moreover have "\<forall>b\<in>set (upd_where P f (backups (tabs w))). ab_id b \<in> I \<longrightarrow> in_hand (clock w) b"
    if "\<forall>b\<in>set (backups (tabs w)). ab_id b \<in> I \<longrightarrow> in_hand (clock w) b"
    using that assms(1,3) by (auto simp: set_upd_where)
  ultimately show ?thesis
    unfolding works_on_def
    using assms(1,2) by (auto intro!: backups_ok_upd filter_upd_where_other)
qed

lemma wo_put:
  assumes "i \<in> I" and "only_blobs w w'"
    and "\<And>k. k \<noteq> backup_path (ext w) i \<Longrightarrow> backup_blobs w' k = backup_blobs w k"
  shows "works_on I w w'"
  using assms unfolding works_on_def only_blobs_def by auto

lemma wo_failure:
  assumes "ab_id row \<in> I"
  shows "works_on I w (snd (run_state (record_backup_failure row r) w))"
proof -
  have "keeps (works_on I) (FailAdminBackup (ab_id row) m)" for m
    unfolding FailAdminBackup_def
    by (rule wo.keeps_sql_write) (use assms in \<open>auto intro!: wo_update_rows simp: in_hand_def\<close>)
  then have "keeps (works_on I) (record_backup_failure row r)"
    unfolding record_backup_failure_def by (auto intro!: wo.keeps_intros split: sum.split)
  then show ?thesis by (simp add: keeps_def)
qed

lemma wo_process:
  assumes "ab_id row \<in> I"
  shows "works_on I w (snd (run_state (processBackup bk row) w))"
proof -
  have complete: "works_on I v (snd (run_state (CompleteAdminBackup (ab_id row) (backup_key (ext v) row) n h) v))" for v n h
  proof -
    have "works_on I v w'" if "sql_update backups put_backups (\<lambda>b. ab_id b = ab_id row)
       (\<lambda>b. b\<lparr>ab_status := JobComplete, ab_file_path := Some (backup_key (ext v) row), ab_size_bytes := Some n,
              ab_sha256 := Some h, ab_completed_at := Some (clock (tock v))\<rparr>) (tock v) = Inr (a, w')" for a w'
      using that assms wo_update_rows [of "\<lambda>b. ab_id b = ab_id row" I "\<lambda>b. b\<lparr>ab_status := JobComplete,
          ab_file_path := Some (backup_key (ext v) row), ab_size_bytes := Some n,
          ab_sha256 := Some h, ab_completed_at := Some (clock (tock v))\<rparr>" "tock v"]
        wo.kept_trans [OF wo.kept_tock [of I v]]
      by (auto simp: sql_update_Inr backup_key_def backup_path_def in_hand_def)
    then show ?thesis
      unfolding CompleteAdminBackup_def run_sql_write
      using wo.kept_tock [of I v] by (auto split: outcome.split sum.split)
  qed
  obtain ok w2 where p: "run_state (store_put bk Backup_Store (backup_key (ext w) row) (x_dump (ext w) (tick w)))
      (tock w) = (ok, w2)" by fastforce
  note e = store_put_effect [OF this]
  have "works_on I (tock w) w2"
    by (rule wo_put [OF assms]) (use e in \<open>auto simp: backup_key_def backup_path_def split: if_splits\<close>)
  then have w2: "works_on I w w2" by (rule wo.kept_trans [OF wo.kept_tock])
  have x: "ext w2 = ext w" using e by (simp add: only_blobs_def)
  have c: "works_on I w v'"
    if "run_state (CompleteAdminBackup (ab_id row) (backup_key (ext w) row) n h) w2 = (r, v')" for n h r v'
    using complete [of w2 n h, unfolded x] wo.kept_trans [OF w2] that by simp
  show ?thesis
    using p w2
    by (auto dest: c simp: processBackup_def run_ask run_update error_text_def split: option.split prod.split)
qed

lemma wo_process_all:
  "ab_id ` set rows \<subseteq> I \<Longrightarrow> works_on I w (snd (run_state (process_backups bk rows) w))"
proof (induction rows arbitrary: w)
  case (Cons row rows)
  obtain r w1 where r: "run_state (processBackup bk row) w = (r, w1)" by fastforce
  obtain w2 where f: "run_state (record_backup_failure row r) w1 = ((), w2)" by (cases "run_state (record_backup_failure row r) w1") auto
  from Cons.prems wo_process [of row I w bk] wo_failure [of row I w1 r] r f
  have "works_on I w w1" "works_on I w1 w2" by auto
  moreover have "works_on I w2 (snd (run_state (process_backups bk rows) w2))" using Cons by simp
  ultimately show ?case using r f by (auto intro: wo.kept_trans)
qed (simp add: wo.kept_refl)

text \<open>A backup that has had its time: finished, successfully or not, more than \<open>days\<close> days ago.\<close>

definition outlived :: "time \<Rightarrow> int \<Rightarrow> admin_backup \<Rightarrow> bool" where
  "outlived now days b \<longleftrightarrow> ab_status b \<in> {JobComplete, JobFailed} \<and>
     (\<exists>t. ab_completed_at b = Some t \<and> t < now - days * 86400000000)"

lemma old_backup_outlived: "old_backup = outlived"
  by (auto simp: fun_eq_iff old_backup_def outlived_def day_def split: option.splits)

lemma pruneExpired_result:
  assumes "run_state (pruneExpired days) w = ((), w')" and "backups_ok (ext w) (backups (tabs w))"
    and "inj (x_uuid_text (ext w))"
  shows "backups_ok (ext w) (backups (tabs w')) \<and>
    (\<forall>b\<in>set (backups (tabs w)). \<not> old_backup (clock w) days b \<longrightarrow>
       b \<in> set (backups (tabs w')) \<and> backup_blobs w' (backup_path (ext w) (ab_id b)) =
         backup_blobs w (backup_path (ext w) (ab_id b))) \<and>
    set (backups (tabs w')) \<subseteq> set (backups (tabs w)) \<and>
    (x_avail (ext w) (tick w) = Up \<longrightarrow> (\<forall>b\<in>set (backups (tabs w')). \<not> old_backup (clock w) days b))"
proof (cases "x_avail (ext w) (tick w) = Up")
  case False
  with assms have "w' = tock w"
    by (auto simp: pruneExpired_def DeleteExpiredAdminBackups_def run_sql_write split: outcome.splits)
  with assms False show ?thesis by auto
next
  case True
  define w1 where "w1 = set_tabs ((tabs w)\<lparr>backups := del_where (old_backup (clock w) days) (backups (tabs w))\<rparr>) (tock w)"
  define ps where "ps = map ab_file_path (filter (old_backup (clock w) days) (backups (tabs w)))"
  from True assms(1) have d: "run_state (delete_paths Backup_Store ps) w1 = ((), w')"
    by (auto simp: pruneExpired_def DeleteExpiredAdminBackups_def run_sql_write w1_def ps_def)
  note e = delete_paths_effect [OF d]
  have rows: "backups (tabs w') = del_where (old_backup (clock w) days) (backups (tabs w))"
    using e by (simp add: only_blobs_def w1_def)
  have "backup_blobs w' (backup_path (ext w) (ab_id b)) = backup_blobs w (backup_path (ext w) (ab_id b))"
    if b: "b \<in> set (backups (tabs w))" "\<not> old_backup (clock w) days b" for b
  proof -
    have "backup_path (ext w) (ab_id b) \<notin> textOrEmpty ` set ps"
    proof
      assume "backup_path (ext w) (ab_id b) \<in> textOrEmpty ` set ps"
      then obtain c where c: "c \<in> set (backups (tabs w))" "old_backup (clock w) days c"
        "backup_path (ext w) (ab_id b) = textOrEmpty (ab_file_path c)" by (auto simp: ps_def)
      then have "textOrEmpty (ab_file_path c) \<noteq> []" by (simp add: backup_path_def flip: c(3))
      with assms(2) c(1) have "textOrEmpty (ab_file_path c) = backup_path (ext w) (ab_id c)"
        by (auto simp: backups_ok_def textOrEmpty_def split: option.splits)
      with c(3) assms(3) have "ab_id c = ab_id b" by (auto simp: backup_path_def dest: injD)
      with assms(2) b(1) c(1) have "c = b" by (auto simp: backups_ok_def dest: distinct_key_eq)
      with b(2) c(2) show False by simp
    qed
    with e show ?thesis by (simp add: w1_def)
  qed
  moreover have "backups_ok (ext w) (backups (tabs w'))"
    using assms(2) unfolding rows backups_ok_def by (auto simp: set_del_where distinct_del_where)
  ultimately show ?thesis unfolding rows by (auto simp: set_del_where)
qed

lemma in_hand_young: "0 \<le> days \<Longrightarrow> in_hand now b \<Longrightarrow> \<not> outlived now days b"
  unfolding in_hand_def outlived_def by fastforce

text \<open>
  C29: Retention. A run of the backup job, whatever fails in it and for any retention that is not
  negative (a loaded configuration has at least one day), deletes only what has outlived the
  retention: a row goes only if its backup was finished, successfully or not, and its completion lies
  more than \<open>days\<close> days back. Every other row is still there: a pending one perhaps taken up
  or finished by this run, any other (running, or finished more recently) unchanged, with its dump in
  the store bit by bit. When the database answers, no row that has outlived the retention is left.
  The paths of the rows stay those of their ids, so the next run finds the same.
\<close>

theorem backup_retention:
  assumes "run_state (backup_Work bk days) w = (res, w')" and "backups_ok (ext w) (backups (tabs w))"
    and "inj (x_uuid_text (ext w))" and "0 \<le> days"
  shows "backups_ok (ext w) (backups (tabs w')) \<and>
    (\<forall>b\<in>set (backups (tabs w)). \<not> outlived (clock w) days b \<longrightarrow>
       ab_id b \<in> ab_id ` set (backups (tabs w')) \<and>
       (ab_status b \<noteq> JobPending \<longrightarrow> b \<in> set (backups (tabs w')) \<and>
         backup_blobs w' (backup_path (ext w) (ab_id b)) = backup_blobs w (backup_path (ext w) (ab_id b)))) \<and>
    ((\<forall>n. x_avail (ext w) n = Up) \<longrightarrow> (\<forall>b\<in>set (backups (tabs w')). \<not> outlived (clock w) days b))"
proof (cases "x_avail (ext w) (tick w) = Up")
  case False
  with assms have "w' = tock w"
    by (auto simp: backup_Work_def ClaimPendingAdminBackups_def run_sql_write split: outcome.splits)
  with assms False show ?thesis by auto
next
  case True
  define I where "I = set (pending_backups (backups (tabs w)))"
  define start where "start = (\<lambda>b :: admin_backup. b\<lparr>ab_status := JobRunning\<rparr>)"
  define w1 where "w1 = set_tabs ((tabs w)\<lparr>backups := upd_where (\<lambda>b. ab_id b \<in> I) start (backups (tabs w))\<rparr>) (tock w)"
  define rows where "rows = map start (filter (\<lambda>b. ab_id b \<in> I) (backups (tabs w)))"
  define w2 where "w2 = snd (run_state (process_backups bk rows) w1)"
  have p: "run_state (process_backups bk rows) w1 = ((), w2)" by (simp add: w2_def prod_eq_iff)
  from True assms(1) have r: "run_state (pruneExpired days) w2 = ((), w')"
    by (auto simp: backup_Work_def ClaimPendingAdminBackups_def run_sql_write Let_def w2_def w1_def rows_def
        I_def start_def split: prod.splits)
  have w1: "works_on I (tock w) w1"
    unfolding w1_def using wo_update_rows [of "\<lambda>b. ab_id b \<in> I" I start "tock w"]
    by (auto simp: start_def in_hand_def)
  moreover have w2: "works_on I w1 w2"
    unfolding w2_def by (rule wo_process_all) (auto simp: rows_def start_def)
  ultimately have k: "works_on I w w2" by (meson wo.kept_trans wo.kept_tock)
  then have x: "ext w2 = ext w" "clock w2 = clock w" "backups_ok (ext w) (backups (tabs w2))"
    using assms(2) by (auto simp: works_on_def)
  note q = pruneExpired_result [OF r, unfolded x(1,2) old_backup_outlived, OF x(3) assms(3)]
  have kept: "\<forall>b\<in>set (backups (tabs w2)). \<not> outlived (clock w) days b \<longrightarrow> b \<in> set (backups (tabs w'))"
    using q by simp
  have ids: "ab_id ` set (backups (tabs w2)) = ab_id ` set (backups (tabs w))"
    using k unfolding works_on_def by (metis list.set_map)
  have outside: "b \<in> set (backups (tabs w2)) \<and> backup_blobs w2 (backup_path (ext w) (ab_id b)) =
      backup_blobs w (backup_path (ext w) (ab_id b))"
    if b: "b \<in> set (backups (tabs w))" "ab_id b \<notin> I" for b
  proof -
    have "b \<in> set (filter (\<lambda>b. ab_id b \<notin> I) (backups (tabs w)))"
      "backup_path (ext w) (ab_id b) \<notin> backup_path (ext w) ` I"
      using b backup_path_inj [OF assms(3)] by auto
    moreover from k have "filter (\<lambda>b. ab_id b \<notin> I) (backups (tabs w2)) = filter (\<lambda>b. ab_id b \<notin> I) (backups (tabs w))"
      by (simp add: works_on_def)
    ultimately show ?thesis
      using k unfolding works_on_def by (metis (no_types, lifting) filter_is_subset subsetD)
  qed
  have hand: "\<forall>b\<in>set (backups (tabs w2)). ab_id b \<in> I \<longrightarrow> in_hand (clock w) b"
  proof -
    have "\<forall>b\<in>set (backups (tabs w1)). ab_id b \<in> I \<longrightarrow> in_hand (clock w1) b"
      by (auto simp: w1_def set_upd_where start_def in_hand_def)
    with w2 have "\<forall>b\<in>set (backups (tabs w2)). ab_id b \<in> I \<longrightarrow> in_hand (clock w1) b" by (simp add: works_on_def)
    then show ?thesis by (simp add: w1_def)
  qed
  have pending: "ab_status b = JobPending" if "b \<in> set (backups (tabs w))" "ab_id b \<in> I" for b
  proof -
    from that(2) obtain c where c: "c \<in> set (backups (tabs w))" "ab_status c = JobPending" "ab_id c = ab_id b"
      by (auto simp: I_def pending_backups_def dest!: in_set_takeD)
    from assms(2) have "distinct (map ab_id (backups (tabs w)))" by (simp add: backups_ok_def)
    from distinct_key_eq [OF this c(1) that(1) c(3)] c(2) show ?thesis by simp
  qed
  have "ab_id b \<in> ab_id ` set (backups (tabs w')) \<and>
      (ab_status b \<noteq> JobPending \<longrightarrow> b \<in> set (backups (tabs w')) \<and>
        backup_blobs w' (backup_path (ext w) (ab_id b)) = backup_blobs w (backup_path (ext w) (ab_id b)))"
    if b: "b \<in> set (backups (tabs w))" "\<not> outlived (clock w) days b" for b
  proof (cases "ab_id b \<in> I")
    case False
    with outside [of b] b q show ?thesis by auto
  next
    case True
    have "ab_id b \<in> ab_id ` set (backups (tabs w2))" unfolding ids using b(1) by (rule imageI)
    then obtain c where c: "c \<in> set (backups (tabs w2))" "ab_id c = ab_id b" by auto
    with hand True have "in_hand (clock w) c" by simp
    then have "\<not> outlived (clock w) days c" by (rule in_hand_young [OF assms(4)])
    with c(1) kept have "c \<in> set (backups (tabs w'))" by blast
    then have "ab_id b \<in> ab_id ` set (backups (tabs w'))" unfolding c(2) [symmetric] by (rule imageI)
    with pending [OF b(1) True] show ?thesis by simp
  qed
  with q show ?thesis by auto
qed

definition old_row :: admin_backup where
  "old_row = \<lparr>ab_id = 1, ab_status = JobComplete, ab_file_path = Some ''exports/admin/x.dump'',
     ab_size_bytes = Some 4, ab_storage_backend = ''local'', ab_error = None, ab_created_at = 0,
     ab_completed_at = Some 0, ab_sha256 = None\<rparr>"

definition young_row :: admin_backup where
  "young_row = old_row\<lparr>ab_id := 2, ab_file_path := Some ''exports/admin/xx.dump'', ab_completed_at := Some day\<rparr>"

definition backup_world :: world where
  "backup_world = (demo_world (empty_db\<lparr>backups := [old_row, young_row]\<rparr>) (30 * day + 1))
     \<lparr>backup_blobs := (\<lambda>k. if k \<in> {''exports/admin/x.dump'', ''exports/admin/xx.dump''} then Some ''dump'' else None)\<rparr>"

lemma backup_retention_witness:
  "\<exists>res w'. run_state (backup_Work Local_FS 30) backup_world = (res, w') \<and>
     backups (tabs w') = [young_row] \<and> backup_blobs w' ''exports/admin/xx.dump'' = Some ''dump''"
proof -
  obtain res w' where r: "run_state (backup_Work Local_FS 30) backup_world = (res, w')" by fastforce
  have x: "ext backup_world = demo_ext" by (simp add: backup_world_def demo_world_def)
  have ok: "backups_ok (ext backup_world) (backups (tabs backup_world))"
    by (simp add: backups_ok_def x backup_world_def demo_world_def old_row_def young_row_def
        backup_path_def demo_ext_def numeral_2_eq_2)
  have j: "inj (x_uuid_text (ext backup_world))"
    unfolding x demo_ext_def by (auto simp: inj_def dest: arg_cong [of _ _ length])
  have m: "young_row \<in> set (backups (tabs backup_world))" "\<not> outlived (clock backup_world) 30 young_row" "ab_status young_row \<noteq> JobPending"
    by (simp_all add: backup_world_def demo_world_def outlived_def young_row_def old_row_def day_def)
  have pth: "backup_path (ext backup_world) (ab_id young_row) = ''exports/admin/xx.dump''"
    by (simp add: x young_row_def backup_path_def demo_ext_def numeral_2_eq_2)
  have z: "0 \<le> (30 :: int)" by simp
  from backup_retention [OF r ok j z] m
  have "backup_blobs w' (backup_path (ext backup_world) (ab_id young_row)) =
      backup_blobs backup_world (backup_path (ext backup_world) (ab_id young_row))" by blast
  then have "backup_blobs w' ''exports/admin/xx.dump'' = Some ''dump''"
    unfolding pth by (simp add: backup_world_def)
  moreover have "backups (tabs (snd (run_state (backup_Work Local_FS 30) backup_world))) = [young_row]" by code_simp
  ultimately show ?thesis using r by auto
qed

end
