(* ===== verification/Export_Props.thy ===== *)
theory Export_Props
  imports Backups Deletion_Props
begin

text \<open>
  The life of the exports as a transition system. The jobs hold the exports they claimed in their
  own memory, so the state is the world and the exports in flight: claimed, or built and not yet
  stored. Between any two steps of a job come the calls of users, other jobs, and the crash of the
  process, which forgets what is in flight. The job of \<^verbatim>\<open>user_export.go\<close> is one path of it.
\<close>

section \<open>Steps\<close>

datatype flight = Claimed user_export | Built user_export string

primrec flight_row :: "flight \<Rightarrow> user_export" where
  "flight_row (Claimed e) = e"
| "flight_row (Built e b) = e"

abbreviation flight_id :: "flight \<Rightarrow> uuid" where
  "flight_id f \<equiv> ex_id (flight_row f)"

datatype export_call =
    TriggerExport user "string option"
  | DownloadExport user "uuid option"
  | PruneExports
  | AnonymizeAccount uuid

primrec serve_export :: "export_call \<Rightarrow> unit act" where
  "serve_export (TriggerExport u b) = quietly (handleTriggerExport u b)"
| "serve_export (DownloadExport u i) = quietly (handleDownloadExport u i)"
| "serve_export PruneExports = pruneExpiredExports"
| "serve_export (AnonymizeAccount u) = quietly (Anonymize u)"

definition finish_export :: "backend \<Rightarrow> user_export \<Rightarrow> string \<Rightarrow> unit act" where
  "finish_export bk row body = do { r \<leftarrow> store_export bk row body; record_failure row r }"

text \<open>
  A new row does not get the id of an export in flight: \<^verbatim>\<open>gen_random_uuid\<close> does not
  repeat itself within the minutes of a job.
\<close>

definition no_id_reused :: "world \<Rightarrow> flight list \<Rightarrow> bool" where
  "no_id_reused w fs \<longleftrightarrow>
     list_all (\<lambda>e. ex_status e = JobPending \<longrightarrow> ex_id e \<notin> flight_id ` set fs) (exports (tabs w))"

inductive export_step :: "backend \<Rightarrow> world \<times> flight list \<Rightarrow> world \<times> flight list \<Rightarrow> bool" for bk where
  claim: "run_state ClaimPendingUserExports w = (Inr rows, w') \<Longrightarrow>
    export_step bk (w, fs) (w', map Claimed rows @ fs)"
| build: "run_state (build_export row) w = (Inr body, w') \<Longrightarrow>
    export_step bk (w, us @ Claimed row # vs) (w', us @ Built row body # vs)"
| build_fails: "run_state (build_export row) w = (Inl m, w1) \<Longrightarrow>
    run_state (record_failure row (Inl m)) w1 = ((), w') \<Longrightarrow>
    export_step bk (w, us @ Claimed row # vs) (w', us @ vs)"
| store: "run_state (finish_export bk row body) w = ((), w') \<Longrightarrow>
    export_step bk (w, us @ Built row body # vs) (w', us @ vs)"
| call: "run_state (serve_export c) w = ((), w') \<Longrightarrow> no_id_reused w' fs \<Longrightarrow>
    export_step bk (w, fs) (w', fs)"
| nothing: "export_step bk (w, fs) (tock w, fs)"
| wait: "clock w \<le> t \<Longrightarrow> export_step bk (w, fs) (w\<lparr>clock := t\<rparr>, fs)"
| crash: "export_step bk (w, fs) (w, [])"

abbreviation export_steps :: "backend \<Rightarrow> world \<times> flight list \<Rightarrow> world \<times> flight list \<Rightarrow> bool" where
  "export_steps bk \<equiv> (export_step bk)\<^sup>*\<^sup>*"

text \<open>A run of the job is a sequence of steps that ends with nothing in flight.\<close>

lemma process_exports_steps:
  "run_state (process_exports bk rows) w = ((), w') \<Longrightarrow> export_steps bk (w, map Claimed rows) (w', [])"
proof (induction rows arbitrary: w)
  case (Cons row rows)
  obtain b w1 where b: "run_state (build_export row) w = (b, w1)" by fastforce
  show ?case
  proof (cases b)
    case (Inl m)
    obtain w2 where f: "run_state (record_failure row (Inl m)) w1 = ((), w2)"
      by (cases "run_state (record_failure row (Inl m)) w1") auto
    with Cons.prems b Inl have "run_state (process_exports bk rows) w2 = ((), w')"
      by (auto simp: processExport_def)
    from Cons.IH [OF this] have "export_steps bk (w2, [] @ map Claimed rows) (w', [])" by simp
    with build_fails [OF b [unfolded Inl] f, of bk "[]" "map Claimed rows"]
    show ?thesis by (simp add: converse_rtranclp_into_rtranclp)
  next
    case (Inr body)
    obtain w2 where f: "run_state (finish_export bk row body) w1 = ((), w2)"
      by (cases "run_state (finish_export bk row body) w1") auto
    with Cons.prems b Inr have "run_state (process_exports bk rows) w2 = ((), w')"
      by (auto simp: processExport_def finish_export_def split: prod.splits)
    from Cons.IH [OF this] have "export_steps bk (w2, [] @ map Claimed rows) (w', [])" by simp
    with store [OF f, of "[]" "map Claimed rows"] build [OF b [unfolded Inr], of bk "[]" "map Claimed rows"]
    show ?thesis by (simp add: converse_rtranclp_into_rtranclp)
  qed
qed simp

lemma export_Work_steps:
  assumes "run_state (export_Work bk) w = (r, w')"
  shows "export_steps bk (w, []) (w', [])"
proof -
  obtain c w1 where c: "run_state ClaimPendingUserExports w = (c, w1)" by fastforce
  show ?thesis
  proof (cases c)
    case (Inl e)
    with c have "w1 = tock w"
      by (auto simp: ClaimPendingUserExports_def run_sql_write Let_def split: outcome.splits)
    with assms c Inl have "w' = tock w" by (auto simp: export_Work_def)
    moreover have "export_step bk (w, []) (tock w, [])" by (rule nothing)
    ultimately show ?thesis by (simp add: r_into_rtranclp)
  next
    case (Inr rows)
    obtain w2 where p: "run_state (process_exports bk rows) w1 = ((), w2)"
      by (cases "run_state (process_exports bk rows) w1") auto
    with assms c Inr have "run_state (serve_export PruneExports) w2 = ((), w')"
      by (auto simp: export_Work_def split: prod.splits)
    moreover have "no_id_reused w' []" by (simp add: no_id_reused_def list_all_iff)
    ultimately have "export_step bk (w2, []) (w', [])" by (rule call)
    with process_exports_steps [OF p] have "export_steps bk (w1, map Claimed rows) (w', [])" by simp
    with claim [OF c [unfolded Inr], of bk "[]"] show ?thesis
      by (simp add: converse_rtranclp_into_rtranclp)
  qed
qed

section \<open>What the calls do to the exports\<close>

lemma keepsD: "keeps R m \<Longrightarrow> run_state m w = (a, w') \<Longrightarrow> R w w'"
  by (metis keeps_def snd_conv)

definition evolves :: "user_export \<Rightarrow> user_export \<Rightarrow> bool" where
  "evolves e e' \<longleftrightarrow> e' = e \<or> (ex_status e = JobComplete \<and> e' = retire e)"

definition tame :: "world \<Rightarrow> world \<Rightarrow> bool" where
  "tame w w' \<longleftrightarrow> ext w' = ext w \<and> txn w' = txn w \<and>
     (\<forall>k. export_blobs w' k = None \<or> export_blobs w' k = export_blobs w k) \<and>
     (distinct (map ex_id (exports (tabs w))) \<longrightarrow> distinct (map ex_id (exports (tabs w')))) \<and>
     (\<forall>e'\<in>set (exports (tabs w')). (\<exists>e\<in>set (exports (tabs w)). evolves e e') \<or>
        (ex_status e' = JobPending \<and> ex_file_path e' = None))"

lemma evolves_trans: "evolves e e' \<Longrightarrow> evolves e' e'' \<Longrightarrow> evolves e e''"
  by (auto simp: evolves_def)

lemma evolves_pending: "evolves e e' \<Longrightarrow> ex_status e = JobPending \<Longrightarrow> e' = e"
  by (auto simp: evolves_def)

lemma tame_row:
  "tame w w' \<Longrightarrow> e' \<in> set (exports (tabs w')) \<Longrightarrow>
    (\<exists>e\<in>set (exports (tabs w)). evolves e e') \<or> (ex_status e' = JobPending \<and> ex_file_path e' = None)"
  by (simp add: tame_def)

lemma tame_trans:
  assumes "tame w w'" and "tame w' w''"
  shows "tame w w''"
  unfolding tame_def
proof (intro conjI allI impI ballI)
  fix e'' assume "e'' \<in> set (exports (tabs w''))"
  from tame_row [OF assms(2) this]
  show "(\<exists>e\<in>set (exports (tabs w)). evolves e e'') \<or> (ex_status e'' = JobPending \<and> ex_file_path e'' = None)"
  proof
    assume "\<exists>e\<in>set (exports (tabs w')). evolves e e''"
    then obtain e' where e': "e' \<in> set (exports (tabs w'))" "evolves e' e''" by blast
    from tame_row [OF assms(1) e'(1)] e'(2) show ?thesis
      using evolves_trans evolves_pending by blast
  qed simp
next
  fix k
  have "export_blobs v' k = None \<or> export_blobs v' k = export_blobs v k" if "tame v v'" for v v'
    using that by (simp add: tame_def)
  from this [OF assms(1)] this [OF assms(2)]
  show "export_blobs w'' k = None \<or> export_blobs w'' k = export_blobs w k" by auto
next
  show "ext w'' = ext w" "txn w'' = txn w" using assms by (simp_all add: tame_def)
next
  assume "distinct (map ex_id (exports (tabs w)))"
  with assms show "distinct (map ex_id (exports (tabs w'')))" unfolding tame_def by blast
qed

lemma tame_same:
  "ext w' = ext w \<Longrightarrow> txn w' = txn w \<Longrightarrow> exports (tabs w') = exports (tabs w) \<Longrightarrow> export_blobs w' = export_blobs w \<Longrightarrow> tame w w'"
  by (auto simp: tame_def evolves_def)

interpretation ta: kept_relation tame
  by unfold_locales (erule (1) tame_trans | simp add: tame_same)+

lemma tame_retire:
  assumes "\<And>e. P e \<Longrightarrow> ex_status e = JobComplete"
  shows "tame w (set_tabs ((tabs w)\<lparr>exports := upd_where P retire (exports (tabs w))\<rparr>) w)"
  using assms unfolding tame_def evolves_def by (auto simp: map_upd_where set_upd_where)

lemma tame_drop: "tame w (set_tabs ((tabs w)\<lparr>exports := del_where P (exports (tabs w))\<rparr>) w)"
  unfolding tame_def evolves_def by (auto simp: distinct_del_where set_del_where)

lemma tame_blobs:
  assumes "only_blobs w w'" and "\<forall>k. export_blobs w' k \<in> {None, export_blobs w k}"
  shows "tame w w'"
  using assms unfolding tame_def evolves_def only_blobs_def by auto

lemma ta_store:
  "keeps tame (store_delete Export_Store k)" "keeps tame (delete_paths Export_Store ps)"
  "keeps tame (store_get Export_Store k)" "keeps tame client_reads" "keeps tame io_step"
proof -
  have d: "tame w w'" if "run_state (store_delete Export_Store k) w = (ok, w')" for w w' ok
    using store_delete_effect [OF that] by (intro tame_blobs) (auto split: if_splits)
  then show "keeps tame (store_delete Export_Store k)" by (auto simp: keeps_def intro: d prod.collapse [symmetric])
  have "tame w w'" if "run_state (delete_paths Export_Store ps) w = ((), w')" for w w'
    using delete_paths_effect [OF that] by (intro tame_blobs) auto
  then show "keeps tame (delete_paths Export_Store ps)" by (auto simp: keeps_def prod_eq_iff)
  have "tame w w'" if "run_state (store_get Export_Store k) w = (r, w')" for w w' r
    using store_get_effect [OF that] by (simp add: tame_same)
  then show "keeps tame (store_get Export_Store k)" by (auto simp: keeps_def intro: prod.collapse [symmetric])
  show "keeps tame client_reads" "keeps tame io_step"
    by (auto simp: keeps_def client_reads_def run_io_step run_ask run_update tame_same)
qed

lemma ta_statements:
  "keeps tame (CreateUserExport u f)" "keeps tame (ExpireUserExportByID i v)" "keeps tame ExpireUserExports"
proof -
  have new: "tame w (set_tabs ((tabs w)\<lparr>exports := exports (tabs w) @ [e]\<rparr>) (tock w))"
    if "ex_status e = JobPending" "ex_file_path e = None" "\<forall>x\<in>set (exports (tabs w)). ex_id x \<noteq> ex_id e" for w e
    using that by (auto simp: tame_def evolves_def)
  show "keeps tame (CreateUserExport u f)"
    unfolding CreateUserExport_def
    by (rule ta.keeps_sql_write) (auto simp: gen_uuid_def Let_def sql_insert_Inr intro!: new)
  show "keeps tame (ExpireUserExportByID i v)"
    unfolding ExpireUserExportByID_def
    by (rule ta.keeps_sql_write) (auto simp: sql_update_Inr intro!: tame_retire split: sum.splits)
  show "keeps tame ExpireUserExports"
    unfolding ExpireUserExports_def
    by (rule ta.keeps_sql_write) (auto simp: stale_export_def intro!: tame_retire)
qed

lemma ta_calls:
  "keeps tame (handleTriggerExport u b)" "keeps tame (handleDownloadExport u p)"
  "keeps tame pruneExpiredExports"
proof -
  show "keeps tame (handleTriggerExport u b)"
    unfolding handleTriggerExport_def GetPendingUserExport_def Let_def
    by (auto intro!: ta.keeps_intros ta.keeps_handle ta_statements split: option.split sum.split)
  have "keeps tame (retire_download i v)" for i v
    unfolding retire_download_def
    by (auto intro!: ta.keeps_intros ta_statements ta_store split: sum.split)
  then have "keeps tame (stream_export i v x c)" for i v x c
    unfolding stream_export_def by (auto intro!: ta.keeps_intros ta_store)
  then show "keeps tame (handleDownloadExport u p)"
    unfolding handleDownloadExport_def GetUserExport_def
    by (auto intro!: ta.keeps_intros ta.keeps_handle ta_store split: option.split)
  show "keeps tame pruneExpiredExports"
    unfolding pruneExpiredExports_def
    by (auto intro!: ta.keeps_intros ta_statements ta_store split: sum.split)
qed

text \<open>The deletion of an account: its rows go or stay, and blobs only go.\<close>

definition fewer_blobs :: "world \<Rightarrow> world \<Rightarrow> bool" where
  "fewer_blobs w w' \<longleftrightarrow> ext w' = ext w \<and> clock w' = clock w \<and>
     (\<forall>k. export_blobs w' k = None \<or> export_blobs w' k = export_blobs w k)"

lemma fewer_blobs_trans: "fewer_blobs w w' \<Longrightarrow> fewer_blobs w' w'' \<Longrightarrow> fewer_blobs w w''"
  unfolding fewer_blobs_def by metis

interpretation fb: kept_relation fewer_blobs
  by unfold_locales (erule (1) fewer_blobs_trans | simp add: fewer_blobs_def)+

lemma fb_delete_all: "keeps fewer_blobs (delete_all get put P)"
  unfolding delete_all_def by (rule fb.keeps_sql_write) (auto simp: fewer_blobs_def)

lemma fb_Anonymize: "keeps fewer_blobs (Anonymize u)"
proof -
  have a: "keeps fewer_blobs (AnonymizeUser u)"
    unfolding AnonymizeUser_def
    by (rule fb.keeps_sql_write)
      (auto simp: fewer_blobs_def update_user_def sql_update_Inr split: sum.splits option.splits if_splits)
  have ex: "keeps fewer_blobs (exec_all ss)" if "\<And>s. s \<in> set ss \<Longrightarrow> keeps fewer_blobs s" for ss
    using that by (induction ss) (auto intro!: fb.keeps_intros split: sum.split)
  have "keeps fewer_blobs (exec_all (anonymize_stmts u))"
    by (rule ex) (auto simp: anonymize_stmts_def DeleteSessionsForUser_def DeletePushDevicesForUser_def
      DeleteNotificationsForUser_def DeleteNotificationPrefsForUser_def DeleteUserPrefsForUser_def
      DeleteEmailChangeRequestsForUser_def DeleteUserExportsForUser_def DeleteAllInventoryForUser_def
      fb_delete_all a)
  moreover have t: "keeps fewer_blobs tx_begin" "keeps fewer_blobs tx_commit"
    unfolding tx_begin_def tx_commit_def by (auto intro!: fb.keeps_sql_write simp: fewer_blobs_def)
  ultimately have "keeps fewer_blobs (anonymize_tx u)"
    unfolding anonymize_tx_def ListUserExportFilePathsForUser_def
    by (auto intro!: fb.keeps_intros split: sum.split)
  then have "keeps fewer_blobs (defer_rollback (anonymize_tx u))"
    unfolding defer_rollback_def
    by (intro fb.keeps_bind fb.keeps_return)
      (auto simp: keeps_def run_update fewer_blobs_def rollback_def split: option.split)
  moreover have "keeps fewer_blobs (delete_paths Export_Store ps)" for ps
    unfolding keeps_def
  proof
    fix w :: world
    obtain w' where d: "run_state (delete_paths Export_Store ps) w = ((), w')"
      by (cases "run_state (delete_paths Export_Store ps) w") auto
    from delete_paths_effect [OF d] d
    show "fewer_blobs w (snd (run_state (delete_paths Export_Store ps) w))"
      by (auto simp: fewer_blobs_def only_blobs_def)
  qed
  ultimately show ?thesis
    using t unfolding Anonymize_def by (auto intro!: fb.keeps_intros split: sum.split)
qed

lemma Anonymize_exports:
  assumes "run_state (Anonymize u) w = (r, w')" and "txn w = None"
  shows "tame w w' \<and> (\<forall>e\<in>set (exports (tabs w)). e \<in> set (exports (tabs w')) \<or> ex_user e = u)"
proof -
  from fb_Anonymize [of u] assms(1) have b: "fewer_blobs w w'" unfolding keeps_def by (metis snd_conv)
  from Anonymize_result [OF assms] have t: "txn w' = None"
    "tabs w' = tabs w \<or> exports (tabs w') = del_where (\<lambda>x. ex_user x = u) (exports (tabs w))"
    by (auto simp: wiped_def cleared_def split: sum.splits)
  from t(2) show ?thesis
  proof
    assume "tabs w' = tabs w"
    with b t(1) assms(2) show ?thesis by (auto simp: tame_def fewer_blobs_def evolves_def)
  next
    assume "exports (tabs w') = del_where (\<lambda>x. ex_user x = u) (exports (tabs w))"
    with b t(1) assms(2) show ?thesis
      by (auto simp: tame_def fewer_blobs_def evolves_def set_del_where distinct_del_where)
  qed
qed

lemma serve_export_tame:
  assumes "run_state (serve_export c) w = ((), w')" and "txn w = None"
  shows "tame w w'"
proof (cases c)
  case (AnonymizeAccount u)
  with assms obtain r where "run_state (Anonymize u) w = (r, w')"
    by (auto simp: quietly_def split: prod.splits)
  with assms(2) show ?thesis by (simp add: Anonymize_exports)
next
  case (TriggerExport u b)
  with assms show ?thesis by (auto simp: quietly_def split: prod.splits intro: keepsD [OF ta_calls(1)])
next
  case (DownloadExport u i)
  with assms show ?thesis by (auto simp: quietly_def split: prod.splits intro: keepsD [OF ta_calls(2)])
next
  case PruneExports
  with assms show ?thesis by (auto intro: keepsD [OF ta_calls(3)])
qed

section \<open>What the jobs do to the exports\<close>

text \<open>Building reads.\<close>

definition untouched :: "world \<Rightarrow> world \<Rightarrow> bool" where
  "untouched w w' \<longleftrightarrow> tabs w' = tabs w \<and> ext w' = ext w \<and> txn w' = txn w \<and> clock w' = clock w \<and>
     export_blobs w' = export_blobs w"

interpretation ut: kept_relation untouched
  by unfold_locales (auto simp: untouched_def)

lemma ut_null: "keeps untouched m \<Longrightarrow> keeps untouched (or_null m)"
  unfolding or_null_def by (intro ut.keeps_intros)

lemma ut_recipes: "keeps untouched (recipe_docs rs)"
  by (induction rs) (auto intro!: ut.keeps_intros ut_null simp: ListRecipeIngredients_def ListRecipeRevisions_def)

lemma ut_batches: "keeps untouched (batch_docs bs)"
  by (induction bs) (auto intro!: ut.keeps_intros ut_null simp: ListAllReadingsForBatch_def
      ListAllBatchEventsForBatch_def ListTastingNotesForBatch_def)

lemma ut_write:
  "keeps untouched (writeRecipes u)" "keeps untouched (writeBatches u)" "keeps untouched (writeSocial u)"
  unfolding writeRecipes_def ListAllRecipesForAuthor_def writeBatches_def ListAllBatchesForUser_def
    writeSocial_def ListFollowsByUser_def ListLikesByUser_def ListRecipeCommentsByUser_def
  by (auto intro!: ut.keeps_intros ut_null ut_recipes ut_batches split: sum.split)

lemma ut_build: "keeps untouched (build_export row)"
proof -
  have t: "keeps untouched error_text" by (auto intro: ut.keeps_intros simp: error_text_def)
  have io: "keeps untouched io_step"
    unfolding io_step_def by (intro ut.keeps_intros) (simp_all add: keeps_def run_update untouched_def)
  have e: "keeps untouched (encode_archive f es)" for f es
    unfolding encode_archive_def
    by (intro ut.keeps_intros t) (simp_all add: keeps_def run_update untouched_def)
  have "keeps untouched (buildArchive u f)" for u f
    unfolding buildArchive_def GetUserByID_def
    by (auto intro!: ut.keeps_intros t e ut_write split: sum.split)
  then show ?thesis
    unfolding build_export_def by (auto intro!: ut.keeps_intros t io split: sum.split)
qed

definition mark_failed :: "string \<Rightarrow> time \<Rightarrow> user_export \<Rightarrow> user_export" where
  "mark_failed m now e = e\<lparr>ex_status := JobFailed, ex_error := Some m, ex_completed_at := Some now\<rparr>"

text \<open>Recording a failure, and finishing: what can come of them.\<close>

definition same_but_rows :: "world \<Rightarrow> world \<Rightarrow> bool" where
  "same_but_rows w w' \<longleftrightarrow> ext w' = ext w \<and> txn w' = txn w \<and> export_blobs w' = export_blobs w"

lemma record_failure_effect:
  assumes "run_state (record_failure row r) w = ((), w')"
  shows "same_but_rows w w' \<and> (exports (tabs w') = exports (tabs w) \<or>
    (\<exists>m. exports (tabs w') = upd_where (\<lambda>x. ex_id x = ex_id row) (mark_failed m (clock w)) (exports (tabs w))))"
  using assms
  by (auto simp: record_failure_def FailUserExport_def run_sql_write same_but_rows_def mark_failed_def [abs_def]
      split: sum.splits outcome.splits prod.splits)

lemma CompleteUserExport_effect:
  assumes "run_state (CompleteUserExport i path n h) w = (r, w')"
  shows "same_but_rows w w' \<and> (case r of Inl e \<Rightarrow> exports (tabs w') = exports (tabs w)
    | Inr x \<Rightarrow> exports (tabs w') = upd_where (\<lambda>x. ex_id x = i) (completed path n h (clock w)) (exports (tabs w)))"
  using assms
  by (auto simp: CompleteUserExport_def run_sql_write same_but_rows_def sql_update_Inr
      split: outcome.splits sum.splits)

lemma finish_effect:
  assumes "run_state (finish_export bk row body) w = ((), w')"
  shows "ext w' = ext w \<and> txn w' = txn w \<and>
    (export_blobs w' \<in> {export_blobs w, (export_blobs w)(export_key (ext w) row := None),
         (export_blobs w)(export_key (ext w) row := Some body)} \<and>
       (exports (tabs w') = exports (tabs w) \<or>
        (\<exists>m. exports (tabs w') = upd_where (\<lambda>x. ex_id x = ex_id row) (mark_failed m (clock w)) (exports (tabs w)))) \<or>
     export_blobs w' = (export_blobs w)(export_key (ext w) row := Some body) \<and>
       exports (tabs w') = upd_where (\<lambda>x. ex_id x = ex_id row)
         (completed (export_key (ext w) row) (int (length body)) (x_sha256 (ext w) body) (clock w)) (exports (tabs w)))"
proof -
  obtain ok w1 where p: "run_state (store_put bk Export_Store (export_key (ext w) row) (Some body)) w = (ok, w1)"
    by fastforce
  note e = store_put_effect [OF p]
  show ?thesis
  proof (cases ok)
    case False
    with assms p have "\<exists>r. run_state (record_failure row r) w1 = ((), w')"
      by (auto simp: finish_export_def store_export_def run_ask error_text_def)
    then obtain r where "run_state (record_failure row r) w1 = ((), w')" by blast
    from record_failure_effect [OF this] e False show ?thesis
      by (auto simp: same_but_rows_def only_blobs_def)
  next
    case True
    obtain c w2 where c: "run_state (CompleteUserExport (ex_id row) (export_key (ext w) row) (int (length body))
        (x_sha256 (ext w) body)) w1 = (c, w2)" by fastforce
    note ce = CompleteUserExport_effect [OF c]
    show ?thesis
    proof (cases c)
      case (Inl a)
      with assms p True c have "\<exists>r. run_state (record_failure row r) w2 = ((), w')"
        by (auto simp: finish_export_def store_export_def run_ask error_text_def)
      then obtain r where "run_state (record_failure row r) w2 = ((), w')" by blast
      note f = record_failure_effect [OF this]
      have "exports (tabs w2) = exports (tabs w)" "export_blobs w2 = (export_blobs w)(export_key (ext w) row := Some body)"
        "ext w2 = ext w" "txn w2 = txn w"
        using ce e True Inl by (simp_all add: same_but_rows_def only_blobs_def)
      moreover have "clock w2 = clock w"
        using e c by (auto simp: CompleteUserExport_def run_sql_write only_blobs_def sql_update_Inr
            split: outcome.splits sum.splits)
      ultimately show ?thesis using f by (simp add: same_but_rows_def)
    next
      case (Inr a)
      with assms p True c have "run_state (record_failure row (Inr ())) w2 = ((), w')"
        by (auto simp: finish_export_def store_export_def run_ask error_text_def)
      then have "w' = w2" by (simp add: record_failure_def)
      with ce e True Inr show ?thesis by (simp add: same_but_rows_def only_blobs_def)
    qed
  qed
qed

section \<open>The invariant\<close>

text \<open>Documents that are about one user.\<close>

primrec own_entry :: "uuid \<Rightarrow> archive_entry \<Rightarrow> bool" where
  "own_entry u (Manifest_Json t n f) = True"
| "own_entry u (Profile_Json i n d b a t) = (i = u)"
| "own_entry u (Recipes_Json rs) = list_all (\<lambda>(r, ings, revs). rc_author r = u \<and>
     list_all (\<lambda>g. ri_recipe g = rc_id r) (coalesce ings []) \<and>
     list_all (\<lambda>v. rv_recipe v = rc_id r) (coalesce revs [])) rs"
| "own_entry u (Batches_Json bs) = list_all (\<lambda>(b, rds, evs, nts). b_brewer b = u \<and>
     list_all (\<lambda>r. rd_batch r = b_id b) (coalesce rds []) \<and>
     list_all (\<lambda>v. ev_batch v = b_id b) (coalesce evs []) \<and>
     list_all (\<lambda>n. tn_batch n = b_id b) (coalesce nts [])) bs"
| "own_entry u (Social_Json fs ls cs) = (list_all (\<lambda>f. fo_follower f = u) (coalesce fs []) \<and>
     list_all (\<lambda>l. lk_user l = u) (coalesce ls []) \<and> list_all (\<lambda>c. cm_author c = u) (coalesce cs []))"

definition archive_of :: "externals \<Rightarrow> uuid \<Rightarrow> string \<Rightarrow> bool" where
  "archive_of x u b \<longleftrightarrow> (\<exists>n f es. x_archive x n f es = Some b \<and> list_all (own_entry u) es)"

lemma null_reads:
  "run_state (or_null (ListRecipeIngredients i)) w = (gs, w1) \<Longrightarrow> list_all (\<lambda>g. ri_recipe g = i) (coalesce gs [])"
  "run_state (or_null (ListRecipeRevisions i)) w = (vs, w2) \<Longrightarrow> list_all (\<lambda>v. rv_recipe v = i) (coalesce vs [])"
  "run_state (or_null (ListAllReadingsForBatch i)) w = (rs, w3) \<Longrightarrow> list_all (\<lambda>r. rd_batch r = i) (coalesce rs [])"
  "run_state (or_null (ListAllBatchEventsForBatch i)) w = (es, w4) \<Longrightarrow> list_all (\<lambda>v. ev_batch v = i) (coalesce es [])"
  "run_state (or_null (ListTastingNotesForBatch i)) w = (ns, w5) \<Longrightarrow> list_all (\<lambda>n. tn_batch n = i) (coalesce ns [])"
  "run_state (or_null (ListFollowsByUser i)) w = (fs, w6) \<Longrightarrow> list_all (\<lambda>f. fo_follower f = i) (coalesce fs [])"
  "run_state (or_null (ListLikesByUser i)) w = (ls, w7) \<Longrightarrow> list_all (\<lambda>l. lk_user l = i) (coalesce ls [])"
  "run_state (or_null (ListRecipeCommentsByUser i)) w = (cs, w8) \<Longrightarrow> list_all (\<lambda>c. cm_author c = i) (coalesce cs [])"
  unfolding or_null_def ListRecipeIngredients_def ListRecipeRevisions_def ListAllReadingsForBatch_def
    ListAllBatchEventsForBatch_def ListTastingNotesForBatch_def ListFollowsByUser_def ListLikesByUser_def
    ListRecipeCommentsByUser_def
  by (auto simp: run_sql_read list_all_iff split: outcome.splits)

lemma recipe_docs_own:
  "run_state (recipe_docs rs) w = (out, w') \<Longrightarrow> list_all (\<lambda>r. rc_author r = u) rs \<Longrightarrow>
     own_entry u (Recipes_Json out)"
proof (induction rs arbitrary: w out)
  case (Cons r rs)
  obtain gs w1 where g: "run_state (or_null (ListRecipeIngredients (rc_id r))) w = (gs, w1)" by fastforce
  obtain vs w2 where v: "run_state (or_null (ListRecipeRevisions (rc_id r))) w1 = (vs, w2)" by fastforce
  obtain rest where "run_state (recipe_docs rs) w2 = (rest, w')" "out = (r, gs, vs) # rest"
    using Cons.prems(1) g v by (auto split: prod.splits)
  with Cons.IH [OF this(1)] Cons.prems(2) null_reads(1) [OF g] null_reads(2) [OF v]
  show ?case by simp
qed simp

lemma batch_docs_own:
  "run_state (batch_docs bs) w = (out, w') \<Longrightarrow> list_all (\<lambda>b. b_brewer b = u) bs \<Longrightarrow>
     own_entry u (Batches_Json out)"
proof (induction bs arbitrary: w out)
  case (Cons b bs)
  obtain r w1 where r: "run_state (or_null (ListAllReadingsForBatch (b_id b))) w = (r, w1)" by fastforce
  obtain e w2 where e: "run_state (or_null (ListAllBatchEventsForBatch (b_id b))) w1 = (e, w2)" by fastforce
  obtain n w3 where n: "run_state (or_null (ListTastingNotesForBatch (b_id b))) w2 = (n, w3)" by fastforce
  obtain rest where "run_state (batch_docs bs) w3 = (rest, w')" "out = (b, r, e, n) # rest"
    using Cons.prems(1) r e n by (auto split: prod.splits)
  with Cons.IH [OF this(1)] Cons.prems(2) null_reads(3) [OF r] null_reads(4) [OF e] null_reads(5) [OF n]
  show ?case by simp
qed simp

lemma writes_own:
  "run_state (writeRecipes u) w = (Inr d, w') \<Longrightarrow> own_entry u d"
  "run_state (writeBatches u) w = (Inr d, w') \<Longrightarrow> own_entry u d"
  "run_state (writeSocial u) w = (d, w') \<Longrightarrow> own_entry u d"
proof -
  assume "run_state (writeRecipes u) w = (Inr d, w')"
  then obtain rs w1 out where "run_state (ListAllRecipesForAuthor u) w = (Inr rs, w1)"
    "run_state (recipe_docs rs) w1 = (out, w')" "d = Recipes_Json out"
    by (auto simp: writeRecipes_def split: prod.splits sum.splits)
  with recipe_docs_own show "own_entry u d"
    by (auto simp: ListAllRecipesForAuthor_def list_all_iff run_sql_read split: outcome.splits
        simp del: own_entry.simps)
next
  assume "run_state (writeBatches u) w = (Inr d, w')"
  then obtain bs w1 out where "run_state (ListAllBatchesForUser u) w = (Inr bs, w1)"
    "run_state (batch_docs bs) w1 = (out, w')" "d = Batches_Json out"
    by (auto simp: writeBatches_def split: prod.splits sum.splits)
  with batch_docs_own show "own_entry u d"
    by (auto simp: ListAllBatchesForUser_def list_all_iff run_sql_read split: outcome.splits
        simp del: own_entry.simps)
next
  assume s: "run_state (writeSocial u) w = (d, w')"
  obtain f w1 where f: "run_state (or_null (ListFollowsByUser u)) w = (f, w1)" by fastforce
  obtain l w2 where l: "run_state (or_null (ListLikesByUser u)) w1 = (l, w2)" by fastforce
  obtain c w3 where c: "run_state (or_null (ListRecipeCommentsByUser u)) w2 = (c, w3)" by fastforce
  have "d = Social_Json f l c" using s f l c by (simp add: writeSocial_def)
  with null_reads(6) [OF f] null_reads(7) [OF l] null_reads(8) [OF c]
  show "own_entry u d" by simp
qed

lemma buildArchive_own:
  assumes "run_state (buildArchive u f) w = (Inr body, w')"
  shows "archive_of (ext w) u body"
proof -
  obtain r w1 where g: "run_state (GetUserByID u) w = (r, w1)" by fastforce
  from assms g obtain v where v: "r = Inr v"
    by (cases r) (auto simp: buildArchive_def error_text_def run_ask split: if_splits)
  with g have w1: "w1 = tock w" "u_id v = u"
    by (auto simp: GetUserByID_def run_sql_read split: outcome.splits dest: find_where_Some)
  obtain rs w2 where rs: "run_state (writeRecipes u) w1 = (rs, w2)" by fastforce
  with assms g v obtain rdoc where r: "rs = Inr rdoc"
    by (cases rs) (auto simp: buildArchive_def error_text_def run_ask split: if_splits)
  obtain bs w3 where bs: "run_state (writeBatches u) w2 = (bs, w3)" by fastforce
  with assms g v rs r obtain bdoc where b: "bs = Inr bdoc"
    by (cases bs) (auto simp: buildArchive_def error_text_def run_ask split: if_splits)
  obtain sdoc w4 where s: "run_state (writeSocial u) w3 = (sdoc, w4)" by fastforce
  let ?es = "[Manifest_Json (clock w1) (u_username v) f, profile_entry v, rdoc, bdoc, sdoc]"
  from assms g v rs r bs b s have e: "x_archive (ext w4) (tick w4) f ?es = Some body"
    by (auto simp: buildArchive_def error_text_def run_ask encode_archive_def run_update
        split: if_splits option.splits)
  have "untouched w w1" by (simp add: w1 ut.kept_tock)
  moreover have "untouched w1 w2" by (rule keepsD [OF ut_write(1) rs])
  moreover have "untouched w2 w3" by (rule keepsD [OF ut_write(2) bs])
  moreover have "untouched w3 w4" by (rule keepsD [OF ut_write(3) s])
  ultimately have "ext w4 = ext w" by (simp add: untouched_def)
  moreover have "list_all (own_entry u) ?es"
    using writes_own(1) [OF rs [unfolded r]] writes_own(2) [OF bs [unfolded b]] writes_own(3) [OF s] w1(2)
    by (simp add: profile_entry_def)
  ultimately show ?thesis using e unfolding archive_of_def by metis
qed

lemma build_export_own:
  assumes "run_state (build_export row) w = (Inr body, w')"
  shows "archive_of (ext w) (ex_user row) body"
proof -
  obtain a w1 where a: "run_state (buildArchive (ex_user row) (export_format row)) (tock w) = (a, w1)" by fastforce
  with assms have "a = Inr body"
    by (cases a) (auto simp: build_export_def run_io_step error_text_def run_ask split: if_splits)
  with buildArchive_own [of "ex_user row" "export_format row" "tock w" body w1] a show ?thesis by simp
qed

definition row_ok :: "externals \<Rightarrow> (string \<Rightarrow> string option) \<Rightarrow> user_export \<Rightarrow> bool" where
  "row_ok x B e \<longleftrightarrow> (ex_file_path e = None \<or> ex_file_path e = Some (export_key x e)) \<and>
     (ex_status e = JobComplete \<longrightarrow> ex_file_path e \<noteq> None \<and>
        (\<forall>b. B (export_key x e) = Some b \<longrightarrow>
           ex_sha256 e = Some (x_sha256 x b) \<and> ex_size_bytes e = Some (int (length b)) \<and>
           archive_of x (ex_user e) b))"

definition in_flight :: "user_export list \<Rightarrow> flight list \<Rightarrow> bool" where
  "in_flight rows fs \<longleftrightarrow> distinct (map flight_id fs) \<and>
     (\<forall>f\<in>set fs. \<forall>e\<in>set rows. ex_id e = flight_id f \<longrightarrow> ex_status e = JobRunning \<and>
        ex_user e = ex_user (flight_row f) \<and> ex_format e = ex_format (flight_row f))"

primrec cargo_ok :: "externals \<Rightarrow> flight \<Rightarrow> bool" where
  "cargo_ok x (Claimed e) = True"
| "cargo_ok x (Built e b) = archive_of x (ex_user e) b"

definition exports_ok :: "externals \<Rightarrow> world \<times> flight list \<Rightarrow> bool" where
  "exports_ok x s \<longleftrightarrow> (case s of (w, fs) \<Rightarrow> ext w = x \<and> txn w = None \<and>
     distinct (map ex_id (exports (tabs w))) \<and> in_flight (exports (tabs w)) fs \<and>
     list_all (cargo_ok x) fs \<and> (\<forall>e\<in>set (exports (tabs w)). row_ok x (export_blobs w) e))"

text \<open>
  The keys of different exports differ: the text of an id is its own, and has neither the slash nor
  the dot that follow it in a key.
\<close>

definition uuid_texts :: "externals \<Rightarrow> bool" where
  "uuid_texts x \<longleftrightarrow> inj (x_uuid_text x) \<and>
     (\<forall>i. CHR ''/'' \<notin> set (x_uuid_text x i) \<and> CHR ''.'' \<notin> set (x_uuid_text x i))"

lemma split_at_char:
  assumes "a @ c # r = a' @ c # r'" and "c \<notin> set a" and "c \<notin> set a'"
  shows "a = a' \<and> r = r'"
proof -
  have t: "takeWhile (\<lambda>d. d \<noteq> c) (z @ c # s) = z" "dropWhile (\<lambda>d. d \<noteq> c) (z @ c # s) = c # s"
    if "c \<notin> set z" for z s
    using that by (simp_all add: takeWhile_append dropWhile_append)
  from t [OF assms(2), of r] t [OF assms(3), of r'] assms(1) show ?thesis by auto
qed

lemma export_key_inj:
  assumes "uuid_texts x" and "export_key x a = export_key x b"
  shows "ex_id a = ex_id b"
proof -
  have t: "CHR ''/'' \<notin> set (x_uuid_text x i)" "CHR ''.'' \<notin> set (x_uuid_text x i)" for i
    using assms(1) by (simp_all add: uuid_texts_def)
  have "x_uuid_text x (ex_user a) @ CHR ''/'' # x_uuid_text x (ex_id a) @ CHR ''.'' # FormatExtension (export_format a) =
      x_uuid_text x (ex_user b) @ CHR ''/'' # x_uuid_text x (ex_id b) @ CHR ''.'' # FormatExtension (export_format b)"
    using assms(2) by (simp add: export_key_def)
  from split_at_char [OF this t(1) t(1)]
  have "x_uuid_text x (ex_id a) @ CHR ''.'' # FormatExtension (export_format a) =
      x_uuid_text x (ex_id b) @ CHR ''.'' # FormatExtension (export_format b)" ..
  from split_at_char [OF this t(2) t(2)] have "x_uuid_text x (ex_id a) = x_uuid_text x (ex_id b)" ..
  with assms(1) show ?thesis by (auto simp: uuid_texts_def dest: injD)
qed

lemma demo_uuid_texts: "uuid_texts demo_ext"
  by (auto simp: uuid_texts_def demo_ext_def inj_def dest: arg_cong [of _ _ length])

lemma row_ok_fewer:
  "row_ok x B e \<Longrightarrow> (\<And>k. B' k = None \<or> B' k = B k) \<Longrightarrow> row_ok x B' e"
  unfolding row_ok_def by (metis option.distinct(1))

lemma row_ok_incomplete:
  "row_ok x B e \<Longrightarrow> ex_status e' \<noteq> JobComplete \<Longrightarrow> ex_file_path e' = ex_file_path e \<Longrightarrow>
     export_key x e' = export_key x e \<Longrightarrow> row_ok x B' e'"
  by (simp add: row_ok_def)

lemma export_key_simps [simp]:
  "export_key x (e\<lparr>ex_status := st\<rparr>) = export_key x e"
  "export_key x (mark_failed m t e) = export_key x e"
  "export_key x (completed p n h t e) = export_key x e"
  by (simp_all add: export_key_def export_format_def mark_failed_def completed_def)

lemma row_ok_failed: "row_ok x B e \<Longrightarrow> row_ok x B' (mark_failed m t e)"
  by (rule row_ok_incomplete) (auto simp: mark_failed_def export_key_def export_format_def)

lemma ok_tame:
  assumes "exports_ok x (w, fs)" and "tame w w'" and "no_id_reused w' fs"
  shows "exports_ok x (w', fs)"
proof -
  from assms(1,2) have B: "export_blobs w' k = None \<or> export_blobs w' k = export_blobs w k" for k
    by (simp add: tame_def)
  have row: "row_ok x (export_blobs w') e'" if e': "e' \<in> set (exports (tabs w'))" for e'
    using tame_row [OF assms(2) e']
  proof
    assume "\<exists>e\<in>set (exports (tabs w)). evolves e e'"
    then obtain e where e: "e \<in> set (exports (tabs w))" "evolves e e'" by blast
    with assms(1) have "row_ok x (export_blobs w) e" by (simp add: exports_ok_def)
    with e(2) show ?thesis
      using row_ok_fewer [OF _ B] by (auto simp: evolves_def intro: row_ok_incomplete)
  qed (simp add: row_ok_def)
  have "ex_status e' = JobRunning \<and> ex_user e' = ex_user (flight_row f) \<and> ex_format e' = ex_format (flight_row f)"
    if f: "f \<in> set fs" and e': "e' \<in> set (exports (tabs w'))" "ex_id e' = flight_id f" for f e'
  proof -
    from assms(3) e' f have "ex_status e' \<noteq> JobPending" by (auto simp: no_id_reused_def list_all_iff)
    with tame_row [OF assms(2) e'(1)] obtain e where e: "e \<in> set (exports (tabs w))" "evolves e e'" by blast
    then have "ex_id e = flight_id f" using e'(2) by (auto simp: evolves_def)
    with assms(1) f e(1) have "ex_status e = JobRunning" "ex_user e = ex_user (flight_row f)"
      "ex_format e = ex_format (flight_row f)" by (auto simp: exports_ok_def in_flight_def)
    with e(2) show ?thesis by (auto simp: evolves_def)
  qed
  with assms(1,2) row show ?thesis by (auto simp: exports_ok_def in_flight_def tame_def)
qed

lemma ok_untouched: "exports_ok x (w, fs) \<Longrightarrow> untouched w w' \<Longrightarrow> exports_ok x (w', fs)"
  by (simp add: exports_ok_def untouched_def)

lemma ok_landed: "exports_ok x (w, us @ f # vs) \<Longrightarrow> exports_ok x (w, us @ vs)"
  by (auto simp: exports_ok_def in_flight_def)

lemma ok_claim:
  assumes "exports_ok x (w, fs)" and "run_state ClaimPendingUserExports w = (Inr rows, w')"
  shows "exports_ok x (w', map Claimed rows @ fs)"
proof -
  define I where "I = set (pending_exports (exports (tabs w)))"
  define start where "start = (\<lambda>e :: user_export. e\<lparr>ex_status := JobRunning\<rparr>)"
  from assms(2) have c: "rows = map start (filter (\<lambda>e. ex_id e \<in> I) (exports (tabs w)))"
    "exports (tabs w') = upd_where (\<lambda>e. ex_id e \<in> I) start (exports (tabs w))"
    "ext w' = ext w" "txn w' = txn w" "export_blobs w' = export_blobs w"
    by (auto simp: ClaimPendingUserExports_def run_sql_write Let_def I_def start_def split: outcome.splits)
  have d: "distinct (map ex_id (exports (tabs w)))" using assms(1) by (simp add: exports_ok_def)
  have pend: "ex_status e = JobPending" if "e \<in> set (exports (tabs w))" "ex_id e \<in> I" for e
  proof -
    from that(2) obtain e' where "e' \<in> set (exports (tabs w))" "ex_status e' = JobPending" "ex_id e' = ex_id e"
      by (auto simp: I_def pending_exports_def dest!: in_set_takeD)
    with distinct_key_eq [OF d this(1) that(1)] show ?thesis by simp
  qed
  have ids: "map ex_id (upd_where (\<lambda>e. ex_id e \<in> I) start (exports (tabs w))) = map ex_id (exports (tabs w))"
    by (rule map_upd_where) (simp add: start_def)
  have "map flight_id (map Claimed rows) = map ex_id (filter (\<lambda>e. ex_id e \<in> I) (exports (tabs w)))"
    unfolding c(1) by (simp add: start_def)
  then have d1: "distinct (map flight_id (map Claimed rows))" using d by (simp add: distinct_map_filter)
  have d2: "flight_id ` set (map Claimed rows) \<inter> flight_id ` set fs = {}"
  proof (rule ccontr)
    assume "flight_id ` set (map Claimed rows) \<inter> flight_id ` set fs \<noteq> {}"
    then obtain e f where "e \<in> set (exports (tabs w))" "ex_id e \<in> I" "f \<in> set fs" "ex_id e = flight_id f"
      unfolding c(1) by (auto simp: start_def)
    with assms(1) pend [of e] show False by (auto simp: exports_ok_def in_flight_def)
  qed
  have fl: "ex_status e = JobRunning \<and> ex_user e = ex_user (flight_row f) \<and> ex_format e = ex_format (flight_row f)"
    if f: "f \<in> set (map Claimed rows) \<union> set fs" and e: "e \<in> set (exports (tabs w'))" "ex_id e = flight_id f" for f e
  proof -
    from e(1) obtain e0 where e0: "e0 \<in> set (exports (tabs w))" "e = (if ex_id e0 \<in> I then start e0 else e0)"
      unfolding c(2) set_upd_where by blast
    then have i: "ex_id e0 = flight_id f" using e(2) by (auto simp: start_def split: if_splits)
    from f show ?thesis
    proof
      assume "f \<in> set (map Claimed rows)"
      then obtain r where r: "f = Claimed (start r)" "r \<in> set (exports (tabs w))" "ex_id r \<in> I"
        unfolding c(1) by auto
      then have "r = e0" using i e0(1) by (intro distinct_key_eq [OF d]) (simp_all add: start_def)
      with r e0(2) show ?thesis by (simp add: start_def)
    next
      assume "f \<in> set fs"
      with assms(1) e0(1) i have "ex_status e0 = JobRunning" "ex_user e0 = ex_user (flight_row f)"
        "ex_format e0 = ex_format (flight_row f)" by (auto simp: exports_ok_def in_flight_def)
      with e0 pend show ?thesis by (auto simp: start_def split: if_splits)
    qed
  qed
  have "row_ok x (export_blobs w) e" if "e \<in> set (exports (tabs w'))" for e
    using that assms(1) unfolding c(2) set_upd_where
    by (auto simp: exports_ok_def start_def intro: row_ok_incomplete split: if_splits)
  moreover have fd: "distinct (map flight_id fs)" using assms(1) by (simp add: exports_ok_def in_flight_def)
  have "distinct (map flight_id (map Claimed rows @ fs))"
    using d1 d2 fd unfolding map_append distinct_append set_map by blast
  then have "in_flight (exports (tabs w')) (map Claimed rows @ fs)"
    unfolding in_flight_def set_append using fl by blast
  ultimately show ?thesis
    using assms(1) c(3-5) d unfolding exports_ok_def by (auto simp: c(2) ids list_all_iff)
qed

lemma in_flight_landed:
  assumes "in_flight rows (us @ f # vs)"
    and "\<And>e. P e \<Longrightarrow> ex_id e = flight_id f \<and> ex_id (g e) = ex_id e"
  shows "in_flight (upd_where P g rows) (us @ vs)"
  unfolding in_flight_def
proof (intro conjI ballI impI)
  fix h e' assume h: "h \<in> set (us @ vs)" and e': "e' \<in> set (upd_where P g rows)" "ex_id e' = flight_id h"
  have "flight_id f \<notin> flight_id ` set (us @ vs)" using assms(1) by (auto simp: in_flight_def)
  moreover have "flight_id h \<in> flight_id ` set (us @ vs)" using h by (rule imageI)
  ultimately have ne: "flight_id h \<noteq> flight_id f" by metis
  from e'(1) obtain e where e: "e \<in> set rows" "e' = (if P e then g e else e)"
    unfolding set_upd_where by blast
  with e'(2) ne assms(2) [of e] have "e' = e" by auto
  with assms(1) h e(1) e'(2)
  show "ex_status e' = JobRunning" "ex_user e' = ex_user (flight_row h)" "ex_format e' = ex_format (flight_row h)"
    by (auto simp: in_flight_def)
qed (use assms(1) in \<open>auto simp: in_flight_def\<close>)

lemma ok_finish:
  assumes ok: "exports_ok x (w, us @ Built row body # vs)" and u: "uuid_texts x"
    and run: "run_state (finish_export bk row body) w = ((), w')"
  shows "exports_ok x (w', us @ vs)"
proof -
  have x: "ext w = x" using ok by (simp add: exports_ok_def)
  have d: "distinct (map ex_id (exports (tabs w)))" using ok by (simp add: exports_ok_def)
  have cargo: "archive_of x (ex_user row) body" using ok by (simp add: exports_ok_def)
  have own: "ex_status e = JobRunning \<and> export_key x e = export_key x row \<and> ex_user e = ex_user row"
    if "e \<in> set (exports (tabs w))" "ex_id e = ex_id row" for e
    using ok that by (auto simp: exports_ok_def in_flight_def export_key_def export_format_def)
  note f = finish_effect [OF run, unfolded x]
  have B: "k \<noteq> export_key x row \<Longrightarrow> export_blobs w' k = export_blobs w k" for k
    using f by auto
  text \<open>Rows of other exports are as they were, blob and all.\<close>
  have row: "row_ok x (export_blobs w') e" if e: "e \<in> set (exports (tabs w))" "ex_id e \<noteq> ex_id row" for e
  proof -
    have "export_key x e \<noteq> export_key x row" using export_key_inj [OF u] e(2) by blast
    with B have "export_blobs w' (export_key x e) = export_blobs w (export_key x e)" by blast
    with ok e(1) show ?thesis by (simp add: exports_ok_def row_ok_def)
  qed
  show ?thesis
  proof (cases "exports (tabs w') = exports (tabs w)")
    case True
    have "row_ok x (export_blobs w') e" if "e \<in> set (exports (tabs w))" for e
      using that row own [of e] ok by (cases "ex_id e = ex_id row") (auto simp: exports_ok_def row_ok_def)
    with True ok f show ?thesis by (auto simp: exports_ok_def in_flight_def)
  next
    case False
    then consider m where "exports (tabs w') = upd_where (\<lambda>x. ex_id x = ex_id row) (mark_failed m (clock w)) (exports (tabs w))"
      | "export_blobs w' = (export_blobs w)(export_key x row := Some body)"
        "exports (tabs w') = upd_where (\<lambda>x. ex_id x = ex_id row)
          (completed (export_key x row) (int (length body)) (x_sha256 x body) (clock w)) (exports (tabs w))"
      using f by blast
    then show ?thesis
    proof cases
      case 1
      have "row_ok x (export_blobs w') e'" if "e' \<in> set (exports (tabs w'))" for e'
      proof -
        from that obtain e where e: "e \<in> set (exports (tabs w))"
          "e' = (if ex_id e = ex_id row then mark_failed m (clock w) e else e)"
          unfolding 1 set_upd_where by blast
        then have "row_ok x (export_blobs w) e" using ok by (simp add: exports_ok_def)
        then have "row_ok x (export_blobs w') (mark_failed m (clock w) e)" by (rule row_ok_failed)
        with e row show ?thesis by simp
      qed
      moreover have "in_flight (exports (tabs w')) (us @ vs)"
        unfolding 1 by (rule in_flight_landed [where f = "Built row body"])
          (use ok in \<open>auto simp: exports_ok_def mark_failed_def\<close>)
      moreover have "map ex_id (exports (tabs w')) = map ex_id (exports (tabs w))"
        unfolding 1 by (rule map_upd_where) (simp add: mark_failed_def)
      ultimately show ?thesis using d f ok by (auto simp: exports_ok_def)
    next
      case 2
      have "row_ok x (export_blobs w') e'" if "e' \<in> set (exports (tabs w'))" for e'
      proof -
        from that obtain e where e: "e \<in> set (exports (tabs w))" "e' = (if ex_id e = ex_id row then
            completed (export_key x row) (int (length body)) (x_sha256 x body) (clock w) e else e)"
          unfolding 2(2) set_upd_where by blast
        show ?thesis
        proof (cases "ex_id e = ex_id row")
          case True
          with own [OF e(1)] e(2) have "export_key x e' = export_key x row" "ex_file_path e' = Some (export_key x row)"
            "ex_sha256 e' = Some (x_sha256 x body)" "ex_size_bytes e' = Some (int (length body))"
            "ex_user e' = ex_user row" by simp_all (simp_all add: completed_def)
          with 2(1) cargo show ?thesis by (simp add: row_ok_def)
        qed (use e row in simp)
      qed
      moreover have "in_flight (exports (tabs w')) (us @ vs)"
        unfolding 2(2) by (rule in_flight_landed [where f = "Built row body"])
          (use ok in \<open>auto simp: exports_ok_def completed_def\<close>)
      moreover have "map ex_id (exports (tabs w')) = map ex_id (exports (tabs w))"
        unfolding 2(2) by (rule map_upd_where) (simp add: completed_def)
      ultimately show ?thesis using d f ok by (auto simp: exports_ok_def)
    qed
  qed
qed

lemma ok_step:
  assumes "export_step bk s s'" and "exports_ok x s" and "uuid_texts x"
  shows "exports_ok x s'"
  using assms
proof (induction rule: export_step.induct)
  case (claim w rows w' fs)
  then show ?case by (blast intro: ok_claim)
next
  case (build row w body w' us vs)
  have "exports_ok x (w', us @ Claimed row # vs)"
    using ok_untouched [OF build.prems(1)] keepsD [OF ut_build build.hyps] by blast
  with build_export_own [OF build.hyps] build.prems show ?case by (auto simp: exports_ok_def in_flight_def)
next
  case (build_fails row w m w1 w' us vs)
  have "exports_ok x (w1, us @ Claimed row # vs)"
    using ok_untouched [OF build_fails.prems(1)] keepsD [OF ut_build build_fails.hyps(1)] by blast
  then have "exports_ok x (w', us @ Claimed row # vs)" if "exports (tabs w') = exports (tabs w1)"
    using that record_failure_effect [OF build_fails.hyps(2)] by (simp add: exports_ok_def same_but_rows_def)
  note same = this
  have ok: "exports_ok x (w1, us @ Claimed row # vs)" by fact
  show ?case
  proof (cases "exports (tabs w') = exports (tabs w1)")
    case True
    with same ok_landed show ?thesis by blast
  next
    case False
    with record_failure_effect [OF build_fails.hyps(2)] obtain m where f: "same_but_rows w1 w'"
      "exports (tabs w') = upd_where (\<lambda>x. ex_id x = ex_id row) (mark_failed m (clock w1)) (exports (tabs w1))" by blast
    have "in_flight (exports (tabs w')) (us @ vs)"
      unfolding f(2) by (rule in_flight_landed [where f = "Claimed row"])
        (use ok in \<open>auto simp: exports_ok_def mark_failed_def\<close>)
    moreover have "row_ok x (export_blobs w') e" if "e \<in> set (exports (tabs w'))" for e
      using that ok f(1) unfolding f(2) set_upd_where
      by (auto simp: exports_ok_def same_but_rows_def intro: row_ok_failed split: if_splits)
    moreover have "map ex_id (exports (tabs w')) = map ex_id (exports (tabs w1))"
      unfolding f(2) by (rule map_upd_where) (simp add: mark_failed_def)
    ultimately show ?thesis using ok f(1) by (auto simp: exports_ok_def same_but_rows_def)
  qed
next
  case (store row body w w' us vs)
  then show ?case by (blast intro: ok_finish)
next
  case (call c w w' fs)
  moreover from this have "txn w = None" by (simp add: exports_ok_def)
  ultimately show ?case by (blast intro: ok_tame serve_export_tame)
qed (auto simp: exports_ok_def in_flight_def)

lemma ok_steps:
  "export_steps bk s s' \<Longrightarrow> exports_ok x s \<Longrightarrow> uuid_texts x \<Longrightarrow> exports_ok x s'"
  by (induction rule: rtranclp_induct) (auto intro: ok_step)

section \<open>Downloads\<close>

lemma download_Okay:
  assumes "run_state (handleDownloadExport u p) w = (Okay n d, w')"
  shows "\<exists>e. p = Some (ex_id e) \<and> e \<in> set (exports (tabs w)) \<and> ex_user e = u_id u \<and>
    ex_status e = JobComplete \<and> export_blobs w (textOrEmpty (ex_file_path e)) = Some (dl_body d) \<and>
    dl_sha256 d = textOrEmpty (ex_sha256 e) \<and> find_where (own_export (ex_id e) (u_id u)) (exports (tabs w)) = Some e \<and>
    (\<exists>k b w1. run_state (stream_export (ex_id e) (u_id u) e b) w1 = (Okay k d, w') \<and> tabs w1 = tabs w \<and> ext w1 = ext w \<and>
      tick w1 = tick w + 2)"
proof -
  from assms obtain i where p: "p = Some i" by (cases p) (auto simp: handleDownloadExport_def)
  obtain g w1 where g: "run_state (GetUserExport i (u_id u)) w = (g, w1)" by fastforce
  with assms p obtain e where e: "g = Inr e"
    by (cases g) (auto simp: handleDownloadExport_def run_handle not_found_or_500_def split: if_splits)
  with g have f: "find_where (own_export i (u_id u)) (exports (tabs w)) = Some e" "w1 = tock w"
    by (auto simp: GetUserExport_def run_sql_read split: outcome.splits)
  from find_where_Some [OF f(1)] have m: "e \<in> set (exports (tabs w))" "ex_id e = i" "ex_user e = u_id u"
    by (auto simp: own_export_def)
  from assms p g e have c: "ex_status e = JobComplete"
    by (auto simp: handleDownloadExport_def run_handle split: if_splits)
  obtain b w2 where b: "run_state (store_get Export_Store (textOrEmpty (ex_file_path e))) w1 = (b, w2)" by fastforce
  with assms p g e c obtain body where body: "b = Some body"
    by (cases b) (auto simp: handleDownloadExport_def run_handle)
  with b store_get_effect [OF b] f(2) have w2: "w2 = tock (tock w)"
    "export_blobs w (textOrEmpty (ex_file_path e)) = Some body" by auto
  from assms p g e c b body have s: "run_state (stream_export i (u_id u) e body) w2 = (Okay n d, w')"
    by (auto simp: handleDownloadExport_def run_handle)
  then have "dl_body d = body" "dl_sha256 d = textOrEmpty (ex_sha256 e)"
    by (auto simp: stream_export_def run_ask split: prod.splits)
  moreover have "tabs w2 = tabs w \<and> ext w2 = ext w \<and> tick w2 = tick w + 2" by (simp add: w2(1))
  ultimately show ?thesis using p m c w2(2) s f(1) by blast
qed

text \<open>
  C30: What is downloaded is one's own archive, intact. After any interleaving of triggers,
  downloads, job steps, crashes, clean-ups and account deletions, whatever fails in them, a download
  that answers is of a complete export of the caller; its bytes are an archive that was built from
  rows of the caller only, and their number and digest are the ones that were recorded and that the
  header announces.
\<close>

theorem exports_intact:
  assumes "export_steps bk (w, []) (w', fs)" and "exports_ok (ext w) (w, [])" and "uuid_texts (ext w)"
    and "run_state (handleDownloadExport u p) w' = (Okay n d, w'')"
  shows "\<exists>e\<in>set (exports (tabs w')). p = Some (ex_id e) \<and> ex_user e = u_id u \<and> ex_status e = JobComplete \<and>
    archive_of (ext w) (u_id u) (dl_body d) \<and> ex_size_bytes e = Some (int (length (dl_body d))) \<and>
    dl_sha256 d = x_sha256 (ext w) (dl_body d)"
proof -
  have ok: "exports_ok (ext w) (w', fs)" by (rule ok_steps [OF assms(1-3)])
  from download_Okay [OF assms(4)] obtain e where e: "p = Some (ex_id e)" "e \<in> set (exports (tabs w'))"
    "ex_user e = u_id u" "ex_status e = JobComplete"
    "export_blobs w' (textOrEmpty (ex_file_path e)) = Some (dl_body d)" "dl_sha256 d = textOrEmpty (ex_sha256 e)"
    by blast
  from ok e(2) have "row_ok (ext w) (export_blobs w') e" by (simp add: exports_ok_def)
  with e show ?thesis by (auto simp: row_ok_def textOrEmpty_def)
qed

text \<open>Ann asks for an export, the job makes it, and she gets it.\<close>

definition export_world :: world where
  "export_world = demo_world (empty_db\<lparr>users := [demo_user 1 ''ann'']\<rparr>) 5"

definition triggered_world :: world where
  "triggered_world = snd (run_state (handleTriggerExport (demo_user 1 ''ann'') (Some [])) export_world)"

definition exported_world :: world where
  "exported_world = snd (run_state (export_Work Local_FS) triggered_world)"

lemma export_world_ok: "exports_ok demo_ext (export_world, [])"
  by (simp add: exports_ok_def export_world_def demo_world_def empty_db_def in_flight_def)

lemma triggered_step: "export_step bk (export_world, []) (triggered_world, [])"
proof (rule export_step.call)
  show "run_state (serve_export (TriggerExport (demo_user 1 ''ann'') (Some []))) export_world = ((), triggered_world)"
    by (simp add: quietly_def triggered_world_def split: prod.split)
qed (simp add: no_id_reused_def list_all_iff)

lemma exported_steps: "export_steps Local_FS (export_world, []) (exported_world, [])"
proof -
  have "export_steps Local_FS (triggered_world, []) (exported_world, [])"
    by (rule export_Work_steps [of _ _ "fst (run_state (export_Work Local_FS) triggered_world)"])
      (simp add: exported_world_def)
  with triggered_step show ?thesis by (rule converse_rtranclp_into_rtranclp)
qed

lemma ext_export_world: "ext export_world = demo_ext"
  by (simp add: export_world_def demo_world_def)

lemma exports_intact_witness:
  "\<exists>n d w''. run_state (handleDownloadExport (demo_user 1 ''ann'') (Some 102)) exported_world = (Okay n d, w'') \<and>
     archive_of demo_ext 1 (dl_body d) \<and> dl_sha256 d = x_sha256 demo_ext (dl_body d)"
proof -
  let ?m = "run_state (handleDownloadExport (demo_user 1 ''ann'') (Some 102)) exported_world"
  have "\<not> failed (fst ?m)" by code_simp
  then obtain n d where "fst ?m = Okay n d" by (cases "fst ?m") auto
  then have m: "?m = (Okay n d, snd ?m)" by (metis prod.collapse)
  have "u_id (demo_user 1 ''ann'') = 1" by (simp add: demo_user_def)
  with exports_intact [OF exported_steps _ _ m, unfolded ext_export_world, OF export_world_ok demo_uuid_texts] m
  show ?thesis by auto
qed

end
