(* ===== verification/Export_Fate.thy ===== *)
theory Export_Fate
  imports Export_Props
begin

text \<open>
  What becomes of an export once it was downloaded, and of one whose job crashed: both rows stay as
  they are until the account is deleted. The first is what single use means; the second locks the
  user out of exports.
\<close>

section \<open>Rows that stay\<close>

definition leaves_row :: "user_export \<Rightarrow> world \<Rightarrow> world \<Rightarrow> bool" where
  "leaves_row e w w' \<longleftrightarrow> users (tabs w') = users (tabs w) \<and>
     (ex_status e \<noteq> JobComplete \<longrightarrow> e \<in> set (exports (tabs w)) \<longrightarrow> e \<in> set (exports (tabs w')))"

interpretation lr: kept_relation "leaves_row e" for e
  by unfold_locales (auto simp: leaves_row_def)

lemma lr_only_blobs: "only_blobs w w' \<Longrightarrow> leaves_row e w w'"
  by (simp add: only_blobs_def leaves_row_def)

lemma lr_store:
  "keeps (leaves_row e) (store_delete Export_Store k)" "keeps (leaves_row e) (delete_paths Export_Store ps)"
  "keeps (leaves_row e) (store_get Export_Store k)" "keeps (leaves_row e) client_reads"
proof -
  show "keeps (leaves_row e) (store_delete Export_Store k)"
    unfolding keeps_def using bs.del_only lr_only_blobs by (metis prod.collapse)
  show "keeps (leaves_row e) (store_get Export_Store k)"
    unfolding keeps_def using bs.get_only lr_only_blobs by (metis prod.collapse)
  show "keeps (leaves_row e) (delete_paths Export_Store ps)"
    unfolding keeps_def
  proof
    fix w
    have "run_state (delete_paths Export_Store ps) w = ((), snd (run_state (delete_paths Export_Store ps) w))"
      by (simp add: prod_eq_iff)
    from delete_paths_effect [OF this]
    show "leaves_row e w (snd (run_state (delete_paths Export_Store ps) w))" by (blast intro: lr_only_blobs)
  qed
  show "keeps (leaves_row e) client_reads"
    by (auto simp: keeps_def client_reads_def run_ask run_update leaves_row_def)
qed

lemma lr_retire:
  "(\<And>x. P x \<Longrightarrow> ex_status x = JobComplete) \<Longrightarrow>
    leaves_row e w (set_tabs ((tabs w)\<lparr>exports := upd_where P retire (exports (tabs w))\<rparr>) w)"
  by (auto simp: leaves_row_def set_upd_where intro!: image_eqI [of _ _ e])

lemma lr_statements:
  "keeps (leaves_row e) (CreateUserExport u f)" "keeps (leaves_row e) (ExpireUserExportByID i v)"
  "keeps (leaves_row e) ExpireUserExports"
proof -
  show "keeps (leaves_row e) (CreateUserExport u f)"
    unfolding CreateUserExport_def
    by (rule lr.keeps_sql_write) (auto simp: gen_uuid_def Let_def sql_insert_Inr leaves_row_def)
  show "keeps (leaves_row e) (ExpireUserExportByID i v)"
    unfolding ExpireUserExportByID_def
    by (rule lr.keeps_sql_write) (auto simp: sql_update_Inr intro!: lr_retire split: sum.splits)
  show "keeps (leaves_row e) ExpireUserExports"
    unfolding ExpireUserExports_def
    by (rule lr.keeps_sql_write) (auto simp: stale_export_def intro!: lr_retire)
qed

lemma lr_calls:
  "keeps (leaves_row e) (handleTriggerExport u b)" "keeps (leaves_row e) (handleDownloadExport u p)"
  "keeps (leaves_row e) pruneExpiredExports"
proof -
  show "keeps (leaves_row e) (handleTriggerExport u b)"
    unfolding handleTriggerExport_def GetPendingUserExport_def Let_def
    by (auto intro!: lr.keeps_intros lr.keeps_handle lr_statements split: option.split sum.split)
  have "keeps (leaves_row e) (retire_download i v)" for i v
    unfolding retire_download_def
    by (auto intro!: lr.keeps_intros lr_statements lr_store split: sum.split)
  then have "keeps (leaves_row e) (stream_export i v x c)" for i v x c
    unfolding stream_export_def by (auto intro!: lr.keeps_intros lr_store)
  then show "keeps (leaves_row e) (handleDownloadExport u p)"
    unfolding handleDownloadExport_def GetUserExport_def
    by (auto intro!: lr.keeps_intros lr.keeps_handle lr_store split: option.split)
  show "keeps (leaves_row e) pruneExpiredExports"
    unfolding pruneExpiredExports_def
    by (auto intro!: lr.keeps_intros lr_statements lr_store split: sum.split)
qed

section \<open>Rows that nobody works on\<close>

definition gone :: "uuid \<Rightarrow> world \<Rightarrow> bool" where
  "gone u w \<longleftrightarrow> (\<exists>v\<in>set (users (tabs w)). u_id v = u \<and> \<not> live_user v)"

text \<open>
  A row that is neither pending nor complete, and that no job holds, is there until its account is
  deleted.
\<close>

definition rests :: "user_export \<Rightarrow> world \<times> flight list \<Rightarrow> bool" where
  "rests e s \<longleftrightarrow> (case s of (w, fs) \<Rightarrow> ex_user e \<in> u_id ` set (users (tabs w)) \<and>
     (gone (ex_user e) w \<or> (e \<in> set (exports (tabs w)) \<and> ex_id e \<notin> flight_id ` set fs)))"

lemma rests_leaves:
  assumes "rests e (w, fs)" and "leaves_row e w w'" and "ex_status e \<noteq> JobComplete"
    and "flight_id ` set fs' \<subseteq> flight_id ` set fs"
  shows "rests e (w', fs')"
  using assms by (auto simp: rests_def leaves_row_def gone_def)

lemma leaves_others:
  assumes "users (tabs w') = users (tabs w)"
    and "exports (tabs w') = exports (tabs w) \<or>
      (\<exists>g. exports (tabs w') = upd_where (\<lambda>x. ex_id x = i) g (exports (tabs w)))"
    and "ex_id e \<noteq> i"
  shows "leaves_row e w w'"
  using assms by (auto simp: leaves_row_def set_upd_where intro!: image_eqI [of _ _ e])

lemma job_users:
  "run_state (record_failure row r) w = ((), w') \<Longrightarrow> users (tabs w') = users (tabs w)"
  "run_state (finish_export bk row body) w = ((), w') \<Longrightarrow> users (tabs w') = users (tabs w)"
proof -
  have f: "users (tabs w') = users (tabs w)" if "run_state (record_failure row r) w = ((), w')" for r w w'
    using that by (auto simp: record_failure_def FailUserExport_def run_sql_write
        split: sum.splits outcome.splits prod.splits)
  then show "run_state (record_failure row r) w = ((), w') \<Longrightarrow> users (tabs w') = users (tabs w)" .
  assume fin: "run_state (finish_export bk row body) w = ((), w')"
  obtain r w1 where s: "run_state (store_export bk row body) w = (r, w1)" by fastforce
  obtain ok w0 where p: "run_state (store_put bk Export_Store (export_key (ext w) row) (Some body)) w = (ok, w0)"
    by fastforce
  have "users (tabs w0) = users (tabs w)" using store_put_effect [OF p] by (simp add: only_blobs_def)
  with s p have "users (tabs w1) = users (tabs w)"
    by (auto simp: store_export_def run_ask error_text_def CompleteUserExport_def run_sql_write sql_update_Inr
        split: if_splits outcome.splits sum.splits prod.splits)
  with f fin s show "users (tabs w') = users (tabs w)" by (auto simp: finish_export_def)
qed

lemma rests_anonymize:
  assumes "run_state (Anonymize u) w = (r, w')" and "txn w = None" and "rests e (w, fs)"
  shows "rests e (w', fs)"
proof -
  from Anonymize_result [OF assms(1,2)]
  have "tabs w' = tabs w \<or> tabs w' = wiped (ext w) (clock w) u (tabs w)" by (auto split: sum.splits)
  then show ?thesis
  proof
    assume t: "tabs w' = wiped (ext w) (clock w) u (tabs w)"
    have us: "users (tabs w') = upd_where (\<lambda>v. u_id v = u) (anonymized (ext w) (clock w)) (users (tabs w))"
      and xs: "exports (tabs w') = del_where (\<lambda>x. ex_user x = u) (exports (tabs w))"
      by (simp_all add: t wiped_def cleared_def)
    have "map u_id (users (tabs w')) = map u_id (users (tabs w))"
      unfolding us by (rule map_upd_where) (simp add: anonymized_def)
    from arg_cong [OF this, of set] have "u_id ` set (users (tabs w')) = u_id ` set (users (tabs w))" by simp
    moreover have h: "\<exists>v'\<in>set (users (tabs w')). u_id v' = u_id v \<and> (\<not> live_user v \<or> u_id v = u \<longrightarrow> \<not> live_user v')"
      if "v \<in> set (users (tabs w))" for v
      using that unfolding us set_upd_where
      by (intro bexI [of _ "if u_id v = u then anonymized (ext w) (clock w) v else v"])
        (auto simp: anonymized_def live_user_def)
    then have "gone (ex_user e) w \<Longrightarrow> gone (ex_user e) w'" unfolding gone_def by metis
    moreover have "ex_user e = u \<Longrightarrow> ex_user e \<in> u_id ` set (users (tabs w)) \<Longrightarrow> gone (ex_user e) w'"
      using h unfolding gone_def by (metis imageE)
    ultimately show ?thesis
      using assms(3) by (auto simp: rests_def xs set_del_where)
  qed (use assms(3) in \<open>simp add: rests_def gone_def\<close>)
qed

lemma rests_step:
  assumes "export_step bk s s'" and "rests e s" and "exports_ok x s"
    and "ex_status e \<noteq> JobComplete" and "ex_status e \<noteq> JobPending"
  shows "rests e s'"
  using assms
proof (induction rule: export_step.induct)
  case (claim w rows w' fs)
  define I where "I = set (pending_exports (exports (tabs w)))"
  define start where "start = (\<lambda>e :: user_export. e\<lparr>ex_status := JobRunning\<rparr>)"
  from claim(1) have c: "rows = map start (filter (\<lambda>e. ex_id e \<in> I) (exports (tabs w)))"
    "exports (tabs w') = upd_where (\<lambda>e. ex_id e \<in> I) start (exports (tabs w))"
    "users (tabs w') = users (tabs w)"
    by (auto simp: ClaimPendingUserExports_def run_sql_write Let_def I_def start_def split: outcome.splits)
  have ne: "ex_id e \<notin> I" if "e \<in> set (exports (tabs w))"
  proof
    assume "ex_id e \<in> I"
    then obtain e' where e': "e' \<in> set (exports (tabs w))" "ex_status e' = JobPending" "ex_id e' = ex_id e"
      by (auto simp: I_def pending_exports_def dest!: in_set_takeD)
    from claim.prems(2) have "distinct (map ex_id (exports (tabs w)))" by (simp add: exports_ok_def)
    from distinct_key_eq [OF this e'(1) that e'(3)] e'(2) claim.prems(4) show False by simp
  qed
  show ?case
  proof (cases "gone (ex_user e) w")
    case True
    with claim.prems(1) show ?thesis by (simp add: rests_def gone_def c(3))
  next
    case False
    with claim.prems(1) have e: "e \<in> set (exports (tabs w))" "ex_id e \<notin> flight_id ` set fs"
      "ex_user e \<in> u_id ` set (users (tabs w))" by (auto simp: rests_def)
    then have "e \<in> set (exports (tabs w'))"
      using ne by (auto simp: c(2) set_upd_where intro!: image_eqI [of _ _ e])
    moreover have "ex_id e \<notin> flight_id ` set (map Claimed rows)"
      using ne [OF e(1)] by (auto simp: c(1) start_def)
    ultimately show ?thesis using e by (simp add: rests_def c(3) image_Un)
  qed
next
  case (build row w body w' us vs)
  have "leaves_row e w w'" using keepsD [OF ut_build build.hyps] by (simp add: untouched_def leaves_row_def)
  then show ?case by (rule rests_leaves [OF build.prems(1) _ build.prems(3)]) auto
next
  case (build_fails row w m w1 w' us vs)
  have "leaves_row e w w1" using keepsD [OF ut_build build_fails.hyps(1)] by (simp add: untouched_def leaves_row_def)
  then have r: "rests e (w1, us @ Claimed row # vs)"
    by (rule rests_leaves [OF build_fails.prems(1) _ build_fails.prems(3)]) simp
  show ?case
  proof (cases "gone (ex_user e) w1")
    case True
    with r job_users(1) [OF build_fails.hyps(2)] show ?thesis by (simp add: rests_def gone_def)
  next
    case False
    with r have "ex_id e \<noteq> ex_id row" by (auto simp: rests_def)
    with record_failure_effect [OF build_fails.hyps(2)] job_users(1) [OF build_fails.hyps(2)]
    have "leaves_row e w1 w'" by (intro leaves_others [of _ _ "ex_id row"]) blast+
    then show ?thesis by (rule rests_leaves [OF r _ build_fails.prems(3)]) auto
  qed
next
  case (store row body w w' us vs)
  show ?case
  proof (cases "gone (ex_user e) w")
    case True
    with store.prems(1) job_users(2) [OF store.hyps] show ?thesis by (simp add: rests_def gone_def)
  next
    case False
    with store.prems(1) have "ex_id e \<noteq> ex_id row" by (auto simp: rests_def)
    with finish_effect [OF store.hyps] job_users(2) [OF store.hyps]
    have "leaves_row e w w'" by (intro leaves_others [of _ _ "ex_id row"]) blast+
    then show ?thesis by (rule rests_leaves [OF store.prems(1) _ store.prems(3)]) auto
  qed
next
  case (call c w w' fs)
  have t: "txn w = None" using call.prems(2) by (simp add: exports_ok_def)
  show ?case
  proof (cases c)
    case (AnonymizeAccount u)
    with call.hyps(1) obtain r where "run_state (Anonymize u) w = (r, w')"
      by (auto simp: quietly_def split: prod.splits)
    then show ?thesis using t call.prems(1) by (rule rests_anonymize)
  next
    case (TriggerExport u b)
    with call.hyps(1) have "leaves_row e w w'"
      by (auto simp: quietly_def split: prod.splits intro: keepsD [OF lr_calls(1)])
    then show ?thesis by (rule rests_leaves [OF call.prems(1) _ call.prems(3)]) simp
  next
    case (DownloadExport u i)
    with call.hyps(1) have "leaves_row e w w'"
      by (auto simp: quietly_def split: prod.splits intro: keepsD [OF lr_calls(2)])
    then show ?thesis by (rule rests_leaves [OF call.prems(1) _ call.prems(3)]) simp
  next
    case PruneExports
    with call.hyps(1) have "leaves_row e w w'" by (auto intro: keepsD [OF lr_calls(3)])
    then show ?thesis by (rule rests_leaves [OF call.prems(1) _ call.prems(3)]) simp
  qed
qed (auto simp: rests_def gone_def)

lemma rests_steps:
  assumes "export_steps bk s s'" and "rests e s" and "exports_ok x s" and "uuid_texts x"
    and "ex_status e \<noteq> JobComplete" and "ex_status e \<noteq> JobPending"
  shows "rests e s'"
  using assms
proof (induction rule: rtranclp_induct)
  case (step s1 s2)
  then show ?case using rests_step ok_steps by blast
qed

section \<open>Single use\<close>

lemma find_own_export:
  assumes "distinct (map ex_id rows)" and "e \<in> set rows"
  shows "find_where (own_export (ex_id e) (ex_user e)) rows = Some e"
  using assms by (intro find_where_unique [where k = ex_id]) (auto simp: own_export_def)

lemma retired_download:
  assumes "run_state (handleDownloadExport u p) w = (Okay n d, w')" and "dl_whole d"
    and "x_avail (ext w) (tick w + 3) = Up"
  shows "\<exists>e. p = Some (ex_id e) \<and> ex_user e = u_id u \<and> ex_status e = JobComplete \<and>
    e \<in> set (exports (tabs w)) \<and> retire e \<in> set (exports (tabs w'))"
proof -
  from download_Okay [OF assms(1)] obtain e k b w1 where
    e: "p = Some (ex_id e)" "e \<in> set (exports (tabs w))" "ex_user e = u_id u" "ex_status e = JobComplete"
      "find_where (own_export (ex_id e) (u_id u)) (exports (tabs w)) = Some e" and
    s: "run_state (stream_export (ex_id e) (u_id u) e b) w1 = (Okay k d, w')" "tabs w1 = tabs w" "ext w1 = ext w"
      "tick w1 = tick w + 2"
    by blast
  let ?P = "\<lambda>x. own_export (ex_id e) (u_id u) x \<and> ex_status x = JobComplete"
  have f: "find_where ?P (exports (tabs w)) \<noteq> None"
    using e(2-4) by (auto simp: find_where_None own_export_def)
  from s(1) assms(2) have r: "run_state (retire_download (ex_id e) (u_id u)) (tock w1) = ((), w')"
    by (auto simp: stream_export_def run_ask client_reads_def run_update split: if_splits prod.splits)
  obtain q w2 where q: "run_state (ExpireUserExportByID (ex_id e) (u_id u)) (tock w1) = (q, w2)" by fastforce
  moreover have "x_avail (ext (tock w1)) (tick (tock w1)) = Up"
    using assms(3) s(3,4) by (simp add: numeral_3_eq_3)
  ultimately have w2: "exports (tabs w2) = upd_where ?P retire (exports (tabs w))" "\<exists>p. q = Inr p"
    using f s(2) by (auto simp: ExpireUserExportByID_def run_sql_write sql_update_def split: option.splits)
  then obtain path where path: "q = Inr path" by blast
  have eq: "exports (tabs w') = exports (tabs w2)"
  proof (cases "textOrEmpty path = []")
    case False
    obtain ok w3 where "run_state (store_delete Export_Store (textOrEmpty path)) w2 = (ok, w3)" by fastforce
    with store_delete_effect [OF this] r q path False show ?thesis
      by (auto simp: retire_download_def only_blobs_def)
  qed (use r q path in \<open>simp add: retire_download_def\<close>)
  have "retire e \<in> set (exports (tabs w'))"
    unfolding eq w2(1) set_upd_where using e(2-4) by (auto simp: own_export_def intro!: image_eqI [of _ _ e])
  with e show ?thesis by blast
qed


lemma exported_world_ok: "exports_ok demo_ext (exported_world, [])"
  by (rule ok_steps [OF exported_steps export_world_ok demo_uuid_texts])


section \<open>Stuck exports\<close>

text \<open>
  C32: An export whose job crashed is stuck. The claim takes pending rows only, and a trigger
  refuses while a row is pending or running; so once a row is running and no job holds it, then
  through any interleaving of calls and jobs the row stays running and every request of the user for
  a new export fails, until the account is deleted.
\<close>

theorem crashed_export_locks_out:
  assumes "exports_ok (ext w) (w, fs)" and "uuid_texts (ext w)"
    and "e \<in> set (exports (tabs w))" and "ex_status e = JobRunning" and "ex_id e \<notin> flight_id ` set fs"
    and "ex_user e \<in> u_id ` set (users (tabs w))"
    and "export_steps bk (w, fs) (w', fs')"
    and "u_id u = ex_user e" and "run_state (handleTriggerExport u b) w' = (res, w'')"
  shows "(e \<in> set (exports (tabs w')) \<and> failed res) \<or> gone (ex_user e) w'"
proof (rule disjCI)
  assume alive: "\<not> gone (ex_user e) w'"
  have "rests e (w, fs)" using assms(3,5,6) by (simp add: rests_def)
  from rests_steps [OF assms(7) this assms(1,2)] assms(4) alive
  have r: "e \<in> set (exports (tabs w'))" by (simp add: rests_def)
  then have "find_where (\<lambda>x. ex_user x = u_id u \<and> (ex_status x = JobPending \<or> ex_status x = JobRunning))
      (exports (tabs w')) \<noteq> None"
    using assms(4,8) by (auto simp: find_where_None)
  then have "failed res"
    using assms(9)
    by (auto simp: handleTriggerExport_def Let_def GetPendingUserExport_def run_sql_read one_def
        split: option.splits if_splits outcome.splits)
  with r show "e \<in> set (exports (tabs w')) \<and> failed res" ..
qed

text \<open>The job claims Ann's export, the process crashes, and weeks later she still cannot start one.\<close>

definition claimed_world :: world where
  "claimed_world = snd (run_state ClaimPendingUserExports triggered_world)"

lemma crashed_export_locks_out_witness:
  "map ex_status (exports (tabs claimed_world)) = [JobRunning] \<and>
   failed (fst (run_state (handleTriggerExport (demo_user 1 ''ann'') (Some [])) (claimed_world\<lparr>clock := 10 ^ 15\<rparr>)))"
proof -
  let ?u = "demo_user 1 ''ann''" and ?w = "claimed_world" and ?late = "claimed_world\<lparr>clock := 10 ^ 15\<rparr>"
  have "\<not> isl (fst (run_state ClaimPendingUserExports triggered_world))" by code_simp
  then obtain rows where "fst (run_state ClaimPendingUserExports triggered_world) = Inr rows"
    by (cases "fst (run_state ClaimPendingUserExports triggered_world)") auto
  then have c: "run_state ClaimPendingUserExports triggered_world = (Inr rows, ?w)"
    by (simp add: claimed_world_def prod_eq_iff)
  have ok: "exports_ok demo_ext (?w, [])"
  proof -
    have "exports_ok demo_ext (triggered_world, [])"
      by (rule ok_step [OF triggered_step export_world_ok demo_uuid_texts])
    from ok_step [OF export_step.claim [OF c] this demo_uuid_texts]
    have "exports_ok demo_ext (?w, map Claimed rows @ [])" .
    then show ?thesis by (rule ok_step [OF export_step.crash _ demo_uuid_texts])
  qed
  have s: "map ex_status (exports (tabs ?w)) = [JobRunning]" and i: "map ex_user (exports (tabs ?w)) = [1]"
    by code_simp+
  then obtain e where e: "exports (tabs ?w) = [e]" "ex_status e = JobRunning" "ex_user e = 1"
    by (auto simp: map_eq_Cons_conv)
  have us: "map u_id (users (tabs ?w)) = [1]" by code_simp
  have "u_id ` set (users (tabs ?w)) = set (map u_id (users (tabs ?w)))" by simp
  then have u: "ex_user e \<in> u_id ` set (users (tabs ?w))" unfolding us e(3) by simp
  have cl: "clock ?w \<le> 10 ^ 15" by code_simp
  have st: "export_steps Local_FS (?w, []) (?late, [])"
    by (rule r_into_rtranclp) (rule export_step.wait [OF cl])
  obtain res w3 where r: "run_state (handleTriggerExport ?u (Some [])) ?late = (res, w3)" by fastforce
  have live: "list_all live_user (users (tabs ?w))" by code_simp
  then have "\<not> gone (ex_user e) ?late" unfolding gone_def list_all_iff by simp
  moreover have x: "ext ?w = demo_ext" using ok by (simp add: exports_ok_def)
  have "(e \<in> set (exports (tabs ?late)) \<and> failed res) \<or> gone (ex_user e) ?late"
    by (rule crashed_export_locks_out [OF _ _ _ e(2) _ u st _ r, unfolded x])
      (use ok demo_uuid_texts e in \<open>simp_all add: demo_user_def\<close>)
  ultimately have "failed res" by blast
  with s r show ?thesis by simp
qed

section \<open>Archives that outlive their account\<close>

lemma put_succeeds:
  "(\<And>n. x_storage (ext w) n) \<Longrightarrow> fst (run_state (store_put bk st k (Some b)) w)"
  by (cases bk) (simp_all add: run_io_step run_update)

lemma finish_stores:
  assumes "run_state (finish_export bk row body) w = ((), w')" and "\<And>n. x_storage (ext w) n"
  shows "export_blobs w' (export_key (ext w) row) = Some body"
proof -
  obtain ok w1 where p: "run_state (store_put bk Export_Store (export_key (ext w) row) (Some body)) w = (ok, w1)"
    by fastforce
  with put_succeeds [of w bk Export_Store "export_key (ext w) row" body] assms(2) have ok by simp
  with store_put_effect [OF p] have b: "export_blobs w1 (export_key (ext w) row) = Some body" by simp
  obtain r w2 where s: "run_state (store_export bk row body) w = (r, w2)" by fastforce
  with p \<open>ok\<close> have "export_blobs w2 = export_blobs w1"
    by (auto simp: store_export_def run_ask error_text_def CompleteUserExport_def run_sql_write sql_update_Inr
        split: outcome.splits sum.splits prod.splits)
  moreover have "export_blobs w' = export_blobs w2"
    using assms(1) s by (auto simp: finish_export_def record_failure_def FailUserExport_def run_sql_write
        split: sum.splits outcome.splits prod.splits)
  ultimately show ?thesis using b by simp
qed

text \<open>
  C33: A deletion can leave an archive of the deleted account behind. Take any moment at which the
  job has built the archive of an export and not yet stored it. If the account is deleted then, by a
  request that succeeds, and the job goes on and the store answers, the archive ends up in the store:
  rows of the deleted user under the key of the export, while no row of the table of exports belongs
  to the user or holds that key, so that neither the clean-up nor a later deletion finds it.
\<close>

theorem deleted_account_leaves_archive:
  assumes "exports_ok (ext w) (w, us @ Built row body # vs)" and "uuid_texts (ext w)"
    and "u_id user = ex_user row" and "u_id user \<in> u_id ` set (users (tabs w))"
    and "run_state (handleDeleteAccount user b) w = (Okay c v, w1)"
    and "run_state (finish_export bk row body) w1 = ((), w2)" and "\<And>n. x_storage (ext w) n"
  shows "gone (u_id user) w2 \<and> archive_of (ext w) (u_id user) body \<and>
    export_blobs w2 (export_key (ext w) row) = Some body \<and>
    (\<forall>e\<in>set (exports (tabs w2)). ex_user e \<noteq> u_id user \<and> ex_file_path e \<noteq> Some (export_key (ext w) row))"
proof -
  have t: "txn w = None" and cargo: "archive_of (ext w) (u_id user) body"
    and flight: "\<forall>e\<in>set (exports (tabs w)). ex_id e = ex_id row \<longrightarrow> ex_user e = u_id user"
    and keys: "\<forall>e\<in>set (exports (tabs w)). row_ok (ext w) (export_blobs w) e"
    using assms(1,3) by (auto simp: exports_ok_def in_flight_def)
  from run_delete_account [OF assms(5) t] obtain w0 q where a: "run_state (Anonymize (u_id user)) w0 = (Inr (), w1)"
    "tabs w0 = (tabs w)\<lparr>deletion_requests := deletion_requests (tabs w) @ [q]\<rparr>" "txn w0 = None" "ext w0 = ext w"
    by blast
  from Anonymize_exports [OF a(1,3)] a(4) have x: "ext w1 = ext w" by (simp add: tame_def)
  from Anonymize_result [OF a(1,3)]
  have w1: "tabs w1 = wiped (ext w0) (clock w0) (u_id user) (tabs w0)" by simp
  then have rows: "exports (tabs w1) = del_where (\<lambda>e. ex_user e = u_id user) (exports (tabs w))"
    by (simp add: wiped_def cleared_def a(2))
  have "gone (u_id user) w1"
    using assms(4) unfolding gone_def
    by (auto simp: w1 wiped_def cleared_def a(2) set_upd_where anonymized_def live_user_def
        intro!: bexI [of _ "anonymized (ext w0) (clock w0) m" for m])
  then have g: "gone (u_id user) w2" using job_users(2) [OF assms(6)] by (simp add: gone_def)
  have none: "ex_id e \<noteq> ex_id row" if "e \<in> set (exports (tabs w1))" for e
    using that flight by (auto simp: rows set_del_where)
  then have "upd_where (\<lambda>e. ex_id e = ex_id row) f (exports (tabs w1)) = exports (tabs w1)" for f
    by (intro upd_where_id) auto
  with finish_effect [OF assms(6)] have "exports (tabs w2) = exports (tabs w1)" by auto
  moreover have "ex_user e \<noteq> u_id user \<and> ex_file_path e \<noteq> Some (export_key (ext w) row)"
    if e: "e \<in> set (exports (tabs w1))" for e
  proof -
    from e have m: "e \<in> set (exports (tabs w))" "ex_user e \<noteq> u_id user" by (simp_all add: rows set_del_where)
    with keys have "ex_file_path e \<noteq> Some (export_key (ext w) row)"
      using none [OF e] export_key_inj [OF assms(2), of e row] by (auto simp: row_ok_def)
    with m show ?thesis by simp
  qed
  ultimately show ?thesis
    using g cargo finish_stores [OF assms(6)] assms(7) x by simp
qed

text \<open>Ann's export is built when she deletes her account.\<close>

definition built_world :: world where
  "built_world = snd (run_state (build_export (hd (exports (tabs claimed_world)))) claimed_world)"

lemma built_world_ok:
  "exports_ok demo_ext (built_world, [Built (hd (exports (tabs claimed_world))) ''zipeeeee''])"
proof -
  let ?row = "hd (exports (tabs claimed_world))"
  have "fst (run_state ClaimPendingUserExports triggered_world) = Inr (exports (tabs claimed_world)) \<and>
    length (exports (tabs claimed_world)) = 1" by code_simp
  then have c: "run_state ClaimPendingUserExports triggered_world = (Inr [?row], claimed_world)"
    by (cases "exports (tabs claimed_world)") (auto simp: claimed_world_def prod_eq_iff)
  have "fst (run_state (build_export ?row) claimed_world) = Inr ''zipeeeee''" by code_simp
  then have b: "run_state (build_export ?row) claimed_world = (Inr ''zipeeeee'', built_world)"
    by (simp add: built_world_def prod_eq_iff)
  have s1: "export_step Local_FS (triggered_world, []) (claimed_world, [Claimed ?row])"
    using export_step.claim [OF c, of Local_FS "[]"] by simp
  have s2: "export_step Local_FS (claimed_world, [Claimed ?row]) (built_world, [Built ?row ''zipeeeee''])"
    using export_step.build [OF b, of Local_FS "[]" "[]"] by simp
  have "exports_ok demo_ext (triggered_world, [])"
    by (rule ok_step [OF triggered_step export_world_ok demo_uuid_texts])
  from ok_step [OF s2 ok_step [OF s1 this demo_uuid_texts] demo_uuid_texts] show ?thesis .
qed

lemma deleted_account_leaves_archive_witness:
  "\<exists>w1 w2 k. run_state (handleDeleteAccount (demo_user 1 ''ann'') (Some ''secret'')) built_world = (Okay 204 (), w1) \<and>
     run_state (finish_export Local_FS (hd (exports (tabs claimed_world))) ''zipeeeee'') w1 = ((), w2) \<and>
     gone 1 w2 \<and> export_blobs w2 k = Some ''zipeeeee''"
proof -
  let ?u = "demo_user 1 ''ann''" and ?row = "hd (exports (tabs claimed_world))"
  let ?d = "run_state (handleDeleteAccount ?u (Some ''secret'')) built_world"
  have x: "ext built_world = demo_ext" using built_world_ok by (simp add: exports_ok_def)
  have "fst ?d = Okay 204 ()" by code_simp
  then have d: "?d = (Okay 204 (), snd ?d)" by (metis prod.collapse)
  obtain w2 where f: "run_state (finish_export Local_FS ?row ''zipeeeee'') (snd ?d) = ((), w2)"
    by (cases "run_state (finish_export Local_FS ?row ''zipeeeee'') (snd ?d)") auto
  have us: "map u_id (users (tabs built_world)) = [1]" by code_simp
  have "u_id ` set (users (tabs built_world)) = set (map u_id (users (tabs built_world)))" by simp
  then have u: "u_id ?u \<in> u_id ` set (users (tabs built_world))" unfolding us by (simp add: demo_user_def)
  have r: "u_id ?u = ex_user ?row" by code_simp
  have s: "x_storage (ext built_world) n" for n unfolding x by (simp add: demo_ext_def)
  have "exports_ok (ext built_world) (built_world, [] @ Built ?row ''zipeeeee'' # [])"
    using built_world_ok x by simp
  from deleted_account_leaves_archive [OF this demo_uuid_texts [folded x] r u d f s]
  have "gone 1 w2" "export_blobs w2 (export_key (ext built_world) ?row) = Some ''zipeeeee''"
    by (simp_all add: demo_user_def)
  with d f show ?thesis by blast
qed

end
