(* ===== verification/Floats.thy ===== *)
theory Floats
  imports Complex_Main "HOL-Library.Log_Nat"
begin

text \<open>
  The arithmetic of Go's \<^verbatim>\<open>float64\<close>: a finite double is the rational it denotes, and an
  operation is the exact one followed by \<open>fl\<close>, the rounding to 53 significant bits, halves to
  even, with the gradual underflow at \<open>2 ^ -1074\<close>. It is that of \<^verbatim>\<open>amd64\<close>, where the
  compiler does not fuse a product with a sum. Overflow is kept apart: where a result may reach
  \<open>2 ^ 1024\<close>, the caller of \<open>fl\<close> tests it. The sign of a zero is not kept.
\<close>

section \<open>Rounding\<close>

definition round_even :: "rat \<Rightarrow> int" where
  "round_even x = (let n = \<lfloor>x\<rfloor>; r = x - of_int n in
     if r < 1 / 2 then n else if 1 / 2 < r then n + 1 else if even n then n else n + 1)"

text \<open>The exponent of a positive number: \<open>2 ^ e \<le> x < 2 ^ (e + 1)\<close>.\<close>

definition ilog2 :: "rat \<Rightarrow> int" where
  "ilog2 x = (let (p, q) = quotient_of x; e = bitlen p - bitlen q in
     if 2 powi e \<le> x then e else e - 1)"

definition ulp_exp :: "rat \<Rightarrow> int" where
  "ulp_exp x = max (ilog2 \<bar>x\<bar> - 52) (- 1074)"

definition fl :: "rat \<Rightarrow> rat" where
  "fl x = (if x = 0 then 0 else of_int (round_even (x / 2 powi ulp_exp x)) * 2 powi ulp_exp x)"

section \<open>The exponent\<close>

lemma two_powi_less [simp]: "(2 :: rat) powi a < 2 powi b \<longleftrightarrow> a < b"
  by (metis linorder_neq_iff one_less_numeral_iff order_less_asym power_int_strict_increasing
      semiring_norm(76))

lemma two_powi_le [simp]: "(2 :: rat) powi a \<le> 2 powi b \<longleftrightarrow> a \<le> b"
  by (metis linorder_not_less two_powi_less)

lemma bitlen_powi:
  assumes "0 < p"
  shows "2 powi (bitlen p - 1) \<le> (of_int p :: rat)" and "(of_int p :: rat) < 2 powi bitlen p"
proof -
  from bitlen_bounds [OF assms]
  have b: "2 ^ nat (bitlen p - 1) \<le> p" "p < 2 ^ nat (bitlen p)" by simp_all
  from assms have g: "bitlen p > 0" using bitlen_eq_zero_iff [of p] bitlen_nonneg [of p] by linarith
  then have e: "2 powi (bitlen p - 1) = (of_int (2 ^ nat (bitlen p - 1)) :: rat)"
      "2 powi bitlen p = (of_int (2 ^ nat (bitlen p)) :: rat)"
    by (simp_all add: power_int_def)
  show "2 powi (bitlen p - 1) \<le> (of_int p :: rat)" unfolding e(1) using b(1) by (simp only: of_int_le_iff)
  show "(of_int p :: rat) < 2 powi bitlen p" unfolding e(2) using b(2) by (simp only: of_int_less_iff)
qed

lemma ilog2_bounds:
  assumes "0 < x"
  shows "2 powi ilog2 x \<le> x" and "x < 2 powi (ilog2 x + 1)"
proof -
  obtain p q where pq: "quotient_of x = (p, q)" by fastforce
  from quotient_of_denom_pos [OF pq] have q: "0 < q" .
  from quotient_of_div [OF pq] have x: "x = of_int p / of_int q" .
  with assms q have p: "0 < p" by (simp add: zero_less_divide_iff)
  have lo: "2 powi (bitlen p - bitlen q - 1) < x"
  proof -
    have "2 powi (bitlen p - bitlen q - 1) * of_int q < (2 powi (bitlen p - bitlen q - 1) * 2 powi bitlen q :: rat)"
      using bitlen_powi(2) [OF q] by (simp add: mult_strict_left_mono)
    also have "\<dots> = (2 powi (bitlen p - 1) :: rat)" by (simp add: power_int_diff power_int_add)
    also have "\<dots> \<le> of_int p" using bitlen_powi(1) [OF p] .
    finally show ?thesis using q by (simp add: x field_simps)
  qed
  have hi: "x < 2 powi (bitlen p - bitlen q + 1)"
  proof -
    have "of_int p < (2 powi bitlen p :: rat)" using bitlen_powi(2) [OF p] .
    also have "\<dots> = 2 powi (bitlen p - bitlen q + 1) * 2 powi (bitlen q - 1)"
      by (simp flip: power_int_add)
    also have "\<dots> \<le> 2 powi (bitlen p - bitlen q + 1) * of_int q"
      using bitlen_powi(1) [OF q] by (simp add: mult_left_mono)
    finally show ?thesis using q by (simp add: x field_simps)
  qed
  show "2 powi ilog2 x \<le> x" "x < 2 powi (ilog2 x + 1)"
    using lo hi by (auto simp: ilog2_def pq Let_def)
qed

lemma ilog2_unique:
  assumes "2 powi e \<le> x" and "x < 2 powi (e + 1)"
  shows "ilog2 x = e"
proof -
  have "0 < x" using assms(1) by (rule less_le_trans [rotated]) simp
  note b = ilog2_bounds [OF this]
  have "(2 :: rat) powi e < 2 powi (ilog2 x + 1)" using assms(1) b(2) by (rule le_less_trans)
  then have "e < ilog2 x + 1" by simp
  have "(2 :: rat) powi ilog2 x < 2 powi (e + 1)" using b(1) assms(2) by (rule le_less_trans)
  then have "ilog2 x < e + 1" by simp
  with \<open>e < ilog2 x + 1\<close> show ?thesis by simp
qed

lemma ilog2_mono: "0 < x \<Longrightarrow> x \<le> y \<Longrightarrow> ilog2 x \<le> ilog2 y"
proof -
  assume "0 < x" "x \<le> y"
  with ilog2_bounds(1) [of x] ilog2_bounds(2) [of y]
  have "(2 :: rat) powi ilog2 x < 2 powi (ilog2 y + 1)" by linarith
  then have "ilog2 x < ilog2 y + 1" by simp
  then show ?thesis by simp
qed

section \<open>Nearest, halves to even\<close>

lemma round_even_near: "\<bar>of_int (round_even x) - x\<bar> \<le> 1 / 2"
  by (auto simp: round_even_def Let_def abs_if split: if_splits) linarith+

lemma round_even_of_int [simp]: "round_even (of_int n) = n"
  by (simp add: round_even_def)

lemma round_even_mono: "x \<le> y \<Longrightarrow> round_even x \<le> round_even y"
proof -
  assume le: "x \<le> y"
  then have f: "\<lfloor>x\<rfloor> \<le> \<lfloor>y\<rfloor>" by (rule floor_mono)
  show ?thesis
  proof (cases "\<lfloor>x\<rfloor> = \<lfloor>y\<rfloor>")
    case True
    with le show ?thesis by (auto simp: round_even_def Let_def)
  next
    case False
    with f have "\<lfloor>x\<rfloor> + 1 \<le> \<lfloor>y\<rfloor>" by simp
    moreover have "round_even x \<le> \<lfloor>x\<rfloor> + 1" by (simp add: round_even_def Let_def)
    moreover have "\<lfloor>y\<rfloor> \<le> round_even y" by (simp add: round_even_def Let_def)
    ultimately show ?thesis by linarith
  qed
qed

lemma round_even_minus [simp]: "round_even (- x) = - round_even x"
proof (cases "x = of_int \<lfloor>x\<rfloor>")
  case True
  then obtain n where "x = of_int n" by blast
  then show ?thesis by (metis of_int_minus round_even_of_int)
next
  case False
  then have "\<lfloor>- x\<rfloor> = - \<lfloor>x\<rfloor> - 1"
    by (smt (verit) floor_minus ceiling_altdef)
  then show ?thesis by (auto simp: round_even_def Let_def)
qed

section \<open>Rounded numbers\<close>

lemma fl_0 [simp]: "fl 0 = 0"
  by (simp add: fl_def)

lemma fl_minus [simp]: "fl (- x) = - fl x"
  by (simp add: fl_def ulp_exp_def)

lemma fl_eq: "fl x = of_int (round_even (x / 2 powi ulp_exp x)) * 2 powi ulp_exp x"
  using round_even_of_int [of 0] by (simp add: fl_def)

text \<open>A point of the grid of \<open>x\<close> that bounds \<open>x\<close> bounds its rounding.\<close>

lemma grid_int: "k \<le> e \<Longrightarrow> \<exists>j. of_int n * 2 powi e / 2 powi k = (of_int j :: rat)"
proof -
  assume "k \<le> e"
  then have "(2 :: rat) powi e / 2 powi k = 2 powi (e - k)" by (simp add: power_int_diff)
  also have "\<dots> = of_int (2 ^ nat (e - k))" using \<open>k \<le> e\<close> by (simp add: power_int_def)
  finally have "of_int n * 2 powi e / 2 powi k = (of_int (n * 2 ^ nat (e - k)) :: rat)"
    by (simp add: divide_inverse mult.assoc)
  then show ?thesis by blast
qed

lemma fl_le_grid:
  assumes "x \<le> of_int n * 2 powi e" and "ulp_exp x \<le> e"
  shows "fl x \<le> of_int n * 2 powi e"
proof -
  from grid_int [OF assms(2)] obtain j where j: "of_int n * 2 powi e / 2 powi ulp_exp x = (of_int j :: rat)"
    by blast
  with assms(1) have "x / 2 powi ulp_exp x \<le> of_int j" by (metis divide_right_mono zero_le_power_int zero_le_numeral)
  from round_even_mono [OF this] have "of_int (round_even (x / 2 powi ulp_exp x)) \<le> (of_int j :: rat)" by simp
  then have "fl x \<le> of_int j * 2 powi ulp_exp x" unfolding fl_eq by (simp add: mult_right_mono)
  also have "\<dots> = of_int n * 2 powi e" by (simp flip: j)
  finally show ?thesis .
qed

lemma fl_ge_grid:
  assumes "of_int n * 2 powi e \<le> x" and "ulp_exp x \<le> e"
  shows "of_int n * 2 powi e \<le> fl x"
  using fl_le_grid [of "- x" "- n" e] assms by (simp add: ulp_exp_def)

definition double_grid :: "rat \<Rightarrow> bool" where
  "double_grid x \<longleftrightarrow> (\<exists>m e. x = of_int m * 2 powi e \<and> \<bar>m\<bar> < 2 ^ 53 \<and> - 1074 \<le> e)"

lemma ulp_exp_grid:
  assumes "x = of_int m * 2 powi e" "\<bar>m\<bar> < 2 ^ 53" "- 1074 \<le> e" "x \<noteq> 0"
  shows "ulp_exp x \<le> e"
proof -
  have "\<bar>of_int m\<bar> < (2 ^ 53 :: rat)" using assms(2) by (metis of_int_abs of_int_less_iff of_int_numeral of_int_power)
  then have "\<bar>x\<bar> < 2 ^ 53 * 2 powi e" unfolding assms(1) by (simp add: abs_mult)
  also have "\<dots> = 2 powi (53 + e)" by (simp add: power_int_add)
  finally have "2 powi ilog2 \<bar>x\<bar> < (2 powi (53 + e) :: rat)"
    using ilog2_bounds(1) [of "\<bar>x\<bar>"] assms(4) by (metis order_le_less_trans zero_less_abs_iff)
  then have "ilog2 \<bar>x\<bar> < 53 + e" by (simp only: two_powi_less)
  then show ?thesis using assms(3) by (simp add: ulp_exp_def)
qed

text \<open>A double rounds to itself.\<close>

lemma fl_exact:
  assumes "double_grid x"
  shows "fl x = x"
proof (cases "x = 0")
  case False
  from assms obtain m e where x: "x = of_int m * 2 powi e" "\<bar>m\<bar> < 2 ^ 53" "- 1074 \<le> e"
    by (auto simp: double_grid_def)
  from ulp_exp_grid [OF this False] have u: "ulp_exp x \<le> e" .
  from fl_le_grid [of x m e] fl_ge_grid [of m e x] u x(1) show ?thesis by simp
qed simp

lemma fl_mono_pos:
  assumes "0 < x" and "x \<le> y"
  shows "fl x \<le> fl y"
proof (cases "ulp_exp x = ulp_exp y")
  case True
  from assms(2) have "x / 2 powi ulp_exp y \<le> y / 2 powi ulp_exp y" by (simp add: divide_right_mono)
  from round_even_mono [OF this] True show ?thesis unfolding fl_eq by (simp add: mult_right_mono)
next
  case False
  have l: "ilog2 x \<le> ilog2 y" using ilog2_mono [OF assms] .
  with False assms have u: "ulp_exp x \<le> ulp_exp y" "ulp_exp y = ilog2 y - 52" "ilog2 x < ilog2 y"
    by (auto simp: ulp_exp_def)
  have "x < 2 powi (ilog2 x + 1)" using ilog2_bounds [OF assms(1)] by simp
  also have "\<dots> \<le> 2 powi ilog2 y" using u(3) by simp
  finally have "fl x \<le> of_int 1 * 2 powi ilog2 y" using u by (intro fl_le_grid) auto
  also have "\<dots> \<le> fl y" using u ilog2_bounds(1) [of y] assms by (intro fl_ge_grid) auto
  finally show ?thesis .
qed

lemma fl_nonneg: "0 \<le> x \<Longrightarrow> 0 \<le> fl x"
  using fl_ge_grid [of 0 "ulp_exp x" x] by simp

lemma fl_mono: "x \<le> y \<Longrightarrow> fl x \<le> fl y"
proof (cases "0 < x")
  case False
  assume "x \<le> y"
  show ?thesis
  proof (cases "y < 0")
    case True
    with \<open>x \<le> y\<close> fl_mono_pos [of "- y" "- x"] show ?thesis by simp
  next
    case False
    with \<open>\<not> 0 < x\<close> fl_nonneg [of y] fl_nonneg [of "- x"] show ?thesis by simp
  qed
qed (rule fl_mono_pos)

text \<open>The relative error, where the number is not subnormal.\<close>

lemma fl_error:
  assumes "2 powi - 1022 \<le> \<bar>x\<bar>"
  shows "\<bar>fl x - x\<bar> \<le> \<bar>x\<bar> / 2 ^ 53"
proof -
  have p: "0 < \<bar>x\<bar>" using assms by (rule less_le_trans [rotated]) simp
  have "(2 :: rat) powi - 1022 < 2 powi (ilog2 \<bar>x\<bar> + 1)"
    using assms ilog2_bounds(2) [OF p] by (rule order_le_less_trans)
  then have "- 1022 < ilog2 \<bar>x\<bar> + 1" by (simp only: two_powi_less)
  then have u: "ulp_exp x = ilog2 \<bar>x\<bar> - 52" by (simp add: ulp_exp_def)
  define v :: rat where "v = 2 powi ulp_exp x"
  have "v > 0" by (simp add: v_def)
  have "\<bar>fl x - x\<bar> = \<bar>of_int (round_even (x / v)) - x / v\<bar> * v"
    using \<open>v > 0\<close> by (simp add: fl_eq flip: v_def) (simp add: field_simps abs_mult)
  also have "\<dots> \<le> 1 / 2 * v" using \<open>v > 0\<close> by (intro mult_right_mono round_even_near) simp
  also have "\<dots> = 2 powi ilog2 \<bar>x\<bar> / 2 ^ 53" by (simp add: v_def u power_int_diff)
  also have "\<dots> \<le> \<bar>x\<bar> / 2 ^ 53" using ilog2_bounds(1) [OF p] by (simp add: divide_right_mono)
  finally show ?thesis .
qed

end
