(* ===== verification/Units.thy ===== *)
theory Units
  imports Prelude Floats
begin

text \<open>
  The units of \<^verbatim>\<open>internal/calc/units.go\<close>: the table, the spelling that is looked up in it, and
  the conversion. A factor of the table is the double nearest to the decimal in the source. The
  amounts converted come from \<^verbatim>\<open>NUMERIC(10,3)\<close> columns or are 1, so that no product reaches
  the largest double.
\<close>

section \<open>The table\<close>

datatype UnitFamily = FamilyMass | FamilyVolume | FamilyCount | FamilyUnknown

record unitInfo =
  family :: UnitFamily
  toBase :: rat

abbreviation mass_unit :: "rat \<Rightarrow> string \<Rightarrow> string \<times> unitInfo" where
  "mass_unit c u \<equiv> (u, \<lparr>family = FamilyMass, toBase = c\<rparr>)"

abbreviation volume_unit :: "rat \<Rightarrow> string \<Rightarrow> string \<times> unitInfo" where
  "volume_unit c u \<equiv> (u, \<lparr>family = FamilyVolume, toBase = c\<rparr>)"

abbreviation count_unit :: "rat \<Rightarrow> string \<Rightarrow> string \<times> unitInfo" where
  "count_unit c u \<equiv> (u, \<lparr>family = FamilyCount, toBase = c\<rparr>)"

text \<open>The decimals of the source.\<close>

definition unit_decimals :: "(string \<times> unitInfo) list" where
  "unit_decimals = [
     mass_unit 1 ''g'', mass_unit 1 ''gram'', mass_unit 1 ''grams'',
     mass_unit 1000 ''kg'', mass_unit 1000 ''kilo'', mass_unit 1000 ''kilogram'',
     mass_unit 1000 ''kilograms'',
     mass_unit 0.001 ''mg'', mass_unit 0.001 ''milligram'',
     mass_unit 28.349523125 ''oz'', mass_unit 28.349523125 ''ounce'',
     mass_unit 28.349523125 ''ounces'',
     mass_unit 453.59237 ''lb'', mass_unit 453.59237 ''lbs'', mass_unit 453.59237 ''pound'',
     mass_unit 453.59237 ''pounds'',
     volume_unit 1 ''ml'', volume_unit 1 ''milliliter'', volume_unit 1 ''milliliters'',
     volume_unit 10 ''cl'',
     volume_unit 1000 ''l'', volume_unit 1000 ''liter'', volume_unit 1000 ''liters'',
     volume_unit 1000 ''litre'', volume_unit 1000 ''litres'',
     volume_unit 4.92892159375 ''tsp'', volume_unit 4.92892159375 ''teaspoon'',
     volume_unit 4.92892159375 ''teaspoons'',
     volume_unit 14.78676478125 ''tbsp'', volume_unit 14.78676478125 ''tablespoon'',
     volume_unit 14.78676478125 ''tablespoons'',
     volume_unit 29.5735295625 ''floz'', volume_unit 29.5735295625 ''fluidounce'',
     volume_unit 29.5735295625 ''fluidounces'',
     volume_unit 236.5882365 ''cup'', volume_unit 236.5882365 ''cups'',
     volume_unit 473.176473 ''pt'', volume_unit 473.176473 ''pint'', volume_unit 473.176473 ''pints'',
     volume_unit 946.352946 ''qt'', volume_unit 946.352946 ''quart'',
     volume_unit 946.352946 ''quarts'',
     volume_unit 3785.411784 ''gal'', volume_unit 3785.411784 ''gallon'',
     volume_unit 3785.411784 ''gallons'',
     count_unit 0 ''stick'', count_unit 0 ''sticks'', count_unit 0 ''pack'', count_unit 0 ''packs'',
     count_unit 0 ''packet'', count_unit 0 ''each'', count_unit 0 ''piece'', count_unit 0 ''pieces'',
     count_unit 0 ''whole'']"

definition unitTable :: "string \<Rightarrow> unitInfo option" where
  "unitTable u = map_option (\<lambda>i. i\<lparr>toBase := fl (toBase i)\<rparr>) (map_of unit_decimals u)"

section \<open>Operations\<close>

definition normalizeUnit :: "string \<Rightarrow> string" where
  "normalizeUnit u = filter (\<lambda>c. c \<noteq> CHR '' '') (filter (\<lambda>c. c \<noteq> CHR ''.'') (to_lower (trim_space u)))"

definition Family :: "string \<Rightarrow> UnitFamily" where
  "Family unit = (if unit = [] then FamilyUnknown
     else case unitTable (normalizeUnit unit) of Some info \<Rightarrow> family info | None \<Rightarrow> FamilyUnknown)"

definition Convert :: "rat \<Rightarrow> string \<Rightarrow> string \<Rightarrow> rat option" where
  "Convert amount from to = (if from = to then Some amount
     else case (unitTable (normalizeUnit from), unitTable (normalizeUnit to)) of
       (Some f, Some t) \<Rightarrow>
         if family f \<noteq> family t then None
         else if family f = FamilyCount then None
         else Some (fl (fl (amount * toBase f) / toBase t))
     | _ \<Rightarrow> None)"

section \<open>Accuracy\<close>

text \<open>
  What the units are, from their definitions: the pound is 453.59237 g and has 16 ounces, the US
  gallon is 231 cubic inches of 2.54 cm and has 4 quarts, 8 pints, 16 cups, 128 fluid ounces, 256
  tablespoons and 768 teaspoons. The names are those a recipe may use.
\<close>

definition pound_g :: rat where "pound_g = 453.59237"

definition gallon_ml :: rat where "gallon_ml = 231 * 2.54 ^ 3"

definition unit_sizes :: "(UnitFamily \<times> rat \<times> string list) list" where
  "unit_sizes = [
     (FamilyMass, 1, [''g'', ''gram'', ''grams'']),
     (FamilyMass, 1000, [''kg'', ''kilo'', ''kilogram'', ''kilograms'']),
     (FamilyMass, 1 / 1000, [''mg'', ''milligram'']),
     (FamilyMass, pound_g / 16, [''oz'', ''ounce'', ''ounces'']),
     (FamilyMass, pound_g, [''lb'', ''lbs'', ''pound'', ''pounds'']),
     (FamilyVolume, 1, [''ml'', ''milliliter'', ''milliliters'']),
     (FamilyVolume, 10, [''cl'']),
     (FamilyVolume, 1000, [''l'', ''liter'', ''liters'', ''litre'', ''litres'']),
     (FamilyVolume, gallon_ml / 768, [''tsp'', ''teaspoon'', ''teaspoons'']),
     (FamilyVolume, gallon_ml / 256, [''tbsp'', ''tablespoon'', ''tablespoons'']),
     (FamilyVolume, gallon_ml / 128, [''floz'', ''fluidounce'', ''fluidounces'']),
     (FamilyVolume, gallon_ml / 16, [''cup'', ''cups'']),
     (FamilyVolume, gallon_ml / 8, [''pt'', ''pint'', ''pints'']),
     (FamilyVolume, gallon_ml / 4, [''qt'', ''quart'', ''quarts'']),
     (FamilyVolume, gallon_ml, [''gal'', ''gallon'', ''gallons''])]"

definition unit_size :: "string \<Rightarrow> (UnitFamily \<times> rat) option" where
  "unit_size u = map_of (concat (map (\<lambda>(k, c, us). map (\<lambda>u. (u, k, c)) us) unit_sizes)) u"

text \<open>The exact factor from one unit to another; equal spellings are the same unit, known or not.\<close>

definition exact_factor :: "string \<Rightarrow> string \<Rightarrow> rat option" where
  "exact_factor from to = (if from = to then Some 1
     else case (unit_size (normalizeUnit from), unit_size (normalizeUnit to)) of
       (Some (k, c), Some (k', c')) \<Rightarrow> if k = k' then Some (c / c') else None
     | _ \<Rightarrow> None)"

text \<open>The table of the source agrees: it has these units, with these factors, and units of count.\<close>

lemma unit_sizes_decimals:
  "concat (map (\<lambda>(k, c, us). map (\<lambda>u. (u, k, c)) us) unit_sizes) =
     map (\<lambda>(u, i). (u, family i, toBase i)) (filter (\<lambda>(u, i). family i \<noteq> FamilyCount) unit_decimals)"
  by (simp add: unit_sizes_def unit_decimals_def pound_g_def gallon_ml_def power3_eq_cube)

lemma unit_decimals_distinct: "distinct (map fst unit_decimals)"
  by (simp add: unit_decimals_def)

lemma unit_size_eq:
  "unit_size u = (case map_of unit_decimals u of
     Some i \<Rightarrow> if family i = FamilyCount then None else Some (family i, toBase i) | None \<Rightarrow> None)"
proof -
  have "map_of (map (\<lambda>(u, i). (u, family i, toBase i)) (filter (\<lambda>(u, i). family i \<noteq> FamilyCount) ds)) u =
      (case map_of ds u of
         Some i \<Rightarrow> if family i = FamilyCount then None else Some (family i, toBase i) | None \<Rightarrow> None)"
    if "distinct (map fst ds)" for ds :: "(string \<times> unitInfo) list"
    using that
  proof (induction ds)
    case (Cons d ds)
    then have "map_of ds (fst d) = None" by (simp add: map_of_eq_None_iff)
    with Cons show ?case by (cases d) auto
  qed simp
  from this [OF unit_decimals_distinct] show ?thesis by (simp add: unit_size_def unit_sizes_decimals)
qed

lemma Convert_defined: "Convert a f t = None \<longleftrightarrow> exact_factor f t = None"
  by (auto simp: Convert_def exact_factor_def unitTable_def unit_size_eq split: option.splits)

lemma unit_decimals_range:
  "(u, i) \<in> set unit_decimals \<Longrightarrow> family i \<noteq> FamilyCount \<Longrightarrow> 1 / 1000 \<le> toBase i \<and> toBase i \<le> 4000"
  unfolding unit_decimals_def by (auto simp: field_simps)

text \<open>A rounding to a factor that is within \<open>2 ^ - 53\<close> of one.\<close>

lemma fl_factor:
  assumes "1 / 10 ^ 12 \<le> \<bar>x\<bar>"
  obtains d where "fl x = x * (1 + d)" and "\<bar>d\<bar> \<le> 1 / 2 ^ 53"
proof
  have "2 powi - 1022 \<le> (1 / 10 ^ 12 :: rat)" by (simp add: power_int_def field_simps)
  with assms have "\<bar>fl x - x\<bar> \<le> \<bar>x\<bar> / 2 ^ 53" by (intro fl_error) linarith
  moreover have "x \<noteq> 0" using assms by auto
  ultimately show "\<bar>(fl x - x) / x\<bar> \<le> 1 / 2 ^ 53" and "fl x = x * (1 + (fl x - x) / x)"
    by (simp_all add: field_simps)
qed

lemma three_factors:
  assumes "\<bar>d1\<bar> \<le> e" "\<bar>d2\<bar> \<le> e" "\<bar>d3\<bar> \<le> e" "\<bar>d4\<bar> \<le> e" and e: "e = 1 / 2 ^ 53"
  shows "\<bar>(1 + d1) * (1 + d3) * (1 + d4) / (1 + d2) - 1\<bar> \<le> (1 :: rat) / 2 ^ 50"
proof -
  have m: "\<bar>x * y\<bar> \<le> e * e" if "\<bar>x\<bar> \<le> e" "\<bar>y\<bar> \<le> e" for x y :: rat
    using that by (simp add: abs_mult mult_mono)
  have e1: "e * e \<le> e / 2 ^ 50" "e \<le> 1 / 2 ^ 50" by (simp_all add: e)
  have p3: "\<bar>d1 * d3 * d4\<bar> \<le> e"
  proof -
    have "\<bar>d1 * d3\<bar> \<le> 1" using m [OF assms(1,3)] e1 by (simp add: e)
    then have "\<bar>d1 * d3\<bar> * \<bar>d4\<bar> \<le> 1 * \<bar>d4\<bar>" by (rule mult_right_mono) simp
    with assms(4) show ?thesis by (simp add: abs_mult)
  qed
  have n: "(1 + d1) * (1 + d3) * (1 + d4) - (1 + d2) =
      d1 + d3 + d4 - d2 + d1 * d3 + d1 * d4 + d3 * d4 + d1 * d3 * d4" by (simp add: algebra_simps)
  have "\<bar>(1 + d1) * (1 + d3) * (1 + d4) - (1 + d2)\<bar> \<le> 5 * e + 3 * (e / 2 ^ 50)"
    unfolding n using assms(1-4) [unfolded abs_le_iff] m [OF assms(1,3), unfolded abs_le_iff]
      m [OF assms(1,4), unfolded abs_le_iff] m [OF assms(3,4), unfolded abs_le_iff]
      p3 [unfolded abs_le_iff] e1(1)
    by (intro abs_leI) linarith+
  also have "\<dots> \<le> (1 - e) / 2 ^ 50" by (simp add: e)
  also have "\<dots> \<le> \<bar>1 + d2\<bar> / 2 ^ 50" using assms(2) by (intro divide_right_mono) (linarith, simp)
  finally have "\<bar>(1 + d1) * (1 + d3) * (1 + d4) - (1 + d2)\<bar> \<le> \<bar>1 + d2\<bar> / 2 ^ 50" .
  moreover have z: "1 + d2 \<noteq> 0" using assms(2) by (simp add: e)
  ultimately show ?thesis by (simp add: field_simps)
qed

lemma fl_decimal:
  assumes "map_of unit_decimals u = Some i" and "family i \<noteq> FamilyCount"
  obtains d where "fl (toBase i) = toBase i * (1 + d)" "\<bar>d\<bar> \<le> 1 / 2 ^ 53"
    "1 / 2000 \<le> fl (toBase i)" "fl (toBase i) \<le> 4096" "0 < toBase i"
proof -
  from unit_decimals_range [OF map_of_SomeD [OF assms(1)] assms(2)]
  have r: "1 / 1000 \<le> toBase i" "toBase i \<le> 4000" by simp_all
  then have "1 / 10 ^ 12 \<le> \<bar>toBase i\<bar>" by simp
  then obtain d where d: "fl (toBase i) = toBase i * (1 + d)" "\<bar>d\<bar> \<le> 1 / 2 ^ 53" by (rule fl_factor)
  have "1 / 2 \<le> 1 + d" "1 + d \<le> 1024 / 1000" using d(2) by simp_all
  with r have "1 / 1000 * (1 / 2) \<le> toBase i * (1 + d)" "toBase i * (1 + d) \<le> 4000 * (1024 / 1000)"
    by (intro mult_mono; simp)+
  with d r that show thesis by simp
qed

lemma Convert_error:
  assumes "map_of unit_decimals u = Some i" "map_of unit_decimals v = Some j"
    and "family i \<noteq> FamilyCount" "family j \<noteq> FamilyCount" and a: "1 / 1000 \<le> \<bar>a\<bar>"
  shows "\<bar>fl (fl (a * fl (toBase i)) / fl (toBase j)) - a * (toBase i / toBase j)\<bar>
    \<le> \<bar>a * (toBase i / toBase j)\<bar> / 2 ^ 50"
proof -
  obtain d1 where i: "fl (toBase i) = toBase i * (1 + d1)" "\<bar>d1\<bar> \<le> 1 / 2 ^ 53" "1 / 2000 \<le> fl (toBase i)"
    by (rule fl_decimal [OF assms(1,3)])
  obtain d2 where j: "fl (toBase j) = toBase j * (1 + d2)" "\<bar>d2\<bar> \<le> 1 / 2 ^ 53" "1 / 2000 \<le> fl (toBase j)"
      "fl (toBase j) \<le> 4096" "0 < toBase j"
    by (rule fl_decimal [OF assms(2,4)])
  have p0: "1 / 1000 * (1 / 2000) \<le> \<bar>a\<bar> * fl (toBase i)" using a i(3) by (intro mult_mono) simp_all
  then have "1 / 10 ^ 12 \<le> \<bar>a * fl (toBase i)\<bar>" using i(3) by (simp add: abs_mult)
  then obtain d3 where p: "fl (a * fl (toBase i)) = a * fl (toBase i) * (1 + d3)" "\<bar>d3\<bar> \<le> 1 / 2 ^ 53"
    by (rule fl_factor)
  have "1 / 2 \<le> \<bar>1 + d3\<bar>" using p(2) by simp
  with p0 i(3) have "1 / 1000 * (1 / 2000) * (1 / 2) \<le> \<bar>a * fl (toBase i)\<bar> * \<bar>1 + d3\<bar>"
    by (intro mult_mono) (simp_all add: abs_mult)
  then have "1 / 4000000 / 4096 \<le> \<bar>fl (a * fl (toBase i))\<bar> / fl (toBase j)"
    using j(3,4) by (intro frac_le) (simp_all add: p(1) abs_mult)
  then have "1 / 10 ^ 12 \<le> \<bar>fl (a * fl (toBase i)) / fl (toBase j)\<bar>" using j(3) by simp
  then obtain d4 where q: "fl (fl (a * fl (toBase i)) / fl (toBase j)) =
      fl (a * fl (toBase i)) / fl (toBase j) * (1 + d4)" "\<bar>d4\<bar> \<le> 1 / 2 ^ 53" by (rule fl_factor)
  define c where "c = a * (toBase i / toBase j)"
  have "fl (fl (a * fl (toBase i)) / fl (toBase j)) = c * ((1 + d1) * (1 + d3) * (1 + d4) / (1 + d2))"
  proof -
    have "fl (fl (a * fl (toBase i)) / fl (toBase j)) =
        a * fl (toBase i) * (1 + d3) / fl (toBase j) * (1 + d4)" unfolding q(1) unfolding p(1) by (rule refl)
    then show ?thesis by (simp only: i(1) j(1)) (simp add: c_def)
  qed
  then have "\<bar>fl (fl (a * fl (toBase i)) / fl (toBase j)) - c\<bar> =
      \<bar>c\<bar> * \<bar>(1 + d1) * (1 + d3) * (1 + d4) / (1 + d2) - 1\<bar>"
    by (simp add: right_diff_distrib flip: abs_mult)
  also have "\<dots> \<le> \<bar>c\<bar> * (1 / 2 ^ 50)"
    using three_factors [OF i(2) j(2) p(2) q(2) refl] by (intro mult_left_mono) simp_all
  finally show ?thesis by (simp add: c_def)
qed



end
