(* ===== verification/Inventory.thy ===== *)
theory Inventory
  imports Recipes Units "HOL-Library.List_Lexorder"
begin

text \<open>
  The stock of a brewer and the match of a recipe against it: the statements of
  \<^verbatim>\<open>internal/queries/inventory.sql.go\<close> and the handlers of
  \<^verbatim>\<open>internal/server/inventory.go\<close>. A number that is read from a column is the double nearest
  to it; a number that is shown is the decimal it prints as. Text is ordered bytewise, as in the
  database image the repository is run with.
\<close>

section \<open>The order of the enumeration\<close>

text \<open>\<^verbatim>\<open>ORDER BY kind\<close>: the labels in the order they were added to the type.\<close>

instantiation ingredient_kind :: linorder
begin

primrec kind_rank :: "ingredient_kind \<Rightarrow> nat" where
  "kind_rank Honey = 0" | "kind_rank Water = 1" | "kind_rank Yeast = 2" | "kind_rank Nutrient = 3"
| "kind_rank Fruit = 4" | "kind_rank Spice = 5" | "kind_rank Oak = 6" | "kind_rank Acid = 7"
| "kind_rank Tannin = 8" | "kind_rank OtherIngredient = 9" | "kind_rank Juice = 10" | "kind_rank Sugar = 11"

definition less_eq_ingredient_kind :: "ingredient_kind \<Rightarrow> ingredient_kind \<Rightarrow> bool" where
  "k \<le> l \<longleftrightarrow> kind_rank k \<le> kind_rank l"

definition less_ingredient_kind :: "ingredient_kind \<Rightarrow> ingredient_kind \<Rightarrow> bool" where
  "k < l \<longleftrightarrow> kind_rank k < kind_rank l"

instance
proof
  fix k l :: ingredient_kind
  show "k \<le> l \<Longrightarrow> l \<le> k \<Longrightarrow> k = l"
    by (cases k; cases l; simp add: less_eq_ingredient_kind_def)
qed (auto simp: less_eq_ingredient_kind_def less_ingredient_kind_def)

end

definition bytewise :: "string \<Rightarrow> nat list" where
  "bytewise s = map of_char s"

section \<open>Statements\<close>

record inventory_params =
  vp_user :: uuid
  vp_kind :: string
  vp_name :: string
  vp_amount :: "rat option"
  vp_unit :: nulltext
  vp_notes :: nulltext

definition CreateInventoryItem :: "inventory_params \<Rightarrow> inventory_item stmt" where
  "CreateInventoryItem p = sql_write (\<lambda>w.
     case ingredient_kind_of (vp_kind p) of
       None \<Rightarrow> Inl InvalidText
     | Some k \<Rightarrow>
         (case num_cast 10 3 (vp_amount p) of
            Inl e \<Rightarrow> Inl e
          | Inr a \<Rightarrow>
              (let (i, w1) = gen_uuid w in
               sql_insert inventory put_inventory iv_id (refers u_id (users (tabs w)) (vp_user p))
                 \<lparr>iv_id = i, iv_user = vp_user p, iv_kind = k, iv_name = vp_name p, iv_amount = a,
                  iv_unit = vp_unit p, iv_notes = vp_notes p, iv_created_at = clock w,
                  iv_updated_at = clock w\<rparr> w1)))"

definition own_item :: "uuid \<Rightarrow> uuid \<Rightarrow> inventory_item \<Rightarrow> bool" where
  "own_item i u x \<longleftrightarrow> iv_id x = i \<and> iv_user x = u"

definition DeleteInventoryItem :: "uuid \<Rightarrow> uuid \<Rightarrow> nat stmt" where
  "DeleteInventoryItem i u = sql_write (sql_delete inventory put_inventory (own_item i u))"

definition GetInventoryItemForUser :: "uuid \<Rightarrow> uuid \<Rightarrow> inventory_item stmt" where
  "GetInventoryItemForUser i u = sql_read (\<lambda>w. one (find_where (own_item i u) (inventory (tabs w))))"

definition ListInventoryForUser :: "uuid \<Rightarrow> inventory_item list stmt" where
  "ListInventoryForUser u = sql_read (\<lambda>w. Inr
     (sort_key (\<lambda>x. (iv_kind x, bytewise (to_lower (iv_name x)), iv_created_at x))
       (filter (\<lambda>x. iv_user x = u) (inventory (tabs w)))))"

record update_inventory_params =
  uv_id :: uuid
  uv_user :: uuid
  uv_kind :: "string option"
  uv_name :: nulltext
  uv_amount :: "rat option"
  uv_unit :: nulltext
  uv_notes :: nulltext

definition patch_item ::
    "update_inventory_params \<Rightarrow> ingredient_kind option \<Rightarrow> rat option \<Rightarrow> time \<Rightarrow> inventory_item \<Rightarrow> inventory_item" where
  "patch_item p k a now x = x\<lparr>iv_kind := coalesce k (iv_kind x), iv_name := coalesce (uv_name p) (iv_name x),
     iv_amount := coalesce_opt a (iv_amount x), iv_unit := coalesce_opt (uv_unit p) (iv_unit x),
     iv_notes := coalesce_opt (uv_notes p) (iv_notes x), iv_updated_at := now\<rparr>"

definition UpdateInventoryItem :: "update_inventory_params \<Rightarrow> inventory_item stmt" where
  "UpdateInventoryItem p = sql_write (\<lambda>w.
     case opt_enum ingredient_kind_of (uv_kind p) of
       Inl e \<Rightarrow> Inl e
     | Inr k \<Rightarrow>
         (case find_where (own_item (uv_id p) (uv_user p)) (inventory (tabs w)) of
            None \<Rightarrow> Inl NoRows
          | Some x \<Rightarrow>
              (case num_cast 10 3 (coalesce_opt (uv_amount p) (iv_amount x)) of
                 Inl e \<Rightarrow> Inl e
               | Inr a \<Rightarrow> sql_update inventory put_inventory (own_item (uv_id p) (uv_user p))
                   (patch_item p k a (clock w)) w)))"

interpretation own_items: owner_scoped iv_id iv_user
  "\<lambda>i u. find_where (own_item i u)" "\<lambda>f i u. upd_where (own_item i u) f" "\<lambda>i u. del_where (own_item i u)"
  by unfold_locales (auto simp: own_item_def upd_where_def del_where_def find_where_None
      dest: find_where_Some)

text \<open>A row of the match: an ingredient, and the columns of one item of the stock or \<^verbatim>\<open>NULL\<close>s.\<close>

record match_row =
  IngredientID :: uuid
  IngredientKind :: ingredient_kind
  IngredientName :: string
  IngredientAmount :: "rat option"
  IngredientUnit :: nulltext
  IngredientSortOrder :: int
  InventoryID :: "uuid option"
  InventoryAmount :: "rat option"
  InventoryUnit :: nulltext

definition stocks :: "uuid \<Rightarrow> ingredient \<Rightarrow> inventory_item \<Rightarrow> bool" where
  "stocks u g x \<longleftrightarrow> iv_user x = u \<and> iv_kind x = ri_kind g \<and> to_lower (iv_name x) = to_lower (ri_name g)"

definition left_join :: "uuid \<Rightarrow> inventory_item list \<Rightarrow> ingredient \<Rightarrow> (ingredient \<times> inventory_item option) list" where
  "left_join u items g = (case filter (stocks u g) items of
     [] \<Rightarrow> [(g, None)] | xs \<Rightarrow> map (\<lambda>x. (g, Some x)) xs)"

definition match_columns :: "ingredient \<times> inventory_item option \<Rightarrow> match_row" where
  "match_columns = (\<lambda>(g, x). \<lparr>IngredientID = ri_id g, IngredientKind = ri_kind g, IngredientName = ri_name g,
     IngredientAmount = ri_amount g, IngredientUnit = ri_unit g, IngredientSortOrder = ri_sort_order g,
     InventoryID = map_option iv_id x, InventoryAmount = Option.bind x iv_amount,
     InventoryUnit = Option.bind x iv_unit\<rparr>)"

definition match_key :: "ingredient \<times> inventory_item option \<Rightarrow> int \<times> uuid \<times> time" where
  "match_key = (\<lambda>(g, x). (ri_sort_order g, ri_id g, case x of None \<Rightarrow> 0 | Some i \<Rightarrow> iv_created_at i))"

definition MatchInventoryForRecipe :: "uuid \<Rightarrow> uuid \<Rightarrow> match_row list stmt" where
  "MatchInventoryForRecipe u rid = sql_read (\<lambda>w. Inr (map match_columns (sort_key match_key
     (concat (map (left_join u (inventory (tabs w)))
       (filter (\<lambda>g. ri_recipe g = rid) (ingredients (tabs w))))))))"

section \<open>The stock\<close>

definition maxInventoryName :: nat where "maxInventoryName = 200"
definition maxInventoryUnit :: nat where "maxInventoryUnit = 32"
definition maxInventoryNotes :: nat where "maxInventoryNotes = 2 * 1024"

definition numericPtr :: "rat option \<Rightarrow> rat option" where
  "numericPtr = map_option fl"

record inventory_view =
  iw_id :: uuid
  iw_kind :: string
  iw_name :: string
  iw_amount :: "rat option"
  iw_unit :: string
  iw_notes :: string
  iw_created_at :: time
  iw_updated_at :: time

definition toInventoryView :: "inventory_item \<Rightarrow> inventory_view" where
  "toInventoryView i = \<lparr>iw_id = iv_id i, iw_kind = ingredient_kind_str (iv_kind i), iw_name = iv_name i,
     iw_amount = numericPtr (iv_amount i), iw_unit = textOrEmpty (iv_unit i), iw_notes = textOrEmpty (iv_notes i),
     iw_created_at = iv_created_at i, iw_updated_at = iv_updated_at i\<rparr>"

text \<open>The message, empty when the fields are accepted.\<close>

definition validateInventoryFields :: "string \<Rightarrow> string \<Rightarrow> string \<Rightarrow> string \<Rightarrow> string" where
  "validateInventoryFields kind name unit notes =
     (if kind = [] then ''kind required''
      else if name = [] \<or> length name > maxInventoryName then ''name required (max 200 chars)''
      else if length unit > maxInventoryUnit then ''unit too long''
      else if length notes > maxInventoryNotes then ''notes too long''
      else [])"

record create_inventory_request =
  qi_kind :: string
  qi_name :: string
  qi_amount :: "rat option"
  qi_unit :: string
  qi_notes :: string

definition handleListInventory :: "user \<Rightarrow> inventory_view list resp act" where
  "handleListInventory user = handle (ListInventoryForUser (u_id user)) (\<lambda>e. Fail 500 ''list failed'')
     (\<lambda>rows. ret (Okay 200 (map toInventoryView rows)))"

definition handleCreateInventory :: "user \<Rightarrow> create_inventory_request option \<Rightarrow> inventory_view resp act" where
  "handleCreateInventory user body = (case body of
     None \<Rightarrow> ret (Fail 400 ''invalid json'')
   | Some q \<Rightarrow>
       (let m = validateInventoryFields (qi_kind q) (qi_name q) (qi_unit q) (qi_notes q) in
        if m \<noteq> [] then ret (Fail 400 m)
        else handle (CreateInventoryItem \<lparr>vp_user = u_id user, vp_kind = qi_kind q, vp_name = qi_name q,
               vp_amount = qi_amount q, vp_unit = optText (qi_unit q), vp_notes = optText (qi_notes q)\<rparr>)
             (\<lambda>e. if e = InvalidText then Fail 400 ''invalid kind value'' else Fail 500 ''create failed'')
             (\<lambda>row. ret (Okay 201 (toInventoryView row)))))"

record update_inventory_request =
  qj_kind :: "string option"
  qj_name :: "string option"
  qj_amount :: "rat option"
  qj_unit :: "string option"
  qj_notes :: "string option"

definition handleUpdateInventory ::
    "user \<Rightarrow> uuid option \<Rightarrow> update_inventory_request option \<Rightarrow> inventory_view resp act" where
  "handleUpdateInventory user pid body = (case pid of
     None \<Rightarrow> ret (Fail 400 ''invalid id'')
   | Some i \<Rightarrow> (case body of
       None \<Rightarrow> ret (Fail 400 ''invalid json'')
     | Some q \<Rightarrow> handle (GetInventoryItemForUser i (u_id user)) fetch_error (\<lambda>old.
         let m = validateInventoryFields (coalesce (qj_kind q) (ingredient_kind_str (iv_kind old)))
             (coalesce (qj_name q) (iv_name old)) (coalesce (qj_unit q) (textOrEmpty (iv_unit old)))
             (coalesce (qj_notes q) (textOrEmpty (iv_notes old))) in
         if m \<noteq> [] then ret (Fail 400 m)
         else handle (UpdateInventoryItem \<lparr>uv_id = i, uv_user = u_id user, uv_kind = qj_kind q,
                uv_name = qj_name q, uv_amount = qj_amount q, uv_unit = qj_unit q, uv_notes = qj_notes q\<rparr>)
              (\<lambda>e. if e = NoRows then Fail 404 ''not found''
                   else if e = InvalidText then Fail 400 ''invalid kind value''
                   else Fail 500 ''update failed'')
              (\<lambda>row. ret (Okay 200 (toInventoryView row))))))"

definition handleDeleteInventory :: "user \<Rightarrow> uuid option \<Rightarrow> unit resp act" where
  "handleDeleteInventory user pid = (case pid of
     None \<Rightarrow> ret (Fail 400 ''invalid id'')
   | Some i \<Rightarrow> handle (DeleteInventoryItem i (u_id user)) (\<lambda>e. Fail 500 ''delete failed'') delete_resp)"

section \<open>The match\<close>

datatype match_status = Have | Short | Missing

record match_view =
  mv_ingredient :: uuid
  mv_kind :: string
  mv_name :: string
  mv_amount :: "rat option"
  mv_unit :: string
  mv_status :: match_status
  mv_inventory :: "uuid option"
  mv_inventory_amount :: "rat option"
  mv_shortfall :: "rat option"
  mv_unit_mismatch :: bool

record bucket =
  bk_ingredient :: match_row
  bk_matches :: "match_row list"

text \<open>The map and the list of its keys in the order of their insertion, as one list.\<close>

fun add_row :: "bucket list \<Rightarrow> match_row \<Rightarrow> bucket list" where
  "add_row [] row = [\<lparr>bk_ingredient = row, bk_matches = (if InventoryID row = None then [] else [row])\<rparr>]"
| "add_row (b # bs) row =
     (if IngredientID (bk_ingredient b) = IngredientID row
      then b\<lparr>bk_matches := bk_matches b @ (if InventoryID row = None then [] else [row])\<rparr> # bs
      else b # add_row bs row)"

text \<open>
  The loop over the matches: \<open>Inl\<close> a match without an amount, at which it returns, or the sum
  and the number of the convertible ones.
\<close>

fun sum_matches :: "string \<Rightarrow> match_row list \<Rightarrow> rat \<Rightarrow> nat \<Rightarrow> match_row + (rat \<times> nat)" where
  "sum_matches unit [] s n = Inr (s, n)"
| "sum_matches unit (m # ms) s n = (case numericPtr (InventoryAmount m) of
     None \<Rightarrow> Inl m
   | Some a \<Rightarrow> (case Convert a (textOrEmpty (InventoryUnit m)) unit of
       None \<Rightarrow> sum_matches unit ms s n
     | Some c \<Rightarrow> sum_matches unit ms (fl (s + c)) (n + 1)))"

fun first_convertible :: "string \<Rightarrow> match_row list \<Rightarrow> uuid option" where
  "first_convertible unit [] = None"
| "first_convertible unit (m # ms) =
     (if Convert 1 (textOrEmpty (InventoryUnit m)) unit \<noteq> None then InventoryID m
      else first_convertible unit ms)"

definition classifyMatch :: "match_row \<Rightarrow> match_row list \<Rightarrow> match_view" where
  "classifyMatch g ms = (let v = \<lparr>mv_ingredient = IngredientID g, mv_kind = ingredient_kind_str (IngredientKind g),
       mv_name = IngredientName g, mv_amount = numericPtr (IngredientAmount g),
       mv_unit = textOrEmpty (IngredientUnit g), mv_status = Missing, mv_inventory = None,
       mv_inventory_amount = None, mv_shortfall = None, mv_unit_mismatch = False\<rparr> in
     case ms of
       [] \<Rightarrow> v
     | m # _ \<Rightarrow> (case mv_amount v of
         None \<Rightarrow> v\<lparr>mv_status := Have, mv_inventory := InventoryID m\<rparr>
       | Some wanted \<Rightarrow> (case sum_matches (mv_unit v) ms 0 0 of
           Inl m \<Rightarrow> v\<lparr>mv_status := Have, mv_inventory := InventoryID m\<rparr>
         | Inr (s, n) \<Rightarrow>
             if n = 0 then v\<lparr>mv_unit_mismatch := True\<rparr>
             else (let v1 = v\<lparr>mv_inventory_amount := Some s, mv_inventory := first_convertible (mv_unit v) ms\<rparr> in
               if s < wanted then v1\<lparr>mv_shortfall := Some (fl (wanted - s)), mv_status := Short\<rparr>
               else v1\<lparr>mv_status := Have\<rparr>))))"

definition aggregateInventoryMatch :: "match_row list \<Rightarrow> match_view list" where
  "aggregateInventoryMatch rows = map (\<lambda>b. classifyMatch (bk_ingredient b) (bk_matches b)) (foldl add_row [] rows)"

definition handleRecipeInventoryMatch :: "user \<Rightarrow> uuid option \<Rightarrow> match_view list resp act" where
  "handleRecipeInventoryMatch user pid = (case pid of
     None \<Rightarrow> ret (Fail 400 ''invalid recipe id'')
   | Some i \<Rightarrow> handle (GetRecipeByID i) fetch_error (\<lambda>r.
       if \<not> recipeVisibleTo r (Some user) then ret (Fail 404 ''not found'')
       else handle (MatchInventoryForRecipe (u_id user) i) (\<lambda>e. Fail 500 ''match failed'')
         (\<lambda>rows. ret (Okay 200 (aggregateInventoryMatch rows)))))"

end
