(* ===== verification/Inventory_Props.thy ===== *)
theory Inventory_Props
  imports Inventory Demo "HOL-Library.Multiset"
begin

text \<open>
  What the match of a recipe against the stock answers: the joined rows, their grouping and the
  accumulating loops come down to one verdict per ingredient.
\<close>

section \<open>The verdict on an ingredient\<close>

definition convertible :: "string \<Rightarrow> inventory_item \<Rightarrow> bool" where
  "convertible unit x \<longleftrightarrow> exact_factor (textOrEmpty (iv_unit x)) unit \<noteq> None"

definition converted :: "string \<Rightarrow> inventory_item \<Rightarrow> rat" where
  "converted unit x = the (Convert (fl (the (iv_amount x))) (textOrEmpty (iv_unit x)) unit)"

definition total :: "string \<Rightarrow> inventory_item list \<Rightarrow> rat" where
  "total unit xs = foldl (\<lambda>s x. fl (s + converted unit x)) 0 xs"

definition answer ::
    "ingredient \<Rightarrow> match_status \<Rightarrow> uuid option \<Rightarrow> rat option \<Rightarrow> rat option \<Rightarrow> bool \<Rightarrow> match_view" where
  "answer g st i n gap mis = \<lparr>mv_ingredient = ri_id g, mv_kind = ingredient_kind_str (ri_kind g),
     mv_name = ri_name g, mv_amount = map_option fl (ri_amount g), mv_unit = textOrEmpty (ri_unit g),
     mv_status = st, mv_inventory = i, mv_inventory_amount = n, mv_shortfall = gap, mv_unit_mismatch = mis\<rparr>"

text \<open>The items of the stock are those of the brewer with the kind and the name, oldest first.\<close>

definition stock_of :: "uuid \<Rightarrow> inventory_item list \<Rightarrow> ingredient \<Rightarrow> inventory_item list" where
  "stock_of u items g = sort_key iv_created_at (filter (stocks u g) items)"

definition verdict :: "ingredient \<Rightarrow> inventory_item list \<Rightarrow> match_view" where
  "verdict g xs = (let unit = textOrEmpty (ri_unit g); cs = filter (convertible unit) xs in
     if xs = [] then answer g Missing None None None False
     else case ri_amount g of
       None \<Rightarrow> answer g Have (Some (iv_id (hd xs))) None None False
     | Some wanted \<Rightarrow> (case find (\<lambda>x. iv_amount x = None) xs of
         Some x \<Rightarrow> answer g Have (Some (iv_id x)) None None False
       | None \<Rightarrow>
           if cs = [] then answer g Missing None None None True
           else if total unit cs < fl wanted
           then answer g Short (Some (iv_id (hd cs))) (Some (total unit cs))
             (Some (fl (fl wanted - total unit cs))) False
           else answer g Have (Some (iv_id (hd cs))) (Some (total unit cs)) None False))"

section \<open>The loops\<close>

lemma match_columns_simps [simp]:
  "IngredientID (match_columns (g, x)) = ri_id g" "IngredientKind (match_columns (g, x)) = ri_kind g"
  "IngredientName (match_columns (g, x)) = ri_name g" "IngredientAmount (match_columns (g, x)) = ri_amount g"
  "IngredientUnit (match_columns (g, x)) = ri_unit g" "InventoryID (match_columns (g, x)) = map_option iv_id x"
  "InventoryAmount (match_columns (g, Some y)) = iv_amount y"
  "InventoryUnit (match_columns (g, Some y)) = iv_unit y"
  by (simp_all add: match_columns_def)

lemma sum_matches_spec:
  "sum_matches unit (map (\<lambda>x. match_columns (g, Some x)) xs) s n =
     (case find (\<lambda>x. iv_amount x = None) xs of
        Some x \<Rightarrow> Inl (match_columns (g, Some x))
      | None \<Rightarrow> Inr (foldl (\<lambda>s x. fl (s + converted unit x)) s (filter (convertible unit) xs),
          n + length (filter (convertible unit) xs)))"
proof (induction xs arbitrary: s n)
  case (Cons x xs)
  show ?case
  proof (cases "iv_amount x")
    case (Some a)
    show ?thesis
    proof (cases "Convert (fl a) (textOrEmpty (iv_unit x)) unit")
      case None
      then have "\<not> convertible unit x" using Convert_defined [of "fl a" "textOrEmpty (iv_unit x)" unit]
        by (simp add: convertible_def)
      with Some None Cons.IH show ?thesis by (simp add: numericPtr_def split: option.split)
    next
      case (Some c)
      then have "convertible unit x" using Convert_defined [of "fl a" "textOrEmpty (iv_unit x)" unit]
        by (simp add: convertible_def)
      with Some \<open>iv_amount x = Some a\<close> Cons.IH show ?thesis
        by (simp add: numericPtr_def converted_def split: option.split)
    qed
  qed (simp add: numericPtr_def)
qed simp

lemma first_convertible_spec:
  "first_convertible unit (map (\<lambda>x. match_columns (g, Some x)) xs) =
     (case filter (convertible unit) xs of [] \<Rightarrow> None | x # _ \<Rightarrow> Some (iv_id x))"
  by (induction xs) (auto simp: convertible_def Convert_defined)

lemma classifyMatch_spec:
  "classifyMatch (match_columns (g, y)) (map (\<lambda>x. match_columns (g, Some x)) xs) = verdict g xs"
proof (cases xs)
  case Nil
  then show ?thesis by (simp add: classifyMatch_def verdict_def answer_def numericPtr_def)
next
  case (Cons x ys)
  show ?thesis
  proof (cases "ri_amount g")
    case None
    with Cons show ?thesis by (simp add: classifyMatch_def verdict_def answer_def numericPtr_def Let_def)
  next
    case (Some wanted)
    from Cons have ne: "xs \<noteq> []" by simp
    let ?ms = "map (\<lambda>x. match_columns (g, Some x)) xs"
    have c: "?ms = match_columns (g, Some x) # map (\<lambda>x. match_columns (g, Some x)) ys" using Cons by simp
    note sp = sum_matches_spec [of "textOrEmpty (ri_unit g)" g xs 0 0]
      first_convertible_spec [of "textOrEmpty (ri_unit g)" g xs]
    have "classifyMatch (match_columns (g, y)) ?ms =
       (let v = answer g Missing None None None False in
        case sum_matches (mv_unit v) ?ms 0 0 of
           Inl m \<Rightarrow> v\<lparr>mv_status := Have, mv_inventory := InventoryID m\<rparr>
         | Inr (s, n) \<Rightarrow>
             if n = 0 then v\<lparr>mv_unit_mismatch := True\<rparr>
             else (let v1 = v\<lparr>mv_inventory_amount := Some s, mv_inventory := first_convertible (mv_unit v) ?ms\<rparr> in
               if s < fl wanted then v1\<lparr>mv_shortfall := Some (fl (fl wanted - s)), mv_status := Short\<rparr>
               else v1\<lparr>mv_status := Have\<rparr>))"
      unfolding c by (simp del: sum_matches.simps first_convertible.simps
          add: classifyMatch_def answer_def numericPtr_def Some Let_def)
    also have "\<dots> = verdict g xs"
    proof (cases "find (\<lambda>x. iv_amount x = None) xs")
      case None
      with ne Some show ?thesis
        by (cases "filter (convertible (textOrEmpty (ri_unit g))) xs")
          (simp_all add: sp verdict_def Let_def answer_def total_def del: filter.simps)
    next
      case (Some z)
      with ne \<open>ri_amount g = Some wanted\<close> show ?thesis
        by (simp add: sp verdict_def Let_def answer_def)
    qed
    finally show ?thesis .
  qed
qed

section \<open>The joined rows in their order\<close>

definition block :: "uuid \<Rightarrow> inventory_item list \<Rightarrow> ingredient \<Rightarrow> (ingredient \<times> inventory_item option) list" where
  "block u items g = (case stock_of u items g of [] \<Rightarrow> [(g, None)] | xs \<Rightarrow> map (\<lambda>x. (g, Some x)) xs)"

abbreviation ingredient_key :: "ingredient \<Rightarrow> int \<times> uuid" where
  "ingredient_key g \<equiv> (ri_sort_order g, ri_id g)"

lemma match_key_simps [simp]:
  "match_key (g, None) = (ri_sort_order g, ri_id g, 0)"
  "match_key (g, Some x) = (ri_sort_order g, ri_id g, iv_created_at x)"
  by (simp_all add: match_key_def)

lemma sort_own_items:
  "sort_key match_key (map (\<lambda>x. (g, Some x)) xs) = map (\<lambda>x. (g, Some x)) (sort_key iv_created_at xs)"
proof (induction xs)
  case (Cons x xs)
  have "insort_key match_key (g, Some x) (map (\<lambda>x. (g, Some x)) ys) =
      map (\<lambda>x. (g, Some x)) (insort_key iv_created_at x ys)" for ys
    by (induction ys) auto
  with Cons.IH show ?case by simp
qed simp

lemma block_sorts: "block u items g = sort_key match_key (left_join u items g)"
proof (cases "filter (stocks u g) items")
  case Nil
  then show ?thesis by (simp add: block_def left_join_def stock_of_def)
next
  case (Cons x xs)
  then have "stock_of u items g \<noteq> []" unfolding stock_of_def
    by (metis list.discI set_empty set_sort)
  then have "block u items g = map (\<lambda>x. (g, Some x)) (stock_of u items g)"
    by (auto simp: block_def split: list.split)
  then show ?thesis by (simp only: stock_of_def left_join_def Cons list.case sort_own_items)
qed

lemma fst_left_join: "z \<in> set (left_join u items g) \<Longrightarrow> fst z = g"
  by (auto simp: left_join_def split: list.splits)

lemma match_key_id: "fst (snd (match_key z)) = ri_id (fst z)"
  by (cases z) (simp add: match_key_def)

lemma set_block: "set (block u items g) = set (left_join u items g)"
  by (simp add: block_sorts)

lemma filter_concat_one:
  assumes "distinct (map k gs)" and "g0 \<in> set gs" and "\<And>g z. z \<in> set (B g) \<Longrightarrow> P z \<Longrightarrow> k g = k g0"
  shows "filter P (concat (map B gs)) = filter P (B g0)"
  using assms(1,2)
proof (induction gs)
  case (Cons g gs)
  have none: "filter P (concat (map B hs)) = []" if "k g0 \<notin> k ` set hs" for hs
    using that assms(3) by (auto simp: filter_empty_conv) (metis image_eqI)
  show ?case
  proof (cases "g = g0")
    case True
    with Cons.prems(1) none [of gs] show ?thesis by simp
  next
    case False
    with Cons.prems have g0: "g0 \<in> set gs" "k g \<noteq> k g0" by (auto simp: image_iff)
    then have "filter P (B g) = []" using assms(3) by (auto simp: filter_empty_conv)
    with Cons g0(1) show ?thesis by simp
  qed
qed simp

lemma mset_concat_sort: "mset (concat (map B (sort_key k gs))) = mset (concat (map B gs))"
proof -
  have "mset (concat (map B hs)) = sum_mset (image_mset (\<lambda>g. mset (B g)) (mset hs))" for hs
    by (induction hs) simp_all
  then show ?thesis by simp
qed

lemma sorted_blocks:
  "sorted_wrt (\<lambda>g h. ingredient_key g < ingredient_key h) gs \<Longrightarrow>
     sorted (map match_key (concat (map (block u items) gs)))"
proof (induction gs)
  case (Cons g gs)
  have "match_key z \<le> match_key y" if "z \<in> set (block u items g)" "h \<in> set gs" "y \<in> set (block u items h)" for z h y
  proof -
    from that have "fst z = g" "fst y = h" by (auto simp: set_block dest: fst_left_join)
    moreover from Cons.prems that(2) have "ingredient_key g < ingredient_key h" by simp
    ultimately show ?thesis by (cases z; cases y) (auto simp: match_key_def less_eq_prod_def less_prod_def)
  qed
  with Cons show ?case by (auto simp: sorted_append block_sorts)
qed simp

lemma sorted_join:
  assumes "distinct (map ri_id gs)"
  shows "sort_key match_key (concat (map (left_join u items) gs)) =
    concat (map (block u items) (sort_key ingredient_key gs))"
proof (rule properties_for_sort_key)
  have "mset (block u items g) = mset (left_join u items g)" for g by (simp add: block_sorts)
  then have "mset (concat (map (block u items) gs)) = mset (concat (map (left_join u items) gs))"
    by (induction gs) simp_all
  then show "mset (concat (map (block u items) (sort_key ingredient_key gs))) =
      mset (concat (map (left_join u items) gs))" by (simp add: mset_concat_sort)
next
  fix z
  assume z: "z \<in> set (concat (map (block u items) (sort_key ingredient_key gs)))"
  then obtain g0 where g0: "g0 \<in> set gs" "z \<in> set (block u items g0)" by auto
  then have f: "fst z = g0" by (auto simp: set_block dest: fst_left_join)
  have d: "distinct (map ri_id (sort_key ingredient_key gs))"
    using assms by (simp add: distinct_map)
  have one: "ri_id g = ri_id g0" if "y \<in> set (left_join u items g)" "match_key z = match_key y" for g y
    using that(2) f fst_left_join [OF that(1)] by (metis match_key_id)
  have eq: "(\<lambda>y. match_key z = match_key y) = (\<lambda>y. match_key y = match_key z)" by auto
  have "filter (\<lambda>y. match_key z = match_key y) (concat (map (block u items) (sort_key ingredient_key gs))) =
      filter (\<lambda>y. match_key z = match_key y) (block u items g0)"
    using d g0(1) one by (intro filter_concat_one [of ri_id]) (auto simp: set_block)
  also have "\<dots> = filter (\<lambda>y. match_key z = match_key y) (left_join u items g0)"
    unfolding block_sorts eq by (rule sort_key_stable)
  also have "\<dots> = filter (\<lambda>y. match_key z = match_key y) (concat (map (left_join u items) gs))"
    using assms g0(1) one by (intro filter_concat_one [of ri_id, symmetric]) auto
  finally show "filter (\<lambda>y. match_key z = match_key y) (concat (map (block u items) (sort_key ingredient_key gs))) =
      filter (\<lambda>y. match_key z = match_key y) (concat (map (left_join u items) gs))" .
next
  have "distinct (map ingredient_key gs)" using assms by (auto simp: distinct_map inj_on_def)
  then show "sorted (map match_key (concat (map (block u items) (sort_key ingredient_key gs))))"
    by (intro sorted_blocks sorted_wrt_less_sort_key)
qed

section \<open>The buckets\<close>

lemma add_row_fresh:
  "\<forall>b\<in>set bs. IngredientID (bk_ingredient b) \<noteq> IngredientID r \<Longrightarrow>
     add_row bs r = bs @ [\<lparr>bk_ingredient = r, bk_matches = (if InventoryID r = None then [] else [r])\<rparr>]"
  by (induction bs) auto

lemma add_row_last:
  "\<forall>b\<in>set bs. IngredientID (bk_ingredient b) \<noteq> IngredientID r \<Longrightarrow>
     IngredientID (bk_ingredient c) = IngredientID r \<Longrightarrow>
     add_row (bs @ [c]) r = bs @ [c\<lparr>bk_matches := bk_matches c @ (if InventoryID r = None then [] else [r])\<rparr>]"
  by (induction bs) auto

lemma add_more:
  "\<forall>b\<in>set bs. IngredientID (bk_ingredient b) \<noteq> ri_id g \<Longrightarrow> IngredientID (bk_ingredient c) = ri_id g \<Longrightarrow>
     foldl add_row (bs @ [c]) (map (\<lambda>x. match_columns (g, Some x)) xs) =
       bs @ [c\<lparr>bk_matches := bk_matches c @ map (\<lambda>x. match_columns (g, Some x)) xs\<rparr>]"
  by (induction xs arbitrary: c) (simp_all add: add_row_last)

lemma add_block:
  assumes "\<forall>b\<in>set bs. IngredientID (bk_ingredient b) \<noteq> ri_id g"
  shows "\<exists>y. foldl add_row bs (map match_columns (block u items g)) =
    bs @ [\<lparr>bk_ingredient = match_columns (g, y),
           bk_matches = map (\<lambda>x. match_columns (g, Some x)) (stock_of u items g)\<rparr>]"
proof (cases "stock_of u items g")
  case Nil
  with assms show ?thesis by (auto simp: block_def add_row_fresh)
next
  case (Cons x xs)
  with assms show ?thesis
    by (intro exI [of _ "Some x"]) (simp add: block_def add_row_fresh add_more comp_def)
qed

lemma buckets_of_blocks:
  assumes "distinct (map ri_id gs)" and "\<forall>b\<in>set bs. IngredientID (bk_ingredient b) \<notin> ri_id ` set gs"
  shows "map (\<lambda>b. classifyMatch (bk_ingredient b) (bk_matches b))
      (foldl add_row bs (map match_columns (concat (map (block u items) gs)))) =
    map (\<lambda>b. classifyMatch (bk_ingredient b) (bk_matches b)) bs @ map (\<lambda>g. verdict g (stock_of u items g)) gs"
  using assms
proof (induction gs arbitrary: bs)
  case (Cons g gs)
  from Cons.prems(2) have "\<forall>b\<in>set bs. IngredientID (bk_ingredient b) \<noteq> ri_id g" by simp
  from add_block [OF this, of u items] obtain y where
    y: "foldl add_row bs (map match_columns (block u items g)) =
      bs @ [\<lparr>bk_ingredient = match_columns (g, y),
             bk_matches = map (\<lambda>x. match_columns (g, Some x)) (stock_of u items g)\<rparr>]" ..
  with Cons.prems Cons.IH [of "bs @ [\<lparr>bk_ingredient = match_columns (g, y),
      bk_matches = map (\<lambda>x. match_columns (g, Some x)) (stock_of u items g)\<rparr>]"]
  show ?case by (simp add: classifyMatch_spec)
qed simp

section \<open>The answer of the endpoint\<close>

lemma read_Okay:
  assumes "run_state (handle (sql_read f) on_error k) w = (Okay c v, w')" and "\<forall>e. failed (on_error e)"
  shows "\<exists>a. f (tock w) = Inr a \<and> run_state (k a) (tock w) = (Okay c v, w')"
proof -
  have "on_error e \<noteq> Okay c v" for e using assms(2) by (metis failed.simps(2))
  with assms(1) show ?thesis
    by (auto simp: run_handle run_sql_read split: outcome.splits sum.splits)
qed

text \<open>
  C34: The match of a recipe is one verdict per ingredient. For a recipe the caller may see, and only
  for such a one, the answer lists the ingredients of the recipe in their order, and for each the
  verdict on the caller's own items of its kind and name: missing without such an item; there when
  the recipe or an item states no amount; missing with a mismatch when no unit converts; otherwise
  the sum of what converts, oldest item first, there or short by the difference. The tables are
  only read.
\<close>

theorem inventory_match_spec:
  assumes "run_state (handleRecipeInventoryMatch user pid) w = (Okay c vs, w')"
    and "distinct (map ri_id (ingredients (tabs w)))"
  shows "\<exists>i r. pid = Some i \<and> r \<in> set (recipes (tabs w)) \<and> rc_id r = i \<and> recipeVisibleTo r (Some user) \<and>
    c = 200 \<and> tabs w' = tabs w \<and>
    vs = map (\<lambda>g. verdict g (stock_of (u_id user) (inventory (tabs w)) g))
      (sort_key ingredient_key (filter (\<lambda>g. ri_recipe g = i) (ingredients (tabs w))))"
proof -
  from assms(1) obtain i where i: "pid = Some i" by (cases pid) (auto simp: handleRecipeInventoryMatch_def)
  let ?gs = "filter (\<lambda>g. ri_recipe g = i) (ingredients (tabs w))"
  have d: "distinct (map ri_id ?gs)" using assms(2) by (rule distinct_map_filter)
  from assms(1) i have "run_state (handle (GetRecipeByID i) fetch_error (\<lambda>r.
       if \<not> recipeVisibleTo r (Some user) then ret (Fail 404 ''not found'')
       else handle (MatchInventoryForRecipe (u_id user) i) (\<lambda>e. Fail 500 ''match failed'')
         (\<lambda>rows. ret (Okay 200 (aggregateInventoryMatch rows))))) w = (Okay c vs, w')"
    by (simp add: handleRecipeInventoryMatch_def)
  moreover have "\<forall>e. failed (fetch_error e)" by (simp add: fetch_error_def)
  ultimately obtain r where
    r1: "one (find_where (\<lambda>r. rc_id r = i) (recipes (tabs (tock w)))) = Inr r"
      "recipeVisibleTo r (Some user)"
      "run_state (handle (MatchInventoryForRecipe (u_id user) i) (\<lambda>e. Fail 500 ''match failed'')
         (\<lambda>rows. ret (Okay 200 (aggregateInventoryMatch rows)))) (tock w) = (Okay c vs, w')"
    unfolding GetRecipeByID_def by (auto dest!: read_Okay split: if_splits)
  from read_Okay [OF r1(3) [unfolded MatchInventoryForRecipe_def]] r1(1,2) obtain r where r: "find_where (\<lambda>r. rc_id r = i) (recipes (tabs w)) = Some r"
      "recipeVisibleTo r (Some user)" "c = 200" "tabs w' = tabs w"
      "vs = aggregateInventoryMatch (map match_columns (sort_key match_key
        (concat (map (left_join (u_id user) (inventory (tabs w))) ?gs))))"
    by (auto simp: one_def split: option.splits)
  have ds: "distinct (map ri_id (sort_key ingredient_key ?gs))"
    using d by (simp add: distinct_map)
  have "vs = map (\<lambda>g. verdict g (stock_of (u_id user) (inventory (tabs w)) g)) (sort_key ingredient_key ?gs)"
    unfolding r(5) sorted_join [OF d] aggregateInventoryMatch_def using buckets_of_blocks [OF ds, of "[]"] by simp
  with i r find_where_Some [OF r(1)] show ?thesis by blast
qed

text \<open>
  The sum is one of doubles, so a stock that is exactly enough can be reported short: 0.7 and
  0.1 make a double below that of 0.8.
\<close>

lemma exact_stock_short:
  "let row = (\<lambda>v a. \<lparr>IngredientID = 20, IngredientKind = Honey, IngredientName = ''Acacia'',
       IngredientAmount = Some 0.8, IngredientUnit = Some ''kg'', IngredientSortOrder = 0, InventoryID = v,
       InventoryAmount = a, InventoryUnit = Some ''kg''\<rparr>);
     v = classifyMatch (row None None) [row (Some 30) (Some 0.7), row (Some 31) (Some 0.1)] in
   mv_status v = Short \<and> mv_shortfall v = Some (1 / 2 ^ 53)"
  by code_simp

text \<open>Two ingredients in kilograms, and a stock in grams and pieces.\<close>

definition stock_world :: world where
  "stock_world = (let g = (\<lambda>i k n a. \<lparr>ri_id = i, ri_recipe = 10, ri_kind = k, ri_name = n, ri_amount = Some a,
       ri_unit = Some ''kg'', ri_sort_order = int i, ri_details = []\<rparr>);
     x = (\<lambda>i u k n a un. \<lparr>iv_id = i, iv_user = u, iv_kind = k, iv_name = n, iv_amount = a, iv_unit = Some un,
       iv_notes = None, iv_created_at = int i, iv_updated_at = 0\<rparr>) in
     demo_world (empty_db\<lparr>users := [demo_user 1 ''ann''], recipes := [demo_recipe 10 1 Private None],
       ingredients := [g 21 Fruit ''Plum'' 3, g 20 Honey ''Acacia'' (3 / 2)],
       inventory := [x 31 1 Honey ''acacia'' (Some 250) ''Grams'', x 30 1 Honey ''ACACIA'' (Some 750) ''g'',
         x 32 1 Fruit ''Plum'' (Some 2) ''each'', x 33 2 Honey ''acacia'' (Some 9) ''kg'']\<rparr>) 0)"

lemma match_answers:
  assumes "x_avail (ext w) = (\<lambda>n. Up)" and "find_where (\<lambda>r. rc_id r = i) (recipes (tabs w)) = Some r"
    and "recipeVisibleTo r (Some user)"
  shows "\<exists>vs w'. run_state (handleRecipeInventoryMatch user (Some i)) w = (Okay 200 vs, w')"
  using assms by (simp add: handleRecipeInventoryMatch_def run_handle GetRecipeByID_def MatchInventoryForRecipe_def
      run_sql_read one_def)

abbreviation shown :: "uuid \<Rightarrow> match_view" where
  "shown n \<equiv> classifyMatch (match_columns (ingredients (tabs stock_world) ! n, None))
     (map (\<lambda>x. match_columns (ingredients (tabs stock_world) ! n, Some x))
       (stock_of 1 (inventory (tabs stock_world)) (ingredients (tabs stock_world) ! n)))"

lemma inventory_match_spec_witness:
  "\<exists>vs w'. run_state (handleRecipeInventoryMatch (demo_user 1 ''ann'') (Some 10)) stock_world = (Okay 200 vs, w') \<and>
     vs = map (\<lambda>g. verdict g (stock_of 1 (inventory (tabs stock_world)) g)) (rev (ingredients (tabs stock_world))) \<and>
     map mv_status vs = [Short, Missing] \<and> map mv_unit_mismatch vs = [False, True]"
proof -
  have w: "x_avail (ext stock_world) = (\<lambda>n. Up)" "recipes (tabs stock_world) = [demo_recipe 10 1 Private None]"
    "recipeVisibleTo (demo_recipe 10 1 Private None) (Some (demo_user 1 ''ann''))" "rc_id (demo_recipe 10 1 Private None) = 10"
    by (simp_all add: stock_world_def demo_simps recipeVisibleTo_def Let_def)
  from w(2,4) have "find_where (\<lambda>r. rc_id r = 10) (recipes (tabs stock_world)) = Some (demo_recipe 10 1 Private None)"
    by simp
  from match_answers [OF w(1) this w(3)] obtain vs w' where
    r: "run_state (handleRecipeInventoryMatch (demo_user 1 ''ann'') (Some 10)) stock_world = (Okay 200 vs, w')" by blast
  have d: "distinct (map ri_id (ingredients (tabs stock_world)))"
    and e: "sort_key ingredient_key (filter (\<lambda>g. ri_recipe g = 10) (ingredients (tabs stock_world))) =
      rev (ingredients (tabs stock_world))"
    and n: "rev (ingredients (tabs stock_world)) = map ((!) (ingredients (tabs stock_world))) [1, 0]" by code_simp+
  have u: "u_id (demo_user 1 ''ann'') = 1" by (simp add: demo_user_def)
  from inventory_match_spec [OF r d] obtain i where "Some (10 :: uuid) = Some i" and
    v: "vs = map (\<lambda>g. verdict g (stock_of (u_id (demo_user 1 ''ann'')) (inventory (tabs stock_world)) g))
      (sort_key ingredient_key (filter (\<lambda>g. ri_recipe g = i) (ingredients (tabs stock_world))))" by blast
  then have "i = 10" by simp
  have v: "vs = map (\<lambda>g. verdict g (stock_of 1 (inventory (tabs stock_world)) g)) (rev (ingredients (tabs stock_world)))"
    using v unfolding \<open>i = 10\<close> e u .
  have s: "mv_status (shown 1) = Short" "mv_status (shown 0) = Missing"
    and k: "mv_unit_mismatch (shown 1) = False" "mv_unit_mismatch (shown 0) = True" by code_simp+
  have "map mv_status vs = [Short, Missing]" "map mv_unit_mismatch vs = [False, True]"
    unfolding v n using s [unfolded classifyMatch_spec] k [unfolded classifyMatch_spec]
    by (simp_all only: list.map)
  with r v show ?thesis by (intro exI conjI)
qed

end
