(* ===== verification/RealIP.thy ===== *)
theory RealIP
  imports Auth Demo
begin

text \<open>
  Who is calling: the middleware of \<^verbatim>\<open>internal/server/realip.go\<close>, which resolves the
  address of the client through the trusted proxies, and \<^verbatim>\<open>clientIP\<close> of
  \<^verbatim>\<open>server.go\<close>, the key of the rate limiters. The two functions of package
  \<^verbatim>\<open>net\<close> they use are written out; the parser and printer of addresses are external.
\<close>

section \<open>Host and port\<close>

text \<open>
  \<^verbatim>\<open>net.SplitHostPort\<close>: the port follows the last colon; a host with colons is in
  brackets, with nothing before and only the colon after them, and no further bracket.
\<close>

definition before_last_colon :: "string \<Rightarrow> string" where
  "before_last_colon s = rev (tl (dropWhile (\<lambda>c. c \<noteq> CHR '':'') (rev s)))"

definition after_last_colon :: "string \<Rightarrow> string" where
  "after_last_colon s = rev (takeWhile (\<lambda>c. c \<noteq> CHR '':'') (rev s))"

definition SplitHostPort :: "string \<Rightarrow> (string \<times> string) option" where
  "SplitHostPort s =
     (if CHR '':'' \<notin> set s then None
      else let front = before_last_colon s; port = after_last_colon s in
        if hd s = CHR ''['' then
          (let host = takeWhile (\<lambda>c. c \<noteq> CHR '']'') (tl s) in
           if front = CHR ''['' # host @ '']'' \<and> CHR ''['' \<notin> set host \<and>
             CHR ''['' \<notin> set port \<and> CHR '']'' \<notin> set port
           then Some (host, port) else None)
        else if CHR '':'' \<in> set front \<or> CHR ''['' \<in> set s \<or> CHR '']'' \<in> set s then None
        else Some (front, port))"

definition JoinHostPort :: "string \<Rightarrow> string \<Rightarrow> string" where
  "JoinHostPort host port =
     (if CHR '':'' \<in> set host then CHR ''['' # host @ '']:'' @ port else host @ CHR '':'' # port)"

section \<open>The middleware\<close>

definition parseHostPort :: "externals \<Rightarrow> string \<Rightarrow> addr option" where
  "parseHostPort x remote = (case SplitHostPort remote of
     None \<Rightarrow> x_parse_addr x remote
   | Some (host, port) \<Rightarrow> x_parse_addr x host)"

definition joinHostPort :: "externals \<Rightarrow> addr \<Rightarrow> string \<Rightarrow> string" where
  "joinHostPort x a original = (case SplitHostPort original of
     None \<Rightarrow> x_addr_text x a
   | Some (host, port) \<Rightarrow> JoinHostPort (x_addr_text x a) port)"

definition isTrusted :: "addr \<Rightarrow> prefix list \<Rightarrow> bool" where
  "isTrusted a trusted \<longleftrightarrow> list_ex (\<lambda>p. contains p a) trusted"

text \<open>The entries of all header values, in their order, and the walk over them from the right.\<close>

definition xff_chain :: "string list \<Rightarrow> string list" where
  "xff_chain headers = filter (\<lambda>e. e \<noteq> []) (map trim_space (concat (map (split_on (CHR '','')) headers)))"

fun walk_chain :: "externals \<Rightarrow> prefix list \<Rightarrow> addr \<Rightarrow> string list \<Rightarrow> addr" where
  "walk_chain x trusted peer [] = peer"
| "walk_chain x trusted peer (e # es) = (case x_parse_addr x e of
     None \<Rightarrow> peer
   | Some a \<Rightarrow> if isTrusted a trusted then walk_chain x trusted peer es else a)"

definition walkXFF :: "externals \<Rightarrow> string list \<Rightarrow> addr \<Rightarrow> prefix list \<Rightarrow> addr" where
  "walkXFF x headers peer trusted = walk_chain x trusted peer (rev (xff_chain headers))"

text \<open>The remote address of the connection and the headers become those of the request.\<close>

definition realIP :: "externals \<Rightarrow> prefix list \<Rightarrow> string \<Rightarrow> string list \<Rightarrow> string \<times> addr option" where
  "realIP x trusted remote headers = (case parseHostPort x remote of
     None \<Rightarrow> (remote, None)
   | Some peer \<Rightarrow>
       let resolved = (if trusted \<noteq> [] \<and> isTrusted peer trusted then walkXFF x headers peer trusted else peer)
       in (joinHostPort x resolved remote, Some resolved))"

definition clientIP :: "string \<Rightarrow> string" where
  "clientIP remote = (case SplitHostPort remote of None \<Rightarrow> remote | Some (host, port) \<Rightarrow> host)"

text \<open>What the rest of the program sees of a connection.\<close>

definition resolve :: "externals \<Rightarrow> prefix list \<Rightarrow> string \<Rightarrow> string list \<Rightarrow> request \<Rightarrow> request" where
  "resolve x trusted remote headers r = (let (remote', ip) = realIP x trusted remote headers in
     r\<lparr>rq_ip := ip, rq_remote := clientIP remote'\<rparr>)"

section \<open>Splitting what was joined\<close>

lemma last_colon: "CHR '':'' \<notin> set q \<Longrightarrow> before_last_colon (p @ CHR '':'' # q) = p"
    "CHR '':'' \<notin> set q \<Longrightarrow> after_last_colon (p @ CHR '':'' # q) = q"
proof -
  assume q: "CHR '':'' \<notin> set q"
  have r: "rev (p @ CHR '':'' # q) = rev q @ CHR '':'' # rev p" by simp
  from q have "dropWhile (\<lambda>c. c \<noteq> CHR '':'') (rev q @ CHR '':'' # rev p) = CHR '':'' # rev p"
    by (subst dropWhile_append2) auto
  then show "before_last_colon (p @ CHR '':'' # q) = p" by (simp only: before_last_colon_def r) simp
  from q have "takeWhile (\<lambda>c. c \<noteq> CHR '':'') (rev q @ CHR '':'' # rev p) = rev q"
    by (subst takeWhile_append2) auto
  then show "after_last_colon (p @ CHR '':'' # q) = q" by (simp only: after_last_colon_def r) simp
qed

text \<open>A text that is a host: without a bracket, and not empty.\<close>

definition plain_host :: "string \<Rightarrow> bool" where
  "plain_host h \<longleftrightarrow> h \<noteq> [] \<and> CHR ''['' \<notin> set h \<and> CHR '']'' \<notin> set h"

definition plain_port :: "string \<Rightarrow> bool" where
  "plain_port p \<longleftrightarrow> CHR '':'' \<notin> set p \<and> CHR ''['' \<notin> set p \<and> CHR '']'' \<notin> set p"

lemma Split_Join:
  assumes "plain_host h" and "plain_port p"
  shows "SplitHostPort (JoinHostPort h p) = Some (h, p)"
proof (cases "CHR '':'' \<in> set h")
  case True
  have j: "JoinHostPort h p = (CHR ''['' # h @ '']'') @ CHR '':'' # p" using True by (simp add: JoinHostPort_def)
  have t: "takeWhile (\<lambda>c. c \<noteq> CHR '']'') (h @ CHR '']'' # CHR '':'' # p) = h"
    using assms(1) by (subst takeWhile_append2) (auto simp: plain_host_def)
  from assms(2) have "CHR '':'' \<notin> set p" by (simp add: plain_port_def)
  from last_colon [OF this, of "CHR ''['' # h @ '']''"]
  show ?thesis using assms t unfolding SplitHostPort_def j by (auto simp: Let_def plain_host_def plain_port_def)
next
  case False
  have j: "JoinHostPort h p = h @ CHR '':'' # p" using False by (simp add: JoinHostPort_def)
  from assms(2) have "CHR '':'' \<notin> set p" by (simp add: plain_port_def)
  moreover have "hd h \<noteq> CHR ''[''" using assms(1) by (metis hd_in_set plain_host_def)
  ultimately show ?thesis using last_colon [of p h] False assms unfolding SplitHostPort_def j by (auto simp: Let_def plain_host_def plain_port_def hd_append)
qed

lemma Split_port_plain: "SplitHostPort s = Some (h, p) \<Longrightarrow> plain_port p"
proof -
  assume s: "SplitHostPort s = Some (h, p)"
  have c: "CHR '':'' \<notin> set (after_last_colon s)" by (auto simp: after_last_colon_def dest: set_takeWhileD)
  have i: "set (after_last_colon s) \<subseteq> set s" by (auto simp: after_last_colon_def dest: set_takeWhileD)
  show ?thesis
    using s c i by (auto simp: SplitHostPort_def plain_port_def Let_def split: if_splits)
qed

section \<open>The walk\<close>

text \<open>
  \<open>vouched\<close>: an entry of the chain that parses to an address outside the trusted set, and to the
  right of which there are trusted addresses only. Every entry to its left is what the client sent.
\<close>

definition vouched :: "externals \<Rightarrow> prefix list \<Rightarrow> string list \<Rightarrow> addr \<Rightarrow> bool" where
  "vouched x trusted chain a \<longleftrightarrow> (\<exists>sent e hops. chain = sent @ e # hops \<and> x_parse_addr x e = Some a \<and>
     \<not> isTrusted a trusted \<and> (\<forall>h\<in>set hops. \<exists>b. x_parse_addr x h = Some b \<and> isTrusted b trusted))"

lemma walk_trusted_hops:
  "(\<forall>h\<in>set hops. \<exists>b. x_parse_addr x h = Some b \<and> isTrusted b trusted) \<Longrightarrow>
     walk_chain x trusted peer (hops @ es) = walk_chain x trusted peer es"
  by (induction hops) auto

lemma walk_vouched: "vouched x trusted (rev es) a \<Longrightarrow> walk_chain x trusted peer es = a"
proof -
  assume "vouched x trusted (rev es) a"
  then obtain sent e hops where r: "rev es = sent @ e # hops" "x_parse_addr x e = Some a" "\<not> isTrusted a trusted"
      "\<forall>h\<in>set hops. \<exists>b. x_parse_addr x h = Some b \<and> isTrusted b trusted" by (auto simp: vouched_def)
  from r(1) have "es = rev hops @ e # rev sent" by (metis append.assoc append_Cons append_Nil rev.simps(2) rev_append rev_rev_ident)
  with r(2-4) walk_trusted_hops [of "rev hops" x trusted peer "e # rev sent"] show ?thesis by simp
qed

lemma vouched_Cons:
  "x_parse_addr x e = Some b \<Longrightarrow> isTrusted b trusted \<Longrightarrow> vouched x trusted chain a \<Longrightarrow>
     vouched x trusted (chain @ [e]) a"
proof -
  assume e: "x_parse_addr x e = Some b" "isTrusted b trusted" and "vouched x trusted chain a"
  then obtain sent f hops where "chain = sent @ f # hops" "x_parse_addr x f = Some a" "\<not> isTrusted a trusted"
      "\<forall>h\<in>set hops. \<exists>b. x_parse_addr x h = Some b \<and> isTrusted b trusted" by (auto simp: vouched_def)
  with e show ?thesis unfolding vouched_def
    by (intro exI [of _ sent] exI [of _ f] exI [of _ "hops @ [e]"]) auto
qed

lemma walk_unvouched: "walk_chain x trusted peer es = peer \<or> vouched x trusted (rev es) (walk_chain x trusted peer es)"
proof (induction es)
  case (Cons e es)
  show ?case
  proof (cases "x_parse_addr x e")
    case (Some a)
    show ?thesis
    proof (cases "isTrusted a trusted")
      case True
      with Some Cons.IH vouched_Cons [OF Some True] show ?thesis by auto
    next
      case False
      then have "vouched x trusted (rev es @ [e]) a" using Some unfolding vouched_def
        by (intro exI [of _ "rev es"] exI [of _ e] exI [of _ "[]"]) simp
      with Some False show ?thesis by simp
    qed
  qed simp
qed simp

text \<open>
  C37: The address of the client cannot be forged. On a connection from a peer that is no trusted
  proxy the headers are ignored. Behind a trusted proxy the client is the vouched address of the
  chain, whatever entries and header values the client sent before it, and the peer when there is
  none. The key of the rate limiters is the text of that address.
\<close>

theorem client_not_forged:
  assumes "SplitHostPort remote = Some (h, port)" and "x_parse_addr x h = Some peer"
    and "\<And>a. plain_host (x_addr_text x a)"
  shows "\<exists>a. rq_ip (resolve x trusted remote headers r) = Some a \<and>
      rq_remote (resolve x trusted remote headers r) = x_addr_text x a \<and>
      (a \<noteq> peer \<longrightarrow> isTrusted peer trusted \<and> vouched x trusted (xff_chain headers) a) \<and>
      (\<forall>b. isTrusted peer trusted \<and> vouched x trusted (xff_chain headers) b \<longrightarrow> a = b)"
proof -
  define a where "a = (if trusted \<noteq> [] \<and> isTrusted peer trusted then walkXFF x headers peer trusted else peer)"
  have ip: "realIP x trusted remote headers = (JoinHostPort (x_addr_text x a) port, Some a)"
    using assms(1,2) by (simp add: realIP_def parseHostPort_def joinHostPort_def a_def Let_def)
  have key: "clientIP (JoinHostPort (x_addr_text x a) port) = x_addr_text x a"
    using Split_Join [OF assms(3) Split_port_plain [OF assms(1)]] by (simp add: clientIP_def)
  have t: "trusted \<noteq> []" if "isTrusted peer trusted" using that by (auto simp: isTrusted_def)
  have v: "a \<noteq> peer \<longrightarrow> isTrusted peer trusted \<and> vouched x trusted (xff_chain headers) a"
    using walk_unvouched [of x trusted peer "rev (xff_chain headers)"] by (auto simp: a_def walkXFF_def)
  have u: "a = b" if "isTrusted peer trusted" "vouched x trusted (xff_chain headers) b" for b
    using that t walk_vouched [of x trusted "rev (xff_chain headers)" b peer] by (simp add: a_def walkXFF_def)
  have "rq_ip (resolve x trusted remote headers r) = Some a"
      "rq_remote (resolve x trusted remote headers r) = x_addr_text x a" by (simp_all add: resolve_def ip key)
  with v u show ?thesis by blast
qed

text \<open>A proxy on the loopback address, and a client that sends the header of another.\<close>

definition proxy_ext :: externals where
  "proxy_ext = demo_ext\<lparr>
     x_parse_addr := map_of [(''127.0.0.1'', V4 (v4 127 0 0 1)), (''203.0.113.7'', V4 (v4 203 0 113 7)),
       (''198.51.100.9'', V4 (v4 198 51 100 9))],
     x_addr_text := (\<lambda>a. if a = V4 (v4 203 0 113 7) then ''203.0.113.7'' else ''other'')\<rparr>"

definition proxied_request :: request where
  "proxied_request = \<lparr>rq_cookie = None, rq_authorization = [], rq_user_agent = ''curl'',
     rq_ip = None, rq_remote = [], rq_host = ''brew''\<rparr>"

lemma client_not_forged_witness:
  "rq_remote (resolve proxy_ext [P4 (v4 127 0 0 0) 8] ''127.0.0.1:4711''
     [''198.51.100.9, junk'', ''203.0.113.7 , 127.0.0.1''] proxied_request) = ''203.0.113.7''"
proof -
  let ?t = "[P4 (v4 127 0 0 0) 8]" and ?hs = "[''198.51.100.9, junk'', ''203.0.113.7 , 127.0.0.1'']"
  have h: "SplitHostPort ''127.0.0.1:4711'' = Some (''127.0.0.1'', ''4711'')"
    "x_parse_addr proxy_ext ''127.0.0.1'' = Some (V4 (v4 127 0 0 1))"
    by (code_simp, simp add: proxy_ext_def)
  have x: "plain_host (x_addr_text proxy_ext a)" for a by (simp add: proxy_ext_def plain_host_def)
  have t: "isTrusted (V4 (v4 127 0 0 1)) ?t" "\<not> isTrusted (V4 (v4 203 0 113 7)) ?t"
    by (simp_all add: isTrusted_def contains4_iff v4_def)
  have p: "x_parse_addr proxy_ext ''203.0.113.7'' = Some (V4 (v4 203 0 113 7))"
    and n: "x_addr_text proxy_ext (V4 (v4 203 0 113 7)) = ''203.0.113.7''" by (simp_all add: proxy_ext_def)
  have c: "xff_chain ?hs = [''198.51.100.9'', ''junk''] @ ''203.0.113.7'' # [''127.0.0.1'']" by code_simp
  have "vouched proxy_ext ?t (xff_chain ?hs) (V4 (v4 203 0 113 7))"
    unfolding vouched_def using c p t h(2)
    by (intro exI [of _ "[''198.51.100.9'', ''junk'']"] exI [of _ "''203.0.113.7''"] exI [of _ "[''127.0.0.1'']"]) simp
  with client_not_forged [OF h x, of ?t ?hs proxied_request] t(1) n show ?thesis by auto
qed

end
