(* ===== verification/RateLimit.thy ===== *)
theory RateLimit
  imports Prelude
begin

text \<open>
  The keyed rate limiter of \<^verbatim>\<open>internal/ratelimit\<close>. The token bucket is the one of
  \<^verbatim>\<open>golang.org/x/time/rate\<close> and a parameter: a fresh bucket \<open>fresh\<close>, and \<open>take t b\<close>,
  the answer of \<^verbatim>\<open>Allow\<close> at time \<open>t\<close> with the bucket it leaves. The mutex makes the calls
  a sequence; their times are those of the clock of the process, which does not run backwards.
\<close>

section \<open>The limiter\<close>

record 'b bucket_entry =
  en_limiter :: 'b
  en_lastSeen :: time

record 'b limiter =
  lm_buckets :: "string \<Rightarrow> 'b bucket_entry option"
  lm_lastEviction :: time

type_synonym 'b taking = "time \<Rightarrow> 'b \<Rightarrow> bool \<times> 'b"

definition New_limiter :: "time \<Rightarrow> 'b limiter" where
  "New_limiter now = \<lparr>lm_buckets = (\<lambda>k. None), lm_lastEviction = now\<rparr>"

definition evictIdleLocked :: "time \<Rightarrow> time \<Rightarrow> 'b limiter \<Rightarrow> 'b limiter" where
  "evictIdleLocked idleTTL now l = l\<lparr>lm_buckets := (\<lambda>k. case lm_buckets l k of
     None \<Rightarrow> None
   | Some e \<Rightarrow> if en_lastSeen e < now - idleTTL then None else Some e)\<rparr>"

definition Allow ::
    "'b \<Rightarrow> 'b taking \<Rightarrow> time \<Rightarrow> time \<Rightarrow> string \<Rightarrow> 'b limiter \<Rightarrow> bool \<times> 'b limiter" where
  "Allow fresh take_token idleTTL now key l =
     (let l1 = (if now - lm_lastEviction l > idleTTL div 2
         then (evictIdleLocked idleTTL now l)\<lparr>lm_lastEviction := now\<rparr> else l);
       b = (case lm_buckets l1 key of None \<Rightarrow> fresh | Some e \<Rightarrow> en_limiter e);
       (ok, b') = take_token now b in
     (ok, l1\<lparr>lm_buckets := (lm_buckets l1)(key \<mapsto> \<lparr>en_limiter = b', en_lastSeen = now\<rparr>)\<rparr>))"

fun run_limiter ::
    "'b \<Rightarrow> 'b taking \<Rightarrow> time \<Rightarrow> (time \<times> string) list \<Rightarrow> 'b limiter \<Rightarrow> bool list \<times> 'b limiter" where
  "run_limiter fresh take_token idleTTL [] l = ([], l)"
| "run_limiter fresh take_token idleTTL ((now, key) # calls) l =
     (let (ok, l1) = Allow fresh take_token idleTTL now key l;
          (oks, l2) = run_limiter fresh take_token idleTTL calls l1 in
      (ok # oks, l2))"

section \<open>The specification: one bucket per key, never evicted\<close>

text \<open>A bucket after calls at the given times, and what it answers to calls at further times.\<close>

definition used :: "'b taking \<Rightarrow> time list \<Rightarrow> 'b \<Rightarrow> 'b" where
  "used take_token ts b = foldl (\<lambda>b t. snd (take_token t b)) b ts"

fun answers :: "'b taking \<Rightarrow> time list \<Rightarrow> 'b \<Rightarrow> bool list" where
  "answers take_token [] b = []"
| "answers take_token (t # ts) b = (let (ok, b') = take_token t b in ok # answers take_token ts b')"

definition times_of :: "string \<Rightarrow> (time \<times> string) list \<Rightarrow> time list" where
  "times_of key calls = map fst (filter (\<lambda>c. snd c = key) calls)"

fun per_key :: "'b \<Rightarrow> 'b taking \<Rightarrow> (time \<times> string) list \<Rightarrow> (time \<times> string) list \<Rightarrow> bool list" where
  "per_key fresh take_token past [] = []"
| "per_key fresh take_token past ((now, key) # calls) =
     fst (take_token now (used take_token (times_of key past) fresh)) #
     per_key fresh take_token (past @ [(now, key)]) calls"

text \<open>Two buckets that answer alike from \<open>t\<close> on.\<close>

definition alike :: "'b taking \<Rightarrow> time \<Rightarrow> 'b \<Rightarrow> 'b \<Rightarrow> bool" where
  "alike take_token t b c \<longleftrightarrow> (\<forall>ts. sorted (t # ts) \<longrightarrow> answers take_token ts b = answers take_token ts c)"

text \<open>
  What the limiter relies on: a bucket that was idle for longer than \<open>idleTTL\<close> is full again, so
  it cannot be told from a fresh one.
\<close>

definition refills :: "'b \<Rightarrow> 'b taking \<Rightarrow> time \<Rightarrow> bool" where
  "refills fresh take_token idleTTL \<longleftrightarrow> (\<forall>ts t. ts \<noteq> [] \<longrightarrow> sorted ts \<longrightarrow> last ts + idleTTL < t \<longrightarrow>
     alike take_token t (used take_token ts fresh) fresh)"

section \<open>Buckets that are alike\<close>

lemma alike_refl [simp]: "alike tk t b b"
  by (simp add: alike_def)

lemma alike_sym: "alike tk t b c \<Longrightarrow> alike tk t c b"
  by (simp add: alike_def)

lemma alike_later: "alike tk t b c \<Longrightarrow> t \<le> t' \<Longrightarrow> alike tk t' b c"
  unfolding alike_def by (auto intro: order_trans)

lemma alike_take:
  assumes "alike tk t b c"
  shows "fst (tk t b) = fst (tk t c)" and "alike tk t (snd (tk t b)) (snd (tk t c))"
proof -
  have e: "answers tk (t # ts) b = answers tk (t # ts) c" if "sorted (t # ts)" for ts
    using assms that unfolding alike_def by (metis order_refl set_ConsD sorted_simps(2))
  from e [of "[]"] show "fst (tk t b) = fst (tk t c)" by (simp add: split_beta)
  from e show "alike tk t (snd (tk t b)) (snd (tk t c))" unfolding alike_def by (simp add: split_beta)
qed

lemma used_snoc [simp]: "used tk (ts @ [t]) b = snd (tk t (used tk ts b))" "used tk [] b = b"
  by (simp_all add: used_def)

lemma times_of_snoc [simp]:
  "times_of k (past @ [(t, j)]) = (if k = j then times_of k past @ [t] else times_of k past)"
  by (simp add: times_of_def)

lemma sorted_times_of: "sorted (map fst past) \<Longrightarrow> sorted (times_of k past)"
  unfolding times_of_def by (induction past) (auto simp: sorted_simps(2))

section \<open>Eviction is not seen\<close>

text \<open>
  The limiter after \<open>past\<close>, at time \<open>now\<close>: each key has a bucket that is alike the one that was
  never evicted, no bucket is older than the last eviction allows, and there is none without a call.
\<close>

definition key_ok ::
    "'b \<Rightarrow> 'b taking \<Rightarrow> time \<Rightarrow> time \<Rightarrow> time \<Rightarrow> time list \<Rightarrow> 'b bucket_entry option \<Rightarrow> bool" where
  "key_ok fresh tk ttl now evicted ts entry = (case entry of
     None \<Rightarrow> alike tk now fresh (used tk ts fresh)
   | Some e \<Rightarrow> alike tk now (en_limiter e) (used tk ts fresh) \<and> ts \<noteq> [] \<and> en_lastSeen e = last ts \<and>
       evicted - ttl \<le> en_lastSeen e)"

definition follows_keys :: "'b \<Rightarrow> 'b taking \<Rightarrow> time \<Rightarrow> time \<Rightarrow> (time \<times> string) list \<Rightarrow> 'b limiter \<Rightarrow> bool" where
  "follows_keys fresh tk ttl now past l \<longleftrightarrow> sorted (map fst past) \<and> (\<forall>t\<in>set (map fst past). t \<le> now) \<and>
     lm_lastEviction l \<le> now \<and>
     (\<forall>k. key_ok fresh tk ttl now (lm_lastEviction l) (times_of k past) (lm_buckets l k))"

lemma key_ok_later: "key_ok fresh tk ttl now ev ts e \<Longrightarrow> now \<le> now' \<Longrightarrow> key_ok fresh tk ttl now' ev ts e"
  by (auto simp: key_ok_def split: option.splits intro: alike_later)

lemma follows_later:
  "follows_keys fresh tk ttl now past l \<Longrightarrow> now \<le> now' \<Longrightarrow> follows_keys fresh tk ttl now' past l"
  unfolding follows_keys_def by (auto intro: key_ok_later)

lemma key_ok_evict:
  assumes "key_ok fresh tk ttl now ev ts entry" and "refills fresh tk ttl" and "sorted ts"
  shows "key_ok fresh tk ttl now now ts (case entry of None \<Rightarrow> None
    | Some e \<Rightarrow> if en_lastSeen e < now - ttl then None else Some e)"
proof (cases entry)
  case (Some e)
  show ?thesis
  proof (cases "en_lastSeen e < now - ttl")
    case True
    with Some assms have "ts \<noteq> []" "last ts + ttl < now" by (auto simp: key_ok_def)
    with assms(2,3) have "alike tk now (used tk ts fresh) fresh" by (simp add: refills_def)
    with Some True show ?thesis by (simp add: key_ok_def alike_sym)
  next
    case False
    with Some assms(1) show ?thesis by (simp add: key_ok_def)
  qed
qed (use assms in \<open>simp add: key_ok_def\<close>)

lemma follows_evict:
  assumes "follows_keys fresh tk ttl now past l" and "refills fresh tk ttl"
  shows "follows_keys fresh tk ttl now past ((evictIdleLocked ttl now l)\<lparr>lm_lastEviction := now\<rparr>)"
proof -
  from assms(1) have "key_ok fresh tk ttl now now (times_of k past) (case lm_buckets l k of None \<Rightarrow> None
      | Some e \<Rightarrow> if en_lastSeen e < now - ttl then None else Some e)" for k
    unfolding follows_keys_def by (intro key_ok_evict [OF _ assms(2) sorted_times_of]) auto
  with assms(1) show ?thesis unfolding follows_keys_def evictIdleLocked_def by simp
qed

lemma follows_take:
  assumes "follows_keys fresh tk ttl now past l" and "0 \<le> ttl"
    and b: "b = (case lm_buckets l key of None \<Rightarrow> fresh | Some e \<Rightarrow> en_limiter e)"
  shows "fst (tk now b) = fst (tk now (used tk (times_of key past) fresh))"
    and "follows_keys fresh tk ttl now (past @ [(now, key)])
      (l\<lparr>lm_buckets := (lm_buckets l)(key \<mapsto> \<lparr>en_limiter = snd (tk now b), en_lastSeen = now\<rparr>)\<rparr>)"
proof -
  from assms(1) have "key_ok fresh tk ttl now (lm_lastEviction l) (times_of key past) (lm_buckets l key)"
    by (simp add: follows_keys_def)
  then have a: "alike tk now b (used tk (times_of key past) fresh)"
    unfolding b by (auto simp: key_ok_def split: option.splits)
  show "fst (tk now b) = fst (tk now (used tk (times_of key past) fresh))" by (rule alike_take(1) [OF a])
  have "lm_lastEviction l \<le> now" using assms(1) by (simp add: follows_keys_def)
  then have "key_ok fresh tk ttl now (lm_lastEviction l) (times_of key past @ [now])
      (Some \<lparr>en_limiter = snd (tk now b), en_lastSeen = now\<rparr>)"
    using alike_take(2) [OF a] assms(2) by (simp add: key_ok_def)
  then show "follows_keys fresh tk ttl now (past @ [(now, key)])
      (l\<lparr>lm_buckets := (lm_buckets l)(key \<mapsto> \<lparr>en_limiter = snd (tk now b), en_lastSeen = now\<rparr>)\<rparr>)"
    using assms(1) unfolding follows_keys_def by (auto simp: sorted_append)
qed

lemma follows_Allow:
  assumes "follows_keys fresh tk ttl t past l" and "refills fresh tk ttl" and "0 \<le> ttl" and "t \<le> now"
    and "Allow fresh tk ttl now key l = (ok, l')"
  shows "ok = fst (tk now (used tk (times_of key past) fresh))"
    and "follows_keys fresh tk ttl now (past @ [(now, key)]) l'"
    and "now - lm_lastEviction l' \<le> ttl div 2"
proof -
  define l1 where "l1 = (if now - lm_lastEviction l > ttl div 2
    then (evictIdleLocked ttl now l)\<lparr>lm_lastEviction := now\<rparr> else l)"
  define b where "b = (case lm_buckets l1 key of None \<Rightarrow> fresh | Some e \<Rightarrow> en_limiter e)"
  have f: "follows_keys fresh tk ttl now past l1"
    using follows_later [OF assms(1,4)] follows_evict [OF follows_later [OF assms(1,4)] assms(2)]
    by (simp add: l1_def)
  have r: "ok = fst (tk now b)"
      "l' = l1\<lparr>lm_buckets := (lm_buckets l1)(key \<mapsto> \<lparr>en_limiter = snd (tk now b), en_lastSeen = now\<rparr>)\<rparr>"
    using assms(5) by (auto simp: Allow_def Let_def split_beta simp flip: l1_def b_def)
  show "ok = fst (tk now (used tk (times_of key past) fresh))"
    "follows_keys fresh tk ttl now (past @ [(now, key)]) l'"
    using follows_take [OF f assms(3) b_def] by (simp_all add: r)
  show "now - lm_lastEviction l' \<le> ttl div 2" using assms(3) by (simp add: r(2) l1_def)
qed

lemma follows_run:
  assumes "follows_keys fresh tk ttl t past l" and "refills fresh tk ttl" and "0 \<le> ttl"
    and "sorted (t # map fst calls)" and "run_limiter fresh tk ttl calls l = (oks, l')"
  shows "oks = per_key fresh tk past calls \<and>
    follows_keys fresh tk ttl (last (t # map fst calls)) (past @ calls) l' \<and>
    (calls \<noteq> [] \<longrightarrow> last (map fst calls) - lm_lastEviction l' \<le> ttl div 2)"
  using assms(1,4,5)
proof (induction calls arbitrary: t past l oks)
  case (Cons c calls)
  obtain now key where c: "c = (now, key)" by fastforce
  obtain ok l1 where a: "Allow fresh tk ttl now key l = (ok, l1)" by fastforce
  obtain oks' where o: "run_limiter fresh tk ttl calls l1 = (oks', l')" "oks = ok # oks'"
    using Cons.prems(3) a by (auto simp: c split: prod.splits)
  from Cons.prems(2) have "t \<le> now" "sorted (now # map fst calls)" by (auto simp: c)
  from follows_Allow [OF Cons.prems(1) assms(2,3) this(1) a] Cons.IH [OF _ this(2) o(1)] o(2)
  show ?case
  proof (cases "calls = []")
    case True
    with o follows_Allow [OF Cons.prems(1) assms(2,3) \<open>t \<le> now\<close> a] show ?thesis by (simp add: c)
  next
    case False
    with Cons.IH [OF follows_Allow(2) [OF Cons.prems(1) assms(2,3) \<open>t \<le> now\<close> a] \<open>sorted (now # map fst calls)\<close> o(1)]
      follows_Allow(1) [OF Cons.prems(1) assms(2,3) \<open>t \<le> now\<close> a] o(2)
    show ?thesis by (simp add: c)
  qed
qed simp

text \<open>
  C38: Eviction is invisible and keeps the map small. When an idle bucket is full again after
  \<open>idleTTL\<close>, a limiter that evicts answers every sequence of calls as one bucket per key that is
  never evicted does: no key's calls change the answers to another, and dropping a bucket grants
  nothing. After the calls only keys that were called within the last one and a half
  \<open>idleTTL\<close> have a bucket.
\<close>

theorem eviction_invisible:
  assumes "refills fresh take_token idleTTL" and "0 \<le> idleTTL"
    and "sorted (start # map fst calls)" and "calls \<noteq> []"
    and "run_limiter fresh take_token idleTTL calls (New_limiter start) = (oks, l)"
  shows "oks = per_key fresh take_token [] calls \<and>
    dom (lm_buckets l) \<subseteq> {k. \<exists>t. (t, k) \<in> set calls \<and> last (map fst calls) - (idleTTL + idleTTL div 2) \<le> t}"
proof -
  have "follows_keys fresh take_token idleTTL start [] (New_limiter start)"
    by (simp add: follows_keys_def key_ok_def New_limiter_def times_of_def)
  from follows_run [OF this assms(1-3,5)] assms(4)
  have r: "oks = per_key fresh take_token [] calls"
    and f: "follows_keys fresh take_token idleTTL (last (map fst calls)) calls l"
      "last (map fst calls) - lm_lastEviction l \<le> idleTTL div 2" by simp_all
  have "\<exists>t. (t, k) \<in> set calls \<and> last (map fst calls) - (idleTTL + idleTTL div 2) \<le> t"
    if "lm_buckets l k = Some e" for k e
  proof -
    from f(1) that have e: "times_of k calls \<noteq> []" "en_lastSeen e = last (times_of k calls)"
        "lm_lastEviction l - idleTTL \<le> en_lastSeen e"
      unfolding follows_keys_def key_ok_def by (auto dest!: spec [of _ k])
    from last_in_set [OF e(1)] have "(last (times_of k calls), k) \<in> set calls" by (auto simp: times_of_def)
    with e f(2) show ?thesis by (intro exI [of _ "last (times_of k calls)"]) auto
  qed
  with r show ?thesis by (auto simp: dom_def)
qed

section \<open>The limiters of the server\<close>

text \<open>Time per token, burst and \<open>idleTTL\<close>, in microseconds.\<close>

definition authIP :: "int \<times> int \<times> time" where "authIP = (2 * 1000000, 10, 30 * 60000000)"
definition loginUser :: "int \<times> int \<times> time" where "loginUser = (12 * 1000000, 5, 30 * 60000000)"
definition emailChange :: "int \<times> int \<times> time" where "emailChange = (2 * 60000000, 5, 30 * 60000000)"

text \<open>
  An instance of the parameter: the time saved up, at most that of a burst, and when it was counted.
\<close>

definition full_bucket :: "int \<Rightarrow> int \<Rightarrow> int \<times> time" where
  "full_bucket every burst = (burst * every, 0)"

definition take_saved :: "int \<Rightarrow> int \<Rightarrow> (int \<times> time) taking" where
  "take_saved every burst now = (\<lambda>(saved, t). let s = min (burst * every) (saved + max 0 (now - t)) in
     if every \<le> s then (True, (s - every, now)) else (False, (s, now)))"

lemma saved_step:
  "0 < every \<Longrightarrow> 0 \<le> burst \<Longrightarrow> 0 \<le> fst b \<Longrightarrow>
     0 \<le> fst (snd (take_saved every burst now b)) \<and> snd (snd (take_saved every burst now b)) = now"
  by (cases b) (simp add: take_saved_def Let_def)

lemma used_saved:
  assumes "0 < every" and "0 \<le> burst" and "ts \<noteq> []"
  shows "0 \<le> fst (used (take_saved every burst) ts (full_bucket every burst)) \<and>
    snd (used (take_saved every burst) ts (full_bucket every burst)) = last ts"
  using assms(3)
proof (induction ts rule: rev_induct)
  case (snoc t ts)
  have "0 \<le> fst (used (take_saved every burst) ts (full_bucket every burst))"
    using snoc.IH assms(1,2) by (cases "ts = []") (auto simp: full_bucket_def)
  from saved_step [OF assms(1,2) this] show ?case by simp
qed simp

lemma saved_refills:
  assumes "0 < every" and "0 \<le> burst" and "burst * every \<le> idleTTL"
  shows "refills (full_bucket every burst) (take_saved every burst) idleTTL"
  unfolding refills_def alike_def
proof (intro allI impI)
  fix ts us :: "time list" and t
  assume ts: "ts \<noteq> []" "last ts + idleTTL < t" and us: "sorted (t # us)"
  obtain s l where b: "used (take_saved every burst) ts (full_bucket every burst) = (s, l)" by fastforce
  from used_saved [OF assms(1,2) ts(1)] b have s: "0 \<le> s" "l = last ts" by simp_all
  show "answers (take_saved every burst) us (used (take_saved every burst) ts (full_bucket every burst)) =
      answers (take_saved every burst) us (full_bucket every burst)"
  proof (cases us)
    case (Cons u vs)
    with us have "t \<le> u" by simp
    with ts s assms have "take_saved every burst u (s, l) = take_saved every burst u (full_bucket every burst)"
      by (simp add: take_saved_def full_bucket_def min_def max_def)
    with b Cons show ?thesis by simp
  qed simp
qed

lemma server_limiters_refill:
  "(every, burst, idleTTL) \<in> {authIP, loginUser, emailChange} \<Longrightarrow>
     refills (full_bucket every burst) (take_saved every burst) idleTTL"
  by (rule saved_refills) (auto simp: authIP_def loginUser_def emailChange_def)

text \<open>Five attempts on one account use its bucket up, another account has its own, and after the
  eviction of an idle hour the first has five again.\<close>

lemma eviction_invisible_witness:
  "fst (run_limiter (full_bucket 12000000 5) (take_saved 12000000 5) 1800000000
      (map (\<lambda>t. (t, ''ann'')) [0, 1, 2, 3, 4, 5] @ [(6, ''bob''), (3600000000, ''ann'')])
      (New_limiter 0)) = [True, True, True, True, True, False, True, True]"
proof -
  let ?calls = "map (\<lambda>t. (t, ''ann'')) [0, 1, 2, 3, 4, 5] @ [(6 :: time, ''bob''), (3600000000, ''ann'')]"
  obtain oks l where r: "run_limiter (full_bucket 12000000 5) (take_saved 12000000 5) 1800000000 ?calls
      (New_limiter 0) = (oks, l)" by fastforce
  have "refills (full_bucket 12000000 5) (take_saved 12000000 5) 1800000000"
    using server_limiters_refill [of 12000000 5 1800000000] by (simp add: loginUser_def)
  from eviction_invisible [OF this _ _ _ r]
  have "oks = per_key (full_bucket 12000000 5) (take_saved 12000000 5) [] ?calls" by simp
  also have "\<dots> = [True, True, True, True, True, False, True, True]" by code_simp
  finally show ?thesis unfolding r by (simp only: fst_conv)
qed

end
