(* ===== verification/Calc.thy ===== *)
theory Calc
  imports Floats World
begin

text \<open>
  The brewing calculators: \<^verbatim>\<open>internal/calc/calc.go\<close> and the handlers of
  \<^verbatim>\<open>internal/server/calculators.go\<close>. A \<^verbatim>\<open>float64\<close> is a finite number, an infinity or
  \<^verbatim>\<open>NaN\<close>, and the operators are those of IEEE 754, so that the formulas below are the
  expressions of the source, operation by operation. The sign of a zero is not kept; no divisor of
  the formulas is a zero.
\<close>

section \<open>Doubles\<close>

datatype float64 = Fin rat | PosInf | NegInf | NaN

text \<open>The rounded result, or an infinity when it is too large.\<close>

definition dbl :: "rat \<Rightarrow> float64" where
  "dbl x = (let y = fl x in if 2 ^ 1024 \<le> y then PosInf else if y \<le> - (2 ^ 1024) then NegInf else Fin y)"

definition signed_inf :: "rat \<Rightarrow> float64" where
  "signed_inf s = (if s = 0 then NaN else if 0 < s then PosInf else NegInf)"

fun sign_of :: "float64 \<Rightarrow> rat" where
  "sign_of (Fin x) = sgn x" | "sign_of PosInf = 1" | "sign_of NegInf = - 1" | "sign_of NaN = 0"

definition is_finite :: "float64 \<Rightarrow> bool" where
  "is_finite x = (case x of Fin r \<Rightarrow> True | _ \<Rightarrow> False)"

instantiation float64 :: "{plus, minus, times, inverse, ord}"
begin

fun plus_float64 :: "float64 \<Rightarrow> float64 \<Rightarrow> float64" where
  "Fin x + Fin y = dbl (x + y)"
| "Fin x + b = b"
| "a + Fin y = a"
| "a + b = (if a = b then a else NaN)"

fun uminus_float64 :: "float64 \<Rightarrow> float64" where
  "uminus_float64 (Fin x) = Fin (- x)" | "uminus_float64 PosInf = NegInf"
| "uminus_float64 NegInf = PosInf" | "uminus_float64 NaN = NaN"

definition minus_float64 :: "float64 \<Rightarrow> float64 \<Rightarrow> float64" where
  "a - b = a + uminus_float64 b"

fun times_float64 :: "float64 \<Rightarrow> float64 \<Rightarrow> float64" where
  "Fin x * Fin y = dbl (x * y)"
| "a * b = signed_inf (sign_of a * sign_of b)"

fun divide_float64 :: "float64 \<Rightarrow> float64 \<Rightarrow> float64" where
  "divide_float64 (Fin x) (Fin y) = (if y = 0 then signed_inf (sgn x) else dbl (x / y))"
| "divide_float64 (Fin x) b = (if b = NaN then NaN else Fin 0)"
| "divide_float64 a (Fin y) = signed_inf (if 0 \<le> y then sign_of a else - sign_of a)"
| "divide_float64 a b = NaN"

definition inverse_float64 :: "float64 \<Rightarrow> float64" where
  "inverse_float64 = divide (Fin 1)"

fun less_float64 :: "float64 \<Rightarrow> float64 \<Rightarrow> bool" where
  "Fin x < Fin y \<longleftrightarrow> x < y"
| "a < b \<longleftrightarrow> a \<noteq> NaN \<and> b \<noteq> NaN \<and> a \<noteq> b \<and> (a = NegInf \<or> b = PosInf)"

definition less_eq_float64 :: "float64 \<Rightarrow> float64 \<Rightarrow> bool" where
  "a \<le> b \<longleftrightarrow> a < b \<or> a = b \<and> a \<noteq> NaN"

instance ..

end

section \<open>The calculators\<close>

definition HoneyPPGDefault :: float64 where "HoneyPPGDefault = dbl 35"
definition SugarPPGDefault :: float64 where "SugarPPGDefault = dbl 46"
definition PitchFactorDefault :: float64 where "PitchFactorDefault = dbl 0.75"
definition DryYeastCellsPerGramBillion :: float64 where "DryYeastCellsPerGramBillion = dbl 10"
definition LiquidPackCellsBillion :: float64 where "LiquidPackCellsBillion = dbl 100"
definition gallonsPerLiter :: float64 where "gallonsPerLiter = dbl 0.26417205235814845"
definition kgPerPound :: float64 where "kgPerPound = dbl 0.45359237"

definition validateGravity :: "float64 \<Rightarrow> string \<Rightarrow> string option" where
  "validateGravity g name =
     (if \<not> is_finite g then Some (name @ '' must be a finite number'')
      else if g < dbl 0.990 \<or> dbl 1.200 < g then Some (name @ '' must be between 0.990 and 1.200'')
      else None)"

definition ABV :: "float64 \<Rightarrow> float64 \<Rightarrow> string \<Rightarrow> string + float64" where
  "ABV og fg formula = (case validateGravity og ''og'' of
     Some m \<Rightarrow> Inl m
   | None \<Rightarrow> (case validateGravity fg ''fg'' of
       Some m \<Rightarrow> Inl m
     | None \<Rightarrow>
         if og \<le> fg then Inl ''fg must be less than og''
         else if formula = [] \<or> formula = ''alternative'' then
           Inr ((dbl 76.08 * (og - fg) / (dbl 1.775 - og)) * (fg / dbl 0.794))
         else if formula = ''simple'' then Inr ((og - fg) * dbl 131.25)
         else Inl ''unknown formula''))"

definition PredictedFG :: "float64 \<Rightarrow> float64 \<Rightarrow> string + float64 \<times> float64" where
  "PredictedFG og attenuationPct = (case validateGravity og ''og'' of
     Some m \<Rightarrow> Inl m
   | None \<Rightarrow>
       if \<not> is_finite attenuationPct \<or> attenuationPct < dbl 0 \<or> dbl 100 < attenuationPct
       then Inl ''attenuation_percent must be 0..100''
       else (let fg = og - (og - dbl 1) * (attenuationPct / dbl 100); abvPct = (og - fg) * dbl 131.25 in
         Inr (fg, abvPct)))"

definition HoneyWeight :: "float64 \<Rightarrow> float64 \<Rightarrow> float64 \<Rightarrow> string + float64 \<times> float64" where
  "HoneyWeight targetOG batchVolumeL honeyPPG = (case validateGravity targetOG ''target_og'' of
     Some m \<Rightarrow> Inl m
   | None \<Rightarrow>
       if targetOG \<le> dbl 1 then Inl ''target_og must be greater than 1.0''
       else if batchVolumeL \<le> dbl 0 then Inl ''batch_volume_l must be positive''
       else (let ppg = (if honeyPPG \<le> dbl 0 then HoneyPPGDefault else honeyPPG);
         gravityPoints = (targetOG - dbl 1) * dbl 1000;
         volumeGal = batchVolumeL * gallonsPerLiter;
         lb = (gravityPoints * volumeGal) / ppg;
         kg = lb * kgPerPound in Inr (kg, lb)))"

definition SugarWeight :: "float64 \<Rightarrow> float64 \<Rightarrow> float64 \<Rightarrow> string + float64 \<times> float64" where
  "SugarWeight targetOG batchVolumeL sugarPPG = (case validateGravity targetOG ''target_og'' of
     Some m \<Rightarrow> Inl m
   | None \<Rightarrow>
       if targetOG \<le> dbl 1 then Inl ''target_og must be greater than 1.0''
       else if batchVolumeL \<le> dbl 0 then Inl ''batch_volume_l must be positive''
       else (let ppg = (if sugarPPG \<le> dbl 0 then SugarPPGDefault else sugarPPG);
         gravityPoints = (targetOG - dbl 1) * dbl 1000;
         volumeGal = batchVolumeL * gallonsPerLiter;
         lb = (gravityPoints * volumeGal) / ppg;
         kg = lb * kgPerPound in Inr (kg, lb)))"

text \<open>
  \<^verbatim>\<open>math.Pow\<close> with the exponents 2 and 3 squares repeatedly; its scaling by powers of two is
  exact on the gravities it is used with.
\<close>

definition pow2 :: "float64 \<Rightarrow> float64" where "pow2 x = x * x"
definition pow3 :: "float64 \<Rightarrow> float64" where "pow3 x = x * pow2 x"

definition platoFromSG :: "float64 \<Rightarrow> float64" where
  "platoFromSG sg = dbl (- 668.962) + dbl 1262.45 * sg - dbl 776.43 * pow2 sg + dbl 182.94 * pow3 sg"

definition PitchRate :: "float64 \<Rightarrow> float64 \<Rightarrow> float64 \<Rightarrow> string + float64 \<times> float64 \<times> float64" where
  "PitchRate og batchVolumeL pitchFactor = (case validateGravity og ''og'' of
     Some m \<Rightarrow> Inl m
   | None \<Rightarrow>
       if batchVolumeL \<le> dbl 0 then Inl ''batch_volume_l must be positive''
       else (let factor = (if pitchFactor \<le> dbl 0 then PitchFactorDefault else pitchFactor);
         plato = platoFromSG og;
         volumeML = batchVolumeL * dbl 1000;
         cellsMillion = factor * volumeML * plato;
         cellsBillion = cellsMillion / dbl 1000;
         dryYeastG = cellsBillion / DryYeastCellsPerGramBillion;
         liquidPacks = cellsBillion / LiquidPackCellsBillion in
         Inr (cellsBillion, dryYeastG, liquidPacks)))"

section \<open>The handlers\<close>

text \<open>
  The request is \<open>None\<close> when \<^verbatim>\<open>decodeCalcRequest\<close> fails; a field that is absent is zero. The
  answer is a text of numbers, or \<open>None\<close>, an empty body, when one of them has no JSON: the status
  is written before \<^verbatim>\<open>writeJSON\<close> encodes.
\<close>

definition writeFloats :: "float64 list \<Rightarrow> 'v \<Rightarrow> 'v option resp" where
  "writeFloats xs v = Okay 200 (if list_all is_finite xs then Some v else None)"

definition writeCalcError :: "string \<Rightarrow> 'v option resp" where
  "writeCalcError m = Fail 400 m"

record abv_request =
  qa_og :: float64
  qa_fg :: float64
  qa_formula :: string

definition handleCalcABV :: "abv_request option \<Rightarrow> (float64 \<times> string) option resp" where
  "handleCalcABV body = (case body of
     None \<Rightarrow> Fail 400 ''invalid json''
   | Some q \<Rightarrow> (let formula = (if qa_formula q = [] then ''alternative'' else qa_formula q) in
       case ABV (qa_og q) (qa_fg q) formula of
         Inl m \<Rightarrow> writeCalcError m
       | Inr abv \<Rightarrow> writeFloats [abv] (abv, formula)))"

definition handleCalcPredictedFG :: "(float64 \<times> float64) option \<Rightarrow> (float64 \<times> float64) option resp" where
  "handleCalcPredictedFG body = (case body of
     None \<Rightarrow> Fail 400 ''invalid json''
   | Some (og, att) \<Rightarrow> (case PredictedFG og att of
       Inl m \<Rightarrow> writeCalcError m
     | Inr (fg, abv) \<Rightarrow> writeFloats [fg, abv] (fg, abv)))"

record weight_request =
  qw_target :: float64
  qw_volume :: float64
  qw_ppg :: float64

definition handleCalcHoneyWeight :: "weight_request option \<Rightarrow> (float64 \<times> float64 \<times> float64) option resp" where
  "handleCalcHoneyWeight body = (case body of
     None \<Rightarrow> Fail 400 ''invalid json''
   | Some q \<Rightarrow> (let ppg = (if qw_ppg q \<le> dbl 0 then HoneyPPGDefault else qw_ppg q) in
       case HoneyWeight (qw_target q) (qw_volume q) ppg of
         Inl m \<Rightarrow> writeCalcError m
       | Inr (kg, lb) \<Rightarrow> writeFloats [kg, lb, ppg] (kg, lb, ppg)))"

definition handleCalcSugarWeight :: "weight_request option \<Rightarrow> (float64 \<times> float64 \<times> float64) option resp" where
  "handleCalcSugarWeight body = (case body of
     None \<Rightarrow> Fail 400 ''invalid json''
   | Some q \<Rightarrow> (let ppg = (if qw_ppg q \<le> dbl 0 then SugarPPGDefault else qw_ppg q) in
       case SugarWeight (qw_target q) (qw_volume q) ppg of
         Inl m \<Rightarrow> writeCalcError m
       | Inr (kg, lb) \<Rightarrow> writeFloats [kg, lb, ppg] (kg, lb, ppg)))"

definition handleCalcPitchRate ::
    "(float64 \<times> float64 \<times> float64) option \<Rightarrow> (float64 \<times> float64 \<times> float64 \<times> float64) option resp" where
  "handleCalcPitchRate body = (case body of
     None \<Rightarrow> Fail 400 ''invalid json''
   | Some (og, volume, pitch) \<Rightarrow> (let factor = (if pitch \<le> dbl 0 then PitchFactorDefault else pitch) in
       case PitchRate og volume factor of
         Inl m \<Rightarrow> writeCalcError m
       | Inr (cells, dry, packs) \<Rightarrow> writeFloats [cells, dry, packs, factor] (cells, dry, packs, factor)))"

end
