(* ===== verification/Calc_Props.thy ===== *)
theory Calc_Props
  imports Calc
begin

text \<open>
  The calculators: the predicted final gravity stays between the gravities of water and of the
  must, falls with the attenuation and agrees with the ABV calculator; a large volume overflows.
\<close>

section \<open>Rounding in the range of gravities\<close>

lemma grid_intro: "\<bar>m\<bar> < 2 ^ 53 \<Longrightarrow> - 1074 \<le> e \<Longrightarrow> double_grid (of_int m * 2 powi e)"
  unfolding double_grid_def by blast

lemma fl_int: "\<bar>m\<bar> < 2 ^ 53 \<Longrightarrow> fl (of_int m) = of_int m"
  using fl_exact [OF grid_intro [of m 0]] by simp

lemma fl_one [simp]: "fl 1 = 1"
  using fl_int [of 1] by simp

lemma fl_two_powi: "- 1074 \<le> e \<Longrightarrow> fl (2 powi e) = 2 powi e"
  using fl_exact [OF grid_intro [of 1 e]] by simp

lemma two_powi_minus: "(2 :: rat) powi - numeral n = 1 / 2 ^ numeral n"
  by (simp add: power_int_minus inverse_eq_divide)

lemma dbl_Fin: "\<bar>x\<bar> \<le> 2000 \<Longrightarrow> dbl x = Fin (fl x)"
proof -
  assume x: "\<bar>x\<bar> \<le> 2000"
  have p: "fl 2000 = 2000" using fl_int [of 2000] by simp
  from x have "x \<le> 2000" "- 2000 \<le> x" by linarith+
  from fl_mono [OF this(1)] fl_mono [OF this(2)] have f: "fl x \<le> 2000" "- 2000 \<le> fl x" unfolding fl_minus p .
  have "(2 :: rat) ^ 11 < 2 ^ 1024" by (rule power_strict_increasing) simp_all
  moreover have "(2 :: rat) ^ 11 = 2048" by simp
  ultimately have n: "(2000 :: rat) < 2 ^ 1024" by linarith
  have "\<not> 2 ^ 1024 \<le> fl x" "\<not> fl x \<le> - (2 ^ 1024)" using f n by (meson less_le_trans not_le order_trans) (use f n in linarith)
  then show ?thesis by (simp only: dbl_def Let_def if_False)
qed

text \<open>Below two, a rounding is off by at most half a unit of \<open>2 ^ - 52\<close>.\<close>

lemma fl_small_error:
  assumes "\<bar>x\<bar> < 2"
  shows "\<bar>fl x - x\<bar> \<le> 1 / 2 ^ 53"
proof (cases "x = 0")
  case False
  then have "2 powi ilog2 \<bar>x\<bar> \<le> \<bar>x\<bar>" by (intro ilog2_bounds) simp
  with assms have "(2 :: rat) powi ilog2 \<bar>x\<bar> < 2 powi 1" by simp
  then have "ilog2 \<bar>x\<bar> < 1" by (simp only: two_powi_less)
  then have u: "ulp_exp x \<le> - 52" by (simp add: ulp_exp_def)
  define q :: rat where "q = 2 powi ulp_exp x"
  have "q \<le> 2 powi - 52" unfolding q_def two_powi_le by (rule u)
  then have q: "0 < q" "q \<le> 1 / 2 ^ 52" unfolding two_powi_minus by (simp_all add: q_def)
  have "\<bar>fl x - x\<bar> = \<bar>of_int (round_even (x / q)) - x / q\<bar> * q"
    using q(1) by (simp add: fl_eq flip: q_def) (simp add: field_simps abs_mult)
  also have "\<dots> \<le> 1 / 2 * q" using q(1) by (intro mult_right_mono round_even_near) simp
  also have "\<dots> \<le> 1 / 2 * (1 / 2 ^ 52)" using q(2) by (intro mult_left_mono) simp_all
  also have "\<dots> = 1 / 2 ^ 53" by simp
  finally show ?thesis .
qed simp

text \<open>A double between one half and two, minus one, is a double.\<close>

lemma grid_minus_one:
  assumes "double_grid x" and "1 / 2 \<le> x" and "x < 2"
  shows "double_grid (x - 1)"
proof -
  from assms(1) obtain m e where x: "x = of_int m * 2 powi e" "\<bar>m\<bar> < 2 ^ 53" "- 1074 \<le> e"
    by (auto simp: double_grid_def)
  have ux: "ulp_exp x \<ge> - 53"
  proof -
    have "(2 :: rat) powi - 1 \<le> x" using assms(2) by (simp add: power_int_def)
    then have "ilog2 (2 powi - 1) \<le> ilog2 x" by (intro ilog2_mono) simp_all
    moreover have "ilog2 (2 powi - 1) = - 1" by (rule ilog2_unique) (simp_all add: power_int_def)
    ultimately show ?thesis using assms(2) by (simp add: ulp_exp_def)
  qed
  have g: "ulp_exp x \<le> e" by (rule ulp_exp_grid [OF x]) (use assms in auto)
  then obtain j where j: "x = of_int j * 2 powi - 53"
  proof -
    from ux g have "- 53 \<le> e" by simp
    from grid_int [OF this, of m] obtain j where "of_int m * 2 powi e / 2 powi - 53 = (of_int j :: rat)" by blast
    with x(1) that [of j] show thesis by (simp add: field_simps two_powi_minus)
  qed
  have "x - 1 = of_int (j - 2 ^ 53) * 2 powi - 53" by (simp add: j algebra_simps two_powi_minus)
  moreover have "\<bar>j - 2 ^ 53\<bar> \<le> 2 ^ 53 \<and> (x - 1 = 1 \<or> \<bar>j - 2 ^ 53\<bar> < 2 ^ 53)"
  proof -
    have "of_int (j - 2 ^ 53) = (x - 1) * 2 ^ 53" by (simp add: j algebra_simps two_powi_minus)
    with assms(2,3) have "- (2 ^ 53) < (of_int (j - 2 ^ 53) :: rat)" "(of_int (j - 2 ^ 53) :: rat) < 2 ^ 53" by auto
    then have "of_int (- (2 ^ 53)) < (of_int (j - 2 ^ 53) :: rat)" "(of_int (j - 2 ^ 53) :: rat) < of_int (2 ^ 53)" by simp_all
    then show ?thesis unfolding of_int_less_iff by auto
  qed
  ultimately show ?thesis using assms(3) unfolding double_grid_def
    by (intro exI [of _ "j - 2 ^ 53"] exI [of _ "- 53"]) auto
qed

section \<open>The predicted gravity\<close>

definition gravity_ok :: "rat \<Rightarrow> bool" where
  "gravity_ok g \<longleftrightarrow> fl 0.990 \<le> g \<and> g \<le> fl 1.200"

lemma validate_Fin: "validateGravity (Fin g) name = None \<longleftrightarrow> gravity_ok g"
  by (auto simp: validateGravity_def is_finite_def gravity_ok_def dbl_Fin)

lemma gravity_bounds: "gravity_ok g \<Longrightarrow> 98 / 100 \<le> g \<and> g \<le> 121 / 100"
proof -
  assume "gravity_ok g"
  moreover have "\<bar>fl 0.990 - 0.990\<bar> \<le> 1 / 2 ^ 53" "\<bar>fl 1.200 - 1.200\<bar> \<le> 1 / 2 ^ 53"
    by (intro fl_small_error; simp)+
  then have "98 / 100 \<le> fl 0.990" "fl 1.200 \<le> 121 / 100" by (auto simp: abs_if field_simps split: if_splits)
  ultimately show ?thesis unfolding gravity_ok_def by linarith
qed

text \<open>The expression of the source on finite arguments.\<close>

definition fg_of :: "rat \<Rightarrow> rat \<Rightarrow> rat" where
  "fg_of g a = fl (g - fl (fl (g - 1) * fl (a / 100)))"

lemma share_bounds: "0 \<le> a \<Longrightarrow> a \<le> 100 \<Longrightarrow> 0 \<le> fl (a / 100) \<and> fl (a / 100) \<le> 1"
  using fl_mono [of "a / 100" 1] by (simp add: fl_nonneg)

lemma product_bounds:
  assumes "double_grid d" and "0 \<le> t" and "t \<le> 1"
  shows "min 0 d \<le> fl (d * t) \<and> fl (d * t) \<le> max 0 d"
proof (cases "0 \<le> d")
  case True
  with assms(2,3) have "0 \<le> d * t" "d * t \<le> d" by (simp_all add: mult_left_le)
  with fl_mono [of "d * t" d] fl_exact [OF assms(1)] True show ?thesis by (simp add: fl_nonneg)
next
  case False
  with assms(2,3) have "d * t \<le> 0" "d \<le> d * t" by (simp_all add: mult_nonpos_nonneg mult_le_cancel_left1)
  with fl_mono [of d "d * t"] fl_mono [of "d * t" 0] fl_exact [OF assms(1)] False show ?thesis by simp
qed

lemma fg_bounds:
  assumes "double_grid g" and "gravity_ok g" and "0 \<le> a" and "a \<le> 100"
  shows "min 1 g \<le> fg_of g a \<and> fg_of g a \<le> max 1 g"
proof -
  from gravity_bounds [OF assms(2)] have d: "double_grid (g - 1)" by (intro grid_minus_one assms) simp_all
  have "min 0 (g - 1) \<le> fl (fl (g - 1) * fl (a / 100))" "fl (fl (g - 1) * fl (a / 100)) \<le> max 0 (g - 1)"
    using product_bounds [OF d] share_bounds [OF assms(3,4)] fl_exact [OF d] by simp_all
  then have "min 1 g \<le> g - fl (fl (g - 1) * fl (a / 100))" "g - fl (fl (g - 1) * fl (a / 100)) \<le> max 1 g"
    by (simp_all add: min_def max_def split: if_splits)
  from fl_mono [OF this(1)] fl_mono [OF this(2)] show ?thesis
    using fl_exact [OF assms(1)] by (simp add: fg_of_def min_def max_def split: if_splits)
qed

lemma fg_antimono:
  assumes "1 \<le> g" and "a \<le> b"
  shows "fg_of g b \<le> fg_of g a"
proof -
  have "fl (a / 100) \<le> fl (b / 100)" using assms(2) by (intro fl_mono divide_right_mono) simp_all
  then have "fl (g - 1) * fl (a / 100) \<le> fl (g - 1) * fl (b / 100)"
    using assms(1) by (intro mult_left_mono fl_nonneg) simp_all
  from fl_mono [OF this] show ?thesis unfolding fg_of_def by (intro fl_mono) simp
qed

text \<open>Below the gravity of water the correction has the other sign.\<close>

lemma fg_mono:
  assumes "g \<le> 1" and "a \<le> b"
  shows "fg_of g a \<le> fg_of g b"
proof -
  have "fl (a / 100) \<le> fl (b / 100)" using assms(2) by (intro fl_mono divide_right_mono) simp_all
  moreover have "fl (g - 1) \<le> 0" using fl_mono [of "g - 1" 0] assms(1) by simp
  ultimately have "fl (g - 1) * fl (b / 100) \<le> fl (g - 1) * fl (a / 100)" by (rule mult_left_mono_neg)
  from fl_mono [OF this] show ?thesis unfolding fg_of_def by (intro fl_mono) simp
qed

lemma abs_three:
  fixes x y z :: rat
  shows "\<bar>x\<bar> \<le> e \<Longrightarrow> \<bar>y\<bar> \<le> e \<Longrightarrow> \<bar>z\<bar> \<le> e \<Longrightarrow> \<bar>x - y - z\<bar> \<le> e + e + e"
  unfolding abs_le_iff by linarith

lemma fg_error:
  assumes "double_grid g" and "gravity_ok g" and "0 \<le> a" and "a \<le> 100"
  shows "\<bar>fg_of g a - (g - (g - 1) * (a / 100))\<bar> \<le> 1 / 2 ^ 51"
proof -
  note b = gravity_bounds [OF assms(2)]
  then have d: "fl (g - 1) = g - 1" by (intro fl_exact grid_minus_one assms) simp_all
  define t p where "t = fl (a / 100)" and "p = fl ((g - 1) * t)"
  have t: "0 \<le> t" "t \<le> 1" "\<bar>t - a / 100\<bar> \<le> 1 / 2 ^ 53"
    using share_bounds [OF assms(3,4)] fl_small_error [of "a / 100"] assms(3,4) by (simp_all add: t_def)
  have "\<bar>g - 1\<bar> * \<bar>t\<bar> \<le> 1 * 1" using b t by (intro mult_mono) (auto simp: abs_le_iff)
  then have "\<bar>(g - 1) * t\<bar> < 2" by (simp add: abs_mult)
  from fl_small_error [OF this] have p: "\<bar>p - (g - 1) * t\<bar> \<le> 1 / 2 ^ 53" by (simp add: p_def)
  have "double_grid (g - 1)" using b by (intro grid_minus_one assms) simp_all
  from product_bounds [OF this t(1,2)] b have "\<bar>g - p\<bar> < 2" by (auto simp: p_def min_def max_def abs_less_iff split: if_splits)
  from fl_small_error [OF this] have f: "\<bar>fg_of g a - (g - p)\<bar> \<le> 1 / 2 ^ 53" by (simp add: fg_of_def d p_def t_def)
  have "\<bar>g - 1\<bar> * \<bar>t - a / 100\<bar> \<le> 1 * (1 / 2 ^ 53)" using b t(3) by (intro mult_mono) (auto simp: abs_le_iff)
  then have "\<bar>(g - 1) * (t - a / 100)\<bar> \<le> 1 / 2 ^ 53" by (simp only: abs_mult mult_1)
  then have m: "\<bar>(g - 1) * t - (g - 1) * (a / 100)\<bar> \<le> 1 / 2 ^ 53"
    by (simp only: right_diff_distrib)
  have "fg_of g a - (g - (g - 1) * (a / 100)) =
      (fg_of g a - (g - p)) - (p - (g - 1) * t) - ((g - 1) * t - (g - 1) * (a / 100))" by simp
  also have "\<bar>\<dots>\<bar> \<le> 1 / 2 ^ 53 + 1 / 2 ^ 53 + 1 / 2 ^ 53" using f p m by (rule abs_three)
  also have "\<dots> \<le> 1 / 2 ^ 51" by simp
  finally show ?thesis .
qed

lemma PredictedFG_Fin:
  assumes "double_grid g" and "PredictedFG (Fin g) (Fin a) = Inr (fg, abv)"
  shows "gravity_ok g \<and> 0 \<le> a \<and> a \<le> 100 \<and> fg = Fin (fg_of g a) \<and> abv = (Fin g - fg) * dbl 131.25"
proof -
  have h: "fl 100 = 100" using fl_int [of 100] by simp
  from assms(2) have v: "gravity_ok g" "0 \<le> a" "a \<le> 100"
    and r: "fg = Fin g - (Fin g - dbl 1) * (Fin a / dbl 100)" "abv = (Fin g - fg) * dbl 131.25"
    unfolding PredictedFG_def
    by (auto simp: validate_Fin is_finite_def dbl_Fin Let_def h split: option.splits if_splits)
  note b = gravity_bounds [OF v(1)]
  have d: "double_grid (g - 1)" using b by (intro grid_minus_one assms) simp_all
  have t: "0 \<le> fl (a / 100)" "fl (a / 100) \<le> 1" using share_bounds [OF v(2,3)] by simp_all
  from product_bounds [OF d t] fl_exact [OF d] b
  have p: "\<bar>fl (fl (g - 1) * fl (a / 100))\<bar> \<le> 1" by (auto simp: min_def max_def abs_le_iff split: if_splits)
  have m: "\<bar>fl (g - 1) * fl (a / 100)\<bar> \<le> 2000"
  proof -
    have "\<bar>fl (g - 1)\<bar> * \<bar>fl (a / 100)\<bar> \<le> 1 * 1"
      using b t fl_exact [OF d] by (intro mult_mono) (auto simp: abs_le_iff)
    then show ?thesis by (simp add: abs_mult)
  qed
  have "Fin g - dbl 1 = Fin (fl (g - 1))" "Fin a / dbl 100 = Fin (fl (a / 100))"
    using b v by (simp_all add: minus_float64_def dbl_Fin h abs_le_iff)
  moreover have "\<bar>g - fl (fl (g - 1) * fl (a / 100))\<bar> \<le> 2000" using b p unfolding abs_le_iff by linarith
  then have "Fin g - Fin (fl (fl (g - 1) * fl (a / 100))) = Fin (fg_of g a)"
    by (simp add: minus_float64_def dbl_Fin fg_of_def)
  ultimately have "fg = Fin (fg_of g a)" unfolding r(1) using m by (simp add: dbl_Fin)
  with v r(2) show ?thesis by simp
qed

lemma PredictedFG_answers:
  "gravity_ok g \<Longrightarrow> 0 \<le> a \<Longrightarrow> a \<le> 100 \<Longrightarrow> \<exists>fg abv. PredictedFG (Fin g) (Fin a) = Inr (fg, abv)"
  using fl_int [of 100] by (simp add: PredictedFG_def validate_Fin [THEN iffD2] is_finite_def dbl_Fin Let_def)

lemma must_ok: "gravity_ok (9 / 8)"
proof -
  have "\<bar>fl 0.990 - 0.990\<bar> \<le> 1 / 2 ^ 53" "\<bar>fl 1.200 - 1.200\<bar> \<le> 1 / 2 ^ 53" by (intro fl_small_error; simp)+
  then have "fl 0.990 \<le> 9 / 8" "9 / 8 \<le> fl 1.200" by (auto simp: abs_if field_simps split: if_splits)
  then show ?thesis by (simp only: gravity_ok_def simp_thms)
qed



section \<open>Overflow\<close>

text \<open>
  The volume has no upper bound, so a weight can be infinite: the calculation answers it without an
  error, and the handler sends status 200 with an empty body.
\<close>

lemma dbl_large: "2 ^ 1024 \<le> x \<Longrightarrow> dbl x = PosInf"
proof -
  assume x: "2 ^ 1024 \<le> x"
  have "fl (2 powi 1024) = 2 powi 1024" by (rule fl_two_powi) simp
  with fl_mono [OF x] have "2 ^ 1024 \<le> fl x" by (simp add: power_int_def)
  then show ?thesis by (simp only: dbl_def Let_def if_True)
qed

lemma honey_weight_overflows:
  "HoneyWeight (Fin (9 / 8)) (Fin (2 ^ 1023)) HoneyPPGDefault = Inr (PosInf, PosInf)"
proof -
  have g: "fl (1 / 8) = 1 / 8" "fl 125 = 125" "fl 1000 = 1000" "fl 35 = 35"
    using fl_exact [OF grid_intro [of 1 "- 3"]] fl_int [of 125] fl_int [of 1000] fl_int [of 35]
    by (simp_all add: two_powi_minus)
  define c where "c = fl 0.26417205235814845"
  have c: "1 / 4 \<le> c" "c \<le> 1 / 2" "gallonsPerLiter = Fin c"
    using fl_mono [of "1 / 4" "0.26417205235814845"] fl_mono [of "0.26417205235814845" "1 / 2"]
      fl_exact [OF grid_intro [of 1 "- 2"]] fl_exact [OF grid_intro [of 1 "- 1"]]
    by (simp_all add: c_def two_powi_minus gallonsPerLiter_def dbl_Fin)
  define M where "M = (2 :: rat) ^ 1021"
  have e: "(2 :: rat) ^ 1023 = 4 * M" "(2 :: rat) ^ 1024 = 8 * M"
    using power_add [of "2 :: rat" 2 1021] power_add [of "2 :: rat" 3 1021] by (simp_all add: M_def)
  have M: "0 < M" "fl M = M" "fl (2 * M) = 2 * M"
    using fl_two_powi [of 1021] fl_two_powi [of 1022] power_add [of "2 :: rat" 1 1021]
    by (simp_all add: M_def power_int_def)
  define y where "y = fl (4 * M * c)"
  have y: "M \<le> y" "y \<le> 2 * M"
  proof -
    have "4 * M * (1 / 4) \<le> 4 * M * c" "4 * M * c \<le> 4 * M * (1 / 2)"
      using M(1) c(1,2) by (intro mult_left_mono; simp)+
    then have "M \<le> 4 * M * c" "4 * M * c \<le> 2 * M" by simp_all
    from fl_mono [OF this(1)] fl_mono [OF this(2)] show "M \<le> y" "y \<le> 2 * M" by (simp_all add: y_def M)
  qed
  have "\<not> 8 * M \<le> y" "\<not> y \<le> - (8 * M)" using y M(1) by linarith+
  then have volume: "Fin (2 ^ 1023) * gallonsPerLiter = Fin y"
    unfolding c(3) times_float64.simps dbl_def Let_def e y_def [symmetric] by simp
  have "(9 / 8 - 1 :: rat) = 1 / 8" "(1 / 8 * 1000 :: rat) = 125" by simp_all
  then have points: "(Fin (9 / 8) - dbl 1) * dbl 1000 = Fin 125"
    by (simp add: minus_float64_def dbl_Fin g)
  have "8 * M \<le> 125 * y" using y M(1) by linarith
  then have "dbl (125 * y) = PosInf" unfolding e(2) [symmetric] by (rule dbl_large)
  then have weight: "(Fin (9 / 8) - dbl 1) * dbl 1000 * (Fin (2 ^ 1023) * gallonsPerLiter) = PosInf"
    unfolding points volume times_float64.simps .
  have "fl 0.45359237 > 0" using fl_mono [of "1 / 4" "0.45359237"] fl_exact [OF grid_intro [of 1 "- 2"]]
    by (simp add: two_powi_minus)
  then have kg: "PosInf / HoneyPPGDefault = PosInf" "PosInf * kgPerPound = PosInf" "\<not> HoneyPPGDefault \<le> dbl 0"
    by (simp_all add: HoneyPPGDefault_def kgPerPound_def dbl_Fin g signed_inf_def less_eq_float64_def)
  have "\<not> Fin (9 / 8) \<le> dbl 1" "\<not> Fin (2 ^ 1023) \<le> dbl 0"
    using M(1) by (simp_all add: dbl_Fin less_eq_float64_def e)
  then show ?thesis
    unfolding HoneyWeight_def validate_Fin [THEN iffD2, OF must_ok] Let_def
    by (simp only: option.case if_False weight kg)
qed

text \<open>The handler answers it with an empty body.\<close>

lemma honey_weight_empty_body:
  "handleCalcHoneyWeight (Some \<lparr>qw_target = Fin (9 / 8), qw_volume = Fin (2 ^ 1023), qw_ppg = dbl 0\<rparr>) = Okay 200 None"
proof -
  have "dbl 0 \<le> dbl 0" by (simp add: dbl_Fin less_eq_float64_def)
  then show ?thesis unfolding handleCalcHoneyWeight_def Let_def
    by (simp only: option.case weight_request.simps if_True honey_weight_overflows sum.case prod.case)
      (simp add: writeFloats_def is_finite_def)
qed

end
