(* ===== verification/Api.thy ===== *)
theory Api
  imports Backup_Props Inventory Calc
begin

text \<open>
  The routes of \<^verbatim>\<open>internal/server/server.go\<close> that a signed-in user reaches: one datatype
  per \<^verbatim>\<open>r.Route\<close> group, a constructor per method and path with the path parameters, the
  query and the body the handler decodes, and the handler it is wired to. The administration is in
  \<open>Backups\<close>, the routes without a session and the jobs are among the calls of
  \<open>Account_Props\<close>.
\<close>

section \<open>Routes\<close>

datatype users_route =
    Patch_Me "update_profile_request option"
  | Delete_Me "string option"
  | Post_Password "(string \<times> string) option"
  | Post_Email "(string \<times> string) option"
  | Get_Profile string

datatype recipes_route =
    Get_Recipes string cursor_param
  | Post_Recipes "create_recipe_request option"
  | Get_Mine string cursor_param
  | Get_Recipe "uuid option"
  | Patch_Recipe "uuid option" "update_recipe_request option"
  | Delete_Recipe "uuid option"
  | Post_Fork "uuid option" fork_recipe_request
  | Get_Revisions "uuid option"
  | Get_Revision "uuid option" string
  | Get_Comments "uuid option" string cursor_param
  | Post_Comments "uuid option" "string option"
  | Delete_Comment "uuid option"
  | Post_Like "uuid option"
  | Delete_Like "uuid option"
  | Get_Inventory_Match "uuid option"
  | Get_Templates "uuid option"
  | Post_Templates "uuid option" "template_request option"
  | Patch_Template "uuid option" "uuid option" "template_patch option"
  | Delete_Template "uuid option" "uuid option"

datatype inventory_route =
    Get_Inventory
  | Post_Inventory "create_inventory_request option"
  | Patch_Inventory "uuid option" "update_inventory_request option"
  | Delete_Inventory "uuid option"

datatype batches_route =
    Post_Batches "create_batch_request option"
  | Get_Batches string cursor_param
  | Get_Batch "uuid option"
  | Patch_Batch "uuid option" "update_batch_request option"
  | Delete_Batch "uuid option"
  | Post_Readings "uuid option" "create_reading_request option"
  | Get_Readings "uuid option" string cursor_param
  | Delete_Readings "uuid option" "uuid option list option"
  | Patch_Reading "uuid option" "uuid option" "update_reading_request option"
  | Delete_Reading "uuid option" "uuid option"
  | Post_Events "uuid option" "create_event_request option"
  | Get_Events "uuid option" string cursor_param
  | Patch_Event "uuid option" "uuid option" "update_event_request option"
  | Delete_Event "uuid option" "uuid option"
  | Post_Tasting_Notes "uuid option" "tasting_request option"
  | Get_Tasting_Notes "uuid option"
  | Post_Reminders "uuid option" "create_reminder_request option"
  | Get_Reminders "uuid option"
  | Patch_Reminder "uuid option" "update_reminder_request option"
  | Delete_Reminder "uuid option"

datatype notifications_route =
    Get_Notifications string cursor_param
  | Post_Read_All
  | Post_Read "uuid option"
  | Get_Notification_Prefs
  | Patch_Notification_Prefs "update_prefs_request option"
  | Post_Test "string option"
  | Post_Test_Email

datatype exports_route =
    Post_Exports "string option"
  | Get_Exports
  | Get_Export "uuid option"
  | Get_Download "uuid option"

datatype calculators_route =
    Post_ABV "abv_request option"
  | Post_Predicted_FG "(float64 \<times> float64) option"
  | Post_Honey_Weight "weight_request option"
  | Post_Sugar_Weight "weight_request option"
  | Post_Pitch_Rate "(float64 \<times> float64 \<times> float64) option"

datatype route =
    Post_Logout
  | Get_Me
  | Users users_route
  | Recipes recipes_route
  | Inventory inventory_route
  | Batches batches_route
  | Notifications notifications_route
  | Post_Subscribe "subscribe_request option"
  | Post_Unsubscribe "string option"
  | Exports exports_route
  | Get_Prefs
  | Patch_Prefs "(string option \<times> string option) option"
  | Calculators calculators_route

section \<open>Handlers\<close>

text \<open>The answer without its body.\<close>

abbreviation sent :: "'v resp act \<Rightarrow> unit resp act" where
  "sent m \<equiv> answering (\<lambda>v. ()) m"

primrec users_handler :: "config \<Rightarrow> request \<Rightarrow> user \<Rightarrow> users_route \<Rightarrow> unit resp act" where
  "users_handler cfg r u (Patch_Me b) = sent (handleUpdateProfile u b)"
| "users_handler cfg r u (Delete_Me b) = sent (handleDeleteAccount u b)"
| "users_handler cfg r u (Post_Password b) = sent (handleChangePassword u r b)"
| "users_handler cfg r u (Post_Email b) = sent (handleChangeEmail cfg u r b)"
| "users_handler cfg r u (Get_Profile n) = sent (handleGetProfile n)"

primrec recipes_handler :: "user \<Rightarrow> recipes_route \<Rightarrow> unit resp act" where
  "recipes_handler u (Get_Recipes l c) = sent (handleListRecipes l c)"
| "recipes_handler u (Post_Recipes b) = sent (handleCreateRecipe u b)"
| "recipes_handler u (Get_Mine l c) = sent (handleListMyRecipes u l c)"
| "recipes_handler u (Get_Recipe i) = sent (handleGetRecipe (Some u) i)"
| "recipes_handler u (Patch_Recipe i b) = sent (handleUpdateRecipe u i b)"
| "recipes_handler u (Delete_Recipe i) = sent (handleDeleteRecipe u i)"
| "recipes_handler u (Post_Fork i b) = sent (handleForkRecipe u i b)"
| "recipes_handler u (Get_Revisions i) = sent (handleListRevisions (Some u) i)"
| "recipes_handler u (Get_Revision i n) = sent (handleGetRevision (Some u) i n)"
| "recipes_handler u (Get_Comments i l c) = sent (handleListComments (Some u) i l c)"
| "recipes_handler u (Post_Comments i b) = sent (handleCreateComment u i b)"
| "recipes_handler u (Delete_Comment i) = sent (handleDeleteComment u i)"
| "recipes_handler u (Post_Like i) = sent (handleLikeRecipe u i)"
| "recipes_handler u (Delete_Like i) = sent (handleUnlikeRecipe u i)"
| "recipes_handler u (Get_Inventory_Match i) = sent (handleRecipeInventoryMatch u i)"
| "recipes_handler u (Get_Templates i) = sent (handleListReminderTemplates (Some u) i)"
| "recipes_handler u (Post_Templates i b) = sent (handleCreateReminderTemplate u i b)"
| "recipes_handler u (Patch_Template i t b) = sent (handleUpdateReminderTemplate u i t b)"
| "recipes_handler u (Delete_Template i t) = sent (handleDeleteReminderTemplate u i t)"

primrec inventory_handler :: "user \<Rightarrow> inventory_route \<Rightarrow> unit resp act" where
  "inventory_handler u Get_Inventory = sent (handleListInventory u)"
| "inventory_handler u (Post_Inventory b) = sent (handleCreateInventory u b)"
| "inventory_handler u (Patch_Inventory i b) = sent (handleUpdateInventory u i b)"
| "inventory_handler u (Delete_Inventory i) = sent (handleDeleteInventory u i)"

primrec batches_handler :: "user \<Rightarrow> batches_route \<Rightarrow> unit resp act" where
  "batches_handler u (Post_Batches b) = sent (handleCreateBatch u b)"
| "batches_handler u (Get_Batches l c) = sent (handleListBatches u l c)"
| "batches_handler u (Get_Batch i) = sent (handleGetBatch u i)"
| "batches_handler u (Patch_Batch i b) = sent (handleUpdateBatch u i b)"
| "batches_handler u (Delete_Batch i) = sent (handleDeleteBatch u i)"
| "batches_handler u (Post_Readings i b) = sent (handleCreateReading u i b)"
| "batches_handler u (Get_Readings i l c) = sent (handleListReadings u i l c)"
| "batches_handler u (Delete_Readings i b) = sent (handleBulkDeleteReadings u i b)"
| "batches_handler u (Patch_Reading i ri b) = sent (handleUpdateReading u i ri b)"
| "batches_handler u (Delete_Reading i ri) = sent (handleDeleteReading u i ri)"
| "batches_handler u (Post_Events i b) = sent (handleCreateBatchEvent u i b)"
| "batches_handler u (Get_Events i l c) = sent (handleListBatchEvents u i l c)"
| "batches_handler u (Patch_Event i ei b) = sent (handleUpdateBatchEvent u i ei b)"
| "batches_handler u (Delete_Event i ei) = sent (handleDeleteBatchEvent u i ei)"
| "batches_handler u (Post_Tasting_Notes i b) = sent (handleCreateTastingNote u i b)"
| "batches_handler u (Get_Tasting_Notes i) = sent (handleListTastingNotes u i)"
| "batches_handler u (Post_Reminders i b) = sent (handleCreateReminder u i b)"
| "batches_handler u (Get_Reminders i) = sent (handleListReminders u i)"
| "batches_handler u (Patch_Reminder mi b) = sent (handleUpdateReminder u mi b)"
| "batches_handler u (Delete_Reminder mi) = sent (handleDeleteReminder u mi)"

primrec notifications_handler :: "config \<Rightarrow> user \<Rightarrow> notifications_route \<Rightarrow> unit resp act" where
  "notifications_handler cfg u (Get_Notifications l c) = sent (handleListNotifications u l c)"
| "notifications_handler cfg u Post_Read_All = sent (handleMarkAllNotificationsRead u)"
| "notifications_handler cfg u (Post_Read i) = sent (handleMarkNotificationRead u i)"
| "notifications_handler cfg u Get_Notification_Prefs = sent (handleGetNotificationPrefs u)"
| "notifications_handler cfg u (Patch_Notification_Prefs b) = sent (handleUpdateNotificationPrefs cfg u b)"
| "notifications_handler cfg u (Post_Test b) = sent (handleTestNotification cfg b)"
| "notifications_handler cfg u Post_Test_Email = sent (handleTestEmail cfg u)"

primrec exports_handler :: "user \<Rightarrow> exports_route \<Rightarrow> unit resp act" where
  "exports_handler u (Post_Exports b) = sent (handleTriggerExport u b)"
| "exports_handler u Get_Exports = sent (handleListExports u)"
| "exports_handler u (Get_Export i) = sent (handleGetExport u i)"
| "exports_handler u (Get_Download i) = sent (handleDownloadExport u i)"

primrec calculators_handler :: "calculators_route \<Rightarrow> unit resp act" where
  "calculators_handler (Post_ABV b) = sent (ret (handleCalcABV b))"
| "calculators_handler (Post_Predicted_FG b) = sent (ret (handleCalcPredictedFG b))"
| "calculators_handler (Post_Honey_Weight b) = sent (ret (handleCalcHoneyWeight b))"
| "calculators_handler (Post_Sugar_Weight b) = sent (ret (handleCalcSugarWeight b))"
| "calculators_handler (Post_Pitch_Rate b) = sent (ret (handleCalcPitchRate b))"

primrec route_handler :: "config \<Rightarrow> request \<Rightarrow> user \<Rightarrow> route \<Rightarrow> unit resp act" where
  "route_handler cfg r u Post_Logout = sent (handleLogout r)"
| "route_handler cfg r u Get_Me = sent (handleMe u)"
| "route_handler cfg r u (Users c) = users_handler cfg r u c"
| "route_handler cfg r u (Recipes c) = recipes_handler u c"
| "route_handler cfg r u (Inventory c) = inventory_handler u c"
| "route_handler cfg r u (Batches c) = batches_handler u c"
| "route_handler cfg r u (Notifications c) = notifications_handler cfg u c"
| "route_handler cfg r u (Post_Subscribe b) = sent (handleSubscribePush cfg u b)"
| "route_handler cfg r u (Post_Unsubscribe b) = sent (handleUnsubscribePush u b)"
| "route_handler cfg r u (Exports c) = exports_handler u c"
| "route_handler cfg r u Get_Prefs = sent (handleGetUserPrefs u)"
| "route_handler cfg r u (Patch_Prefs b) = sent (handleUpdateUserPrefs u b)"
| "route_handler cfg r u (Calculators c) = calculators_handler c"

text \<open>A request behind \<^verbatim>\<open>requireAuth\<close>.\<close>

definition serve_route :: "config \<Rightarrow> request \<Rightarrow> route \<Rightarrow> unit resp act" where
  "serve_route cfg r c = requireAuth r (\<lambda>u. route_handler cfg r u c)"

end
