(* ===== verification/Isolation.thy ===== *)
theory Isolation
  imports Api
begin

text \<open>
  What belongs to one user is out of reach of every other: no sequence of requests by others
  changes a user's recipes, batches, journals, reminders, notifications, settings, stock or exports.
\<close>

section \<open>What a user has\<close>

text \<open>
  Two links of a row are not its owner's alone: a fork is counted on its source, and the deletion of
  a recipe clears the references of its forks and batches. Everything else of the rows counts.
\<close>

definition apart_recipe :: "recipe \<Rightarrow> recipe" where
  "apart_recipe r = r\<lparr>rc_parent := None, rc_fork_count := 0, rc_updated_at := 0\<rparr>"

definition apart_batch :: "batch \<Rightarrow> batch" where
  "apart_batch b = b\<lparr>b_recipe := None\<rparr>"

record possessions =
  po_recipes :: "recipe list"
  po_ingredients :: "ingredient list"
  po_revisions :: "revision list"
  po_templates :: "template list"
  po_batches :: "batch list"
  po_readings :: "reading list"
  po_events :: "batch_event list"
  po_tasting_notes :: "tasting_note list"
  po_reminders :: "reminder list"
  po_notifications :: "notification list"
  po_notification_prefs :: "notification_pref list"
  po_user_prefs :: "user_pref list"
  po_push_devices :: "push_device list"
  po_inventory :: "inventory_item list"
  po_exports :: "user_export list"

definition my_recipes :: "possessions \<Rightarrow> uuid set" where
  "my_recipes S = rc_id ` set (po_recipes S)"

definition my_batches :: "possessions \<Rightarrow> uuid set" where
  "my_batches S = b_id ` set (po_batches S)"

definition recipe_ids :: "uuid \<Rightarrow> db \<Rightarrow> uuid set" where
  "recipe_ids v d = rc_id ` set (filter (\<lambda>r. rc_author r = v) (recipes d))"

definition batch_ids :: "uuid \<Rightarrow> db \<Rightarrow> uuid set" where
  "batch_ids v d = b_id ` set (filter (\<lambda>b. b_brewer b = v) (batches d))"

definition possessions_of :: "uuid \<Rightarrow> db \<Rightarrow> possessions" where
  "possessions_of v d = \<lparr>
     po_recipes = map apart_recipe (filter (\<lambda>r. rc_author r = v) (recipes d)),
     po_ingredients = filter (\<lambda>g. ri_recipe g \<in> recipe_ids v d) (ingredients d),
     po_revisions = filter (\<lambda>r. rv_recipe r \<in> recipe_ids v d) (revisions d),
     po_templates = filter (\<lambda>t. tp_recipe t \<in> recipe_ids v d) (templates d),
     po_batches = map apart_batch (filter (\<lambda>b. b_brewer b = v) (batches d)),
     po_readings = filter (\<lambda>r. rd_batch r \<in> batch_ids v d) (readings d),
     po_events = filter (\<lambda>e. ev_batch e \<in> batch_ids v d) (events d),
     po_tasting_notes = filter (\<lambda>n. tn_batch n \<in> batch_ids v d) (tasting_notes d),
     po_reminders = filter (\<lambda>r. rm_user r = v) (reminders d),
     po_notifications = filter (\<lambda>n. nt_user n = v) (notifications d),
     po_notification_prefs = filter (\<lambda>p. np_user p = v) (notification_prefs d),
     po_user_prefs = filter (\<lambda>p. up_user p = v) (user_prefs d),
     po_push_devices = filter (\<lambda>x. pd_user x = v) (push_devices d),
     po_inventory = filter (\<lambda>x. iv_user x = v) (inventory d),
     po_exports = filter (\<lambda>x. ex_user x = v) (exports d)\<rparr>"

text \<open>
  The keys of the tables, and references that stay with the user: a reminder is of an own batch or
  of none, a notification of an own reminder or of none.
\<close>

definition keyed :: "db \<Rightarrow> bool" where
  "keyed d \<longleftrightarrow> distinct (map rc_id (recipes d)) \<and> distinct (map b_id (batches d)) \<and>
     distinct (map rm_id (reminders d))"

definition self_contained :: "possessions \<Rightarrow> bool" where
  "self_contained S \<longleftrightarrow>
     (\<forall>r\<in>set (po_reminders S). case rm_batch r of None \<Rightarrow> True | Some b \<Rightarrow> b \<in> my_batches S) \<and>
     (\<forall>n\<in>set (po_notifications S). case nt_reminder n of None \<Rightarrow> True | Some m \<Rightarrow> m \<in> rm_id ` set (po_reminders S))"

section \<open>The invariant\<close>

text \<open>\<open>S\<close> is what \<open>v\<close> has, with the ids of recipes and batches taken from \<open>S\<close>.\<close>

definition owns :: "uuid \<Rightarrow> possessions \<Rightarrow> db \<Rightarrow> bool" where
  "owns v S d \<longleftrightarrow> keyed d \<and> self_contained S \<and>
     map apart_recipe (filter (\<lambda>r. rc_author r = v) (recipes d)) = po_recipes S \<and>
     filter (\<lambda>g. ri_recipe g \<in> my_recipes S) (ingredients d) = po_ingredients S \<and>
     filter (\<lambda>r. rv_recipe r \<in> my_recipes S) (revisions d) = po_revisions S \<and>
     filter (\<lambda>t. tp_recipe t \<in> my_recipes S) (templates d) = po_templates S \<and>
     map apart_batch (filter (\<lambda>b. b_brewer b = v) (batches d)) = po_batches S \<and>
     filter (\<lambda>r. rd_batch r \<in> my_batches S) (readings d) = po_readings S \<and>
     filter (\<lambda>e. ev_batch e \<in> my_batches S) (events d) = po_events S \<and>
     filter (\<lambda>n. tn_batch n \<in> my_batches S) (tasting_notes d) = po_tasting_notes S \<and>
     filter (\<lambda>r. rm_user r = v) (reminders d) = po_reminders S \<and>
     filter (\<lambda>n. nt_user n = v) (notifications d) = po_notifications S \<and>
     filter (\<lambda>p. np_user p = v) (notification_prefs d) = po_notification_prefs S \<and>
     filter (\<lambda>p. up_user p = v) (user_prefs d) = po_user_prefs S \<and>
     filter (\<lambda>x. pd_user x = v) (push_devices d) = po_push_devices S \<and>
     filter (\<lambda>x. iv_user x = v) (inventory d) = po_inventory S \<and>
     filter (\<lambda>x. ex_user x = v) (exports d) = po_exports S"

lemma apart_simps [simp]:
  "rc_id (apart_recipe r) = rc_id r" "b_id (apart_batch b) = b_id b"
  by (simp_all add: apart_recipe_def apart_batch_def)

lemma my_ids_of [simp]:
  "my_recipes (possessions_of v d) = recipe_ids v d" "my_batches (possessions_of v d) = batch_ids v d"
  by (simp_all add: my_recipes_def recipe_ids_def my_batches_def batch_ids_def possessions_of_def image_image)

lemma owns_start: "keyed d \<Longrightarrow> self_contained (possessions_of v d) \<Longrightarrow> owns v (possessions_of v d) d"
  unfolding owns_def my_ids_of by (simp add: possessions_of_def)

lemma owns_end: "owns v S d \<Longrightarrow> possessions_of v d = S"
proof -
  assume o: "owns v S d"
  have "my_recipes S = rc_id ` set (map apart_recipe (filter (\<lambda>r. rc_author r = v) (recipes d)))"
    and "my_batches S = b_id ` set (map apart_batch (filter (\<lambda>b. b_brewer b = v) (batches d)))"
    using o unfolding owns_def my_recipes_def my_batches_def by simp_all
  then have "my_recipes S = recipe_ids v d" "my_batches S = batch_ids v d"
    unfolding set_map image_image apart_simps recipe_ids_def batch_ids_def by simp_all
  with o show ?thesis unfolding owns_def possessions_of_def by simp
qed

text \<open>A row of another does not carry an id of \<open>v\<close>'s.\<close>

lemma mine_not_theirs:
  assumes "distinct (map k rows)" and "map g (filter Q rows) = mine" and "\<And>r. k (g r) = k r"
    and "r \<in> set rows" and "\<not> Q r"
  shows "k r \<notin> k ` set mine"
proof
  assume "k r \<in> k ` set mine"
  with assms(2,3) obtain r' where "r' \<in> set rows" "Q r'" "k r = k r'" by auto
  with assms(1,4,5) show False by (metis distinct_key_eq)
qed

lemma not_my_recipe: "owns v S d \<Longrightarrow> r \<in> set (recipes d) \<Longrightarrow> rc_author r \<noteq> v \<Longrightarrow> rc_id r \<notin> my_recipes S"
  unfolding owns_def keyed_def my_recipes_def
  by (rule mine_not_theirs [where g = apart_recipe and Q = "\<lambda>r. rc_author r = v"]) auto

lemma not_my_batch: "owns v S d \<Longrightarrow> b \<in> set (batches d) \<Longrightarrow> b_brewer b \<noteq> v \<Longrightarrow> b_id b \<notin> my_batches S"
  unfolding owns_def keyed_def my_batches_def
  by (rule mine_not_theirs [where g = apart_batch and Q = "\<lambda>b. b_brewer b = v"]) auto

lemma not_my_reminder: "owns v S d \<Longrightarrow> r \<in> set (reminders d) \<Longrightarrow> rm_user r \<noteq> v \<Longrightarrow> rm_id r \<notin> rm_id ` set (po_reminders S)"
  unfolding owns_def keyed_def by (rule mine_not_theirs [where g = "\<lambda>r. r" and Q = "\<lambda>r. rm_user r = v"]) auto

lemma mine_exists:
  "owns v S d \<Longrightarrow> i \<in> my_recipes S \<Longrightarrow> \<exists>r\<in>set (recipes d). rc_id r = i"
  "owns v S d \<Longrightarrow> i \<in> my_batches S \<Longrightarrow> \<exists>b\<in>set (batches d). b_id b = i"
proof -
  assume o: "owns v S d"
  have "my_recipes S = rc_id ` set (map apart_recipe (filter (\<lambda>r. rc_author r = v) (recipes d)))"
    "my_batches S = b_id ` set (map apart_batch (filter (\<lambda>b. b_brewer b = v) (batches d)))"
    using o unfolding owns_def my_recipes_def my_batches_def by simp_all
  then show "i \<in> my_recipes S \<Longrightarrow> \<exists>r\<in>set (recipes d). rc_id r = i"
    "i \<in> my_batches S \<Longrightarrow> \<exists>b\<in>set (batches d). b_id b = i" by auto
qed

text \<open>The other tables.\<close>

lemma owns_other [simp]:
  "owns v S (d\<lparr>users := x1\<rparr>) = owns v S d" "owns v S (d\<lparr>sessions := x2\<rparr>) = owns v S d"
  "owns v S (d\<lparr>email_changes := x3\<rparr>) = owns v S d" "owns v S (d\<lparr>deletion_requests := x4\<rparr>) = owns v S d"
  "owns v S (d\<lparr>comments := x5\<rparr>) = owns v S d" "owns v S (d\<lparr>likes := x6\<rparr>) = owns v S d"
  by (simp_all add: owns_def keyed_def)

section \<open>Actions that spare a user\<close>

definition secluded :: "uuid \<Rightarrow> possessions \<Rightarrow> world \<Rightarrow> bool" where
  "secluded v S w \<longleftrightarrow> owns v S (tabs w) \<and> (case txn w of None \<Rightarrow> True | Some d \<Rightarrow> owns v S d)"

definition spares :: "uuid \<Rightarrow> possessions \<Rightarrow> world \<Rightarrow> world \<Rightarrow> bool" where
  "spares v S w w' \<longleftrightarrow> (secluded v S w \<longrightarrow> secluded v S w')"

interpretation sp: kept_relation "spares v S" for v S
  by unfold_locales (auto simp: spares_def secluded_def)

abbreviation safe :: "uuid \<Rightarrow> possessions \<Rightarrow> 'a act \<Rightarrow> bool" where
  "safe v S m \<equiv> keeps (spares v S) m"

lemma safe_write:
  "(\<And>w a w'. f w = Inr (a, w') \<Longrightarrow> owns v S (tabs w) \<Longrightarrow> owns v S (tabs w') \<and> txn w' = txn w) \<Longrightarrow>
     safe v S (sql_write f)"
  by (rule sp.keeps_sql_write) (auto simp: spares_def secluded_def)

lemma safe_update: "(\<And>w. tabs (f w) = tabs w \<and> txn (f w) = txn w) \<Longrightarrow> safe v S (State_Monad.update f)"
  by (simp add: keeps_def run_update spares_def secluded_def)

lemma safe_tx: "safe v S tx_begin" "safe v S tx_commit" "safe v S m \<Longrightarrow> safe v S (defer_rollback m)"
proof -
  show "safe v S tx_begin" "safe v S tx_commit"
    unfolding tx_begin_def tx_commit_def by (rule sp.keeps_sql_write; auto simp: spares_def secluded_def)+
  have "safe v S (State_Monad.update rollback)"
    by (auto simp: keeps_def run_update spares_def secluded_def rollback_def split: option.splits)
  then show "safe v S m \<Longrightarrow> safe v S (defer_rollback m)"
    unfolding defer_rollback_def by (intro sp.keeps_intros)
qed

text \<open>A statement whose answer tells what the rest of the handler may touch.\<close>

lemma safe_handle_knowing:
  assumes "safe v S m"
    and "\<And>w a w'. run_state m w = (Inr a, w') \<Longrightarrow> owns v S (tabs w) \<Longrightarrow> P a"
    and "\<And>a. P a \<Longrightarrow> safe v S (k a)"
  shows "safe v S (handle m on_error k)"
  unfolding keeps_def
proof
  fix w
  obtain r w1 where m: "run_state m w = (r, w1)" by fastforce
  with assms(1) have s: "spares v S w w1" unfolding keeps_def by (metis snd_conv)
  show "spares v S w (snd (run_state (handle m on_error k) w))"
  proof (cases r)
    case (Inl e)
    with m s show ?thesis by (simp add: run_handle)
  next
    case (Inr a)
    show ?thesis
    proof (cases "secluded v S w")
      case True
      with m Inr assms(2) have "P a" by (auto simp: secluded_def)
      from assms(3) [OF this] have "spares v S w1 (snd (run_state (k a) w1))" by (simp add: keeps_def)
      with s m Inr show ?thesis by (auto simp: run_handle intro: sp.kept_trans)
    qed (simp add: spares_def)
  qed
qed

lemma write_answer: "run_state (sql_write f) w = (Inr a, w') \<Longrightarrow> f (tock w) = Inr (a, w')"
  by (auto simp: run_sql_write split: outcome.splits sum.splits)

lemma read_answer: "run_state (sql_read f) w = (Inr a, w') \<Longrightarrow> f (tock w) = Inr a"
  by (auto simp: run_sql_read split: outcome.splits)

section \<open>Tables\<close>

text \<open>A new state of a table is good when its part of what \<open>v\<close> has is the old one.\<close>

lemma owns_recipes:
  "owns v S d \<Longrightarrow> distinct (map rc_id rows) \<Longrightarrow>
     map apart_recipe (filter (\<lambda>r. rc_author r = v) rows) = map apart_recipe (filter (\<lambda>r. rc_author r = v) (recipes d)) \<Longrightarrow>
     owns v S (d\<lparr>recipes := rows\<rparr>)"
  by (simp add: owns_def keyed_def)

lemma owns_batches:
  "owns v S d \<Longrightarrow> distinct (map b_id rows) \<Longrightarrow>
     map apart_batch (filter (\<lambda>b. b_brewer b = v) rows) = map apart_batch (filter (\<lambda>b. b_brewer b = v) (batches d)) \<Longrightarrow>
     owns v S (d\<lparr>batches := rows\<rparr>)"
  by (simp add: owns_def keyed_def)

lemma owns_reminders:
  "owns v S d \<Longrightarrow> distinct (map rm_id rows) \<Longrightarrow>
     filter (\<lambda>r. rm_user r = v) rows = filter (\<lambda>r. rm_user r = v) (reminders d) \<Longrightarrow> owns v S (d\<lparr>reminders := rows\<rparr>)"
  by (simp add: owns_def keyed_def)

lemma owns_parts:
  "owns v S d \<Longrightarrow> filter (\<lambda>g. ri_recipe g \<in> my_recipes S) x1 = filter (\<lambda>g. ri_recipe g \<in> my_recipes S) (ingredients d) \<Longrightarrow>
     owns v S (d\<lparr>ingredients := x1\<rparr>)"
  "owns v S d \<Longrightarrow> filter (\<lambda>r. rv_recipe r \<in> my_recipes S) x2 = filter (\<lambda>r. rv_recipe r \<in> my_recipes S) (revisions d) \<Longrightarrow>
     owns v S (d\<lparr>revisions := x2\<rparr>)"
  "owns v S d \<Longrightarrow> filter (\<lambda>t. tp_recipe t \<in> my_recipes S) x3 = filter (\<lambda>t. tp_recipe t \<in> my_recipes S) (templates d) \<Longrightarrow>
     owns v S (d\<lparr>templates := x3\<rparr>)"
  "owns v S d \<Longrightarrow> filter (\<lambda>r. rd_batch r \<in> my_batches S) x4 = filter (\<lambda>r. rd_batch r \<in> my_batches S) (readings d) \<Longrightarrow>
     owns v S (d\<lparr>readings := x4\<rparr>)"
  "owns v S d \<Longrightarrow> filter (\<lambda>e. ev_batch e \<in> my_batches S) x5 = filter (\<lambda>e. ev_batch e \<in> my_batches S) (events d) \<Longrightarrow>
     owns v S (d\<lparr>events := x5\<rparr>)"
  "owns v S d \<Longrightarrow> filter (\<lambda>n. tn_batch n \<in> my_batches S) x6 = filter (\<lambda>n. tn_batch n \<in> my_batches S) (tasting_notes d) \<Longrightarrow>
     owns v S (d\<lparr>tasting_notes := x6\<rparr>)"
  by (simp_all add: owns_def keyed_def)

lemma owns_settings:
  "owns v S d \<Longrightarrow> filter (\<lambda>n. nt_user n = v) x1 = filter (\<lambda>n. nt_user n = v) (notifications d) \<Longrightarrow>
     owns v S (d\<lparr>notifications := x1\<rparr>)"
  "owns v S d \<Longrightarrow> filter (\<lambda>p. np_user p = v) x2 = filter (\<lambda>p. np_user p = v) (notification_prefs d) \<Longrightarrow>
     owns v S (d\<lparr>notification_prefs := x2\<rparr>)"
  "owns v S d \<Longrightarrow> filter (\<lambda>p. up_user p = v) x3 = filter (\<lambda>p. up_user p = v) (user_prefs d) \<Longrightarrow>
     owns v S (d\<lparr>user_prefs := x3\<rparr>)"
  "owns v S d \<Longrightarrow> filter (\<lambda>x. pd_user x = v) x4 = filter (\<lambda>x. pd_user x = v) (push_devices d) \<Longrightarrow>
     owns v S (d\<lparr>push_devices := x4\<rparr>)"
  "owns v S d \<Longrightarrow> filter (\<lambda>x. iv_user x = v) x5 = filter (\<lambda>x. iv_user x = v) (inventory d) \<Longrightarrow>
     owns v S (d\<lparr>inventory := x5\<rparr>)"
  "owns v S d \<Longrightarrow> filter (\<lambda>x. ex_user x = v) x6 = filter (\<lambda>x. ex_user x = v) (exports d) \<Longrightarrow>
     owns v S (d\<lparr>exports := x6\<rparr>)"
  by (simp_all add: owns_def keyed_def)

lemmas owns_tables = owns_recipes owns_batches owns_reminders owns_parts owns_settings

lemma owns_keys:
  "owns v S d \<Longrightarrow> distinct (map rc_id (recipes d))" "owns v S d \<Longrightarrow> distinct (map b_id (batches d))"
  "owns v S d \<Longrightarrow> distinct (map rm_id (reminders d))"
  by (simp_all add: owns_def keyed_def)

lemma map_filter_upd:
  "(\<And>r. P r \<Longrightarrow> K (f r) = K r \<and> (K r \<longrightarrow> g (f r) = g r)) \<Longrightarrow>
     map g (filter K (upd_where P f rows)) = map g (filter K rows)"
  by (induction rows) (auto simp: upd_where_def)

lemma filter_upd_outside:
  "(\<And>r. r \<in> set rows \<Longrightarrow> P r \<Longrightarrow> \<not> K r \<and> \<not> K (f r)) \<Longrightarrow> filter K (upd_where P f rows) = filter K rows"
  by (induction rows) (auto simp: upd_where_def)

lemma filter_del_outside:
  "(\<And>r. r \<in> set rows \<Longrightarrow> P r \<Longrightarrow> \<not> K r) \<Longrightarrow> filter K (del_where P rows) = filter K rows"
  by (induction rows) (auto simp: del_where_def)

lemma others_id:
  "owns v S d \<Longrightarrow> r \<in> set (recipes d) \<Longrightarrow> rc_id r \<notin> my_recipes S \<Longrightarrow> rc_author r \<noteq> v"
  "owns v S d \<Longrightarrow> b \<in> set (batches d) \<Longrightarrow> b_id b \<notin> my_batches S \<Longrightarrow> b_brewer b \<noteq> v"
proof -
  assume o: "owns v S d"
  have "my_recipes S = rc_id ` set (map apart_recipe (filter (\<lambda>r. rc_author r = v) (recipes d)))"
    "my_batches S = b_id ` set (map apart_batch (filter (\<lambda>b. b_brewer b = v) (batches d)))"
    using o unfolding owns_def my_recipes_def my_batches_def by simp_all
  then show "r \<in> set (recipes d) \<Longrightarrow> rc_id r \<notin> my_recipes S \<Longrightarrow> rc_author r \<noteq> v"
    "b \<in> set (batches d) \<Longrightarrow> b_id b \<notin> my_batches S \<Longrightarrow> b_brewer b \<noteq> v"
    by (auto simp: image_image)
qed

section \<open>Statements on recipes\<close>

lemma set_revision_id [simp]: "rc_id (set_revision rv now r) = rc_id r"
  by (simp add: set_revision_def)

lemma set_revision_others:
  "owns v S d \<Longrightarrow> i \<notin> my_recipes S \<Longrightarrow>
     filter (\<lambda>r. rc_author r = v) (upd_where (\<lambda>r. rc_id r = i) (set_revision rv now) (recipes d)) =
     filter (\<lambda>r. rc_author r = v) (recipes d)"
  by (intro filter_upd_outside) (auto simp: set_revision_def dest: others_id(1))

lemma safe_recipe_rows:
  "cr_author p \<noteq> v \<Longrightarrow> safe v S (CreateRecipeDraft p)"
  "fk_author q \<noteq> v \<Longrightarrow> safe v S (CreateForkedRecipe q)"
  "i \<notin> my_recipes S \<Longrightarrow> safe v S (SetRecipeRevision i rv)"
  "um_author m \<noteq> v \<Longrightarrow> safe v S (UpdateRecipeMeta m)"
  "safe v S (IncrementForkCount j)"
proof -
  show "cr_author p \<noteq> v \<Longrightarrow> safe v S (CreateRecipeDraft p)"
    unfolding CreateRecipeDraft_def
    by (rule safe_write) (auto simp: gen_uuid_def Let_def sql_insert_Inr owns_keys
        split: option.splits sum.splits intro!: owns_recipes; blast)
  show "fk_author q \<noteq> v \<Longrightarrow> safe v S (CreateForkedRecipe q)"
    unfolding CreateForkedRecipe_def
    by (rule safe_write) (auto simp: gen_uuid_def Let_def sql_insert_Inr owns_keys
        split: option.splits sum.splits intro!: owns_recipes; blast)
  show "i \<notin> my_recipes S \<Longrightarrow> safe v S (SetRecipeRevision i rv)"
    unfolding SetRecipeRevision_def
    by (rule safe_write) (auto simp: sql_update_Inr owns_keys map_upd_where set_revision_others
        split: if_splits intro!: owns_recipes)
  show "um_author m \<noteq> v \<Longrightarrow> safe v S (UpdateRecipeMeta m)"
    unfolding UpdateRecipeMeta_def
    by (rule safe_write) (auto simp: sql_update_Inr owns_keys map_upd_where update_meta_def own_recipe_def
        split: sum.splits if_splits intro!: owns_recipes map_filter_upd)
  show "safe v S (IncrementForkCount j)"
    unfolding IncrementForkCount_def
    by (rule safe_write) (auto simp: owns_keys map_upd_where map_filter_upd apart_recipe_def Let_def intro!: owns_recipes)
qed

lemma new_recipe:
  "run_state (CreateRecipeDraft p) w = (Inr a, w') \<Longrightarrow> owns v S (tabs w) \<Longrightarrow> rc_id a \<notin> my_recipes S"
  "run_state (CreateForkedRecipe q) w = (Inr a, w') \<Longrightarrow> owns v S (tabs w) \<Longrightarrow> rc_id a \<notin> my_recipes S"
  unfolding CreateRecipeDraft_def CreateForkedRecipe_def
  by (auto dest!: write_answer mine_exists(1) simp: gen_uuid_def Let_def sql_insert_Inr
      split: option.splits sum.splits if_splits)

lemma updated_recipe:
  assumes "run_state (UpdateRecipeMeta m) w = (Inr a, w')" and "owns v S (tabs w)" and "um_author m \<noteq> v"
  shows "rc_id a = um_id m \<and> um_id m \<notin> my_recipes S"
proof -
  from assms(1) obtain r where "find_where (own_recipe (um_id m) (um_author m)) (recipes (tabs w)) = Some r" "rc_id a = rc_id r"
    unfolding UpdateRecipeMeta_def
    by (auto dest!: write_answer simp: sql_update_Inr update_meta_def split: sum.splits if_splits)
  with find_where_Some [OF this(1)] not_my_recipe [OF assms(2), of r] assms(3) show ?thesis
    by (auto simp: own_recipe_def)
qed

lemma safe_recipe_parts:
  "ip_recipe p \<notin> my_recipes S \<Longrightarrow> safe v S (CreateRecipeIngredient p)"
  "i \<notin> my_recipes S \<Longrightarrow> safe v S (DeleteRecipeIngredients i)"
  "rp_recipe q \<notin> my_recipes S \<Longrightarrow> safe v S (CreateRecipeRevision q)"
  "pp_recipe t \<notin> my_recipes S \<Longrightarrow> safe v S (CreateReminderTemplate t)"
  "ut_recipe m \<notin> my_recipes S \<Longrightarrow> safe v S (UpdateReminderTemplate m)"
  "i \<notin> my_recipes S \<Longrightarrow> safe v S (DeleteReminderTemplate j i)"
  unfolding CreateRecipeIngredient_def DeleteRecipeIngredients_def CreateRecipeRevision_def
    insert_revision_def CreateReminderTemplate_def UpdateReminderTemplate_def DeleteReminderTemplate_def
  by (rule safe_write; auto simp: gen_uuid_def Let_def sql_table_simps recipe_template_def
      split: option.splits sum.splits if_splits intro!: owns_parts filter_upd_outside filter_del_outside)+

lemma safe_social:
  "safe v S (CreateRecipeComment i u b)" "safe v S (DeleteRecipeComment i u)"
  "safe v S (LikeRecipe u i)" "safe v S (UnlikeRecipe u i)"
  unfolding CreateRecipeComment_def DeleteRecipeComment_def LikeRecipe_def UnlikeRecipe_def
  by (rule safe_write; auto simp: gen_uuid_def Let_def sql_table_simps split: if_splits)+

lemma safe_DeleteRecipe:
  assumes "u \<noteq> v"
  shows "safe v S (DeleteRecipe i u)"
proof -
  have "owns v S (drop_recipe i d)" if o: "owns v S d" and r: "r \<in> set (recipes d)" "own_recipe i u r" for d r
  proof -
    from r assms not_my_recipe [OF o r(1)] have i: "i \<notin> my_recipes S" by (auto simp: own_recipe_def)
    have "filter (\<lambda>r. rc_author r = v) (del_where (\<lambda>r. rc_id r = i) (recipes d)) = filter (\<lambda>r. rc_author r = v) (recipes d)"
      using i by (intro filter_del_outside) (auto simp: others_id [OF o])
    with o i show ?thesis unfolding drop_recipe_def
      by (auto simp: owns_keys map_filter_upd map_upd_where distinct_del_where apart_recipe_def apart_batch_def
          intro!: owns_tables filter_del_outside)
  qed
  then show ?thesis unfolding DeleteRecipe_def
    by (intro safe_write) (auto simp: exists_where_iff split: if_splits)
qed

section \<open>Statements on batches\<close>

lemma my_rows:
  "owns v S d \<Longrightarrow> r \<in> set (reminders d) \<Longrightarrow> rm_user r = v \<Longrightarrow> r \<in> set (po_reminders S)"
  "owns v S d \<Longrightarrow> n \<in> set (notifications d) \<Longrightarrow> nt_user n = v \<Longrightarrow> n \<in> set (po_notifications S)"
proof -
  assume "owns v S d"
  then have "set (po_reminders S) = set (filter (\<lambda>r. rm_user r = v) (reminders d))"
    "set (po_notifications S) = set (filter (\<lambda>n. nt_user n = v) (notifications d))" by (simp_all add: owns_def)
  then show "r \<in> set (reminders d) \<Longrightarrow> rm_user r = v \<Longrightarrow> r \<in> set (po_reminders S)"
    "n \<in> set (notifications d) \<Longrightarrow> nt_user n = v \<Longrightarrow> n \<in> set (po_notifications S)" by simp_all
qed

text \<open>A reminder of another's batch is another's, and so is a notification of such a reminder.\<close>

lemma others_reminders:
  assumes o: "owns v S d" and "i \<notin> my_batches S" and r: "r \<in> set (reminders d)" "rm_batch r = Some i"
  shows "rm_user r \<noteq> v" and "n \<in> set (notifications d) \<Longrightarrow> nt_reminder n = Some (rm_id r) \<Longrightarrow> nt_user n \<noteq> v"
proof -
  have c: "self_contained S" using o by (simp add: owns_def)
  show r': "rm_user r \<noteq> v"
    using c assms(2) my_rows(1) [OF o r(1)] r(2) unfolding self_contained_def by (metis option.simps(5))
  show "n \<in> set (notifications d) \<Longrightarrow> nt_reminder n = Some (rm_id r) \<Longrightarrow> nt_user n \<noteq> v"
    using c not_my_reminder [OF o r(1) r'] my_rows(2) [OF o] unfolding self_contained_def by (metis option.simps(5))
qed

lemma safe_batch_rows:
  "cb_brewer p \<noteq> v \<Longrightarrow> safe v S (CreateBatch p)" "ub_brewer m \<noteq> v \<Longrightarrow> safe v S (UpdateBatch m)"
proof -
  show "cb_brewer p \<noteq> v \<Longrightarrow> safe v S (CreateBatch p)"
    unfolding CreateBatch_def
    by (rule safe_write) (auto simp: gen_uuid_def Let_def sql_insert_Inr owns_keys
        split: option.splits intro!: owns_batches; blast)
  show "ub_brewer m \<noteq> v \<Longrightarrow> safe v S (UpdateBatch m)"
    unfolding UpdateBatch_def
    by (rule safe_write) (auto simp: sql_update_Inr owns_keys map_upd_where patch_batch_def own_batch_def
        split: sum.splits intro!: owns_batches map_filter_upd)
qed

lemma new_batch:
  assumes "run_state (CreateBatch p) w = (Inr a, w')" and "owns v S (tabs w)"
  shows "b_brewer a = cb_brewer p \<and> b_id a \<notin> my_batches S"
  using assms unfolding CreateBatch_def
  by (auto dest!: write_answer mine_exists(2) simp: gen_uuid_def Let_def sql_insert_Inr split: option.splits)

lemma updated_batch:
  assumes "run_state (UpdateBatch m) w = (Inr a, w')" and "owns v S (tabs w)" and "ub_brewer m \<noteq> v"
  shows "b_brewer a = ub_brewer m \<and> b_id a \<notin> my_batches S"
proof -
  from assms(1) obtain b where "find_where (own_batch (ub_id m) (ub_brewer m)) (batches (tabs w)) = Some b"
      "b_id a = b_id b" "b_brewer a = b_brewer b"
    unfolding UpdateBatch_def
    by (auto dest!: write_answer simp: sql_update_Inr patch_batch_def split: sum.splits)
  with find_where_Some [OF this(1)] not_my_batch [OF assms(2), of b] assms(3) show ?thesis
    by (auto simp: own_batch_def)
qed

lemma found_batch:
  assumes "run_state (GetBatchForUser i u) w = (Inr a, w')" and "owns v S (tabs w)" and "u \<noteq> v"
  shows "b_id a = i \<and> b_brewer a = u \<and> i \<notin> my_batches S"
  using assms not_my_batch [OF assms(2), of a] unfolding GetBatchForUser_def
  by (auto dest!: read_answer find_where_Some simp: own_batch_def)

lemma safe_DeleteBatch:
  assumes "u \<noteq> v"
  shows "safe v S (DeleteBatch i u)"
proof -
  have "owns v S (drop_batch i d)" if o: "owns v S d" and b: "b \<in> set (batches d)" "own_batch i u b" for d b
  proof -
    from b assms not_my_batch [OF o b(1)] have i: "i \<notin> my_batches S" by (auto simp: own_batch_def)
    have "filter (\<lambda>b. b_brewer b = v) (del_where (\<lambda>b. b_id b = i) (batches d)) = filter (\<lambda>b. b_brewer b = v) (batches d)"
      using i by (intro filter_del_outside) (auto dest: others_id(2) [OF o])
    with o i show ?thesis unfolding drop_batch_def Let_def
      by (intro owns_tables) (auto simp: owns_keys distinct_del_where split: option.splits
          intro!: filter_del_outside filter_upd_outside dest: others_reminders [OF o i])
  qed
  then show ?thesis unfolding DeleteBatch_def
    by (intro safe_write) (auto simp: exists_where_iff split: if_splits)
qed

lemma safe_batch_parts:
  "pr_batch p1 \<notin> my_batches S \<Longrightarrow> safe v S (CreateReading p1)"
  "ur_batch p2 \<notin> my_batches S \<Longrightarrow> safe v S (UpdateReading p2)"
  "i \<notin> my_batches S \<Longrightarrow> safe v S (DeleteReading j i)"
  "i \<notin> my_batches S \<Longrightarrow> safe v S (DeleteReadingsBulk i js)"
  "pe_batch p3 \<notin> my_batches S \<Longrightarrow> safe v S (CreateBatchEvent p3)"
  "ue_batch p4 \<notin> my_batches S \<Longrightarrow> safe v S (UpdateBatchEvent p4)"
  "i \<notin> my_batches S \<Longrightarrow> safe v S (DeleteBatchEvent j i)"
  "pt_batch p5 \<notin> my_batches S \<Longrightarrow> safe v S (CreateTastingNote p5)"
  unfolding CreateReading_def UpdateReading_def DeleteReading_def DeleteReadingsBulk_def CreateBatchEvent_def
    UpdateBatchEvent_def DeleteBatchEvent_def CreateTastingNote_def
  by (rule safe_write; auto simp: gen_uuid_def Let_def sql_table_simps batch_reading_def of_batch_def
      split: option.splits sum.splits if_splits intro!: owns_parts filter_upd_outside filter_del_outside)+

section \<open>Statements on reminders and settings\<close>

lemma safe_reminder_rows:
  "pm_user p \<noteq> v \<Longrightarrow> safe v S (CreateReminder p)" "um_user m \<noteq> v \<Longrightarrow> safe v S (UpdateReminder m)"
  "u \<noteq> v \<Longrightarrow> safe v S (CancelReminder i u)"
proof -
  show "pm_user p \<noteq> v \<Longrightarrow> safe v S (CreateReminder p)"
    unfolding CreateReminder_def
    by (rule safe_write) (auto simp: gen_uuid_def Let_def sql_insert_Inr owns_keys
        split: sum.splits intro!: owns_reminders; blast)
  show "um_user m \<noteq> v \<Longrightarrow> safe v S (UpdateReminder m)"
    unfolding UpdateReminder_def
    by (rule safe_write) (auto simp: sql_update_Inr owns_keys map_upd_where patch_reminder_def own_reminder_def
        split: sum.splits intro!: owns_reminders filter_upd_outside)
  show "u \<noteq> v \<Longrightarrow> safe v S (CancelReminder i u)"
    unfolding CancelReminder_def
    by (rule safe_write) (auto simp: owns_keys map_upd_where cancellable_def own_reminder_def Let_def
        intro!: owns_reminders filter_upd_outside)
qed

lemma safe_materialize:
  assumes "b_id b \<notin> my_batches S" and "b_brewer b \<noteq> v"
  shows "safe v S (materializeTemplates b an t0)"
proof -
  have "filter (\<lambda>r. rm_user r = v) (map (reanchor_row ts (b_id b) rc an t0) (reminders d)) =
      filter (\<lambda>r. rm_user r = v) (reminders d)" if o: "owns v S d" for d rc ts
  proof -
    have "reanchor_row ts (b_id b) rc an t0 r = r" if "r \<in> set (reminders d)" "rm_user r = v" for r
    proof -
      from my_rows(1) [OF o that] o assms(1) have "rm_batch r \<noteq> Some (b_id b)" by (auto simp: owns_def self_contained_def)
      then show ?thesis by (simp add: reanchor_row_other)
    qed
    then show ?thesis by (simp add: filter_map o_def cong: filter_cong) (intro map_idI, auto)
  qed
  then have "safe v S (ReanchorReminders (b_id b) rc an t0)" for rc
    unfolding ReanchorReminders_def
    by (intro safe_write) (auto simp: owns_keys Let_def o_def intro!: owns_reminders)
  moreover have "safe v S (MaterializeReminderTemplates (b_id b) (b_brewer b) rc an t0)" for rc
    unfolding MaterializeReminderTemplates_def
  proof (rule safe_write, goal_cases)
    case (1 w a w')
    obtain rs w1 where m: "materialized_rows (b_id b) (b_brewer b) t0 (due_templates (tabs w) (b_id b) rc an) w = (rs, w1)"
      by fastforce
    note p = materialized_rows_props [OF m]
    have "rm_user r \<noteq> v" if "r \<in> set rs" for r
    proof -
      from p have "list_all2 (\<lambda>r t. \<exists>i. r = materialized_row i (b_id b) (b_brewer b) t0 (clock w) t) rs
          (due_templates (tabs w) (b_id b) rc an)" by blast
      from list_all2_left [OF this that] assms(2) show ?thesis by auto
    qed
    then have f: "filter (\<lambda>r. rm_user r = v) rs = []" by (simp add: filter_empty_conv)
    from 1(1) obtain rms where r: "insert_rows rm_id rs (reminders (tabs w)) = Inr rms"
        "w' = set_tabs ((tabs w)\<lparr>reminders := rms\<rparr>) w1"
      by (simp add: m Let_def split: if_splits sum.splits)
    have "rms = reminders (tabs w) @ rs" using r(1) by (simp add: insert_rows_Inr)
    with 1(2) f have "owns v S ((tabs w)\<lparr>reminders := rms\<rparr>)"
      by (intro owns_reminders insert_rows_distinct [OF r(1) owns_keys(3) [OF 1(2)]]) simp_all
    with r(2) p show ?case by simp
  qed
  ultimately show ?thesis unfolding materializeTemplates_def
    by (auto intro!: sp.keeps_intros split: option.split)
qed

lemma filter_upsert:
  "(\<And>r. P r \<Longrightarrow> \<not> K r \<and> \<not> K (f r)) \<Longrightarrow> \<not> K x \<Longrightarrow> filter K (upsert P f x rows) = filter K rows"
  by (simp add: upsert_def filter_upd_outside)

lemma safe_settings:
  "u \<noteq> v \<Longrightarrow> safe v S (MarkNotificationRead i u)" "u \<noteq> v \<Longrightarrow> safe v S (MarkAllNotificationsRead u)"
  "np_user p \<noteq> v \<Longrightarrow> safe v S (UpsertNotificationPrefs p)" "u \<noteq> v \<Longrightarrow> safe v S (UpsertUserPrefs u dg tz)"
  "ps_user q \<noteq> v \<Longrightarrow> safe v S (UpsertPushDevice q)" "u \<noteq> v \<Longrightarrow> safe v S (DeletePushDevice u t)"
  unfolding MarkNotificationRead_def MarkAllNotificationsRead_def UpsertNotificationPrefs_def UpsertUserPrefs_def
    UpsertPushDevice_def DeletePushDevice_def
  by (rule safe_write; auto simp: gen_uuid_def Let_def sql_table_simps unread_def own_device_def
      split: if_splits intro!: owns_settings filter_upd_outside filter_del_outside filter_upsert)+

lemma safe_stock:
  "vp_user p \<noteq> v \<Longrightarrow> safe v S (CreateInventoryItem p)" "uv_user m \<noteq> v \<Longrightarrow> safe v S (UpdateInventoryItem m)"
  "u \<noteq> v \<Longrightarrow> safe v S (DeleteInventoryItem i u)"
  "u \<noteq> v \<Longrightarrow> safe v S (CreateUserExport u f)" "u \<noteq> v \<Longrightarrow> safe v S (ExpireUserExportByID i u)"
  unfolding CreateInventoryItem_def UpdateInventoryItem_def DeleteInventoryItem_def CreateUserExport_def
    ExpireUserExportByID_def
  by (rule safe_write; auto simp: gen_uuid_def Let_def sql_table_simps own_item_def own_export_def patch_item_def
      split: option.splits sum.splits if_splits intro!: owns_settings filter_upd_outside filter_del_outside)+

section \<open>The handlers\<close>

lemma safe_answering: "safe v S m \<Longrightarrow> safe v S (answering f m)"
  unfolding answering_def by (intro sp.keeps_intros)

lemma safe_run_tx: "safe v S m \<Longrightarrow> safe v S (run_tx on_error m)"
  unfolding run_tx_def by (intro sp.keeps_handle safe_tx)

lemma safe_reads:
  "safe v S (GetRecipeByID i)" "safe v S (GetRevisionByID i)" "safe v S (GetRecipeRevisionByNumber i n)"
  "safe v S (ListRecipeIngredients i)" "safe v S (ListRecipeRevisions i)" "safe v S (ListPublicRecipes cur n')"
  "safe v S (ListRecipesForAuthor u cur n')" "safe v S (ListRecipeComments i cur n')"
  "safe v S (ListReminderTemplates i)" "safe v S (MatchInventoryForRecipe u i)"
  "safe v S (ListInventoryForUser u)" "safe v S (GetInventoryItemForUser i u)"
  "safe v S (GetBatchForUser i u)" "safe v S (ListBatchesForUser u cur n')"
  "safe v S (ListReadingsForBatch i cur n')" "safe v S (ListBatchEventsForBatch i cur n')"
  "safe v S (ListTastingNotesForBatch i)" "safe v S (ListBatchReminders i u)"
  "safe v S (ListNotifications u cur n')" "safe v S (GetNotificationPrefs u)" "safe v S (GetUserPrefs u)"
  "safe v S (GetPendingUserExport u)" "safe v S (GetUserExport i u)" "safe v S (ListUserExports u)"
  "safe v S (GetUserByUsername name)" "safe v S (GetUserCredentialByEmail name)"
  "safe v S (GetSessionWithUser h)" "safe v S (ListUserExportFilePathsForUser u)"
  unfolding GetRecipeByID_def GetRevisionByID_def GetRecipeRevisionByNumber_def ListRecipeIngredients_def
    ListRecipeRevisions_def ListPublicRecipes_def ListRecipesForAuthor_def ListRecipeComments_def
    ListReminderTemplates_def MatchInventoryForRecipe_def ListInventoryForUser_def GetInventoryItemForUser_def
    GetBatchForUser_def ListBatchesForUser_def ListReadingsForBatch_def ListBatchEventsForBatch_def
    ListTastingNotesForBatch_def ListBatchReminders_def ListNotifications_def GetNotificationPrefs_def
    GetUserPrefs_def GetPendingUserExport_def GetUserExport_def ListUserExports_def GetUserByUsername_def
    GetUserCredentialByEmail_def GetSessionWithUser_def ListUserExportFilePathsForUser_def Let_def
  by (rule sp.keeps_sql_read)+

lemma safe_outside:
  "safe v S (deliver m)" "safe v S (Validate va raw)" "safe v S (limiter_allow key)" "safe v S NewSessionToken"
  "safe v S (HashPassword pw)" "safe v S client_reads" "safe v S (store_get st k)" "safe v S (store_delete st k)"
  "safe v S (delete_paths st ps)"
proof -
  have t: "safe v S (State_Monad.update tock)" by (rule safe_update) simp
  show "safe v S (deliver m)" "safe v S (limiter_allow key)" "safe v S NewSessionToken"
    "safe v S (HashPassword pw)" "safe v S client_reads" "safe v S (store_get st k)"
    unfolding deliver_def limiter_allow_def NewSessionToken_def HashPassword_def client_reads_def store_get_def
      io_step_def
    by (auto intro!: sp.keeps_intros safe_update t)
  show d: "safe v S (store_delete st k)" for st k
    unfolding store_delete_def io_step_def by (auto intro!: sp.keeps_intros safe_update)
  show "safe v S (delete_paths st ps)"
    by (induction ps) (auto intro!: sp.keeps_intros d)
  show "safe v S (Validate va raw)"
    unfolding Validate_def checkHost_def Let_def
    by (auto intro!: sp.keeps_intros t split: sum.split option.split)
qed

lemma safe_if_owner:
  assumes "u_id u \<noteq> v" and "i \<notin> my_batches S \<Longrightarrow> safe v S m"
  shows "safe v S (if_owner u i m)"
proof -
  have "run_state (if_owner u i m) w = run_state (handle (GetBatchForUser i (u_id u)) (\<lambda>e. Fail 404 ''not found'') (\<lambda>b. m)) w" for w
    by (auto simp: if_owner_def userOwnsBatch_def run_handle split: prod.split sum.split)
  then have "safe v S (if_owner u i m) = safe v S (handle (GetBatchForUser i (u_id u)) (\<lambda>e. Fail 404 ''not found'') (\<lambda>b. m))"
    by (simp add: keeps_def)
  then show ?thesis
    using assms(2) found_batch [OF _ _ assms(1)]
    by (auto intro!: safe_handle_knowing [where P = "\<lambda>b. i \<notin> my_batches S"] safe_reads)
qed

lemma safe_get_batch:
  assumes "u \<noteq> v" and "\<And>b. b_id b = i \<Longrightarrow> b_brewer b = u \<Longrightarrow> i \<notin> my_batches S \<Longrightarrow> safe v S (k b)"
  shows "safe v S (handle (GetBatchForUser i u) on_error k)"
  by (rule safe_handle_knowing [OF safe_reads(13), where P = "\<lambda>b. b_id b = i \<and> b_brewer b = u \<and> i \<notin> my_batches S"])
    (use assms found_batch [OF _ _ assms(1)] in auto)

lemmas safe_intros = sp.keeps_intros sp.keeps_handle safe_answering safe_run_tx safe_reads safe_outside

lemma safe_finish_revision:
  assumes "rc_id r \<notin> my_recipes S"
  shows "safe v S (finish_revision code msg r n u m ings)"
  unfolding finish_revision_def
  by (intro safe_intros safe_recipe_parts safe_recipe_rows safe_tx) (auto simp: revision_param_def assms)

lemma safe_insertIngredients: "i \<notin> my_recipes S \<Longrightarrow> safe v S (insertIngredients i gs)"
  by (induction gs) (auto intro!: safe_intros safe_recipe_parts simp: ingredient_param_def split: sum.split)

lemma safe_recipe_writes:
  assumes "u_id u \<noteq> v"
  shows "safe v S (handleCreateRecipe u b)" "safe v S (handleUpdateRecipe u pid b2)" "safe v S (handleForkRecipe u pid q)"
proof -
  have "safe v S (create_recipe_tx u q)" for q
    unfolding create_recipe_tx_def
    by (rule safe_handle_knowing [where P = "\<lambda>a. rc_id a \<notin> my_recipes S"])
      (use assms in \<open>auto intro!: safe_recipe_rows sp.keeps_handle safe_insertIngredients safe_finish_revision
        dest: new_recipe\<close>)
  then show "safe v S (handleCreateRecipe u b)"
    unfolding handleCreateRecipe_def by (auto intro!: safe_intros split: option.split sum.split)
  have upd: "safe v S (update_ingredients i gs k)" if "i \<notin> my_recipes S" "\<And>is. safe v S (k is)" for i gs and k :: "_ \<Rightarrow> recipe_view resp act"
    unfolding update_ingredients_def using that
    by (auto intro!: safe_intros safe_recipe_parts safe_insertIngredients split: option.split)
  have "safe v S (update_recipe_tx u i q)" for i q
    unfolding update_recipe_tx_def
    by (rule_tac P = "\<lambda>a. rc_id a = i \<and> i \<notin> my_recipes S" in safe_handle_knowing)
      (use assms in \<open>auto intro!: safe_recipe_rows upd safe_finish_revision dest: updated_recipe\<close>)
  then show "safe v S (handleUpdateRecipe u pid b2)"
    unfolding handleUpdateRecipe_def by (auto intro!: safe_intros split: option.split)
  have "safe v S (fork_recipe_tx u src name msg gs)" for src name msg gs
    unfolding fork_recipe_tx_def
    by (intro sp.keeps_handle safe_recipe_rows safe_handle_knowing [where P = "\<lambda>a. rc_id a \<notin> my_recipes S"])
      (use assms in \<open>auto intro!: safe_recipe_rows sp.keeps_handle safe_insertIngredients safe_finish_revision
        dest: new_recipe\<close>)
  then show "safe v S (handleForkRecipe u pid q)"
    unfolding handleForkRecipe_def by (auto intro!: safe_intros split: option.split sum.split)
qed

lemma safe_recipes_handler:
  assumes "u_id u \<noteq> v"
  shows "safe v S (recipes_handler u c)"
proof -
  have author: "safe v S (author_only u i m)" if "i \<notin> my_recipes S \<Longrightarrow> safe v S m" for i and m :: "'x resp act"
    unfolding author_only_def recipeForTemplates_def
    by (rule safe_handle_knowing [where P = "\<lambda>r. rc_id r = i \<and> (rc_author r \<noteq> v \<longrightarrow> i \<notin> my_recipes S)"])
      (use that assms in \<open>auto intro!: safe_intros simp: GetRecipeByID_def dest!: read_answer find_where_Some
        intro: sp.keeps_sql_read dest: not_my_recipe\<close>)
  have template: "safe v S (handleCreateReminderTemplate u i b1)" "safe v S (handleUpdateReminderTemplate u i t b2)"
    "safe v S (handleDeleteReminderTemplate u i t)" for i t b1 b2
    unfolding handleCreateReminderTemplate_def handleUpdateReminderTemplate_def handleDeleteReminderTemplate_def
      delete_resp_def
    by (auto intro!: author safe_intros safe_recipe_parts split: option.split)
  have read: "safe v S (handleListRecipes l cur)" "safe v S (handleListMyRecipes u l cur)"
    "safe v S (handleGetRecipe x i)" "safe v S (handleListRevisions x i)" "safe v S (handleGetRevision x i n)"
    "safe v S (handleListComments x i l cur)" "safe v S (handleRecipeInventoryMatch u i)"
    "safe v S (handleListReminderTemplates x i)" for l cur x i n
    unfolding handleListRecipes_def handleListMyRecipes_def handleGetRecipe_def handleListRevisions_def
      handleGetRevision_def handleListComments_def handleRecipeInventoryMatch_def handleListReminderTemplates_def
      recipeForTemplates_def
    by (auto intro!: safe_intros split: option.split sum.split)
  have social: "safe v S (handleCreateComment u i b)" "safe v S (handleDeleteComment u i)"
    "safe v S (handleLikeRecipe u i)" "safe v S (handleUnlikeRecipe u i)" "safe v S (handleDeleteRecipe u i)" for i b
    unfolding handleCreateComment_def handleDeleteComment_def handleLikeRecipe_def handleUnlikeRecipe_def
      handleDeleteRecipe_def delete_resp_def
    using assms by (auto intro!: safe_intros safe_social safe_DeleteRecipe split: option.split)
  show ?thesis
    by (cases c) (auto intro!: safe_answering template read social safe_recipe_writes assms)
qed

lemma safe_inventory_handler: "u_id u \<noteq> v \<Longrightarrow> safe v S (inventory_handler u c)"
  by (cases c) (auto intro!: safe_intros safe_stock simp: handleListInventory_def handleCreateInventory_def
      handleUpdateInventory_def handleDeleteInventory_def delete_resp_def Let_def split: option.split)

lemma safe_events:
  assumes "u_id u \<noteq> v"
  shows "safe v S (handleCreateBatchEvent u pid b)" "safe v S (handleUpdateBatchEvent u pid peid b2)"
proof -
  have e: "safe v S (event_effects b e)" if "b_brewer b = u_id u" "b_id b \<notin> my_batches S" for b e
    unfolding event_effects_def maybeAdvanceStage_def using that assms
    by (auto intro!: safe_intros safe_materialize safe_batch_rows simp: advance_params_def split: option.split)
  show "safe v S (handleCreateBatchEvent u pid b)" "safe v S (handleUpdateBatchEvent u pid peid b2)"
    unfolding handleCreateBatchEvent_def handleUpdateBatchEvent_def using assms
    by (auto intro!: safe_get_batch sp.keeps_return split: option.split;
        auto intro!: safe_intros safe_batch_parts e)+
qed

lemma safe_batches_handler:
  assumes "u_id u \<noteq> v"
  shows "safe v S (batches_handler u c)"
proof -
  have "safe v S (insert_batch p)" if "cb_brewer p = u_id u" for p
    unfolding insert_batch_def
    by (rule safe_handle_knowing [where P = "\<lambda>b. b_brewer b = u_id u \<and> b_id b \<notin> my_batches S"])
      (use assms that in \<open>auto intro!: safe_intros safe_batch_rows safe_materialize dest: new_batch split: option.split\<close>)
  then have create: "safe v S (handleCreateBatch u b)" for b
    unfolding handleCreateBatch_def
    by (auto intro!: safe_intros simp: batch_params_def split: option.split sum.split)
  have known: "b_brewer a = u_id u \<and> b_id a \<notin> my_batches S"
    if "run_state (UpdateBatch m) w = (Inr a, w')" "owns v S (tabs w)" "ub_brewer m = u_id u" for m w a w'
    using updated_batch [OF that(1,2)] that(3) assms by simp
  have update: "safe v S (handleUpdateBatch u i b)" for i b
    unfolding handleUpdateBatch_def using assms
    by (auto intro!: sp.keeps_intros safe_handle_knowing [where P = "\<lambda>b. b_brewer b = u_id u \<and> b_id b \<notin> my_batches S"]
        safe_batch_rows safe_materialize dest: known split: option.split)
  have parts: "safe v S (handleCreateReading u i b1)" "safe v S (handleUpdateReading u i j b2)"
    "safe v S (handleBulkDeleteReadings u i b3)" "safe v S (handleDeleteReading u i j)"
    "safe v S (handleDeleteBatchEvent u i j)" "safe v S (handleCreateTastingNote u i b4)" for i j b1 b2 b3 b4
    unfolding handleCreateReading_def handleUpdateReading_def handleBulkDeleteReadings_def handleDeleteReading_def
      handleDeleteBatchEvent_def handleCreateTastingNote_def delete_resp_def
    by (auto intro!: safe_if_owner [OF assms] safe_intros safe_batch_parts split: option.split)
  have read: "safe v S (handleListBatches u l cur)" "safe v S (handleGetBatch u i)"
    "safe v S (handleListReadings u i l cur)" "safe v S (handleListBatchEvents u i l cur)"
    "safe v S (handleListTastingNotes u i)" "safe v S (handleListReminders u i)" for l cur i
    unfolding handleListBatches_def handleGetBatch_def handleListReadings_def handleListBatchEvents_def
      handleListTastingNotes_def handleListReminders_def
    by (auto intro!: safe_if_owner [OF assms] safe_intros split: option.split sum.split)
  have rest: "safe v S (handleDeleteBatch u i)" "safe v S (handleCreateReminder u i b1)"
    "safe v S (handleUpdateReminder u i b2)" "safe v S (handleDeleteReminder u i)" for i b1 b2
    unfolding handleDeleteBatch_def handleCreateReminder_def handleUpdateReminder_def handleDeleteReminder_def
      delete_resp_def
    using assms by (auto intro!: safe_intros safe_DeleteBatch safe_reminder_rows split: option.split sum.split)
  show ?thesis
    by (cases c) (auto intro!: safe_answering create update parts read rest safe_events assms)
qed

lemma safe_notifications_handler: "u_id u \<noteq> v \<Longrightarrow> safe v S (notifications_handler cfg u c)"
  by (cases c) (auto intro!: safe_intros safe_settings simp: handleListNotifications_def
      handleMarkAllNotificationsRead_def handleMarkNotificationRead_def handleGetNotificationPrefs_def
      handleUpdateNotificationPrefs_def handleTestNotification_def handleTestEmail_def check_apprise_url_def
      delete_resp_def Let_def split: option.split sum.split)

lemma safe_exports_handler:
  assumes "u_id u \<noteq> v"
  shows "safe v S (exports_handler u c)"
proof -
  have "safe v S (retire_download i (u_id u))" for i
    unfolding retire_download_def using assms by (auto intro!: safe_intros safe_stock split: sum.split)
  then show ?thesis using assms
    by (cases c) (auto intro!: safe_intros safe_stock simp: handleTriggerExport_def handleListExports_def
        handleGetExport_def handleDownloadExport_def stream_export_def Let_def split: option.split sum.split)
qed

lemma safe_settings_handlers:
  assumes "u_id u \<noteq> v"
  shows "safe v S (handleSubscribePush cfg u b1)" "safe v S (handleUnsubscribePush u b2)"
    "safe v S (handleGetUserPrefs u)" "safe v S (handleUpdateUserPrefs u b3)"
  unfolding handleSubscribePush_def handleUnsubscribePush_def handleGetUserPrefs_def handleUpdateUserPrefs_def
  using assms by (auto intro!: safe_intros safe_settings split: option.split)

section \<open>Accounts\<close>

text \<open>No statement on accounts writes what is listed, but for the deletions by owner.\<close>

lemma safe_account_rows:
  "safe v S (CreateSession s)" "safe v S (CreateEmailChangeRequest q)" "safe v S (CreateAccountDeletionRequest i)"
  "safe v S (TouchSession i)" "safe v S (UpdateUser dn bio av i)" "safe v S (UpdateUserPassword h i)"
  "safe v S (UpdateUserEmail e i)" "safe v S (AnonymizeUser i)" "safe v S (CreateUserWithPassword p)"
  unfolding CreateSession_def CreateEmailChangeRequest_def CreateAccountDeletionRequest_def TouchSession_def
    UpdateUser_def UpdateUserPassword_def UpdateUserEmail_def AnonymizeUser_def CreateUserWithPassword_def
  by (rule safe_write; auto simp: gen_uuid_def Let_def sql_table_simps update_user_def
      split: option.splits sum.splits if_splits)+

lemma safe_deletions:
  "safe v S (DeleteSessionsForUser j)" "safe v S (DeleteSessionByTokenHash h)" "safe v S DeleteExpiredSessions"
  "safe v S (DeleteEmailChangeRequest j)" "safe v S (DeleteEmailChangeRequestsForUser j)"
  "safe v S DeleteExpiredEmailChangeRequests"
  unfolding delete_all_def DeleteSessionsForUser_def DeleteSessionByTokenHash_def DeleteExpiredSessions_def
    DeleteEmailChangeRequest_def DeleteEmailChangeRequestsForUser_def DeleteExpiredEmailChangeRequests_def
  by (rule safe_write; simp)+

lemma safe_erasures:
  assumes "u \<noteq> v"
  shows "safe v S (DeletePushDevicesForUser u)" "safe v S (DeleteNotificationsForUser u)"
    "safe v S (DeleteNotificationPrefsForUser u)" "safe v S (DeleteUserPrefsForUser u)"
    "safe v S (DeleteUserExportsForUser u)" "safe v S (DeleteAllInventoryForUser u)"
  unfolding delete_all_def DeletePushDevicesForUser_def DeleteNotificationsForUser_def
    DeleteNotificationPrefsForUser_def DeleteUserPrefsForUser_def DeleteUserExportsForUser_def
    DeleteAllInventoryForUser_def using assms
  by (rule_tac [!] safe_write) (auto intro!: owns_settings filter_del_outside)

lemma safe_answer_session: "safe v S (answer_session r code msg u)"
  unfolding answer_session_def issueSession_def
  by (auto intro!: safe_intros safe_account_rows split: option.split)

lemma safe_Anonymize:
  assumes "u \<noteq> v"
  shows "safe v S (Anonymize u)"
proof -
  have ex: "(\<And>s. s \<in> set ss \<Longrightarrow> safe v S s) \<Longrightarrow> safe v S (exec_all ss)" for ss
    by (induction ss) (auto intro!: sp.keeps_intros split: sum.split)
  have "safe v S (exec_all (anonymize_stmts u))"
    by (rule ex) (use assms in \<open>auto simp: anonymize_stmts_def intro!: safe_account_rows safe_deletions safe_erasures\<close>)
  then show ?thesis
    unfolding Anonymize_def anonymize_tx_def by (auto intro!: safe_intros safe_tx split: sum.split)
qed

lemma safe_users_handler:
  assumes "u_id u \<noteq> v"
  shows "safe v S (users_handler cfg r u c)"
proof -
  have "safe v S (mail_links base u addr q cf cn)" for base addr q cf cn
    unfolding mail_links_def by (auto intro!: safe_intros safe_deletions split: option.split)
  then have "safe v S (start_change base u addr)" for base addr
    unfolding start_change_def by (auto intro!: safe_intros safe_account_rows safe_deletions split: option.split)
  then show ?thesis using assms
    by (cases c) (auto intro!: safe_intros safe_account_rows safe_deletions safe_answer_session safe_Anonymize
        simp: handleUpdateProfile_def handleChangePassword_def handleDeleteAccount_def handleChangeEmail_def
          handleGetProfile_def split: option.split sum.split)
qed

lemma safe_route_handler:
  assumes "u_id u \<noteq> v"
  shows "safe v S (route_handler cfg r u c)"
proof -
  have "safe v S (handleLogout r)" "safe v S (handleMe u)"
    unfolding handleLogout_def handleMe_def by (auto intro!: safe_intros safe_deletions)
  moreover have "safe v S (calculators_handler q)" for q
    by (cases q) (auto intro!: safe_answering sp.keeps_return)
  ultimately show ?thesis
    by (cases c) (auto intro!: safe_answering safe_users_handler safe_recipes_handler safe_inventory_handler
        safe_batches_handler safe_notifications_handler safe_settings_handlers safe_exports_handler assms)
qed

text \<open>Behind the middleware the caller is the user of the session.\<close>

lemma safe_serve_route:
  assumes "\<And>u. caller r w = Some u \<Longrightarrow> u_id u \<noteq> v" and "secluded v S w"
  shows "secluded v S (snd (run_state (serve_route cfg r c) w))"
proof -
  obtain x w1 where m: "run_state (authMiddleware r) w = (x, w1)" by fastforce
  have "safe v S (authMiddleware r)"
    unfolding authMiddleware_def by (auto intro!: safe_intros safe_account_rows split: sum.split)
  with m assms(2) have s: "secluded v S w1" unfolding keeps_def spares_def by (metis snd_conv)
  show ?thesis
  proof (cases x)
    case (Some u)
    with middleware_caller [OF m] assms(1) have "u_id u \<noteq> v" by auto
    from safe_route_handler [OF this] s have "secluded v S (snd (run_state (route_handler cfg r u c) w1))"
      by (auto simp: keeps_def spares_def)
    with m Some show ?thesis by (simp add: serve_route_def requireAuth_def)
  qed (use m s in \<open>simp add: serve_route_def requireAuth_def\<close>)
qed

text \<open>The calls without a session: registration, login, the two links of a change of address.\<close>

primrec sessionless :: "account_call \<Rightarrow> bool" where
  "sessionless (Register r b) = True" | "sessionless (Login r b) = True"
| "sessionless (Logout r) = False" | "sessionless (UpdateProfile r b) = False"
| "sessionless (ChangePassword r b) = False" | "sessionless (DeleteAccount r b) = False"
| "sessionless (ChangeEmail r b) = False" | "sessionless (ConfirmEmailChange r b) = True"
| "sessionless (CancelEmailChange r b) = True" | "sessionless ExpireSessions = True"
| "sessionless ReprocessDeletions = False"

lemma safe_sessionless:
  assumes "sessionless c"
  shows "safe v S (serve cfg c)"
proof -
  have limit: "safe v S (quietly (ipRateLimit r m))" if "safe v S m" for r and m :: "'x resp act"
    unfolding quietly_def ipRateLimit_def using that by (auto intro!: safe_intros)
  have "safe v S (createRegistrationUser cfg p)" for p
    unfolding createRegistrationUser_def register_gated_def CountUsers_def
    by (auto intro!: safe_intros safe_account_rows safe_tx split: sum.split)
  then have "safe v S (handleRegister cfg r b)" for r b
    unfolding handleRegister_def by (auto intro!: safe_intros safe_answer_session split: option.split sum.split)
  moreover have "safe v S (handleLogin r b)" for r b
    unfolding handleLogin_def lookupCredential_def GetUserCredentialByEmail_def GetUserCredentialByUsername_def
      GetUserByID_def
    by (auto intro!: safe_intros safe_answer_session split: option.split sum.split)
  moreover have "safe v S (handleConfirmEmailChange b)" "safe v S (handleCancelEmailChange b)" for b
    unfolding handleConfirmEmailChange_def handleCancelEmailChange_def GetEmailChangeRequestByConfirmHash_def
      GetEmailChangeRequestByCancelHash_def
    by (auto intro!: safe_intros safe_account_rows safe_deletions split: option.split)
  moreover have "safe v S (quietly expired_sessions_Work)"
    unfolding quietly_def expired_sessions_Work_def by (auto intro!: safe_intros safe_deletions split: sum.split)
  ultimately show ?thesis using assms by (cases c) (auto intro!: limit)
qed

section \<open>Others at work\<close>

text \<open>
  Any sequence of requests whose session, when there is one, is not of \<open>v\<close>, of calls without a
  session, and of time that passes. The database, the mail relay and the stores answer as they like.
\<close>

inductive others :: "config \<Rightarrow> uuid \<Rightarrow> world \<Rightarrow> world \<Rightarrow> bool" for cfg v where
  idle: "others cfg v w w"
| request: "others cfg v w w' \<Longrightarrow> (\<And>u. caller r w' = Some u \<Longrightarrow> u_id u \<noteq> v) \<Longrightarrow>
    others cfg v w (snd (run_state (serve_route cfg r c) w'))"
| open_call: "others cfg v w w' \<Longrightarrow> sessionless a \<Longrightarrow> others cfg v w (snd (run_state (serve cfg a) w'))"
| wait: "others cfg v w w' \<Longrightarrow> others cfg v w (w'\<lparr>clock := t\<rparr>)"

lemma others_secluded: "others cfg v w w' \<Longrightarrow> secluded v S w \<Longrightarrow> secluded v S w'"
proof (induction rule: others.induct)
  case (request w w' r c)
  then show ?case by (intro safe_serve_route)
next
  case (open_call w w' a)
  with safe_sessionless [of a v S cfg] show ?case by (simp add: keeps_def spares_def)
qed (simp_all add: secluded_def)

text \<open>
  C3: A user is out of reach of all others. Whatever requests other signed-in users send to any of
  the routes, with whatever ids in path and body, and whichever statements fail on the way, the
  user's recipes with their ingredients, revisions and templates, batches with their readings,
  events and tasting notes, reminders, notifications, settings, push devices, stock and exports
  stay as they are, row by row. Two things of a row may change: the fork count and time stamp of a
  recipe that another forks, and a reference to a recipe that its author deletes.
\<close>

theorem users_isolated:
  assumes "others cfg v w w'" and "keyed (tabs w)" and "self_contained (possessions_of v (tabs w))"
    and "txn w = None"
  shows "possessions_of v (tabs w') = possessions_of v (tabs w)"
proof (rule owns_end)
  have "secluded v (possessions_of v (tabs w)) w"
    using assms(2-4) by (simp add: secluded_def owns_start)
  from others_secluded [OF assms(1) this] show "owns v (possessions_of v (tabs w)) (tabs w')"
    by (simp add: secluded_def)
qed

text \<open>Bob deletes his own batch, and tries to delete Ann's.\<close>

definition shared_db :: db where
  "shared_db = empty_db\<lparr>users := [demo_user 1 ''ann'', demo_user 2 ''bob''],
     sessions := [demo_session 12 2 ''bob''],
     batches := [demo_batch 30 1 None None Planning, demo_batch 31 2 None None Planning]\<rparr>"

abbreviation bobs :: "route \<Rightarrow> unit resp act" where
  "bobs \<equiv> serve_route demo_config (demo_request_of ''bob'')"

lemma users_isolated_witness:
  "let w1 = snd (run_state (bobs (Batches (Delete_Batch (Some 31)))) (demo_world shared_db 5));
       w2 = snd (run_state (bobs (Batches (Delete_Batch (Some 30)))) w1) in
     possessions_of 1 (tabs w2) = possessions_of 1 shared_db \<and> map b_id (batches (tabs w2)) = [30] \<and>
     length (po_batches (possessions_of 1 shared_db)) = 1"
proof -
  let ?w = "demo_world shared_db 5"
  let ?w1 = "snd (run_state (bobs (Batches (Delete_Batch (Some 31)))) ?w)"
  let ?w2 = "snd (run_state (bobs (Batches (Delete_Batch (Some 30)))) ?w1)"
  have "map_option u_id (caller (demo_request_of ''bob'') ?w) = Some 2" by code_simp
  then have o1: "others demo_config 1 ?w ?w1" by (intro others.intros) auto
  have "map_option u_id (caller (demo_request_of ''bob'') ?w1) = Some 2" by code_simp
  then have o: "others demo_config 1 ?w ?w2" by (intro others.request [OF o1]) auto
  have k: "keyed (tabs ?w)" "self_contained (possessions_of 1 (tabs ?w))" "txn ?w = None" by code_simp+
  have "tabs ?w = shared_db" by (simp add: demo_world_def)
  with users_isolated [OF o k] have "possessions_of 1 (tabs ?w2) = possessions_of 1 shared_db" by simp
  moreover have "map b_id (batches (tabs ?w2)) = [30]" "length (po_batches (possessions_of 1 shared_db)) = 1"
    by code_simp+
  ultimately show ?thesis unfolding Let_def by (intro conjI)
qed

end
