(* ===== verification/Privacy.thy ===== *)
theory Privacy
  imports Api
begin

text \<open>
  Private recipes are hidden: to everyone but its author, every endpoint that takes the id of a
  recipe behaves as if the recipe's row were not in the database. The worlds compared are the one
  with the recipe and the one without it, and the answers must be the same, whatever fails.
\<close>

section \<open>Two worlds\<close>

text \<open>The world without the row of a recipe; all that refers to it stays.\<close>

definition without_recipe :: "uuid \<Rightarrow> world \<Rightarrow> world" where
  "without_recipe i w = set_tabs ((tabs w)\<lparr>recipes := filter (\<lambda>r. rc_id r \<noteq> i) (recipes (tabs w))\<rparr>) w"

text \<open>The recipe a call of \<^verbatim>\<open>/api/recipes\<close> names in its path.\<close>

fun route_recipe :: "recipes_route \<Rightarrow> uuid option" where
  "route_recipe (Get_Recipes l c) = None"
| "route_recipe (Post_Recipes b) = None"
| "route_recipe (Get_Mine l c) = None"
| "route_recipe (Get_Recipe i) = i"
| "route_recipe (Patch_Recipe i b) = i"
| "route_recipe (Delete_Recipe i) = i"
| "route_recipe (Post_Fork i b) = i"
| "route_recipe (Get_Revisions i) = i"
| "route_recipe (Get_Revision i n) = i"
| "route_recipe (Get_Comments i l c) = i"
| "route_recipe (Post_Comments i b) = i"
| "route_recipe (Delete_Comment ci) = None"
| "route_recipe (Post_Like i) = i"
| "route_recipe (Delete_Like i) = i"
| "route_recipe (Get_Inventory_Match i) = i"
| "route_recipe (Get_Templates i) = i"
| "route_recipe (Post_Templates i b) = i"
| "route_recipe (Patch_Template i t b) = i"
| "route_recipe (Delete_Template i t) = i"

text \<open>
  \<open>hidden i m w\<close>: the call \<open>m\<close> fails, answers what it would answer in the world without the
  recipe \<open>i\<close>, and changes no row.
\<close>

definition hidden :: "uuid \<Rightarrow> 'v resp act \<Rightarrow> world \<Rightarrow> bool" where
  "hidden i m w \<longleftrightarrow> (\<exists>n msg. fst (run_state m w) = Fail n msg \<and>
     fst (run_state m (without_recipe i w)) = Fail n msg) \<and> tabs (snd (run_state m w)) = tabs w"

lemma without_recipe_simps [simp]:
  "ext (without_recipe i w) = ext w" "tick (without_recipe i w) = tick w"
  "clock (without_recipe i w) = clock w"
  "recipes (tabs (without_recipe i w)) = filter (\<lambda>r. rc_id r \<noteq> i) (recipes (tabs w))"
  "likes (tabs (without_recipe i w)) = likes (tabs w)"
  by (simp_all add: without_recipe_def)

lemma find_without: "find_where (\<lambda>r. rc_id r = i) (filter (\<lambda>r. rc_id r \<noteq> i) rows) = None"
  by (simp add: find_where_None)

lemma hidden_ret: "hidden i (ret (Fail n msg)) w"
  by (simp add: hidden_def)

lemma hidden_answering: "hidden i m w \<Longrightarrow> hidden i (answering f m) w"
  by (auto simp: hidden_def answering_def split: prod.splits)

lemma answering_answer: "fst (run_state (answering f m) w) = Backups.map_resp f (fst (run_state m w))"
  by (simp add: answering_def split: prod.split)

text \<open>A handler that looks the recipe up, and stops at what it finds as at a missing row.\<close>

lemma hidden_lookup:
  assumes "distinct (map rc_id (recipes (tabs w)))" and "r \<in> set (recipes (tabs w))"
    and "k r = ret (on_error NoRows)" and "\<And>e. \<exists>n msg. on_error e = Fail n msg"
  shows "hidden (rc_id r) (handle (GetRecipeByID (rc_id r)) on_error k) w"
proof -
  have f: "find_where (\<lambda>r'. rc_id r' = rc_id r) (recipes (tabs w)) = Some r"
    using assms(1,2) by (intro find_where_unique [where k = rc_id]) auto
  show ?thesis
    using assms(3,4)
    by (cases "x_avail (ext w) (tick w)")
      (simp_all add: hidden_def GetRecipeByID_def run_handle run_sql_read one_def f find_without)
qed

lemma hidden_delete:
  assumes "distinct (map rc_id (recipes (tabs w)))" and "r \<in> set (recipes (tabs w))"
    and "rc_author r \<noteq> u_id u"
  shows "hidden (rc_id r) (handleDeleteRecipe u (Some (rc_id r))) w"
proof -
  have no: "\<not> exists_where (own_recipe (rc_id r) (u_id u)) (recipes (tabs w))"
    using assms by (auto simp: exists_where_def list_ex_iff own_recipe_def dest: distinct_key_eq)
  have no': "\<not> exists_where (own_recipe (rc_id r) (u_id u)) (filter (\<lambda>q. rc_id q \<noteq> rc_id r) (recipes (tabs w)))"
    by (auto simp: exists_where_def list_ex_iff own_recipe_def)
  show ?thesis
    by (cases "x_avail (ext w) (tick w)")
      (simp_all add: hidden_def handleDeleteRecipe_def DeleteRecipe_def run_handle run_sql_write no no'
        delete_resp_def)
qed

text \<open>Taking a like back answers the same with the recipe and without.\<close>

lemma unlike_same:
  "fst (run_state (handleUnlikeRecipe u (Some i)) (without_recipe i w)) =
   fst (run_state (handleUnlikeRecipe u (Some i)) w)"
  by (cases "x_avail (ext w) (tick w)")
    (simp_all add: handleUnlikeRecipe_def UnlikeRecipe_def run_handle run_sql_write Let_def)

section \<open>The property\<close>

text \<open>
  C4: A private recipe does not exist for anyone but its author. Of the calls of
  \<^verbatim>\<open>/api/recipes\<close>, each that names the recipe (reading it, its revisions, comments, reminder
  templates or inventory match; editing, deleting, forking, commenting or liking it; writing its
  templates) and the creation of a batch from it, made by any other user: each fails with the very
  answer it gives where the row of the recipe is missing, whichever statement fails, and changes no
  row. The one exception is taking a like back, which succeeds whether or not there is such a recipe,
  and also answers the same.
\<close>

theorem private_recipe_hidden:
  assumes "distinct (map rc_id (recipes (tabs w)))" and "r \<in> set (recipes (tabs w))"
    and "rc_visibility r = Private" and "rc_author r \<noteq> u_id u"
    and "route_recipe c = Some (rc_id r)" and "qb_recipe q = Some (Some (rc_id r))"
  shows "(if c = Delete_Like (Some (rc_id r))
      then fst (run_state (recipes_handler u c) (without_recipe (rc_id r) w)) =
           fst (run_state (recipes_handler u c) w)
      else hidden (rc_id r) (recipes_handler u c) w) \<and>
    hidden (rc_id r) (batches_handler u (Post_Batches (Some q))) w"
proof -
  have v: "\<not> recipeVisibleTo r (Some u)" "rc_visibility r = Private \<and> rc_author r \<noteq> u_id u"
    using assms(3,4) by (auto simp: recipeVisibleTo_def)
  note look = hidden_lookup [OF assms(1,2)]
  let ?i = "rc_id r"
  have fails: "\<exists>n msg. fetch_error e = Fail n msg" "\<exists>n msg. Events.internal_error e = Fail n msg" for e
    by (simp_all add: fetch_error_def Events.internal_error_def)
  have "hidden ?i (recipes_handler u c) w" if "c \<noteq> Delete_Like (Some ?i)"
  proof -
    have "hidden ?i (handleGetRecipe (Some u) (Some ?i)) w"
      "hidden ?i (handleUpdateRecipe u (Some ?i) b1) w"
      "hidden ?i (handleForkRecipe u (Some ?i) b2) w"
      "hidden ?i (handleListRevisions (Some u) (Some ?i)) w"
      "hidden ?i (handleListComments (Some u) (Some ?i) l cur) w"
      "hidden ?i (handleCreateComment u (Some ?i) b3) w"
      "hidden ?i (handleLikeRecipe u (Some ?i)) w"
      "hidden ?i (handleRecipeInventoryMatch u (Some ?i)) w"
      "hidden ?i (handleListReminderTemplates (Some u) (Some ?i)) w"
      "hidden ?i (handleCreateReminderTemplate u (Some ?i) b4) w" for b1 b2 b3 b4 l cur
      using v fails unfolding handleGetRecipe_def handleUpdateRecipe_def handleForkRecipe_def
        handleListRevisions_def handleListComments_def handleCreateComment_def handleLikeRecipe_def
        handleRecipeInventoryMatch_def handleListReminderTemplates_def handleCreateReminderTemplate_def
        author_only_def recipeForTemplates_def option.case
      by (auto intro!: look simp: fetch_error_def Events.internal_error_def)
    moreover have "hidden ?i (handleGetRevision (Some u) (Some ?i) n) w"
      "hidden ?i (handleUpdateReminderTemplate u (Some ?i) t b5) w"
      "hidden ?i (handleDeleteReminderTemplate u (Some ?i) t) w" for n t b5
      using v fails unfolding handleGetRevision_def handleUpdateReminderTemplate_def
        handleDeleteReminderTemplate_def author_only_def recipeForTemplates_def option.case
      by (auto intro!: look hidden_ret simp: fetch_error_def Events.internal_error_def split: option.split)
    moreover note hidden_delete [OF assms(1,2,4)]
    ultimately show ?thesis
      using assms(5) that by (cases c) (auto intro!: hidden_answering)
  qed
  moreover have "hidden ?i (batches_handler u (Post_Batches (Some q))) w"
  proof -
    have "hidden ?i (handleCreateBatch u (Some q)) w"
    proof (cases "check_create_batch q :: batch_view resp + create_batch_request")
      case (Inl e)
      then obtain n msg where "e = Fail n msg"
        by (auto simp: check_create_batch_def Let_def split: if_splits)
      with Inl show ?thesis by (simp add: handleCreateBatch_def hidden_ret)
    next
      case (Inr q')
      then have "qb_recipe q' = Some (Some ?i)" using assms(6)
        by (auto simp: check_create_batch_def Let_def split: if_splits)
      then show ?thesis using v fails Inr
        unfolding handleCreateBatch_def option.case by (auto intro!: look)
    qed
    then show ?thesis by (simp add: hidden_answering)
  qed
  moreover have "fst (run_state (recipes_handler u (Delete_Like (Some (rc_id r)))) (without_recipe (rc_id r) w)) =
      fst (run_state (recipes_handler u (Delete_Like (Some (rc_id r)))) w)"
    using unlike_same [of u "rc_id r" w] by (simp add: answering_answer)
  ultimately show ?thesis by auto
qed

text \<open>Bob likes Ann's private recipe, and starts a batch from it: both are refused.\<close>

definition bobs_batch :: create_batch_request where
  "bobs_batch = \<lparr>qb_name = ''Copy'', qb_brew_type = [], qb_stage = [], qb_started_at = None,
     qb_notes = [], qb_visibility = [], qb_recipe = Some (Some 30)\<rparr>"

lemma private_recipe_hidden_witness:
  "hidden 30 (recipes_handler (demo_user 2 ''bob'') (Post_Like (Some 30)))
     (demo_world (empty_db\<lparr>recipes := [demo_recipe 30 1 Private (Some 40)]\<rparr>) 0) \<and>
   hidden 30 (batches_handler (demo_user 2 ''bob'') (Post_Batches (Some bobs_batch)))
     (demo_world (empty_db\<lparr>recipes := [demo_recipe 30 1 Private (Some 40)]\<rparr>) 0)"
proof -
  let ?w = "demo_world (empty_db\<lparr>recipes := [demo_recipe 30 1 Private (Some 40)]\<rparr>) 0"
  from private_recipe_hidden [of ?w "demo_recipe 30 1 Private (Some 40)" "demo_user 2 ''bob''"
      "Post_Like (Some 30)" bobs_batch]
  show ?thesis by (simp add: demo_simps bobs_batch_def)
qed

end
