(* ===== verification/Password.thy ===== *)
theory Password
  imports Auth "HOL-Library.Word"
begin

text \<open>
  The stored form of a password, \<^verbatim>\<open>internal/auth/password.go\<close>: an argon2id PHC string,
  how it is written and how it is read back with \<^verbatim>\<open>strings.Split\<close>, \<^verbatim>\<open>fmt.Sscanf\<close>
  and unpadded base64. Strings are the bytes of Go strings. \<^verbatim>\<open>argon2.IDKey\<close> is a
  parameter; \<open>None\<close> is its panic.
\<close>

section \<open>Unpadded base64\<close>

definition b64_alphabet :: string where
  "b64_alphabet = ''ABCDEFGHIJKLMNOPQRSTUVWXYZabcdefghijklmnopqrstuvwxyz0123456789+/''"

definition b64_char :: "nat \<Rightarrow> char" where
  "b64_char n = b64_alphabet ! n"

definition b64_val :: "char \<Rightarrow> nat option" where
  "b64_val c = map_of (zip b64_alphabet [0..<64]) c"

definition byte :: "char \<Rightarrow> nat" where "byte c = of_char c"

text \<open>\<^verbatim>\<open>base64.RawStdEncoding.EncodeToString\<close>.\<close>

fun b64_encode :: "string \<Rightarrow> string" where
  "b64_encode [] = []"
| "b64_encode [a] = map b64_char [byte a div 4, byte a mod 4 * 16]"
| "b64_encode [a, b] = map b64_char [byte a div 4, byte a mod 4 * 16 + byte b div 16, byte b mod 16 * 4]"
| "b64_encode (a # b # c # r) =
     map b64_char [byte a div 4, byte a mod 4 * 16 + byte b div 16,
       byte b mod 16 * 4 + byte c div 64, byte c mod 64] @ b64_encode r"

text \<open>
  \<^verbatim>\<open>DecodeString\<close> skips line breaks, does not test the bits left over at the end, and fails
  on any other character and on a single one at the end.
\<close>

fun b64_bytes :: "nat list \<Rightarrow> string option" where
  "b64_bytes [] = Some []"
| "b64_bytes [x] = None"
| "b64_bytes [x, y] = Some [char_of (x * 4 + y div 16)]"
| "b64_bytes [x, y, z] = Some [char_of (x * 4 + y div 16), char_of (y mod 16 * 16 + z div 4)]"
| "b64_bytes (x # y # z # u # r) = map_option
     (\<lambda>s. char_of (x * 4 + y div 16) # char_of (y mod 16 * 16 + z div 4) # char_of (z mod 4 * 64 + u) # s)
     (b64_bytes r)"

definition line_break :: "char \<Rightarrow> bool" where
  "line_break c \<longleftrightarrow> byte c \<in> {10, 13}"

definition b64_decode :: "string \<Rightarrow> string option" where
  "b64_decode s = Option.bind (those (map b64_val (filter (\<lambda>c. \<not> line_break c) s))) b64_bytes"

section \<open>Numbers in text\<close>

definition digit_text :: "int \<Rightarrow> char" where "digit_text n = char_of (48 + nat n)"

text \<open>\<^verbatim>\<open>%d\<close> of a number that is not negative.\<close>

function decimal :: "int \<Rightarrow> string" where
  "decimal n = (if n < 10 then [digit_text n] else decimal (n div 10) @ [digit_text (n mod 10)])"
  by auto
termination by (relation "measure nat") auto

declare decimal.simps [simp del]

text \<open>
  The verbs of \<^verbatim>\<open>fmt.Sscanf\<close>: text of the format stands in the input; \<^verbatim>\<open>%d\<close> skips
  spaces, but no line break, and takes the longest run of digits, after a sign if the target is
  signed. The number has to fit. What follows the last verb is not looked at.
\<close>

definition scan_literal :: "string \<Rightarrow> string \<Rightarrow> string option" where
  "scan_literal l s = (if take (length l) s = l then Some (drop (length l) s) else None)"

fun skip_spaces :: "string \<Rightarrow> string option" where
  "skip_spaces [] = Some []"
| "skip_spaces (c # cs) = (if byte c = 10 then None else if is_space c then skip_spaces cs else Some (c # cs))"

definition scan_digits :: "string \<Rightarrow> (int \<times> string) option" where
  "scan_digits s = (let d = takeWhile (\<lambda>c. digit_val c \<noteq> None) s in
     if d = [] then None else map_option (\<lambda>n. (n, drop (length d) s)) (digits_val 0 d))"

definition scan_uint :: "nat \<Rightarrow> string \<Rightarrow> (int \<times> string) option" where
  "scan_uint bits s = do {
     s1 \<leftarrow> skip_spaces s;
     (n, rest) \<leftarrow> scan_digits s1;
     (if n < 2 ^ bits then Some (n, rest) else None) }"

definition scan_int :: "string \<Rightarrow> (int \<times> string) option" where
  "scan_int s = do {
     s1 \<leftarrow> skip_spaces s;
     (let signed = (s1 \<noteq> [] \<and> (hd s1 = CHR ''-'' \<or> hd s1 = CHR ''+'')) in do {
       (n, rest) \<leftarrow> scan_digits (if signed then tl s1 else s1);
       (let v = (if signed \<and> hd s1 = CHR ''-'' then - n else n) in
         if - (2 ^ 63) \<le> v \<and> v < 2 ^ 63 then Some (v, rest) else None) }) }"

section \<open>Hashing and verifying\<close>

record argon2Params =
  ap_memory :: "32 word"
  ap_iterations :: "32 word"
  ap_parallelism :: "8 word"
  ap_saltLen :: "32 word"
  ap_keyLen :: "32 word"

definition defaultArgonParams :: argon2Params where
  "defaultArgonParams = \<lparr>ap_memory = 64 * 1024, ap_iterations = 1, ap_parallelism = 4, ap_saltLen = 16, ap_keyLen = 32\<rparr>"

text \<open>\<^verbatim>\<open>argon2.IDKey(password, salt, time, memory, threads, keyLen)\<close> and \<^verbatim>\<open>argon2.Version\<close>.\<close>

type_synonym idkey = "string \<Rightarrow> string \<Rightarrow> 32 word \<Rightarrow> 32 word \<Rightarrow> 8 word \<Rightarrow> 32 word \<Rightarrow> string option"

definition argon2_version :: int where "argon2_version = 19"

text \<open>The random salt is an argument; \<open>None\<close> when \<^verbatim>\<open>crypto/rand\<close> fails.\<close>

definition hash_password :: "idkey \<Rightarrow> string option \<Rightarrow> string \<Rightarrow> string option" where
  "hash_password idkey salt password = (let p = defaultArgonParams in
     case salt of None \<Rightarrow> None | Some s \<Rightarrow>
     map_option (\<lambda>key. ''$argon2id$v='' @ decimal argon2_version @
         ''$m='' @ decimal (uint (ap_memory p)) @ '',t='' @ decimal (uint (ap_iterations p)) @
         '',p='' @ decimal (uint (ap_parallelism p)) @
         ''$'' @ b64_encode s @ ''$'' @ b64_encode key)
       (idkey password s (ap_iterations p) (ap_memory p) (ap_parallelism p) (ap_keyLen p)))"

datatype hash_verdict = Verified | Mismatch | BadHash string | Panicked

definition parse_version :: "string \<Rightarrow> int option" where
  "parse_version s = do { s1 \<leftarrow> scan_literal ''v='' s; (v, rest) \<leftarrow> scan_int s1; Some v }"

definition parse_params :: "string \<Rightarrow> (32 word \<times> 32 word \<times> 8 word) option" where
  "parse_params s = do {
     s1 \<leftarrow> scan_literal ''m='' s; (m, s2) \<leftarrow> scan_uint 32 s1;
     s3 \<leftarrow> scan_literal '',t='' s2; (t, s4) \<leftarrow> scan_uint 32 s3;
     s5 \<leftarrow> scan_literal '',p='' s4; (p, s6) \<leftarrow> scan_uint 8 s5;
     Some (word_of_int m, word_of_int t, word_of_int p) }"

definition VerifyPassword :: "idkey \<Rightarrow> string \<Rightarrow> string \<Rightarrow> hash_verdict" where
  "VerifyPassword idkey password encoded = (let parts = split_on (CHR ''$'') encoded in
     if length parts \<noteq> 6 \<or> parts ! 1 \<noteq> ''argon2id'' then BadHash ''invalid hash format''
     else case parse_version (parts ! 2) of
       None \<Rightarrow> BadHash ''invalid version''
     | Some v \<Rightarrow>
         if v \<noteq> argon2_version then BadHash ''unsupported argon2 version''
         else case parse_params (parts ! 3) of
           None \<Rightarrow> BadHash ''invalid params''
         | Some (m, t, n) \<Rightarrow> (case b64_decode (parts ! 4) of
             None \<Rightarrow> BadHash ''invalid salt''
           | Some salt \<Rightarrow> (case b64_decode (parts ! 5) of
               None \<Rightarrow> BadHash ''invalid hash''
             | Some expected \<Rightarrow> (case idkey password salt t m n (of_nat (length expected)) of
                 None \<Rightarrow> Panicked
               | Some actual \<Rightarrow> if actual = expected then Verified else Mismatch))))"

section \<open>Reading what was written\<close>

lemma byte_lt [simp]: "byte c < 256"
  unfolding byte_def by (metis of_char_mod_256 mod_less_divisor zero_less_numeral)

lemma char_of_byte [simp]: "char_of (byte c) = c"
  by (simp add: byte_def)

lemma b64_table: "list_all (\<lambda>n. b64_val (b64_char n) = Some n \<and> \<not> line_break (b64_char n) \<and> b64_char n \<noteq> CHR ''$'') [0..<64]"
  by code_simp

lemma b64_char_ok:
  assumes "n < 64"
  shows "b64_val (b64_char n) = Some n" "\<not> line_break (b64_char n)" "b64_char n \<noteq> CHR ''$''"
  using b64_table assms unfolding list_all_iff by auto

lemma those_map_Some: "(\<And>x. x \<in> set xs \<Longrightarrow> f x = Some (g x)) \<Longrightarrow> those (map f xs) = Some (map g xs)"
  by (induction xs) auto

text \<open>The encoding is the text of a list of six-bit values, and decoding reads these.\<close>

fun sextets :: "string \<Rightarrow> nat list" where
  "sextets [] = []"
| "sextets [a] = [byte a div 4, byte a mod 4 * 16]"
| "sextets [a, b] = [byte a div 4, byte a mod 4 * 16 + byte b div 16, byte b mod 16 * 4]"
| "sextets (a # b # c # r) = [byte a div 4, byte a mod 4 * 16 + byte b div 16,
     byte b mod 16 * 4 + byte c div 64, byte c mod 64] @ sextets r"

lemma b64_encode_sextets: "b64_encode s = map b64_char (sextets s)"
  by (induction s rule: sextets.induct) simp_all

lemma byte_parts: "byte a div 4 < 64" "byte a div 16 < 16" "byte a div 64 < 4"
  using byte_lt [of a] by (simp_all add: less_mult_imp_div_less)

lemma sextet_parts:
  "byte a mod 4 * 16 < 64" "byte a mod 4 * 16 + byte b div 16 < 64"
  "byte b mod 16 * 4 < 64" "byte b mod 16 * 4 + byte c div 64 < 64"
proof -
  have "byte a mod 4 < 4" "byte b mod 16 < 16" by simp_all
  then show "byte a mod 4 * 16 < 64" "byte a mod 4 * 16 + byte b div 16 < 64"
    "byte b mod 16 * 4 < 64" "byte b mod 16 * 4 + byte c div 64 < 64"
    using byte_parts [of b] byte_parts [of c] by linarith+
qed

lemma sextets_lt: "\<forall>n\<in>set (sextets s). n < 64"
  by (induction s rule: sextets.induct) (simp_all only: sextets.simps set_append list.set ball_simps ball_Un
      byte_parts sextet_parts mod_less_divisor zero_less_numeral simp_thms)

lemma join_parts:
  "y < 16 \<Longrightarrow> (x * 16 + y) div 16 = x" "y < 16 \<Longrightarrow> (x * 16 + y) mod 16 = y"
  "y < 4 \<Longrightarrow> (x * 4 + y) div 4 = x" "y < 4 \<Longrightarrow> (x * 4 + y) mod 4 = (y :: nat)"
  by simp_all

lemma b64_bytes_sextets: "b64_bytes (sextets s) = Some s"
  by (induction s rule: sextets.induct) (simp_all add: join_parts byte_parts)

lemma b64_roundtrip: "b64_decode (b64_encode s) = Some s"
proof -
  have "filter (\<lambda>c. \<not> line_break c) (b64_encode s) = b64_encode s"
    unfolding b64_encode_sextets using sextets_lt [of s] by (auto simp: filter_id_conv b64_char_ok)
  moreover have "those (map b64_val (b64_encode s)) = Some (sextets s)"
    unfolding b64_encode_sextets map_map using sextets_lt [of s]
    by (subst those_map_Some [where g = "\<lambda>n. n"]) (auto simp: b64_char_ok)
  ultimately show ?thesis by (simp add: b64_decode_def b64_bytes_sextets)
qed

lemma b64_no_dollar: "CHR ''$'' \<notin> set (b64_encode s)"
  unfolding b64_encode_sextets using sextets_lt [of s] using b64_char_ok(3) by fastforce

lemma split_on_piece: "c \<notin> set p \<Longrightarrow> split_on c (p @ c # r) = p # split_on c r"
  by (induction p) auto

lemma split_on_last: "c \<notin> set p \<Longrightarrow> split_on c p = [p]"
  by (induction p) auto

text \<open>The head of every hash, with the parameters written out.\<close>

lemma digit_texts [simp]:
  "digit_text 1 = CHR ''1''" "digit_text 3 = CHR ''3''" "digit_text 4 = CHR ''4''"
  "digit_text 5 = CHR ''5''" "digit_text 6 = CHR ''6''" "digit_text 9 = CHR ''9''"
  by code_simp+

lemma decimal_params: "decimal 19 = ''19''" "decimal 65536 = ''65536''" "decimal 1 = ''1''" "decimal 4 = ''4''"
  by (simp_all add: decimal.simps)

lemma params_uint:
  "uint (ap_memory defaultArgonParams) = 65536" "uint (ap_iterations defaultArgonParams) = 1"
  "uint (ap_parallelism defaultArgonParams) = 4"
  by (simp_all add: defaultArgonParams_def)

lemma hash_head:
  "''$argon2id$v='' @ decimal argon2_version @ ''$m='' @ decimal (uint (ap_memory defaultArgonParams)) @
     '',t='' @ decimal (uint (ap_iterations defaultArgonParams)) @
     '',p='' @ decimal (uint (ap_parallelism defaultArgonParams)) @ rest =
   ''$argon2id$v=19$m=65536,t=1,p=4'' @ rest"
  unfolding params_uint argon2_version_def decimal_params by simp

lemma hash_text:
  "hash_password idkey (Some salt) p = map_option
     (\<lambda>key. ''$argon2id$v=19$m=65536,t=1,p=4'' @ ''$'' @ b64_encode salt @ ''$'' @ b64_encode key)
     (idkey p salt 1 65536 4 32)"
  unfolding hash_head [symmetric] by (simp add: hash_password_def defaultArgonParams_def)

lemma parse_head:
  "parse_version ''v=19'' = Some 19" "parse_params ''m=65536,t=1,p=4'' = Some (65536, 1, 4)"
  by code_simp+

lemma verify_text:
  "VerifyPassword idkey q (''$argon2id$v=19$m=65536,t=1,p=4'' @ ''$'' @ b64_encode salt @ ''$'' @ b64_encode key) =
     (case idkey q salt 1 65536 4 (of_nat (length key)) of
        None \<Rightarrow> Panicked | Some k \<Rightarrow> if k = key then Verified else Mismatch)"
proof -
  have "split_on (CHR ''$'') (''$argon2id$v=19$m=65536,t=1,p=4'' @ ''$'' @ b64_encode salt @ ''$'' @ b64_encode key) =
      [[], ''argon2id'', ''v=19'', ''m=65536,t=1,p=4'', b64_encode salt, b64_encode key]"
    using split_on_piece [OF b64_no_dollar, of salt "b64_encode key"] split_on_last [OF b64_no_dollar, of key]
    by simp
  then show ?thesis
    by (simp add: VerifyPassword_def parse_head argon2_version_def b64_roundtrip split: option.split)
qed

text \<open>
  A stored hash verifies exactly the passwords whose key with the stored salt is the stored key.
\<close>

lemma verify_hash:
  assumes "hash_password idkey (Some salt) p = Some h" and "\<And>k. idkey p salt 1 65536 4 32 = Some k \<Longrightarrow> length k = 32"
  shows "VerifyPassword idkey q h = (case idkey q salt 1 65536 4 32 of None \<Rightarrow> Panicked
    | Some k \<Rightarrow> if idkey p salt 1 65536 4 32 = Some k then Verified else Mismatch)"
proof -
  from assms(1) obtain key where k: "idkey p salt 1 65536 4 32 = Some key"
    and h: "h = ''$argon2id$v=19$m=65536,t=1,p=4'' @ ''$'' @ b64_encode salt @ ''$'' @ b64_encode key"
    unfolding hash_text by blast
  from assms(2) [OF k] have "(of_nat (length key) :: 32 word) = 32" by simp
  with k show ?thesis unfolding h verify_text by (auto split: option.split)
qed

end
