(* ===== verification/Login_Props.thy ===== *)
theory Login_Props
  imports Password Session_Props
begin

text \<open>
  Passwords, end to end: an account that was registered is opened by its password and by no other,
  through the stored argon2id string.
\<close>

section \<open>The externals with the real hash\<close>

text \<open>Hashing and verifying by \<open>Password\<close>, over \<^verbatim>\<open>argon2.IDKey\<close> and the salts drawn.\<close>

definition with_argon2 :: "idkey \<Rightarrow> (nat \<Rightarrow> string option) \<Rightarrow> externals \<Rightarrow> externals" where
  "with_argon2 idkey salts x = x\<lparr>x_hash_password := (\<lambda>n p. hash_password idkey (salts n) p),
     x_verify_password := (\<lambda>h p. VerifyPassword idkey p h = Verified)\<rparr>"

text \<open>A service on which nothing stands in the way of a login from now on.\<close>

definition login_possible :: "world \<Rightarrow> bool" where
  "login_possible w \<longleftrightarrow> (\<forall>n\<ge>tick w. x_avail (ext w) n = Up \<and> (\<forall>k. x_allow (ext w) n k) \<and>
     (\<exists>raw. x_token (ext w) n = Some raw \<and>
       (\<forall>s\<in>set (sessions (tabs w)). s_token_hash s \<noteq> x_token_hash (ext w) raw)) \<and>
     (\<forall>s\<in>set (sessions (tabs w)). s_id s \<noteq> x_ids (ext w) n))"

lemma answer_session_possible:
  assumes "login_possible w" and "u \<in> set (users (tabs w))"
  shows "\<exists>raw w'. run_state (answer_session r code msg u) w = (Okay code (raw, toPublicUser u), w')"
proof -
  from assms(1) obtain raw where "x_token (ext w) (tick w) = Some raw"
    "\<forall>s\<in>set (sessions (tabs w)). s_token_hash s \<noteq> x_token_hash (ext w) raw"
    unfolding login_possible_def by blast
  moreover from assms(1) have "x_avail (ext w) (Suc (tick w)) = Up"
    "\<forall>s\<in>set (sessions (tabs w)). s_id s \<noteq> x_ids (ext w) (Suc (Suc (tick w)))"
    unfolding login_possible_def by (metis le_Suc_eq order_refl)+
  ultimately show ?thesis using assms(2)
    by (auto simp: answer_session_def issueSession_def run_external run_ask CreateSession_def run_sql_write gen_uuid_def
        Let_def exists_where_iff refers_iff)
qed

lemma find_named_user:
  assumes "users_ok us" and "u \<in> set us" and "live_user u"
  shows "find_where (\<lambda>v. ci_eq (u_email v) (u_email u) \<and> live_user v) us = Some u"
    "find_where (\<lambda>v. ci_eq (u_username v) (u_username u) \<and> live_user v) us = Some u"
  using assms
  by (intro find_where_unique [where k = "to_lower \<circ> u_email"]; simp add: users_ok_def ci_eq_def)
    (use assms in \<open>intro find_where_unique [where k = "to_lower \<circ> u_username"]; simp add: users_ok_def ci_eq_def\<close>)

lemma login_possible_tock: "login_possible w \<Longrightarrow> login_possible (tock w)"
  by (auto simp: login_possible_def)

text \<open>A login that names a live account: the hash decides.\<close>

lemma login_decided:
  assumes "users_ok (users (tabs w))" and "u \<in> set (users (tabs w))" and "live_user u"
    and "u_password_hash u = Some h" and "login_possible w" and "ident \<noteq> []"
    and "ident = (if contains_char (CHR ''@'') ident then u_email u else u_username u)"
  shows "if x_verify_password (ext w) h pw
     then \<exists>raw w'. run_state (handleLogin r (Some (ident, pw))) w = (Okay 200 (raw, toPublicUser u), w')
     else fst (run_state (handleLogin r (Some (ident, pw))) w) = Fail 401 ''invalid credentials''"
proof -
  from assms(5) have up: "\<And>n. tick w \<le> n \<Longrightarrow> x_avail (ext w) n = Up" "\<And>k. x_allow (ext w) (tick w) k"
    unfolding login_possible_def by auto
  have f: "find_where (\<lambda>v. ci_eq (u_email v) (u_email u) \<and> live_user v) (users (tabs w)) = Some u"
    "find_where (\<lambda>v. ci_eq (u_username v) (u_username u) \<and> live_user v) (users (tabs w)) = Some u"
    "find_where (\<lambda>v. u_id v = u_id u \<and> live_user v) (users (tabs w)) = Some u"
    using find_named_user [OF assms(1-3)] find_live_user [OF assms(1-3)] by simp_all
  have c: "run_state (lookupCredential ident) (tock w) = (Some (u_id u, Some h), tock (tock w))"
  proof (cases "contains_char (CHR ''@'') ident")
    case True
    with assms(7) have "ident = u_email u" by simp
    with True f up show ?thesis
      by (simp add: lookupCredential_def GetUserCredentialByEmail_def run_sql_read one_def assms(4))
  next
    case False
    with assms(7) have "ident = u_username u" by simp
    with False f up show ?thesis
      by (simp add: lookupCredential_def GetUserCredentialByUsername_def run_sql_read one_def assms(4))
  qed
  have g: "run_state (GetUserByID (u_id u)) (tock (tock w)) = (Inr u, tock (tock (tock w)))"
    using f(3) up by (simp add: GetUserByID_def run_sql_read one_def)
  show ?thesis
  proof (cases "x_verify_password (ext w) h pw")
    case True
    have "login_possible (tock (tock (tock w)))" using assms(5) by (intro login_possible_tock)
    from answer_session_possible [OF this, of u] assms(2) True c g up(2) assms(6) show ?thesis
      by (simp add: handleLogin_def run_external run_ask verified_def run_handle)
  next
    case False
    with c up(2) assms(6) show ?thesis
      by (simp add: handleLogin_def run_external run_ask verified_def)
  qed
qed

text \<open>
  C18: Who registers can log in. Take an account that was registered and is still as it was; on a
  service where nothing stands in the way of a login, the name and the address of the account both
  open it with the registered password, over the PHC string that registration stored, and any other
  password opens it only if argon2 gives it the same key under the salt drawn; otherwise it is told
  that the credentials are invalid.
\<close>

theorem registered_can_log_in:
  assumes "run_state (handleRegister cfg r (Some q)) w = (Okay c (tok, pu), w1)" and "txn w = None"
    and "ext w = with_argon2 idkey salts x" and "ext w2 = ext w"
    and "\<And>p s. \<exists>key. idkey p s 1 65536 4 32 = Some key \<and> length key = 32"
    and "users_ok (users (tabs w2))" and "last (users (tabs w1)) \<in> set (users (tabs w2))" and "login_possible w2"
    and "ident \<in> {qg_username q, qg_email q}"
  shows "\<exists>salt. salts (tick w) = Some salt \<and>
     (if idkey pw salt 1 65536 4 32 = idkey (qg_password q) salt 1 65536 4 32
      then \<exists>raw w3. run_state (handleLogin r' (Some (ident, pw))) w2 = (Okay 200 (raw, pu), w3)
      else fst (run_state (handleLogin r' (Some (ident, pw))) w2) = Fail 401 ''invalid credentials'')"
proof -
  from register_Okay [OF assms(1,2)] obtain u hash where
    ck: "check_register cfg q = (None :: (string \<times> public_user) resp option)"
    and h: "hash_password idkey (salts (tick w)) (qg_password q) = Some hash"
    and u: "users (tabs w1) = users (tabs w) @ [u]" "live_user u" "pu = toPublicUser u"
      "u_username u = qg_username q" "u_email u = qg_email q" "u_password_hash u = Some hash"
    by (auto simp: assms(3) with_argon2_def)
  from h obtain salt where salt: "salts (tick w) = Some salt" by (auto simp: hash_password_def split: option.splits)
  have v: "VerifyPassword idkey pw hash =
      (if idkey pw salt 1 65536 4 32 = idkey (qg_password q) salt 1 65536 4 32 then Verified else Mismatch)"
    using verify_hash [OF h [unfolded salt], of pw] assms(5) [of pw salt] assms(5) [of "qg_password q" salt] by auto
  from check_register_None [OF ck] have n: "usernameRE (qg_username q)" "contains_char (CHR ''@'') (qg_email q)" by simp_all
  then have "\<not> contains_char (CHR ''@'') (qg_username q)"
    by (auto simp: usernameRE_def list_all_iff contains_char_def username_char_def Let_def)
  with n assms(9) u(4,5) have i: "ident \<noteq> []" "ident = (if contains_char (CHR ''@'') ident then u_email u else u_username u)"
    by (auto simp: usernameRE_def contains_char_def)
  have "u \<in> set (users (tabs w2))" using assms(7) u(1) by simp
  from login_decided [OF assms(6) this u(2,6) assms(8) i, of pw r'] v salt u(3)
  show ?thesis by (auto simp: assms(3,4) with_argon2_def split: if_splits)
qed

definition demo_idkey :: idkey where
  "demo_idkey p s t m n k = Some (take (unat k) (p @ s @ replicate (unat k) (CHR ''.'')))"

definition argon2_world :: world where
  "argon2_world = (demo_world empty_db 5)\<lparr>ext := with_argon2 demo_idkey (\<lambda>n. Some (replicate 16 (CHR ''s''))) demo_ext\<rparr>"

definition ann_registered :: "(string \<times> public_user) resp \<times> world" where
  "ann_registered = run_state (handleRegister demo_config (demo_request_of []) (Some ann_register)) argon2_world"

lemma ann_is_in:
  "\<not> failed (fst ann_registered)" "users_ok (users (tabs (snd ann_registered)))"
  "users (tabs (snd ann_registered)) \<noteq> []" "tick (snd ann_registered) = 6"
  "map s_token_hash (sessions (tabs (snd ann_registered))) = [''httt'']"
  "map s_id (sessions (tabs (snd ann_registered))) = [105]"
  by code_simp+

lemma ann_succeeded: "\<exists>c tok pu w1. ann_registered = (Okay c (tok, pu), w1)"
proof (cases "fst ann_registered")
  case (Fail n m)
  with ann_is_in(1) show ?thesis by simp
next
  case (Okay c v)
  then have "ann_registered = (Okay c (fst v, snd v), snd ann_registered)" by (metis prod.collapse)
  then show ?thesis by blast
qed

lemma ann_can_log_in: "login_possible (snd ann_registered)" "ext (snd ann_registered) = ext argon2_world"
proof -
  obtain c tok pu w1 where r: "ann_registered = (Okay c (tok, pu), w1)" using ann_succeeded by blast
  have "txn argon2_world = None" by (simp add: argon2_world_def demo_world_def)
  from register_Okay [OF r [unfolded ann_registered_def] this]
  show e: "ext (snd ann_registered) = ext argon2_world" by (auto simp: r)
  have "s_token_hash s = ''httt'' \<and> s_id s = 105" if "s \<in> set (sessions (tabs (snd ann_registered)))" for s
    using ann_is_in(5,6) that by (auto simp: map_eq_Cons_conv)
  moreover have "''httt'' \<noteq> CHR ''h'' # replicate n (CHR ''t'')" if "6 \<le> n" for n
    using that by (auto dest: arg_cong [where f = length])
  ultimately show "login_possible (snd ann_registered)"
    unfolding login_possible_def ann_is_in(4) e
    by (auto simp: argon2_world_def with_argon2_def demo_ext_def demo_world_def)
qed

text \<open>Ann logs in by her address; a wrong password is refused.\<close>

lemma registered_can_log_in_witness:
  "(\<exists>a. fst (run_state (handleLogin (demo_request_of []) (Some (''ann@example.org'', ''secretsecret''))) (snd ann_registered))
       = Okay 200 a) \<and>
   fst (run_state (handleLogin (demo_request_of []) (Some (''ann'', ''secretsecreT''))) (snd ann_registered))
       = Fail 401 ''invalid credentials''"
proof -
  obtain c tok pu w1 where r: "run_state (handleRegister demo_config (demo_request_of []) (Some ann_register)) argon2_world =
      (Okay c (tok, pu), w1)" and w1: "snd ann_registered = w1"
    using ann_succeeded unfolding ann_registered_def by auto
  have e: "txn argon2_world = None" "ext argon2_world = with_argon2 demo_idkey (\<lambda>n. Some (replicate 16 (CHR ''s''))) demo_ext"
    by (simp_all add: argon2_world_def demo_world_def)
  have k: "\<exists>key. demo_idkey p s 1 65536 4 32 = Some key \<and> length key = 32" for p s by (simp add: demo_idkey_def)
  note t = registered_can_log_in [OF r e ann_can_log_in(2) [unfolded w1] k ann_is_in(2) [unfolded w1] last_in_set
      [OF ann_is_in(3) [unfolded w1]] ann_can_log_in(1) [unfolded w1], where r' = "demo_request_of []"]
  have "demo_idkey ''secretsecreT'' (replicate 16 (CHR ''s'')) 1 65536 4 32 \<noteq>
      demo_idkey ''secretsecret'' (replicate 16 (CHR ''s'')) 1 65536 4 32" by (simp add: demo_idkey_def)
  with t [of "''ann@example.org''" "''secretsecret''"] t [of "''ann''" "''secretsecreT''"] show ?thesis
    unfolding w1 by (auto simp: ann_register_def)
qed

end
