(* ===== verification/Selftest.thy ===== *)
theory Selftest
  imports Backups Password Dispatch_Props
begin

text \<open>
  The smoke test of a deployed instance, \<^verbatim>\<open>internal/selftest/selftest.go\<close>: it writes a row
  of every kind in a transaction that is rolled back and a probe object to each store. The schema
  and the version that the migrations left and the random suffixes are arguments.
\<close>

section \<open>The environment\<close>

record selftest_env =
  st_tables :: "string list"
  st_version :: "nat \<Rightarrow> int option"
  st_rand :: "nat \<Rightarrow> string option"

text \<open>The next call to the outside, and a connection that the database accepts or not.\<close>

definition next_call :: "nat act" where
  "next_call = do { n \<leftarrow> ask tick; State_Monad.update tock; ret n }"

definition connection :: "bool act" where
  "connection = do { x \<leftarrow> ask ext; n \<leftarrow> next_call; ret (x_avail x n = Up) }"

definition hex_digit :: "nat \<Rightarrow> char" where
  "hex_digit n = ''0123456789abcdef'' ! n"

definition hex_text :: "string \<Rightarrow> string" where
  "hex_text s = concat (map (\<lambda>c. [hex_digit (of_char c div 16), hex_digit (of_char c mod 16)]) s)"

definition randomSuffix :: "selftest_env \<Rightarrow> string option act" where
  "randomSuffix v = do { n \<leftarrow> next_call; ret (map_option hex_text (st_rand v n)) }"

section \<open>The schema\<close>

definition expected_tables :: "string list" where
  "expected_tables = [''users'', ''sessions'', ''recipes'', ''recipe_revisions'', ''batches'',
     ''readings'', ''batch_events'', ''tasting_notes'', ''reminders'', ''notifications'', ''devices'',
     ''batch_devices'', ''notification_prefs'', ''push_devices'', ''recipe_reminder_templates'',
     ''recipe_likes'', ''recipe_comments'', ''follows'', ''user_exports'', ''admin_backups'',
     ''river_job'', ''river_migration'']"

fun check_tables :: "selftest_env \<Rightarrow> string list \<Rightarrow> string option act" where
  "check_tables v [] = ret None"
| "check_tables v (t # ts) = do {
     r \<leftarrow> sql_read (\<lambda>w. Inr (t \<in> set (st_tables v)));
     (case r of
        Inl e \<Rightarrow> ret (Some ''query'')
      | Inr found \<Rightarrow> if found then check_tables v ts else ret (Some (''missing table: '' @ t))) }"

definition schemaCheck :: "selftest_env \<Rightarrow> string option act" where
  "schemaCheck v = check_tables v expected_tables"

section \<open>A row of every kind\<close>

text \<open>A statement and the rest of the function, which wraps the error.\<close>

definition attempt :: "'a stmt \<Rightarrow> string \<Rightarrow> ('a \<Rightarrow> string option act) \<Rightarrow> string option act" where
  "attempt m msg k = do { r \<leftarrow> m; (case r of Inl e \<Rightarrow> ret (Some msg) | Inr a \<Rightarrow> k a) }"

definition no_targets :: targets where
  "no_targets = \<lparr>tg_og = None, tg_fg = None, tg_abv = None, tg_batch_size = None\<rparr>"

text \<open>
  The inserts name a few columns and leave the others to the defaults of the schema; these are the
  statements of the program with the defaults filled in. The update of the recipe is its own.
\<close>

definition set_current :: "uuid \<Rightarrow> uuid \<Rightarrow> unit stmt" where
  "set_current rv i = sql_write (\<lambda>w. let rows = recipes (tabs w) in
     if refers rc_id rows i \<and> \<not> refers rv_id (revisions (tabs w)) rv then Inl ForeignKeyViolation
     else Inr ((), set_tabs ((tabs w)\<lparr>recipes := upd_where (\<lambda>r. rc_id r = i)
       (\<lambda>r. r\<lparr>rc_current_revision := Some rv, rc_revision_count := 1\<rparr>) rows\<rparr>) w))"

definition crud_rows :: "selftest_env \<Rightarrow> string option act" where
  "crud_rows v = do {
     sfx \<leftarrow> randomSuffix v;
     now \<leftarrow> ask clock;
     (case sfx of None \<Rightarrow> ret (Some ''rand'') | Some x \<Rightarrow>
     attempt (CreateUser (''selftest_'' @ x) (''selftest_'' @ x @ ''@example.com'') None) ''insert user'' (\<lambda>u.
     attempt (CreateRecipeDraft \<lparr>cr_author = u_id u, cr_brew_type = ''mead'', cr_name = ''selftest'',
         cr_style = None, cr_description = None, cr_targets = no_targets, cr_visibility = ''public''\<rparr>)
       ''insert recipe'' (\<lambda>rc.
     attempt (CreateRecipeRevision \<lparr>rp_recipe = rc_id rc, rp_number = 1, rp_author = u_id u,
         rp_message = None, rp_name = ''selftest'', rp_style = None, rp_description = None,
         rp_targets = no_targets, rp_ingredients = []\<rparr>) ''insert revision'' (\<lambda>rv.
     attempt (set_current (rv_id rv) (rc_id rc)) ''set current revision'' (\<lambda>_.
     attempt (CreateBatch \<lparr>cb_brewer = u_id u, cb_recipe = Some (rc_id rc),
         cb_recipe_revision = Some (rv_id rv), cb_name = ''selftest'', cb_brew_type = ''mead'',
         cb_stage = ''primary'', cb_started_at = None, cb_notes = None, cb_visibility = ''public''\<rparr>)
       ''insert batch'' (\<lambda>b.
     attempt (CreateReading \<lparr>pr_batch = b_id b, pr_taken_at = now, pr_gravity = Some 1.105,
         pr_temperature_c = Some 21.5, pr_ph = None, pr_notes = None, pr_source = ''manual''\<rparr>)
       ''insert reading'' (\<lambda>_.
     attempt (CreateBatchEvent \<lparr>pe_batch = b_id b, pe_occurred_at = now, pe_kind = ''pitch'',
         pe_title = Some ''selftest pitch'', pe_description = None, pe_details = ''{}''\<rparr>)
       ''insert event'' (\<lambda>_.
     attempt (CreateUserExport (u_id u) ''zip'') ''insert user_export'' (\<lambda>_.
     attempt (CreateAdminBackup ''local'') ''insert admin_backup'' (\<lambda>_. ret None)))))))))) }"

definition crudRoundtrip :: "selftest_env \<Rightarrow> string option act" where
  "crudRoundtrip v = attempt tx_begin ''begin'' (\<lambda>_. defer_rollback (crud_rows v))"

section \<open>The stores\<close>

definition probe_payload :: string where "probe_payload = ''zymo selftest storage probe''"

definition probe_key :: "string \<Rightarrow> string \<Rightarrow> string" where
  "probe_key pre sfx = pre @ ''probe-'' @ sfx @ ''.txt''"

definition read_probe :: "backend \<Rightarrow> store \<Rightarrow> string \<Rightarrow> (string + string) act" where
  "read_probe be st key = do {
     b \<leftarrow> store_get st key;
     (case b of
        None \<Rightarrow> ret (Inl ''get'')
      | Some got \<Rightarrow> do {
          complete \<leftarrow> io_step;
          ret (if \<not> complete then Inl ''read''
            else if got \<noteq> probe_payload then Inl ''content mismatch'' else Inr (Backend be)) }) }"

text \<open>The deferred deletion runs after a put that went well, and its error counts if there is no other.\<close>

definition storageProbe :: "selftest_env \<Rightarrow> backend_config \<Rightarrow> store \<Rightarrow> string \<Rightarrow> (string + string) act" where
  "storageProbe v bc st pre = do {
     s \<leftarrow> store_New bc;
     (case s of
        None \<Rightarrow> ret (Inl ''init'')
      | Some be \<Rightarrow> do {
          sfx \<leftarrow> randomSuffix v;
          (case sfx of
             None \<Rightarrow> ret (Inl ''rand'')
           | Some x \<Rightarrow> do {
               ok \<leftarrow> store_put be st (probe_key pre x) (Some probe_payload);
               (if \<not> ok then ret (Inl ''put'')
                else do {
                  r \<leftarrow> read_probe be st (probe_key pre x);
                  del \<leftarrow> store_delete st (probe_key pre x);
                  ret (if \<not> del \<and> \<not> isl r then Inl ''delete probe'' else r) }) }) }) }"

section \<open>The run\<close>

record check =
  ck_name :: string
  ck_ok :: bool
  ck_msg :: string

text \<open>\<^verbatim>\<open>"[%s] %-12s %s\n"\<close>, or without the message.\<close>

definition report_line :: "check \<Rightarrow> string" where
  "report_line c = ''['' @ (if ck_ok c then '' OK '' else ''FAIL'') @ ''] '' @
     (if ck_msg c \<noteq> [] then ck_name c @ replicate (12 - length (ck_name c)) (CHR '' '') @ '' '' @ ck_msg c
      else ck_name c) @ [CHR 0x0A]"

definition report :: "check list \<Rightarrow> string" where
  "report cs = concat (map report_line cs)"

text \<open>The checks in their order, the first that fails ends the run.\<close>

fun run_checks :: "check list \<Rightarrow> (string \<times> (string + string) act) list \<Rightarrow> (bool \<times> string) act" where
  "run_checks done [] = ret (True, report done)"
| "run_checks done ((n, m) # rest) = do {
     r \<leftarrow> m;
     (case r of
        Inl e \<Rightarrow> ret (False, report (done @ [\<lparr>ck_name = n, ck_ok = False, ck_msg = e\<rparr>]))
      | Inr info \<Rightarrow> run_checks (done @ [\<lparr>ck_name = n, ck_ok = True, ck_msg = info\<rparr>]) rest) }"

definition connect :: "(string + string) act" where
  "connect = do { ok \<leftarrow> connection; ret (if ok then Inr [] else Inl ''connection'') }"

definition silent :: "string option act \<Rightarrow> (string + string) act" where
  "silent m = do { r \<leftarrow> m; ret (case r of None \<Rightarrow> Inr [] | Some e \<Rightarrow> Inl e) }"

text \<open>\<^verbatim>\<open>migrate.Version\<close> over a connection of its own, shown as \<^verbatim>\<open>version=%d\<close>.\<close>

definition migrations :: "selftest_env \<Rightarrow> (string + string) act" where
  "migrations v = do {
     ok \<leftarrow> connection;
     (if \<not> ok then ret (Inl ''connection'')
      else do {
        n \<leftarrow> next_call;
        ret (case st_version v n of
          None \<Rightarrow> Inl ''version''
        | Some i \<Rightarrow> Inr (''version='' @ (if i < 0 then ''-'' else []) @ decimal \<bar>i\<bar>)) }) }"

definition probed :: "(string + string) act \<Rightarrow> (string + string) act" where
  "probed m = do { r \<leftarrow> m; ret (case r of Inl e \<Rightarrow> Inl e | Inr b \<Rightarrow> Inr (''backend='' @ b)) }"

definition selftest :: "selftest_env \<Rightarrow> config \<Rightarrow> (bool \<times> string) act" where
  "selftest v cfg = run_checks [] (
     [(''connect'', connect), (''ping'', connect), (''migrations'', migrations v),
      (''schema'', silent (schemaCheck v)), (''roundtrip'', silent (crudRoundtrip v)),
      (''storage'', probed (storageProbe v (PrimaryStorage cfg) Export_Store ''selftest/primary-''))] @
     (if BackupStorage cfg \<noteq> PrimaryStorage cfg
      then [(''backup-storage'', probed (storageProbe v (BackupStorage cfg) Backup_Store ''selftest/backup-''))]
      else []))"

section \<open>No trace\<close>

text \<open>
  The rows: within the transaction anything goes, and the rollback brings the tables back.
  \<open>unmarked\<close> is what a check leaves of the world but for probe objects.
\<close>

definition probe_name :: "string \<Rightarrow> bool" where
  "probe_name k \<longleftrightarrow> (\<exists>p x. p \<in> {''selftest/primary-'', ''selftest/backup-''} \<and> k = probe_key p x)"

definition unmarked :: "world \<Rightarrow> world \<Rightarrow> bool" where
  "unmarked w w' \<longleftrightarrow> (txn w = None \<longrightarrow> txn w' = None \<and> tabs w' = tabs w \<and> outbox w' = outbox w \<and>
     clock w' = clock w \<and> ext w' = ext w \<and>
     (\<forall>st k. \<not> probe_name k \<longrightarrow> blobs st w' k = blobs st w k))"

interpretation um: kept_relation unmarked
  by unfold_locales (auto simp: unmarked_def)

lemma um_update: "(\<And>w. unmarked w (f w)) \<Longrightarrow> keeps unmarked (State_Monad.update f)"
  by (simp add: keeps_def run_update)

lemma um_set_blob: "probe_name k \<Longrightarrow> keeps unmarked (State_Monad.update (set_blob st k b))"
proof (rule um_update)
  fix w
  assume k: "probe_name k"
  have "blobs st' (set_blob st k b w) j = blobs st' w j" if "\<not> probe_name j" for st' j
    using that k by (cases "st' = st") auto
  then show "unmarked w (set_blob st k b w)" by (simp add: unmarked_def)
qed

lemma um_calls:
  "keeps unmarked next_call" "keeps unmarked connection" "keeps unmarked (randomSuffix v)" "keeps unmarked io_step"
  "keeps unmarked (store_New bc)" "keeps unmarked (store_get st k)"
  unfolding next_call_def connection_def randomSuffix_def io_step_def store_New_def store_get_def
  by (auto intro!: um.keeps_intros um_update simp: unmarked_def)

lemma um_store:
  assumes "probe_name k"
  shows "keeps unmarked (store_put be st k b)" "keeps unmarked (store_delete st k)"
  by (cases be) (auto simp: store_delete_def intro!: um.keeps_intros um_calls um_set_blob assms)

lemma um_schema: "keeps unmarked (schemaCheck v)"
proof -
  have "keeps unmarked (check_tables v ts)" for ts
    by (induction ts) (auto intro!: um.keeps_intros split: sum.split)
  then show ?thesis by (simp add: schemaCheck_def)
qed

lemma um_probe:
  assumes "pre \<in> {''selftest/primary-'', ''selftest/backup-''}"
  shows "keeps unmarked (storageProbe v bc st pre)"
proof -
  have "probe_name (probe_key pre x)" for x using assms unfolding probe_name_def by blast
  then show ?thesis unfolding storageProbe_def read_probe_def
    by (auto intro!: um.keeps_intros um_calls um_store split: option.split)
qed

text \<open>A statement changes the tables and nothing else, inside a transaction or not.\<close>

definition only_tabs :: "world \<Rightarrow> world \<Rightarrow> bool" where
  "only_tabs w w' \<longleftrightarrow> txn w' = txn w \<and> outbox w' = outbox w \<and> clock w' = clock w \<and> ext w' = ext w \<and>
     export_blobs w' = export_blobs w \<and> backup_blobs w' = backup_blobs w"

interpretation rt: kept_relation only_tabs
  by unfold_locales (auto simp: only_tabs_def)

lemma rt_attempt: "keeps only_tabs m \<Longrightarrow> (\<And>a. keeps only_tabs (k a)) \<Longrightarrow> keeps only_tabs (attempt m msg k)"
  unfolding attempt_def by (intro rt.keeps_bind) (auto intro: rt.keeps_intros split: sum.split)

lemma rt_recipes:
  "keeps only_tabs (CreateUser un em dn)" "keeps only_tabs (CreateRecipeDraft r)"
  "keeps only_tabs (CreateRecipeRevision rv)" "keeps only_tabs (set_current j i)"
  unfolding CreateUser_def CreateUserWithPassword_def CreateRecipeDraft_def CreateRecipeRevision_def insert_revision_def set_current_def
  by (intro rt.keeps_sql_write; auto simp: Let_def sql_insert_Inr gen_uuid_def only_tabs_def
      split: option.splits sum.splits if_splits)+

lemma rt_batches:
  "keeps only_tabs (CreateBatch b)" "keeps only_tabs (CreateReading rd)" "keeps only_tabs (CreateBatchEvent e)"
  unfolding CreateBatch_def CreateReading_def CreateBatchEvent_def
  by (intro rt.keeps_sql_write; auto simp: Let_def sql_insert_Inr gen_uuid_def only_tabs_def
      split: option.splits sum.splits if_splits)+

lemma rt_jobs: "keeps only_tabs (CreateUserExport i f)" "keeps only_tabs (CreateAdminBackup bk)"
  unfolding CreateUserExport_def CreateAdminBackup_def
  by (intro rt.keeps_sql_write; auto simp: Let_def sql_insert_Inr gen_uuid_def only_tabs_def)+

lemmas rt_statements = rt_recipes rt_batches rt_jobs

lemma rt_update: "(\<And>w. only_tabs w (f w)) \<Longrightarrow> keeps only_tabs (State_Monad.update f)"
  by (simp add: keeps_def run_update)

lemma rt_suffix: "keeps only_tabs (randomSuffix v)"
  unfolding randomSuffix_def next_call_def by (auto intro!: rt.keeps_intros rt_update simp: only_tabs_def)

lemma rt_rows: "keeps only_tabs (crud_rows v)"
  unfolding crud_rows_def
  by (intro rt.keeps_bind rt_suffix rt.keeps_ask)
    (auto split: option.split intro!: rt_attempt rt_statements rt.keeps_return)

lemma um_roundtrip: "keeps unmarked (crudRoundtrip v)"
  unfolding keeps_def
proof
  fix w
  obtain r w1 where b: "run_state tx_begin w = (r, w1)" by fastforce
  show "unmarked w (snd (run_state (crudRoundtrip v) w))"
  proof (cases r)
    case (Inl e)
    with b show ?thesis
      by (auto simp: crudRoundtrip_def attempt_def tx_begin_def run_sql_write unmarked_def split: outcome.splits)
  next
    case (Inr u)
    with b have w1: "w1 = (tock w)\<lparr>txn := Some (tabs w)\<rparr>"
      by (auto simp: tx_begin_def run_sql_write split: outcome.splits)
    have "only_tabs w1 (snd (run_state (crud_rows v) w1))" using rt_rows by (simp add: keeps_def)
    with b Inr w1 show ?thesis
      by (auto simp: crudRoundtrip_def attempt_def defer_rollback_def run_update unmarked_def only_tabs_def
          rollback_def split: prod.split) (case_tac st; simp)
  qed
qed

lemma um_checks: "(\<And>n m. (n, m) \<in> set cs \<Longrightarrow> keeps unmarked m) \<Longrightarrow> keeps unmarked (run_checks done cs)"
proof (induction cs arbitrary: "done")
  case (Cons c cs)
  obtain n m where c: "c = (n, m)" by (cases c)
  have "keeps unmarked (run_checks d cs)" for d using Cons.prems by (intro Cons.IH) auto
  moreover have "keeps unmarked m" using Cons.prems c by auto
  ultimately show ?case unfolding c run_checks.simps by (auto intro!: um.keeps_intros split: sum.split)
qed (simp add: um.keeps_intros)

lemma um_connect: "keeps unmarked connect" "keeps unmarked (migrations v)"
  unfolding connect_def migrations_def by (auto intro!: um.keeps_intros um_calls)

lemma um_views: "keeps unmarked m \<Longrightarrow> keeps unmarked (silent m)" "keeps unmarked r \<Longrightarrow> keeps unmarked (probed r)"
  unfolding silent_def probed_def by (auto intro!: um.keeps_intros)

lemma um_selftest: "keeps unmarked (selftest v cfg)"
  unfolding selftest_def
  by (rule um_checks) (auto split: if_splits intro!: um_connect um_views um_schema um_roundtrip um_probe)

section \<open>What a pass says\<close>

text \<open>A run that passes passed every check, and a relation that each check brings about holds at the end.\<close>

lemma run_checks_pass:
  assumes "run_state (run_checks done cs) w = ((True, out), w')"
    and "\<And>w. R w w" and "\<And>w w1 w2. R w w1 \<Longrightarrow> R w1 w2 \<Longrightarrow> R w w2"
    and "\<And>n m w i w1. (n, m) \<in> set cs \<Longrightarrow> run_state m w = (Inr i, w1) \<Longrightarrow> R w w1"
  shows "R w w' \<and> (\<forall>(n, m)\<in>set cs. \<exists>w i w1. run_state m w = (Inr i, w1))"
  using assms(1,4)
proof (induction cs arbitrary: "done" w)
  case Nil
  with assms(2) show ?case by simp
next
  case (Cons c cs)
  obtain n m where c: "c = (n, m)" by (cases c)
  from Cons.prems(1) obtain i w1 d where m: "run_state m w = (Inr i, w1)"
    and rest: "run_state (run_checks d cs) w1 = ((True, out), w')"
    by (auto simp: c split: prod.splits sum.splits)
  have "R w1 w' \<and> (\<forall>(n, m)\<in>set cs. \<exists>w i w1. run_state m w = (Inr i, w1))"
  proof (rule Cons.IH [OF rest])
    fix n' m' u j u1
    assume "(n', m') \<in> set cs" "run_state m' u = (Inr j, u1)"
    then show "R u u1" by (intro Cons.prems(2) [of n' m']) simp_all
  qed
  moreover have "R w w1" by (rule Cons.prems(2) [of n m w i w1]) (simp_all add: m c)
  ultimately show ?case using m c assms(3) by auto
qed

lemma check_tables_pass:
  "run_state (check_tables v ts) w = (None, w') \<Longrightarrow> set ts \<subseteq> set (st_tables v)"
  by (induction ts arbitrary: w) (auto simp: run_sql_read split: outcome.splits if_splits)

definition same_blobs :: "world \<Rightarrow> world \<Rightarrow> bool" where
  "same_blobs w w' \<longleftrightarrow> export_blobs w' = export_blobs w \<and> backup_blobs w' = backup_blobs w"

interpretation sb: kept_relation same_blobs
  by unfold_locales (auto simp: same_blobs_def)

lemma sb_update: "(\<And>w. same_blobs w (f w)) \<Longrightarrow> keeps same_blobs (State_Monad.update f)"
  by (simp add: keeps_def run_update)

lemma sb_calls: "keeps same_blobs connect" "keeps same_blobs (migrations v)" "keeps same_blobs (store_New bc)"
    "keeps same_blobs (randomSuffix v)" "keeps same_blobs (store_get st k)" "keeps same_blobs io_step"
  unfolding connect_def migrations_def store_New_def connection_def next_call_def randomSuffix_def io_step_def store_get_def
  by (auto intro!: sb.keeps_intros sb_update simp: same_blobs_def)

lemma sb_schema: "keeps same_blobs (schemaCheck v)"
proof -
  have "keeps same_blobs (check_tables v ts)" for ts
    by (induction ts) (auto intro!: sb.keeps_intros split: sum.split)
  then show ?thesis by (simp add: schemaCheck_def)
qed

lemma sb_roundtrip: "keeps same_blobs (crudRoundtrip v)"
proof -
  have "keeps same_blobs (crud_rows v)" using rt_rows [of v] by (auto simp: keeps_def only_tabs_def same_blobs_def)
  moreover have "keeps same_blobs (State_Monad.update rollback)"
    by (rule sb_update) (simp add: rollback_def same_blobs_def split: option.split)
  moreover have "keeps same_blobs tx_begin" unfolding tx_begin_def by (rule sb.keeps_sql_write) (auto simp: same_blobs_def)
  ultimately show ?thesis unfolding crudRoundtrip_def attempt_def defer_rollback_def
    by (auto intro!: sb.keeps_intros split: sum.split)
qed

lemma sb_silent: "keeps same_blobs m \<Longrightarrow> keeps same_blobs (silent m)"
  unfolding silent_def by (auto intro!: sb.keeps_intros)

definition cleaned :: "world \<Rightarrow> world \<Rightarrow> bool" where
  "cleaned w w' \<longleftrightarrow> (\<forall>st k. blobs st w' k = blobs st w k \<or> probe_name k \<and> blobs st w' k = None)"

lemma cleaned_trans: "cleaned w w1 \<Longrightarrow> cleaned w1 w2 \<Longrightarrow> cleaned w w2"
  unfolding cleaned_def by metis

lemma same_blobs_cleaned: "same_blobs w w' \<Longrightarrow> cleaned w w'"
proof -
  assume "same_blobs w w'"
  then have "blobs st w' = blobs st w" for st by (cases st) (auto simp: same_blobs_def)
  then show ?thesis by (simp add: cleaned_def)
qed

lemma kept_cleaned: "keeps same_blobs m \<Longrightarrow> run_state m w = (r, w') \<Longrightarrow> cleaned w w'"
  unfolding keeps_def by (metis same_blobs_cleaned snd_conv)

text \<open>A probe that was read back was put and then deleted, and nothing else of the stores changed.\<close>

lemma put_delete_blobs:
  assumes "run_state (store_put be st k b) w = (True, w1)" and "same_blobs w1 w2"
    and "run_state (store_delete st k) w2 = (True, w3)" and "probe_name k"
  shows "cleaned w w3"
proof -
  have o: "blobs st' w3 j = blobs st' w j" if "st' \<noteq> st \<or> j \<noteq> k" for st' j
    using assms(1-3) that
    by (cases be; cases st; cases st')
      (auto simp: store_delete_def run_io_step run_update same_blobs_def split: if_splits)
  moreover have "blobs st w3 k = None" using store_delete_effect [OF assms(3)] by simp
  ultimately show ?thesis using assms(4) unfolding cleaned_def by metis
qed

lemma probe_cleans:
  assumes "run_state (storageProbe v bc st pre) w = (Inr b, w')"
    and "pre \<in> {''selftest/primary-'', ''selftest/backup-''}"
  shows "cleaned w w'"
proof -
  obtain s wa where a: "run_state (store_New bc) w = (s, wa)" by fastforce
  with assms(1) obtain be where be: "s = Some be" by (cases s) (auto simp: storageProbe_def)
  obtain sfx wb where b: "run_state (randomSuffix v) wa = (sfx, wb)" by fastforce
  with assms(1) a be obtain x where x: "sfx = Some x" by (cases sfx) (auto simp: storageProbe_def)
  let ?k = "probe_key pre x"
  obtain ok wc where c: "run_state (store_put be st ?k (Some probe_payload)) wb = (ok, wc)" by fastforce
  obtain r wd where d: "run_state (read_probe be st ?k) wc = (r, wd)" by fastforce
  obtain del we where e: "run_state (store_delete st ?k) wd = (del, we)" by fastforce
  have ok: ok using assms(1) a be b x c by (cases ok) (auto simp: storageProbe_def)
  then have r: "w' = we" "(if \<not> del \<and> \<not> isl r then Inl ''delete probe'' else r) = Inr b"
    using assms(1) a be b x c d e by (auto simp: storageProbe_def)
  then have del by (cases r) (auto split: if_splits)
  have "keeps same_blobs (read_probe be st ?k)"
    unfolding read_probe_def by (auto intro!: sb.keeps_intros sb_calls split: option.split)
  with d have "same_blobs wc wd" unfolding keeps_def by (metis snd_conv)
  moreover have "probe_name ?k" using assms(2) unfolding probe_name_def by blast
  ultimately have "cleaned wb we" using put_delete_blobs [of be st ?k _ wb wc wd we] c e ok \<open>del\<close> by simp
  moreover have "cleaned w wb"
    using kept_cleaned [OF sb_calls(3) a] kept_cleaned [OF sb_calls(4) b] by (rule cleaned_trans)
  ultimately show ?thesis using r(1) cleaned_trans by blast
qed

lemma check_cleans:
  assumes "run_state (selftest v cfg) w = ((True, out), w')"
  shows "cleaned w w' \<and> set expected_tables \<subseteq> set (st_tables v)"
proof -
  let ?cs = "[(''connect'', connect), (''ping'', connect), (''migrations'', migrations v),
      (''schema'', silent (schemaCheck v)), (''roundtrip'', silent (crudRoundtrip v)),
      (''storage'', probed (storageProbe v (PrimaryStorage cfg) Export_Store ''selftest/primary-''))] @
     (if BackupStorage cfg \<noteq> PrimaryStorage cfg
      then [(''backup-storage'', probed (storageProbe v (BackupStorage cfg) Backup_Store ''selftest/backup-''))]
      else [])"
  have p: "cleaned u u'" if "run_state (probed (storageProbe v bc st pr)) u = (Inr i, u')"
    "pr \<in> {''selftest/primary-'', ''selftest/backup-''}" for bc st pr u u' i
    using that probe_cleans [of v bc st pr u _ u'] by (auto simp: probed_def split: prod.splits sum.splits)
  have "cleaned u u'" if "(n, m) \<in> set ?cs" "run_state m u = (Inr i, u')" for n m i u u'
    using that p kept_cleaned [OF sb_calls(1)] kept_cleaned [OF sb_calls(2)]
      kept_cleaned [OF sb_silent [OF sb_schema]] kept_cleaned [OF sb_silent [OF sb_roundtrip]]
    by (auto split: if_splits)
  from run_checks_pass [OF assms [unfolded selftest_def], of cleaned, OF _ cleaned_trans this]
  have "cleaned w w'" and "\<forall>(n, m)\<in>set ?cs. \<exists>w i w1. run_state m w = (Inr i, w1)"
    by (auto simp: cleaned_def)
  then obtain u i u' where "run_state (silent (schemaCheck v)) u = (Inr i, u')" by fastforce
  then have "set expected_tables \<subseteq> set (st_tables v)"
    by (auto simp: silent_def schemaCheck_def dest!: check_tables_pass split: prod.splits option.splits)
  with \<open>cleaned w w'\<close> show ?thesis by simp
qed

text \<open>
  C39: The smoke test leaves no trace. Whatever it answers and whichever of its calls fail, the
  tables are those from before, no mail is sent, and no object of the stores is touched but its own
  probes; and when it passes, the probes are gone too, and every table of the schema is there.
\<close>

theorem selftest_leaves_no_trace:
  assumes "run_state (selftest v cfg) w = ((ok, out), w')" and "txn w = None"
  shows "tabs w' = tabs w \<and> txn w' = None \<and> outbox w' = outbox w \<and>
    (\<forall>st k. blobs st w' k \<noteq> blobs st w k \<longrightarrow> probe_name k \<and> (ok \<longrightarrow> blobs st w' k = None)) \<and>
    (ok \<longrightarrow> set expected_tables \<subseteq> set (st_tables v))"
proof -
  have "unmarked w w'" using um_selftest [of v cfg] assms(1) unfolding keeps_def by (metis snd_conv)
  then have u: "tabs w' = tabs w" "txn w' = None" "outbox w' = outbox w"
    "\<And>st k. blobs st w' k \<noteq> blobs st w k \<Longrightarrow> probe_name k"
    using assms(2) by (auto simp: unmarked_def)
  have "cleaned w w' \<and> set expected_tables \<subseteq> set (st_tables v)" if ok
    using check_cleans [of v cfg w out w'] assms(1) that by simp
  with u show ?thesis unfolding cleaned_def by metis
qed

definition demo_selftest :: selftest_env where
  "demo_selftest = \<lparr>st_tables = expected_tables, st_version = (\<lambda>n. Some 13), st_rand = (\<lambda>n. Some [CHR 0x0A, CHR 0xFF])\<rparr>"

text \<open>A healthy instance passes, with nothing left in its store.\<close>

lemma selftest_leaves_no_trace_witness:
  "let r = run_state (selftest demo_selftest demo_config) (demo_world empty_db 5) in
     fst (fst r) \<and> tabs (snd r) = empty_db \<and> (\<forall>k. blobs Export_Store (snd r) k = None)"
proof -
  let ?w = "demo_world empty_db 5"
  let ?r = "run_state (selftest demo_selftest demo_config) ?w"
  obtain ok out w' where r: "?r = ((ok, out), w')" by (metis surj_pair)
  have "fst (fst ?r)" by code_simp
  with r have ok by simp
  have w: "txn ?w = None" "tabs ?w = empty_db" "\<And>k. blobs Export_Store ?w k = None" by (simp_all add: demo_world_def)
  note t = selftest_leaves_no_trace [OF r w(1)]
  have "blobs Export_Store w' k = None" for k
  proof -
    from t \<open>ok\<close> have "blobs Export_Store w' k \<noteq> blobs Export_Store ?w k \<longrightarrow> blobs Export_Store w' k = None" by blast
    with w(3) [of k] show ?thesis by metis
  qed
  with t \<open>ok\<close> w(2) show ?thesis by (simp add: r)
qed

end
