(* ===== verification/Frontend.thy ===== *)
theory Frontend
  imports Config
begin

text \<open>
  Everything that is not an API route: the embedded web application with its fall-back for
  client-side routes, \<^verbatim>\<open>internal/server/static.go\<close>, and the health probes of
  \<^verbatim>\<open>server.go\<close>. The bundle is a parameter, and so are its file times: conditional and
  range requests are \<^verbatim>\<open>net/http\<close>.
\<close>

section \<open>Paths\<close>

text \<open>
  \<^verbatim>\<open>path.Clean\<close>: empty and \<open>.\<close> elements go away, and \<open>..\<close> takes the element
  before it along; at the root it goes away, and at the start of a relative path it stays.
\<close>

fun clean_elements :: "bool \<Rightarrow> string list \<Rightarrow> string list \<Rightarrow> string list" where
  "clean_elements rooted out [] = rev out"
| "clean_elements rooted out (e # es) =
     (if e = [] \<or> e = ''.'' then clean_elements rooted out es
      else if e = ''..'' then
        (if out \<noteq> [] \<and> hd out \<noteq> ''..'' then clean_elements rooted (tl out) es
         else if rooted then clean_elements rooted out es
         else clean_elements rooted (''..'' # out) es)
      else clean_elements rooted (e # out) es)"

fun join_path :: "string list \<Rightarrow> string" where
  "join_path [] = []"
| "join_path [e] = e"
| "join_path (e # es) = e @ ''/'' @ join_path es"

definition path_clean :: "string \<Rightarrow> string" where
  "path_clean p = (let rooted = (p \<noteq> [] \<and> hd p = CHR ''/'');
       body = join_path (clean_elements rooted [] (split_on (CHR ''/'') p)) in
     if rooted then ''/'' @ body else if body = [] then ''.'' else body)"

definition has_prefix :: "string \<Rightarrow> string \<Rightarrow> bool" where
  "has_prefix s p \<longleftrightarrow> take (length p) s = p"

definition trim_prefix :: "string \<Rightarrow> string \<Rightarrow> string" where
  "trim_prefix s p = (if has_prefix s p then drop (length p) s else s)"

text \<open>\<^verbatim>\<open>fs.ValidPath\<close>, which every file system tests before it opens a name.\<close>

definition valid_path :: "string \<Rightarrow> bool" where
  "valid_path p \<longleftrightarrow> p = ''.'' \<or> list_all (\<lambda>e. e \<noteq> [] \<and> e \<noteq> ''.'' \<and> e \<noteq> ''..'') (split_on (CHR ''/'') p)"

section \<open>The bundle\<close>

datatype node = Dir | File string

type_synonym dist = "string \<Rightarrow> node option"

definition fs_open :: "dist \<Rightarrow> string \<Rightarrow> node option" where
  "fs_open b p = (if valid_path p then b p else None)"

datatype cache = No_Cache | Immutable | No_Directive

datatype page =
    MethodNotAllowed
  | ApiNotFound
  | Served string cache
  | Placeholder

definition apiNotFound :: page where "apiNotFound = ApiNotFound"

definition serveIndex :: "string \<Rightarrow> page" where
  "serveIndex body = Served body No_Cache"

definition placeholderHandler :: "string \<Rightarrow> page" where
  "placeholderHandler url = (if has_prefix url ''/api/'' then apiNotFound else Placeholder)"

text \<open>An embedded file can be read again and is seekable, so the fall-backs for others do not occur.\<close>

definition serve_static :: "dist \<Rightarrow> string \<Rightarrow> string \<Rightarrow> string \<Rightarrow> page" where
  "serve_static b index method url =
     (if method \<noteq> ''GET'' \<and> method \<noteq> ''HEAD'' then MethodNotAllowed
      else if has_prefix url ''/api/'' then apiNotFound
      else let p = trim_prefix (path_clean url) ''/'' in
        if p = [] \<or> p = ''index.html'' then serveIndex index
        else case fs_open b p of
          Some (File body) \<Rightarrow> Served body (if has_prefix url ''/assets/'' then Immutable else No_Directive)
        | _ \<Rightarrow> serveIndex index)"

definition staticHandler :: "dist \<Rightarrow> string \<Rightarrow> string \<Rightarrow> page" where
  "staticHandler b method url = (case fs_open b ''index.html'' of
     Some (File index) \<Rightarrow> serve_static b index method url
   | _ \<Rightarrow> placeholderHandler url)"

section \<open>Health\<close>

text \<open>\<^verbatim>\<open>s.pool\<close> may be nil; else the database answers the ping or not.\<close>

definition healthz :: "string resp" where
  "healthz = Okay 200 ''ok''"

definition readyz :: "bool option \<Rightarrow> string resp" where
  "readyz ping = (case ping of
     None \<Rightarrow> Fail 503 ''no db''
   | Some up \<Rightarrow> if up then Okay 200 ''ok'' else Fail 503 ''db unavailable'')"

section \<open>What is served\<close>

lemma split_on_not_Nil [simp]: "split_on c s \<noteq> []"
  by (induction s) (auto split: list.splits)

lemma split_on_pieces: "e \<in> set (split_on c s) \<Longrightarrow> c \<notin> set e"
  by (induction s arbitrary: e) (auto split: list.splits if_splits)

definition plain_element :: "string \<Rightarrow> bool" where
  "plain_element e \<longleftrightarrow> e \<noteq> [] \<and> e \<noteq> ''.'' \<and> e \<noteq> ''..'' \<and> CHR ''/'' \<notin> set e"

text \<open>A rooted path is cleaned of every step up, wherever it stood.\<close>

lemma clean_rooted_plain:
  "\<forall>e\<in>set out. plain_element e \<Longrightarrow> \<forall>e\<in>set es. CHR ''/'' \<notin> set e \<Longrightarrow>
     \<forall>e\<in>set (clean_elements True out es). plain_element e"
proof (induction es arbitrary: out)
  case (Cons e es)
  have ih: "\<forall>x\<in>set (clean_elements True o' es). plain_element x" if "\<forall>x\<in>set o'. plain_element x" for o'
    using Cons.IH [OF that] Cons.prems(2) by simp
  have t: "\<forall>x\<in>set (tl out). plain_element x" using Cons.prems(1) by (cases out) auto
  have "\<forall>x\<in>set (e # out). plain_element x" if "e \<noteq> []" "e \<noteq> ''.''" "e \<noteq> ''..''"
    using Cons.prems that by (simp add: plain_element_def)
  with ih [OF t] ih [OF Cons.prems(1)] ih [of "e # out"] show ?case by (simp del: list.set)
qed simp

lemma split_join: "\<forall>e\<in>set es. plain_element e \<Longrightarrow> es \<noteq> [] \<Longrightarrow> split_on (CHR ''/'') (join_path es) = es"
proof (induction es rule: join_path.induct)
  case (2 e)
  then have "CHR ''/'' \<notin> set e" by (simp add: plain_element_def)
  then show ?case by (induction e) auto
next
  case (3 e f es)
  then have "CHR ''/'' \<notin> set e" by (simp add: plain_element_def)
  then have "split_on (CHR ''/'') (e @ CHR ''/'' # r) = e # split_on (CHR ''/'') r" for r by (induction e) auto
  with 3 show ?case by simp
qed simp

lemma rooted_path_valid:
  assumes "url = CHR ''/'' # rest" and "p = trim_prefix (path_clean url) ''/''" and "p \<noteq> []"
  shows "valid_path p"
proof -
  let ?es = "clean_elements True [] (split_on (CHR ''/'') url)"
  have plain: "\<forall>e\<in>set ?es. plain_element e"
    by (rule clean_rooted_plain) (use split_on_pieces in auto)
  have p: "p = join_path ?es" using assms(1,2) by (simp add: path_clean_def trim_prefix_def has_prefix_def)
  with assms(3) have "?es \<noteq> []" by (metis join_path.simps(1))
  from split_join [OF plain this] plain show ?thesis
    unfolding valid_path_def p list_all_iff by (simp add: plain_element_def)
qed

text \<open>
  The answer to a request of the application: never a page for an API path, the file of the bundle
  the cleaned path names, if there is one, and else the application itself.
\<close>

lemma static_answers:
  assumes "fs_open b ''index.html'' = Some (File index)" and "method = ''GET'' \<or> method = ''HEAD''"
    and "url = CHR ''/'' # rest"
  shows "staticHandler b method url = (if has_prefix url ''/api/'' then ApiNotFound
     else case b (trim_prefix (path_clean url) ''/'') of
       Some (File body) \<Rightarrow> if trim_prefix (path_clean url) ''/'' \<in> {[], ''index.html''} then Served index No_Cache
         else Served body (if has_prefix url ''/assets/'' then Immutable else No_Directive)
     | _ \<Rightarrow> Served index No_Cache)"
proof (cases "trim_prefix (path_clean url) ''/'' = []")
  case False
  have "fs_open b (trim_prefix (path_clean url) ''/'') = b (trim_prefix (path_clean url) ''/'')"
    using rooted_path_valid [OF assms(3) refl False] by (simp add: fs_open_def)
  with assms(1,2) show ?thesis
    by (auto simp: staticHandler_def serve_static_def serveIndex_def apiNotFound_def Let_def split: option.split node.split)
qed (use assms in \<open>auto simp: staticHandler_def serve_static_def serveIndex_def apiNotFound_def split: option.split node.split\<close>)

text \<open>
  The test for the assets is on the path as it was sent, not as it was cleaned: any file can be
  had with the header that tells caches to keep it for a year.
\<close>

lemma any_file_immutable:
  assumes "fs_open b ''index.html'' = Some (File index)" and "b ''sw.js'' = Some (File body)"
  shows "staticHandler b ''GET'' ''/assets/../sw.js'' = Served body Immutable"
proof -
  have "trim_prefix (path_clean ''/assets/../sw.js'') ''/'' = ''sw.js''" "\<not> has_prefix ''/assets/../sw.js'' ''/api/''"
    "has_prefix ''/assets/../sw.js'' ''/assets/''" by code_simp+
  with static_answers [OF assms(1), of "''GET''" "''/assets/../sw.js''"] assms(2) show ?thesis by simp
qed

text \<open>A write to an API path that does not exist is told that the method is not allowed.\<close>

lemma unknown_api_write:
  "fs_open b ''index.html'' = Some (File index) \<Longrightarrow> staticHandler b ''POST'' (''/api/'' @ rest) = MethodNotAllowed"
  by (simp add: staticHandler_def serve_static_def)

end
