(* ===== verification/PgDump.thy ===== *)
theory PgDump
  imports Config
begin

text \<open>
  The command of the backup job, \<^verbatim>\<open>buildPgDumpCmd\<close> of \<^verbatim>\<open>internal/jobs/admin_backup.go\<close>.
  \<^verbatim>\<open>url.Parse\<close> is a parameter that answers the parts the code reads.
\<close>

record parsed_url =
  ul_Host :: string
  ul_Hostname :: string
  ul_Port :: string
  ul_Path :: string
  ul_Username :: string
  ul_Password :: string
  ul_sslmode :: string

record command =
  cmd_args :: "string list"
  cmd_env :: "string list"

definition pg_env :: "parsed_url \<Rightarrow> string list" where
  "pg_env u = [''PGHOST='' @ ul_Hostname u,
     ''PGPORT='' @ (if ul_Port u = [] then ''5432'' else ul_Port u),
     ''PGDATABASE='' @ (if ul_Path u \<noteq> [] \<and> hd (ul_Path u) = CHR ''/'' then tl (ul_Path u) else ul_Path u)] @
   (if ul_Username u \<noteq> [] then [''PGUSER='' @ ul_Username u] else []) @
   (if ul_Password u \<noteq> [] then [''PGPASSWORD='' @ ul_Password u] else []) @
   (if ul_sslmode u \<noteq> [] then [''PGSSLMODE='' @ ul_sslmode u] else [])"

text \<open>A command without an environment of its own runs in that of the process.\<close>

definition buildPgDumpCmd :: "(string \<Rightarrow> parsed_url option) \<Rightarrow> string list \<Rightarrow> string \<Rightarrow> command" where
  "buildPgDumpCmd parse environ dbURL = (let args = [''pg_dump'', ''--format=custom''] in
     case parse dbURL of
       Some u \<Rightarrow>
         if ul_Host u \<noteq> [] then \<lparr>cmd_args = args, cmd_env = environ @ pg_env u\<rparr>
         else \<lparr>cmd_args = args @ [''--dbname='' @ dbURL], cmd_env = environ\<rparr>
     | None \<Rightarrow> \<lparr>cmd_args = args @ [''--dbname='' @ dbURL], cmd_env = environ\<rparr>)"

text \<open>With a host in the URL nothing of it is an argument, so nothing shows in a process listing.\<close>

lemma pg_dump_args_fixed:
  "parse dbURL = Some u \<Longrightarrow> ul_Host u \<noteq> [] \<Longrightarrow>
     cmd_args (buildPgDumpCmd parse environ dbURL) = [''pg_dump'', ''--format=custom'']"
  by (simp add: buildPgDumpCmd_def)

text \<open>Without one, as in the URLs of a unix socket, the whole URL with its password is an argument.\<close>

lemma socket_url_shows:
  "parse dbURL = Some u \<Longrightarrow> ul_Host u = [] \<Longrightarrow>
     last (cmd_args (buildPgDumpCmd parse environ dbURL)) = ''--dbname='' @ dbURL"
  by (simp add: buildPgDumpCmd_def)

end
