(* ===== verification/Startup.thy ===== *)
theory Startup
  imports Config
begin

text \<open>
  The process: the commands of \<^verbatim>\<open>cmd/zymo/main.go\<close>, the life of the server with what it
  opens and closes, the periodic jobs of \<^verbatim>\<open>internal/jobs/jobs.go\<close>, and the lock under which
  \<^verbatim>\<open>internal/migrate\<close> lets processes migrate. Whether a call to a library succeeds is a
  parameter.
\<close>

section \<open>Commands\<close>

datatype cli_command =
    Serve | Migrate | Selftest | Vapid_Keys | Reprocess_Deletions | Version | Help | Unknown string

text \<open>\<^verbatim>\<open>os.Args\<close> begins with the name of the program.\<close>

definition main_command :: "string list \<Rightarrow> cli_command" where
  "main_command args = (let cmd = (if length args > 1 then args ! 1 else ''serve'') in
     if cmd = ''serve'' then Serve
     else if cmd = ''migrate'' then Migrate
     else if cmd = ''selftest'' then Selftest
     else if cmd = ''vapid-keys'' then Vapid_Keys
     else if cmd = ''reprocess-deletions'' then Reprocess_Deletions
     else if cmd = ''version'' then Version
     else if cmd \<in> set [''help'', ''-h'', ''--help''] then Help
     else Unknown cmd)"

text \<open>\<^verbatim>\<open>run\<close>: the exit status of a command that needs the configuration.\<close>

definition run_command :: "config_error + config \<Rightarrow> (config \<Rightarrow> string option) \<Rightarrow> nat" where
  "run_command loaded f = (case loaded of
     Inl e \<Rightarrow> 1
   | Inr cfg \<Rightarrow> (case f cfg of None \<Rightarrow> 0 | Some e \<Rightarrow> 1))"

section \<open>The server\<close>

text \<open>
  \<^verbatim>\<open>Server.Run\<close> ends by a signal, with the result of the shutdown, or with the error of the
  listener, of which \<^verbatim>\<open>ErrServerClosed\<close> is none.
\<close>

datatype run_end = Signalled "string option" | Listener_Closed | Listener_Failed string

definition server_Run :: "run_end \<Rightarrow> string option" where
  "server_Run e = (case e of Signalled r \<Rightarrow> r | Listener_Closed \<Rightarrow> None | Listener_Failed m \<Rightarrow> Some m)"

record boot =
  bt_migrate :: bool
  bt_pool :: bool
  bt_stores :: bool
  bt_jobs :: bool
  bt_start :: bool
  bt_run :: run_end

datatype event = Migrated | Pool_Opened | Stores_Opened | Jobs_Created | Jobs_Started | Listening | Jobs_Stopped | Pool_Closed

text \<open>From the stores on, with the deferred stop of the jobs.\<close>

definition serve_jobs :: "boot \<Rightarrow> string option \<times> event list" where
  "serve_jobs b =
     (if \<not> bt_stores b then (Some ''storage'', [])
      else if \<not> bt_jobs b then (Some ''jobs init'', [Stores_Opened])
      else if \<not> bt_start b then (Some ''jobs start'', [Stores_Opened, Jobs_Created])
      else (server_Run (bt_run b), [Stores_Opened, Jobs_Created, Jobs_Started, Listening, Jobs_Stopped]))"

definition serve_process :: "boot \<Rightarrow> config \<Rightarrow> string option \<times> event list" where
  "serve_process b cfg =
     (if AutoMigrate cfg \<and> \<not> bt_migrate b then (Some ''auto-migrate'', [])
      else let before = (if AutoMigrate cfg then [Migrated] else []) in
        if \<not> bt_pool b then (Some ''db pool'', before)
        else let (e, trace) = serve_jobs b in (e, before @ Pool_Opened # trace @ [Pool_Closed]))"

text \<open>What was opened is closed, the jobs before the pool, however the start ends.\<close>

lemma serve_closes:
  "serve_process b cfg = (e, trace) \<Longrightarrow>
     (Pool_Opened \<in> set trace \<longrightarrow> last trace = Pool_Closed) \<and>
     (Jobs_Started \<in> set trace \<longrightarrow> (\<exists>xs. trace = xs @ [Jobs_Stopped, Pool_Closed])) \<and>
     (Listening \<in> set trace \<longrightarrow> Jobs_Started \<in> set trace \<and> (AutoMigrate cfg \<longrightarrow> hd trace = Migrated))"
  by (auto simp: serve_process_def serve_jobs_def Let_def split: if_splits)

section \<open>Periodic jobs\<close>

datatype job = Expired_Sessions | Reminder_Dispatch | User_Export_Dispatch | Admin_Backup_Dispatch | Admin_Backup_Schedule

text \<open>The interval in microseconds, and whether the job also runs at the start.\<close>

definition periodic_jobs :: "(job \<times> time \<times> bool) list" where
  "periodic_jobs = [(Expired_Sessions, 3600000000, True), (Reminder_Dispatch, 60000000, False),
     (User_Export_Dispatch, 60000000, False), (Admin_Backup_Dispatch, 60000000, False),
     (Admin_Backup_Schedule, 24 * 3600000000, False)]"

definition max_workers :: nat where "max_workers = 5"

section \<open>Migrating under a lock\<close>

text \<open>
  Any number of processes run \<^verbatim>\<open>Up\<close> at once: each takes a connection, waits for the advisory
  lock, runs the migrations of goose and of River, and releases the lock on every way out. The
  session of a broken connection ends and frees the lock too.
\<close>

datatype phase = Outside | Waiting | In_Goose | In_River | Leaving bool | Finished bool

record migrating =
  mg_phase :: "nat \<Rightarrow> phase"
  mg_holder :: "nat option"

definition goes :: "nat \<Rightarrow> phase \<Rightarrow> migrating \<Rightarrow> migrating" where
  "goes p q s = s\<lparr>mg_phase := (mg_phase s)(p := q)\<rparr>"

definition unlock :: "nat \<Rightarrow> migrating \<Rightarrow> migrating" where
  "unlock p s = s\<lparr>mg_holder := (if mg_holder s = Some p then None else mg_holder s)\<rparr>"

inductive migrate_step :: "migrating \<Rightarrow> migrating \<Rightarrow> bool" where
  no_connection: "mg_phase s p = Outside \<Longrightarrow> migrate_step s (goes p (Finished False) s)"
| connected: "mg_phase s p = Outside \<Longrightarrow> migrate_step s (goes p Waiting s)"
| lock_failed: "mg_phase s p = Waiting \<Longrightarrow> migrate_step s (goes p (Leaving False) s)"
| locked: "mg_phase s p = Waiting \<Longrightarrow> mg_holder s = None \<Longrightarrow>
    migrate_step s ((goes p In_Goose s)\<lparr>mg_holder := Some p\<rparr>)"
| goose_failed: "mg_phase s p = In_Goose \<Longrightarrow> migrate_step s (goes p (Leaving False) s)"
| goose_done: "mg_phase s p = In_Goose \<Longrightarrow> migrate_step s (goes p In_River s)"
| river: "mg_phase s p = In_River \<Longrightarrow> migrate_step s (goes p (Leaving ok) s)"
| released: "mg_phase s p = Leaving ok \<Longrightarrow> migrate_step s (unlock p (goes p (Finished ok) s))"

inductive_cases migrate_step_elim: "migrate_step s s'"

definition nobody_migrates :: migrating where
  "nobody_migrates = \<lparr>mg_phase = (\<lambda>p. Outside), mg_holder = None\<rparr>"

definition migrates :: "migrating \<Rightarrow> nat \<Rightarrow> bool" where
  "migrates s p \<longleftrightarrow> mg_phase s p = In_Goose \<or> mg_phase s p = In_River"

text \<open>Who migrates holds the lock, and the holder has not finished.\<close>

definition sound_holder :: "migrating \<Rightarrow> nat \<Rightarrow> bool" where
  "sound_holder s p \<longleftrightarrow> (migrates s p \<longrightarrow> mg_holder s = Some p) \<and>
     (mg_holder s = Some p \<longrightarrow> migrates s p \<or> (\<exists>ok. mg_phase s p = Leaving ok))"

definition lock_ok :: "migrating \<Rightarrow> bool" where
  "lock_ok s \<longleftrightarrow> (\<forall>p. sound_holder s p)"

lemma goes_simps [simp]:
  "mg_phase (goes p x s) q = (if q = p then x else mg_phase s q)" "mg_holder (goes p x s) = mg_holder s"
  "mg_phase (unlock p s) q = mg_phase s q" "mg_holder (unlock p s) = (if mg_holder s = Some p then None else mg_holder s)"
  by (simp_all add: goes_def unlock_def)

lemma lock_ok_step:
  assumes "migrate_step s s'" and "lock_ok s"
  shows "lock_ok s'"
  unfolding lock_ok_def
proof
  fix q
  from assms(2) have q: "sound_holder s q" by (simp add: lock_ok_def)
  from assms(1) show "sound_holder s' q"
  proof cases
    case (locked p)
    with q show ?thesis by (auto simp: sound_holder_def migrates_def)
  next
    case (released p ok)
    with q show ?thesis by (auto simp: sound_holder_def migrates_def)
  qed (use q in \<open>auto simp: sound_holder_def migrates_def split: if_splits\<close>)
qed

lemma lock_ok_reachable: "migrate_step\<^sup>*\<^sup>* nobody_migrates s \<Longrightarrow> lock_ok s"
  by (induction rule: rtranclp_induct)
    (auto simp: lock_ok_step, simp add: lock_ok_def sound_holder_def migrates_def nobody_migrates_def)

text \<open>Migrations never overlap, and a lock is never left behind: its holder can always go on.\<close>

theorem migrations_exclusive:
  assumes "migrate_step\<^sup>*\<^sup>* nobody_migrates s"
  shows "migrates s p \<Longrightarrow> migrates s q \<Longrightarrow> p = q"
    and "mg_holder s = Some p \<Longrightarrow> \<exists>s'. migrate_step s s' \<and> mg_phase s' p \<noteq> mg_phase s p"
proof -
  have ok: "sound_holder s r" for r using lock_ok_reachable [OF assms] by (simp add: lock_ok_def)
  show "migrates s p \<Longrightarrow> migrates s q \<Longrightarrow> p = q" using ok [of p] ok [of q] by (simp add: sound_holder_def)
  assume "mg_holder s = Some p"
  with ok [of p] consider "mg_phase s p = In_Goose" | "mg_phase s p = In_River" | ok where "mg_phase s p = Leaving ok"
    unfolding sound_holder_def migrates_def by blast
  then show "\<exists>s'. migrate_step s s' \<and> mg_phase s' p \<noteq> mg_phase s p"
  proof cases
    case 1
    from goose_done [OF 1] show ?thesis by (intro exI conjI) (assumption, simp add: 1)
  next
    case 2
    from river [OF 2, of True] show ?thesis by (intro exI conjI) (assumption, simp add: 2)
  next
    case (3 b)
    from released [OF 3] show ?thesis by (intro exI conjI) (assumption, simp add: 3)
  qed
qed

end
