(* ===== verification/Mailer.thy ===== *)
theory Mailer
  imports Config
begin

text \<open>
  How mail leaves the instance: \<^verbatim>\<open>sendEmailSMTP\<close> of \<^verbatim>\<open>internal/server/mailer.go\<close> and
  \<^verbatim>\<open>sendEmail\<close> of the dispatcher, which wire the client of \<^verbatim>\<open>go-mail\<close>. Whether its
  calls succeed is a parameter.
\<close>

datatype tls_policy = Implicit_TLS | No_TLS | Mandatory_StartTLS

record smtp_options =
  so_port :: int
  so_tls :: tls_policy
  so_auth :: "(string \<times> string) option"

definition smtp_tls :: "string \<Rightarrow> tls_policy" where
  "smtp_tls mode = (if mode = ''tls'' then Implicit_TLS else if mode = ''none'' then No_TLS else Mandatory_StartTLS)"

definition smtp_options_of :: "config \<Rightarrow> smtp_options" where
  "smtp_options_of cfg = \<lparr>so_port = SMTPPort cfg, so_tls = smtp_tls (SMTPTLSMode cfg),
     so_auth = (if SMTPUsername cfg \<noteq> [] then Some (SMTPUsername cfg, SMTPPassword cfg) else None)\<rparr>"

record mail_library =
  ml_client :: "string \<Rightarrow> smtp_options \<Rightarrow> bool"
  ml_address :: "string \<Rightarrow> bool"
  ml_send :: "string \<Rightarrow> smtp_options \<Rightarrow> string \<Rightarrow> string \<Rightarrow> string \<Rightarrow> string \<Rightarrow> bool"

text \<open>The error the caller shows, or nothing.\<close>

definition sendEmailSMTP :: "mail_library \<Rightarrow> config \<Rightarrow> string \<Rightarrow> string \<Rightarrow> string \<Rightarrow> string option" where
  "sendEmailSMTP l cfg toAddr subject body = (let opts = smtp_options_of cfg in
     if \<not> ml_client l (SMTPHost cfg) opts then Some ''smtp client''
     else if \<not> ml_address l (SMTPFrom cfg) then Some ''smtp from''
     else if \<not> ml_address l toAddr then Some ''smtp to''
     else if \<not> ml_send l (SMTPHost cfg) opts (SMTPFrom cfg) toAddr subject body then Some ''smtp send''
     else None)"

record smtp_config =
  sc_Host :: string
  sc_Port :: int
  sc_Username :: string
  sc_Password :: string
  sc_From :: string
  sc_TLSMode :: string

text \<open>What \<^verbatim>\<open>jobs.New\<close> hands to the dispatcher.\<close>

definition jobs_smtp :: "config \<Rightarrow> smtp_config" where
  "jobs_smtp cfg = \<lparr>sc_Host = SMTPHost cfg, sc_Port = SMTPPort cfg, sc_Username = SMTPUsername cfg,
     sc_Password = SMTPPassword cfg, sc_From = SMTPFrom cfg, sc_TLSMode = SMTPTLSMode cfg\<rparr>"

text \<open>The dispatcher logs the error, which is shown here, and goes on.\<close>

definition sendEmail :: "mail_library \<Rightarrow> smtp_config \<Rightarrow> string \<Rightarrow> string \<Rightarrow> string \<Rightarrow> string option" where
  "sendEmail l c toAddr title body =
     (let opts = \<lparr>so_port = sc_Port c, so_tls = smtp_tls (sc_TLSMode c),
            so_auth = (if sc_Username c \<noteq> [] then Some (sc_Username c, sc_Password c) else None)\<rparr> in
      if \<not> ml_client l (sc_Host c) opts then Some ''smtp client''
      else if \<not> ml_address l (sc_From c) then Some ''smtp from''
      else if \<not> ml_address l toAddr then Some ''smtp to''
      else if \<not> ml_send l (sc_Host c) opts (sc_From c) toAddr title body then Some ''smtp send''
      else None)"

text \<open>Both ways out of the instance are one.\<close>

lemma one_transport: "sendEmail l (jobs_smtp cfg) a t b = sendEmailSMTP l cfg a t b"
  by (auto simp: sendEmail_def sendEmailSMTP_def jobs_smtp_def smtp_options_of_def Let_def)

text \<open>No credentials leave in clear text unless the operator chose to.\<close>

lemma mail_encrypted: "SMTPTLSMode cfg \<noteq> ''none'' \<Longrightarrow> so_tls (smtp_options_of cfg) \<in> {Implicit_TLS, Mandatory_StartTLS}"
  by (simp add: smtp_options_of_def smtp_tls_def)

end
