(* ===== verification/Spec2Isabelle.thy ===== *)
theory Spec2Isabelle
  imports Materialize Recipe_Invariant Batch_Props Apprise Dispatch_Props Deletion_Props Email_Props Backup_Props Export_Fate
    Inventory_Props RealIP RateLimit Calc_Props Isolation Privacy Login_Props Selftest Frontend PgDump Startup Mailer
begin

text \<open>
  Zymobrew is a server for home brewers: recipes with numbered revisions, forks, comments and
  likes; batches with a journal of readings, events and tasting notes; reminders that templates of
  a recipe create when a batch reaches an anchor event, fired by a job and delivered in the
  application, by push, by mail and through an Apprise sidecar; the stock of a brewer and what a
  recipe lacks in it; brewing calculators; accounts with sessions, verified addresses and deletion;
  exports of a user's data and backups of the database. It is written in Go over PostgreSQL. This
  development models that code and proves what makes it correct.

  \<^bold>\<open>How a request is modelled.\<close> \<open>World\<close> has the state: the tables of the
  database (\<open>db\<close> of \<open>Schema\<close>, a list of rows per table), the clock, the snapshot of an open
  transaction, the messages sent, the objects of the two stores, and a counter of calls to the
  outside. A handler is a function of its decoded request to an action, a state monad over the
  world, whose answer is \<open>Okay\<close> with status and body or \<open>Fail\<close> with status and message, every
  early return of the source included. A statement of \<^verbatim>\<open>internal/queries\<close> is an action that
  may also answer an error of the database.

  \<^bold>\<open>The outside.\<close> What is not code of the repository is the record \<open>externals\<close>, with
  one function per thing: the ids of \<^verbatim>\<open>gen_random_uuid\<close>, whether the database answers the
  n-th statement, is down or reports a serialization failure, random tokens, SHA-256, argon2, the
  delivery of messages, URL, address, mail and time syntax, time zones, DNS, the file system and S3,
  \<^verbatim>\<open>pg_dump\<close>, the archive formats. Theorems hold for all of them unless they say
  otherwise, so \<^emph>\<open>whichever statement fails\<close> is a quantifier over \<open>x_avail\<close>. A
  failed statement changes nothing, and a transaction is undone by the deferred rollback. Requests
  run one at a time, but for the jobs of exports, whose steps interleave with everything else in
  \<open>Export_Props\<close>. JSON, headers and path syntax are decoded before a handler starts: a body that
  does not decode is \<open>None\<close>, an id that does not parse is \<open>None\<close>, a page cursor is absent,
  refused or the key it carries.

  \<^bold>\<open>The library.\<close> \<open>Prelude\<close>: tables as lists of rows, the locale
  \<open>owner_scoped\<close> of tables whose rows have an owner, text, \<^verbatim>\<open>NUMERIC\<close> rounding. \<open>Netip\<close>:
  addresses and prefixes as words. \<open>Schema\<close>: enumerations and rows of
  \<^verbatim>\<open>queries/models.go\<close>. \<open>World\<close>: actions, weakest preconditions, and the locale
  \<open>kept_relation\<close>, under which what every statement of a handler keeps the handler keeps. \<open>Sql\<close>: the
  shapes of the generated statements, error mapping of handlers, transactions that are atomic.
  \<open>Pagination\<close>: \<^verbatim>\<open>server/pagination.go\<close> and the locale \<open>keyset\<close>, in which following
  the cursors visits every row once; it is interpreted for both directions of order. \<open>Storage\<close>:
  \<^verbatim>\<open>internal/storage\<close> and the locale \<open>blob_store\<close>, interpreted for both backends.
  \<open>Floats\<close>: binary64 rounding to nearest, ties to even, with its error bounds. \<open>Demo\<close>: concrete worlds.

  \<^bold>\<open>The components\<close>, in the order they build on one another:
  \<^item> \<open>Config\<close>: \<^verbatim>\<open>internal/config\<close>. A configuration that loads has known modes
    and a retention within bounds.
  \<^item> \<open>RecipeSql\<close>, \<open>Recipes\<close>, \<open>Recipe_Safety\<close>, \<open>Recipe_Invariant\<close>:
    \<^verbatim>\<open>server/recipes.go\<close> and its statements. Writing endpoints are atomic;
    every recipe has revisions without gaps, the last of them a snapshot of what the recipe is.
  \<^item> \<open>Materialize\<close>: \<^verbatim>\<open>materializeTemplates\<close> and the two statements behind it.
    Every matching template gets a live reminder, at the anchor plus the offset, and never a second.
  \<^item> \<open>Batches\<close>, \<open>Events\<close>, \<open>Batch_Props\<close>: \<^verbatim>\<open>server/batches.go\<close>. A
    batch is pinned to the revision its brewer could see, events never move it back and
    a pitch, rack or bottling takes it to the stage a table written out in \<open>Batch_Props\<close> gives, pages of
    the list visit each batch once, a deletion leaves no orphan and every other row.
  \<^item> \<open>Apprise\<close>: the policy on notification URLs, \<^verbatim>\<open>internal/apprise\<close>. What it
    accepts, and that no address of the operator's network, given as numbers, passes in any spelling.
  \<^item> \<open>Reminders\<close>, \<open>Reminder_Handlers\<close>: \<^verbatim>\<open>server/reminders.go\<close>,
    \<^verbatim>\<open>reminder_templates.go\<close>, \<^verbatim>\<open>push.go\<close>, \<^verbatim>\<open>preferences.go\<close>.
    \<open>Dispatcher\<close>, \<open>Dispatch_Props\<close>: the job that fires them. The per-run caches are
    equivalent to a specification without them, with a resolver that answers as it likes at each
    lookup; a run fires each due reminder at most once, a hundred per run, and removes only devices
    whose push service called them revoked; repeated runs drain any backlog.
  \<^item> \<open>Users\<close>, \<open>Auth\<close>, \<open>Account\<close>: \<^verbatim>\<open>server/auth.go\<close>,
    \<^verbatim>\<open>profile.go\<close>, \<^verbatim>\<open>email_change.go\<close>, \<^verbatim>\<open>internal/account\<close>,
    the jobs that expire sessions and the command that repeats deletions. \<open>Account_Props\<close>,
    \<open>Session_Props\<close>, \<open>Deletion_Props\<close>, \<open>Email_Props\<close>: what holds of every history of account
    calls is proved in the locales \<open>user_store\<close> and \<open>user_store_email\<close> from what the statements on
    users do, and interpreted for unique names and for the provenance of addresses.
    \<open>Password\<close>, \<open>Login_Props\<close>: the PHC string of \<^verbatim>\<open>internal/auth/password.go\<close>,
    byte by byte, and the way from registration to login over it.
  \<^item> \<open>Exports\<close>, \<open>Export_Props\<close>, \<open>Export_Fate\<close>: \<^verbatim>\<open>jobs/user_export.go\<close>
    and \<^verbatim>\<open>server/exports.go\<close> as a transition system over the world and the exports in flight.
    \<open>Backups\<close>, \<open>Backup_Props\<close>, \<open>PgDump\<close>: \<^verbatim>\<open>jobs/admin_backup.go\<close>,
    \<^verbatim>\<open>admin_config.go\<close> and the administrators' endpoints.
  \<^item> \<open>Units\<close>, \<open>Inventory\<close>, \<open>Inventory_Props\<close>: the conversion table of
    \<^verbatim>\<open>calc/units.go\<close>, right by the definitions of the pound and the gallon, and the match of \<^verbatim>\<open>server/inventory.go\<close>, equal to one
    verdict per ingredient. \<open>Calc\<close>, \<open>Calc_Props\<close>: the calculators, operation by operation in
    IEEE arithmetic with infinities.
  \<^item> \<open>RealIP\<close>, \<open>RateLimit\<close>: the client behind trusted proxies, which a header cannot
    forge, and the keyed limiter, whose eviction of idle buckets no client can tell.
  \<^item> \<open>Api\<close>, \<open>Isolation\<close>, \<open>Privacy\<close>: the table of routes with their middleware, and two theorems
    over them: nothing other users do, to any route with any ids, changes what a user has; and a
    private recipe cannot be told from one that does not exist by any call that names it.
  \<^item> \<open>Selftest\<close>, \<open>Frontend\<close>, \<open>Mailer\<close>, \<open>Startup\<close>: the smoke test, which leaves no
    trace, the static files, the SMTP client, and the process: commands, what the server opens and
    closes, the periodic jobs, and the advisory lock under which processes migrate one at a time.

  \<^bold>\<open>Bounds and fuel.\<close> Loops over lists are structural recursion. The walk over the pages
  of \<open>keyset\<close> takes fuel, and it is proved that the number of rows divided by the page size, plus
  one, suffices. The backlog
  theorem gives the number of runs, one per hundred due reminders. Decimal printing terminates by
  a measure. Times are microseconds as integers, as Postgres keeps them; numbers of the schema are
  rationals rounded and bounded by their column types; doubles are rationals rounded after every
  operation. Sums, differences and products of doubles are not fused, as on amd64; the compiler may
  fuse them on other machines.

  \<^bold>\<open>Not modelled.\<close> The wire formats (JSON texts, SMTP, web push, S3, zip, tar, zstd) and
  hence the encoding of page cursors; the SQL of the migrations, other than through the constraints of the
  tables they leave; the scheduling of jobs by River, whose jobs may run at any time here; the 1 MiB limit,
  the time-out and the recovery of the middleware; the scanners generated for nullable
  enumerations; response headers other than those that carry a decision; and time itself, so that
  the dummy hash of a login that finds no user is not shown. Two requests that interleave inside
  one handler are not modelled either, but for the exports; single statements are atomic in the
  database, and the findings name the places where two statements would have to be.
\<close>

end
